(* ===== verification/Prelude.thy ===== *)
theory Prelude
  imports Complex_Main "HOL-Library.Sublist"
begin

text \<open>
  Shared vocabulary of the development.

  \<^item> The types every component uses: identifiers and texts are \<open>string\<close>, instants are
    microseconds since the epoch (\<open>datetime\<close>), a \<open>pathlib.Path\<close> is its list of parts.
  \<^item> The error-state monad \<open>em\<close> in which the asynchronous methods of the program are
    written: a computation takes a state and returns a value or an error \<^emph>\<open>together with\<close> the
    state reached, because a Python exception does not undo earlier effects. \<open>tryM\<close> is
    \<open>try/except\<close>, \<open>finallyM\<close> is \<open>try/finally\<close> (an exception raised in the
    \<open>finally\<close> block replaces the pending outcome).
  \<^item> \<open>keeps I m\<close>: the computation preserves \<open>I\<close> whatever its outcome. Its rules are
    collected in \<open>keeps_intros\<close>; the components add theirs.
  \<^item> Integer rounding as Python's \<open>round\<close> does it, and small string functions.
\<close>

type_synonym datetime = int
type_synonym path = "string list"

named_theorems keeps_intros "preservation rules of the computations"
named_theorems run_simps "running a computation on a state"

section \<open>Error-state computations\<close>

type_synonym ('s, 'e, 'a) em = "'s \<Rightarrow> ('e + 'a) \<times> 's"

definition returnM :: "'a \<Rightarrow> ('s, 'e, 'a) em" where
  "returnM x = (\<lambda>s. (Inr x, s))"

definition raiseM :: "'e \<Rightarrow> ('s, 'e, 'a) em" where
  "raiseM e = (\<lambda>s. (Inl e, s))"

definition liftE :: "'e + 'a \<Rightarrow> ('s, 'e, 'a) em" where
  "liftE r = (\<lambda>s. (r, s))"

definition bindM :: "('s, 'e, 'a) em \<Rightarrow> ('a \<Rightarrow> ('s, 'e, 'b) em) \<Rightarrow> ('s, 'e, 'b) em" where
  "bindM m f = (\<lambda>s. case m s of (Inl e, s') \<Rightarrow> (Inl e, s') | (Inr x, s') \<Rightarrow> f x s')"

definition thenM :: "('s, 'e, 'a) em \<Rightarrow> ('s, 'e, 'b) em \<Rightarrow> ('s, 'e, 'b) em" where
  "thenM m n = bindM m (\<lambda>_. n)"

definition tryM :: "('s, 'e, 'a) em \<Rightarrow> ('e \<Rightarrow> ('s, 'e, 'a) em) \<Rightarrow> ('s, 'e, 'a) em" where
  "tryM m h = (\<lambda>s. case m s of (Inl e, s') \<Rightarrow> h e s' | (Inr x, s') \<Rightarrow> (Inr x, s'))"

definition finallyM :: "('s, 'e, 'a) em \<Rightarrow> ('s, 'e, 'b) em \<Rightarrow> ('s, 'e, 'a) em" where
  "finallyM m f = (\<lambda>s. case m s of (r, s') \<Rightarrow>
     (case f s' of (Inl e, s'') \<Rightarrow> (Inl e, s'') | (Inr _, s'') \<Rightarrow> (r, s'')))"

definition whenM :: "bool \<Rightarrow> ('s, 'e, unit) em \<Rightarrow> ('s, 'e, unit) em" where
  "whenM b m = (if b then m else returnM ())"

fun mapM_list :: "('a \<Rightarrow> ('s, 'e, 'b) em) \<Rightarrow> 'a list \<Rightarrow> ('s, 'e, 'b list) em" where
  "mapM_list f [] = returnM []"
| "mapM_list f (x # xs) =
     bindM (f x) (\<lambda>y. bindM (mapM_list f xs) (\<lambda>ys. returnM (y # ys)))"

lemma returnM_run [simp, run_simps]: "returnM x s = (Inr x, s)"
  by (simp add: returnM_def)

lemma raiseM_run [simp, run_simps]: "raiseM e s = (Inl e, s)"
  by (simp add: raiseM_def)

lemma liftE_run [simp, run_simps]: "liftE r s = (r, s)"
  by (simp add: liftE_def)

lemma bindM_run [run_simps]:
  "bindM m f s = (case m s of (Inl e, s') \<Rightarrow> (Inl e, s') | (Inr x, s') \<Rightarrow> f x s')"
  by (simp add: bindM_def)

lemma thenM_run [run_simps]:
  "thenM m n s = (case m s of (Inl e, s') \<Rightarrow> (Inl e, s') | (Inr x, s') \<Rightarrow> n s')"
  by (simp add: thenM_def bindM_def)

lemma tryM_run [run_simps]:
  "tryM m h s = (case m s of (Inl e, s') \<Rightarrow> h e s' | (Inr x, s') \<Rightarrow> (Inr x, s'))"
  by (simp add: tryM_def)

lemma finallyM_run [run_simps]:
  "finallyM m f s = (case m s of (r, s') \<Rightarrow>
     (case f s' of (Inl e, s'') \<Rightarrow> (Inl e, s'') | (Inr _, s'') \<Rightarrow> (r, s'')))"
  by (simp add: finallyM_def)

lemma whenM_run [run_simps]: "whenM b m s = (if b then m s else (Inr (), s))"
  by (simp add: whenM_def)

text \<open>A bind whose first part succeeded, or failed, in a known way.\<close>

lemma bindM_Inr [run_simps]: "m s = (Inr x, s') \<Longrightarrow> bindM m f s = f x s'"
  by (simp add: bindM_def)

lemma bindM_Inl [run_simps]: "m s = (Inl e, s') \<Longrightarrow> bindM m f s = (Inl e, s')"
  by (simp add: bindM_def)

lemma bindM_eq_Inr:
  "bindM m f s = (Inr y, t) \<longleftrightarrow> (\<exists>x s'. m s = (Inr x, s') \<and> f x s' = (Inr y, t))"
  by (auto simp: bindM_def split: prod.splits sum.splits)

lemma thenM_eq_Inr:
  "thenM m n s = (Inr y, t) \<longleftrightarrow> (\<exists>x s'. m s = (Inr x, s') \<and> n s' = (Inr y, t))"
  by (auto simp: thenM_def bindM_eq_Inr)

lemma bindM_InrE:
  assumes "bindM m f s = (Inr y, t)"
  obtains x s' where "m s = (Inr x, s')" "f x s' = (Inr y, t)"
  using assms by (auto simp: bindM_eq_Inr)

lemma thenM_InrE:
  assumes "thenM m n s = (Inr y, t)"
  obtains x s' where "m s = (Inr x, s')" "n s' = (Inr y, t)"
  using assms by (auto simp: thenM_eq_Inr)

lemma bindM_assoc: "bindM (bindM m f) g = bindM m (\<lambda>x. bindM (f x) g)"
  by (rule ext) (auto simp: bindM_def split: prod.splits sum.splits)

section \<open>Preservation\<close>

definition keeps :: "('s \<Rightarrow> bool) \<Rightarrow> ('s, 'e, 'a) em \<Rightarrow> bool" where
  "keeps I m \<longleftrightarrow> (\<forall>s. I s \<longrightarrow> I (snd (m s)))"

lemma keepsI: "(\<And>s. I s \<Longrightarrow> I (snd (m s))) \<Longrightarrow> keeps I m"
  by (simp add: keeps_def)

lemma keepsD: "keeps I m \<Longrightarrow> I s \<Longrightarrow> m s = (r, s') \<Longrightarrow> I s'"
  by (metis keeps_def snd_conv)

lemma keeps_returnM [keeps_intros]: "keeps I (returnM x)"
  by (simp add: keeps_def)

lemma keeps_raiseM [keeps_intros]: "keeps I (raiseM e)"
  by (simp add: keeps_def)

lemma keeps_liftE [keeps_intros]: "keeps I (liftE r)"
  by (simp add: keeps_def)

lemma keeps_bindM [keeps_intros]:
  "keeps I m \<Longrightarrow> (\<And>x. keeps I (f x)) \<Longrightarrow> keeps I (bindM m f)"
  by (auto simp: keeps_def bindM_def split: prod.splits sum.splits)

lemma keeps_thenM [keeps_intros]: "keeps I m \<Longrightarrow> keeps I n \<Longrightarrow> keeps I (thenM m n)"
  by (simp add: thenM_def keeps_bindM)

lemma keeps_tryM [keeps_intros]:
  "keeps I m \<Longrightarrow> (\<And>e. keeps I (h e)) \<Longrightarrow> keeps I (tryM m h)"
  by (auto simp: keeps_def tryM_def split: prod.splits sum.splits)

lemma keeps_finallyM [keeps_intros]: "keeps I m \<Longrightarrow> keeps I f \<Longrightarrow> keeps I (finallyM m f)"
  by (auto simp: keeps_def finallyM_def split: prod.splits sum.splits)

lemma keeps_whenM [keeps_intros]: "keeps I m \<Longrightarrow> keeps I (whenM b m)"
  by (simp add: whenM_def keeps_returnM)

lemma keeps_if [keeps_intros]:
  "(b \<Longrightarrow> keeps I m) \<Longrightarrow> (\<not> b \<Longrightarrow> keeps I n) \<Longrightarrow> keeps I (if b then m else n)"
  by simp

lemma keeps_case_option [keeps_intros]:
  "keeps I m \<Longrightarrow> (\<And>x. keeps I (f x)) \<Longrightarrow> keeps I (case z of None \<Rightarrow> m | Some x \<Rightarrow> f x)"
  by (cases z) auto

lemma keeps_case_sum [keeps_intros]:
  "(\<And>e. keeps I (h e)) \<Longrightarrow> (\<And>x. keeps I (f x)) \<Longrightarrow>
   keeps I (case z of Inl e \<Rightarrow> h e | Inr x \<Rightarrow> f x)"
  by (cases z) auto

lemma keeps_mapM_list [keeps_intros]:
  "(\<And>x. keeps I (f x)) \<Longrightarrow> keeps I (mapM_list f xs)"
  by (induction xs) (auto intro!: keeps_intros)

section \<open>Python arithmetic and strings\<close>

text \<open>
  \<open>round_div a b\<close> is the integer nearest to \<open>a / b\<close> for \<open>b > 0\<close>, ties to the even
  neighbour, as Python's \<open>round\<close> does on an exact quotient.
\<close>

definition round_div :: "int \<Rightarrow> int \<Rightarrow> int" where
  "round_div a b =
     (let q = a div b; r = a mod b
      in if 2 * r < b then q
         else if b < 2 * r then q + 1
         else if even q then q else q + 1)"

lemma round_div_nonneg: "0 \<le> a \<Longrightarrow> 0 < b \<Longrightarrow> 0 \<le> round_div a b"
  by (simp add: round_div_def Let_def pos_imp_zdiv_nonneg_iff)

lemma round_div_le: 
  assumes "0 < b" and "a \<le> c * b"
  shows "round_div a b \<le> c"
proof -
  have d: "a = b * (a div b) + a mod b" by simp
  have r: "0 \<le> a mod b" "a mod b < b" using assms(1) by simp_all
  have q: "a div b \<le> c"
  proof -
    have "a div b \<le> (c * b) div b" using assms by (intro zdiv_mono1) auto
    then show ?thesis using assms(1) by simp
  qed
  show ?thesis
  proof (cases "a div b = c")
    case True
    then have "b * c + a mod b \<le> c * b" using assms(2) d by simp
    then have "a mod b = 0" using r(1) by (simp add: mult.commute)
    then show ?thesis using True assms(1) by (simp add: round_div_def)
  next
    case False
    then have "a div b + 1 \<le> c" using q by simp
    then show ?thesis by (simp add: round_div_def Let_def)
  qed
qed

text \<open>\<open>int(seconds * 1000)\<close> of a duration in microseconds, truncating towards zero.\<close>

definition duration_ms :: "int \<Rightarrow> int" where
  "duration_ms d = (if 0 \<le> d then d div 1000 else - ((- d) div 1000))"

definition starts_with :: "string \<Rightarrow> string \<Rightarrow> bool" where
  "starts_with s p \<longleftrightarrow> prefix p s"

definition ends_with :: "string \<Rightarrow> string \<Rightarrow> bool" where
  "ends_with s p \<longleftrightarrow> prefix (rev p) (rev s)"

definition has_substring :: "string \<Rightarrow> string \<Rightarrow> bool" where
  "has_substring s p \<longleftrightarrow> sublist p s"

text \<open>\<open>str.lower\<close> and \<open>str.upper\<close> on the ASCII letters.\<close>

definition lower_char :: "char \<Rightarrow> char" where
  "lower_char c = (let n = of_char c :: nat in if 65 \<le> n \<and> n \<le> 90 then char_of (n + 32) else c)"

definition upper_char :: "char \<Rightarrow> char" where
  "upper_char c = (let n = of_char c :: nat in if 97 \<le> n \<and> n \<le> 122 then char_of (n - 32) else c)"

definition lower :: "string \<Rightarrow> string" where
  "lower s = map lower_char s"

definition upper :: "string \<Rightarrow> string" where
  "upper s = map upper_char s"

text \<open>\<open>len(s.encode("utf-8"))\<close> for code points below 256.\<close>

definition utf8_length :: "string \<Rightarrow> nat" where
  "utf8_length s = sum_list (map (\<lambda>c. if (of_char c :: nat) < 128 then 1 else 2) s)"

text \<open>\<open>str.isspace\<close> of one code point below 256, \<open>str.strip()\<close>, and the line boundaries of
  \<open>str.splitlines()\<close>.\<close>

definition is_space :: "char \<Rightarrow> bool" where
  "is_space c = (let n = of_char c :: nat in (9 \<le> n \<and> n \<le> 13) \<or> (28 \<le> n \<and> n \<le> 32) \<or> n = 133 \<or> n = 160)"

definition py_strip :: "string \<Rightarrow> string" where
  "py_strip s = rev (dropWhile is_space (rev (dropWhile is_space s)))"

definition is_line_break :: "char \<Rightarrow> bool" where
  "is_line_break c = (let n = of_char c :: nat in (10 \<le> n \<and> n \<le> 13) \<or> (28 \<le> n \<and> n \<le> 30) \<or> n = 133)"

text \<open>\<open>repr(s)\<close> of a string of code points below 256.\<close>

definition hex_digit :: "nat \<Rightarrow> char" where
  "hex_digit n = (if n < 10 then char_of (48 + n) else char_of (87 + n))"

definition repr_char :: "char \<Rightarrow> char \<Rightarrow> string" where
  "repr_char q c =
     (let n = of_char c :: nat; bs = CHR 0x5C in
      if c = q \<or> c = bs then [bs, c]
      else if n = 10 then [bs, CHR ''n''] else if n = 13 then [bs, CHR ''r''] else if n = 9 then [bs, CHR ''t'']
      else if n < 32 \<or> (127 \<le> n \<and> n \<le> 160) \<or> n = 173
      then [bs, CHR ''x'', hex_digit (n div 16), hex_digit (n mod 16)] else [c])"

definition py_repr :: "string \<Rightarrow> string" where
  "py_repr s =
     (let q = (if CHR 0x27 \<in> set s \<and> CHR 0x22 \<notin> set s then CHR 0x22 else CHR 0x27)
      in [q] @ concat (map (repr_char q) s) @ [q])"

text \<open>Python truthiness of an optional string: \<open>None\<close> and the empty string are false.\<close>

definition truthy :: "string option \<Rightarrow> bool" where
  "truthy x = (case x of None \<Rightarrow> False | Some s \<Rightarrow> s \<noteq> [])"

definition newline :: string where
  "newline = [CHR 0x0A]"

text \<open>\<open>sep.join(xs)\<close>\<close>

fun join :: "string \<Rightarrow> string list \<Rightarrow> string" where
  "join sep [] = []"
| "join sep [x] = x"
| "join sep (x # y # zs) = x @ sep @ join sep (y # zs)"

text \<open>\<open>s.split(c)\<close>\<close>

fun split_on :: "char \<Rightarrow> string \<Rightarrow> string list" where
  "split_on c [] = [[]]"
| "split_on c (x # xs) =
     (if x = c then [] # split_on c xs
      else (case split_on c xs of [] \<Rightarrow> [[x]] | w # ws \<Rightarrow> (x # w) # ws))"

definition is_digit :: "char \<Rightarrow> bool" where
  "is_digit c = (let n = of_char c :: nat in 48 \<le> n \<and> n \<le> 57)"

definition digit_value :: "char \<Rightarrow> int" where
  "digit_value c = int (of_char c) - 48"

text \<open>\<open>str(n)\<close> of an integer.\<close>

fun nat_digits :: "nat \<Rightarrow> string" where
  "nat_digits n =
     (if n < 10 then [char_of (48 + n)] else nat_digits (n div 10) @ [char_of (48 + n mod 10)])"

declare nat_digits.simps [simp del]

definition str_int :: "int \<Rightarrow> string" where
  "str_int i = (if i < 0 then ''-'' @ nat_digits (nat (- i)) else nat_digits (nat i))"

lemma str_int_0: "str_int 0 = ''0''"
  by code_simp

text \<open>
  The values a Python dictionary of details, audit context or queue payload holds; such a
  dictionary is an association list from its keys, in insertion order.
\<close>

datatype pyval =
    PNone
  | PBool bool
  | PInt int
  | PStr string
  | PList "pyval list"
  | PDict "(string \<times> pyval) list"

type_synonym pydict = "(string \<times> pyval) list"

definition opt_int :: "int option \<Rightarrow> pyval" where
  "opt_int x = (case x of None \<Rightarrow> PNone | Some i \<Rightarrow> PInt i)"

definition opt_str :: "string option \<Rightarrow> pyval" where
  "opt_str x = (case x of None \<Rightarrow> PNone | Some s \<Rightarrow> PStr s)"

text \<open>Python slicing \<open>xs[a : a + n]\<close> for \<open>0 \<le> a\<close>.\<close>

definition slice :: "int \<Rightarrow> int \<Rightarrow> 'a list \<Rightarrow> 'a list" where
  "slice a n xs = take (nat n) (drop (nat a) xs)"

section \<open>Lists\<close>

lemma sum_list_nonneg_map: "(\<And>x. x \<in> set xs \<Longrightarrow> 0 \<le> f x) \<Longrightarrow> 0 \<le> sum_list (map f xs)"
  for f :: "'a \<Rightarrow> int"
  by (induction xs) auto

lemma filter_length_partition:
  "length (filter P xs) + length (filter (\<lambda>x. \<not> P x) xs) = length xs"
  by (induction xs) auto

end
