(* ===== verification/Errors.thy ===== *)
theory Errors
  imports Prelude
begin

text \<open>
  The exception hierarchy of \<^verbatim>\<open>app/domain/exceptions/domain_errors.py\<close>: the classes, their
  bases, the machine-readable \<open>code\<close> each instance ends up with, and the subclass test that
  an \<open>except\<close> clause performs. A raised exception is a value of \<open>exn\<close>: a domain error with
  its class, message and details, or one of the built-in exceptions the program raises or catches.
\<close>

datatype err_class =
    MongoOpsError
  | ConfigurationError
  | DomainPermissionError
  | BackupEngineError
  | JobError
  | NotificationError
  | RepositoryError
  | RateLimitError
  | DiskSpaceError
  | DomainError
  | JobNotFoundError
  | InvalidStateTransitionError
  | JobAlreadyRunningError
  | PermissionDeniedError
  | UserAlreadyExistsError

fun base_class :: "err_class \<Rightarrow> err_class option" where
  "base_class MongoOpsError = None"
| "base_class ConfigurationError = Some MongoOpsError"
| "base_class DomainPermissionError = Some MongoOpsError"
| "base_class BackupEngineError = Some MongoOpsError"
| "base_class JobError = Some MongoOpsError"
| "base_class NotificationError = Some MongoOpsError"
| "base_class RepositoryError = Some MongoOpsError"
| "base_class RateLimitError = Some MongoOpsError"
| "base_class DiskSpaceError = Some BackupEngineError"
| "base_class DomainError = Some MongoOpsError"
| "base_class JobNotFoundError = Some JobError"
| "base_class InvalidStateTransitionError = Some JobError"
| "base_class JobAlreadyRunningError = Some JobError"
| "base_class PermissionDeniedError = Some DomainPermissionError"
| "base_class UserAlreadyExistsError = Some DomainError"

text \<open>
  The \<open>code\<close> attribute: each constructor passes one to its base or overwrites it after the
  base constructor has run. A bare \<open>MongoOpsError\<close> takes its code as an argument; the program
  never raises one.
\<close>

fun error_code :: "err_class \<Rightarrow> string option" where
  "error_code MongoOpsError = None"
| "error_code ConfigurationError = Some ''CONFIG_INVALID''"
| "error_code DomainPermissionError = Some ''PERMISSION_DENIED''"
| "error_code BackupEngineError = Some ''BACKUP_ENGINE_ERROR''"
| "error_code JobError = Some ''JOB_ERROR''"
| "error_code NotificationError = Some ''NOTIFICATION_ERROR''"
| "error_code RepositoryError = Some ''REPOSITORY_ERROR''"
| "error_code RateLimitError = Some ''RATE_LIMIT_EXCEEDED''"
| "error_code DiskSpaceError = Some ''DISK_SPACE_ERROR''"
| "error_code DomainError = Some ''DOMAIN_ERROR''"
| "error_code JobNotFoundError = Some ''JOB_NOT_FOUND''"
| "error_code InvalidStateTransitionError = Some ''INVALID_STATE_TRANSITION''"
| "error_code JobAlreadyRunningError = Some ''JOB_ALREADY_RUNNING''"
| "error_code PermissionDeniedError = Some ''PERMISSION_DENIED''"
| "error_code UserAlreadyExistsError = Some ''USER_ALREADY_EXISTS''"

definition class_depth :: "err_class \<Rightarrow> nat" where
  "class_depth c =
     (case base_class c of None \<Rightarrow> 0 | Some b \<Rightarrow> (case base_class b of None \<Rightarrow> 1 | Some _ \<Rightarrow> 2))"

lemma class_depth_base: "base_class c = Some b \<Longrightarrow> class_depth b < class_depth c"
  by (cases c) (auto simp: class_depth_def)

text \<open>\<open>issubclass(c, d)\<close>, walking up the single-inheritance chain.\<close>

function is_subclass :: "err_class \<Rightarrow> err_class \<Rightarrow> bool" where
  "is_subclass c d =
     (c = d \<or> (case base_class c of None \<Rightarrow> False | Some b \<Rightarrow> is_subclass b d))"
  by pat_completeness auto
termination
  by (relation "measure (\<lambda>(c, d). class_depth c)") (auto dest: class_depth_base)

declare is_subclass.simps [simp del]

datatype exn =
    DomainExn err_class string pydict
  | ValidationError string
  | ValueError string
  | AttributeError string
  | OSError string
  | FileNotFoundError string
  | RuntimeError string
  | TimeoutError string
  | OtherException string string

type_synonym ('s, 'a) M = "('s, exn, 'a) em"

text \<open>\<open>isinstance(exc, cls)\<close> for a domain class; pydantic's \<open>ValidationError\<close> is a
  \<open>ValueError\<close>, \<open>FileNotFoundError\<close> and \<open>TimeoutError\<close> are \<open>OSError\<close>s.\<close>

definition is_instance :: "exn \<Rightarrow> err_class \<Rightarrow> bool" where
  "is_instance e c = (case e of DomainExn d _ _ \<Rightarrow> is_subclass d c | _ \<Rightarrow> False)"

definition is_OSError :: "exn \<Rightarrow> bool" where
  "is_OSError e =
     (case e of OSError _ \<Rightarrow> True | FileNotFoundError _ \<Rightarrow> True | TimeoutError _ \<Rightarrow> True | _ \<Rightarrow> False)"

definition is_ValueError :: "exn \<Rightarrow> bool" where
  "is_ValueError e = (case e of ValueError _ \<Rightarrow> True | ValidationError _ \<Rightarrow> True | _ \<Rightarrow> False)"

fun exn_str :: "exn \<Rightarrow> string" where
  "exn_str (DomainExn _ m _) = m"
| "exn_str (ValidationError m) = m"
| "exn_str (ValueError m) = m"
| "exn_str (AttributeError m) = m"
| "exn_str (OSError m) = m"
| "exn_str (FileNotFoundError m) = m"
| "exn_str (RuntimeError m) = m"
| "exn_str (TimeoutError m) = m"
| "exn_str (OtherException _ m) = m"

definition raise_domain :: "err_class \<Rightarrow> string \<Rightarrow> pydict \<Rightarrow> ('s, 'a) M" where
  "raise_domain c m d = raiseM (DomainExn c m d)"

lemma raise_domain_run [simp, run_simps]: "raise_domain c m d s = (Inl (DomainExn c m d), s)"
  by (simp add: raise_domain_def)

lemma keeps_raise_domain [keeps_intros]: "keeps I (raise_domain c m d)"
  by (simp add: raise_domain_def keeps_intros)

lemma is_subclass_base_simps [simp]:
  "is_subclass c c"
  "is_subclass c MongoOpsError"
  by (subst is_subclass.simps, simp) (cases c; simp add: is_subclass.simps)+

lemma is_subclass_trans: "is_subclass a b \<Longrightarrow> is_subclass b c \<Longrightarrow> is_subclass a c"
proof (induction a b rule: is_subclass.induct)
  case (1 a b)
  show ?case
  proof (cases "a = b")
    case True
    with "1.prems" show ?thesis by simp
  next
    case False
    with "1.prems"(1) obtain a' where a': "base_class a = Some a'" "is_subclass a' b"
      by (subst (asm) is_subclass.simps) (auto split: option.splits)
    have "is_subclass a' c" using "1.IH" [OF a'(1) a'(2) "1.prems"(2)] .
    with a'(1) show ?thesis by (subst is_subclass.simps) simp
  qed
qed

lemma is_subclass_JobError:
  "is_subclass c JobError \<longleftrightarrow>
     c \<in> {JobError, JobNotFoundError, InvalidStateTransitionError, JobAlreadyRunningError}"
  by (cases c) (simp_all add: is_subclass.simps)

lemma is_subclass_BackupEngineError:
  "is_subclass c BackupEngineError \<longleftrightarrow> c \<in> {BackupEngineError, DiskSpaceError}"
  by (cases c) (simp_all add: is_subclass.simps)

lemma is_subclass_DomainPermissionError:
  "is_subclass c DomainPermissionError \<longleftrightarrow> c \<in> {DomainPermissionError, PermissionDeniedError}"
  by (cases c) (simp_all add: is_subclass.simps)

text \<open>A class without subclasses catches exactly its own instances.\<close>

lemma is_subclass_leaf:
  "d \<in> {RateLimitError, DiskSpaceError, JobNotFoundError, InvalidStateTransitionError,
        JobAlreadyRunningError, PermissionDeniedError, UserAlreadyExistsError} \<Longrightarrow>
   is_subclass c d \<longleftrightarrow> c = d"
  by (cases c) (auto simp: is_subclass.simps)

lemmas subclass_simps =
  is_subclass_JobError is_subclass_BackupEngineError is_subclass_DomainPermissionError
  is_subclass_leaf

end
