(* ===== verification/Enums.thy ===== *)
theory Enums
  imports Errors
begin

text \<open>
  The enumerations of \<^verbatim>\<open>app/domain/value_objects/enums.py\<close>. Constructors carry the member
  names and are written with their class where two enumerations share one
  (\<open>JobStatus.PENDING\<close>, \<open>CollectionBackupStatus.PENDING\<close>), as in the source. Each comes with
  its \<open>value\<close> and with the lookup \<open>Cls(value)\<close>, which raises \<open>ValueError\<close> on any other
  string. The types are instances of \<open>enum\<close>, so that statements quantified over a whole
  enumeration evaluate.
\<close>

datatype UserRole = ADMIN | DBA | OPERATOR | READONLY

datatype BackupType = FULL | CUSTOM

datatype JobStatus =
  PENDING | QUEUED | RUNNING | SUCCESS | FAILED | PARTIAL_SUCCESS | CANCELLED

datatype CollectionBackupStatus = PENDING | RUNNING | SUCCESS | FAILED | SKIPPED

datatype TopicType = BACKUP_REQUESTS | SIZE_ASK | EXECUTION_ERRORS | ADMIN

instantiation UserRole :: enum
begin
definition enum_UserRole_def: "enum_class.enum = [UserRole.ADMIN, DBA, OPERATOR, READONLY]"
definition enum_all_UserRole_def:
  "enum_class.enum_all P \<longleftrightarrow> P UserRole.ADMIN \<and> P DBA \<and> P OPERATOR \<and> P READONLY"
definition enum_ex_UserRole_def:
  "enum_class.enum_ex P \<longleftrightarrow> P UserRole.ADMIN \<or> P DBA \<or> P OPERATOR \<or> P READONLY"
instance
proof
  show "UNIV = set (enum_class.enum :: UserRole list)"
    by (auto simp: enum_UserRole_def intro: UserRole.exhaust)
  show "distinct (enum_class.enum :: UserRole list)"
    by (simp add: enum_UserRole_def)
  show "enum_class.enum_all P \<longleftrightarrow> Ball UNIV P" for P :: "UserRole \<Rightarrow> bool"
    by (auto simp: enum_all_UserRole_def) (metis UserRole.exhaust)
  show "enum_class.enum_ex P \<longleftrightarrow> Bex UNIV P" for P :: "UserRole \<Rightarrow> bool"
    by (auto simp: enum_ex_UserRole_def) (metis UserRole.exhaust)
qed
end

instantiation JobStatus :: enum
begin
definition enum_JobStatus_def:
  "enum_class.enum = [JobStatus.PENDING, QUEUED, JobStatus.RUNNING, JobStatus.SUCCESS,
     JobStatus.FAILED, PARTIAL_SUCCESS, CANCELLED]"
definition enum_all_JobStatus_def:
  "enum_class.enum_all P \<longleftrightarrow> P JobStatus.PENDING \<and> P QUEUED \<and> P JobStatus.RUNNING \<and>
     P JobStatus.SUCCESS \<and> P JobStatus.FAILED \<and> P PARTIAL_SUCCESS \<and> P CANCELLED"
definition enum_ex_JobStatus_def:
  "enum_class.enum_ex P \<longleftrightarrow> P JobStatus.PENDING \<or> P QUEUED \<or> P JobStatus.RUNNING \<or>
     P JobStatus.SUCCESS \<or> P JobStatus.FAILED \<or> P PARTIAL_SUCCESS \<or> P CANCELLED"
instance
proof
  show "UNIV = set (enum_class.enum :: JobStatus list)"
    by (auto simp: enum_JobStatus_def intro: JobStatus.exhaust)
  show "distinct (enum_class.enum :: JobStatus list)"
    by (simp add: enum_JobStatus_def)
  show "enum_class.enum_all P \<longleftrightarrow> Ball UNIV P" for P :: "JobStatus \<Rightarrow> bool"
    by (auto simp: enum_all_JobStatus_def) (metis JobStatus.exhaust)
  show "enum_class.enum_ex P \<longleftrightarrow> Bex UNIV P" for P :: "JobStatus \<Rightarrow> bool"
    by (auto simp: enum_ex_JobStatus_def) (metis JobStatus.exhaust)
qed
end

fun role_value :: "UserRole \<Rightarrow> string" where
  "role_value UserRole.ADMIN = ''ADMIN''"
| "role_value DBA = ''DBA''"
| "role_value OPERATOR = ''OPERATOR''"
| "role_value READONLY = ''READONLY''"

fun backup_type_value :: "BackupType \<Rightarrow> string" where
  "backup_type_value FULL = ''FULL''"
| "backup_type_value CUSTOM = ''CUSTOM''"

fun status_value :: "JobStatus \<Rightarrow> string" where
  "status_value JobStatus.PENDING = ''PENDING''"
| "status_value QUEUED = ''QUEUED''"
| "status_value JobStatus.RUNNING = ''RUNNING''"
| "status_value JobStatus.SUCCESS = ''SUCCESS''"
| "status_value JobStatus.FAILED = ''FAILED''"
| "status_value PARTIAL_SUCCESS = ''PARTIAL_SUCCESS''"
| "status_value CANCELLED = ''CANCELLED''"

fun coll_status_value :: "CollectionBackupStatus \<Rightarrow> string" where
  "coll_status_value CollectionBackupStatus.PENDING = ''PENDING''"
| "coll_status_value CollectionBackupStatus.RUNNING = ''RUNNING''"
| "coll_status_value CollectionBackupStatus.SUCCESS = ''SUCCESS''"
| "coll_status_value CollectionBackupStatus.FAILED = ''FAILED''"
| "coll_status_value SKIPPED = ''SKIPPED''"

fun topic_value :: "TopicType \<Rightarrow> string" where
  "topic_value BACKUP_REQUESTS = ''BACKUP_REQUESTS''"
| "topic_value SIZE_ASK = ''SIZE_ASK''"
| "topic_value EXECUTION_ERRORS = ''EXECUTION_ERRORS''"
| "topic_value TopicType.ADMIN = ''ADMIN''"

text \<open>\<open>Cls(value)\<close>: the member with that value, or \<open>ValueError\<close>.\<close>

definition enum_lookup :: "('a \<Rightarrow> string) \<Rightarrow> 'a list \<Rightarrow> string \<Rightarrow> exn + 'a" where
  "enum_lookup val members s =
     (case find (\<lambda>m. val m = s) members of
        None \<Rightarrow> Inl (ValueError (s @ '' is not a valid member'')) | Some m \<Rightarrow> Inr m)"

definition parse_role :: "string \<Rightarrow> exn + UserRole" where
  "parse_role = enum_lookup role_value [UserRole.ADMIN, DBA, OPERATOR, READONLY]"

definition parse_backup_type :: "string \<Rightarrow> exn + BackupType" where
  "parse_backup_type = enum_lookup backup_type_value [FULL, CUSTOM]"

definition parse_status :: "string \<Rightarrow> exn + JobStatus" where
  "parse_status = enum_lookup status_value
     [JobStatus.PENDING, QUEUED, JobStatus.RUNNING, JobStatus.SUCCESS, JobStatus.FAILED,
      PARTIAL_SUCCESS, CANCELLED]"

definition parse_coll_status :: "string \<Rightarrow> exn + CollectionBackupStatus" where
  "parse_coll_status = enum_lookup coll_status_value
     [CollectionBackupStatus.PENDING, CollectionBackupStatus.RUNNING,
      CollectionBackupStatus.SUCCESS, CollectionBackupStatus.FAILED, SKIPPED]"

definition parse_topic :: "string \<Rightarrow> exn + TopicType" where
  "parse_topic = enum_lookup topic_value [BACKUP_REQUESTS, SIZE_ASK, EXECUTION_ERRORS, TopicType.ADMIN]"

lemma parse_role_value [simp]: "parse_role (role_value r) = Inr r"
  by (cases r) (simp_all add: parse_role_def enum_lookup_def)

lemma parse_backup_type_value [simp]: "parse_backup_type (backup_type_value t) = Inr t"
  by (cases t) (simp_all add: parse_backup_type_def enum_lookup_def)

lemma parse_status_value [simp]: "parse_status (status_value t) = Inr t"
  by (cases t) (simp_all add: parse_status_def enum_lookup_def)

lemma parse_coll_status_value [simp]: "parse_coll_status (coll_status_value t) = Inr t"
  by (cases t) (simp_all add: parse_coll_status_def enum_lookup_def)

lemma parse_topic_value [simp]: "parse_topic (topic_value t) = Inr t"
  by (cases t) (simp_all add: parse_topic_def enum_lookup_def)

lemma enum_lookup_Inr: "enum_lookup val ms s = Inr m \<Longrightarrow> val m = s"
  by (auto simp: enum_lookup_def find_Some_iff split: option.splits)

lemma parse_topic_Inr: "parse_topic s = Inr t \<longleftrightarrow> s = topic_value t"
  using enum_lookup_Inr [of topic_value] by (auto simp: parse_topic_def) (metis parse_topic_def parse_topic_value)

lemma parse_role_Inr: "parse_role s = Inr t \<longleftrightarrow> s = role_value t"
  using enum_lookup_Inr [of role_value] by (auto simp: parse_role_def) (metis parse_role_def parse_role_value)

lemma topic_value_inject [simp]: "topic_value a = topic_value b \<longleftrightarrow> a = b"
  by (cases a; cases b) simp_all

lemma role_value_inject [simp]: "role_value a = role_value b \<longleftrightarrow> a = b"
  by (cases a; cases b) simp_all

lemma status_value_inject [simp]: "status_value a = status_value b \<longleftrightarrow> a = b"
  by (cases a; cases b) simp_all

text \<open>The statuses no operation leaves.\<close>

definition terminal :: "JobStatus \<Rightarrow> bool" where
  "terminal s \<longleftrightarrow> s \<in> {JobStatus.SUCCESS, JobStatus.FAILED, PARTIAL_SUCCESS, CANCELLED}"

end
