(* ===== verification/ValueObjects.thy ===== *)
theory ValueObjects
  imports Enums
begin

text \<open>
  The frozen value objects of \<^verbatim>\<open>app/domain/value_objects/dtos.py\<close>. Constructing one runs the
  pydantic constraints, so a constructor is a function into \<open>exn + record\<close>.

  A percentage is a float with two decimals in the source; here it is an \<open>int\<close> counting
  hundredths of a percent (\<open>0..10000\<close>), computed with exact arithmetic and Python's
  round-half-even. The double the source computes differs from the exact quotient by less than
  a rounding unit, so only the last of the two decimals can differ.
\<close>

definition is_sha256_hex :: "string \<Rightarrow> bool" where
  "is_sha256_hex s \<longleftrightarrow> length s = 64 \<and> list_all (\<lambda>c. c \<in> set ''abcdef0123456789'') s"

definition validated :: "('a \<Rightarrow> bool) \<Rightarrow> string \<Rightarrow> 'a \<Rightarrow> exn + 'a" where
  "validated valid cls x = (if valid x then Inr x else Inl (ValidationError cls))"

lemma validated_Inr [simp]: "validated valid cls x = Inr y \<longleftrightarrow> valid x \<and> y = x"
  by (auto simp: validated_def)

definition opt_ge0 :: "int option \<Rightarrow> bool" where
  "opt_ge0 x = (case x of None \<Rightarrow> True | Some i \<Rightarrow> 0 \<le> i)"

lemma opt_ge0_simps [simp]: "opt_ge0 None" "opt_ge0 (Some i) \<longleftrightarrow> 0 \<le> i"
  by (simp_all add: opt_ge0_def)

record CollectionTarget =
  ct_database :: string
  ct_collection :: string
  ct_status :: CollectionBackupStatus
  ct_size_bytes :: "int option"
  ct_error_message :: "string option"

definition valid_CollectionTarget :: "CollectionTarget \<Rightarrow> bool" where
  "valid_CollectionTarget t \<longleftrightarrow>
     ct_database t \<noteq> [] \<and> ct_collection t \<noteq> [] \<and> opt_ge0 (ct_size_bytes t)"

definition mk_CollectionTarget ::
  "string \<Rightarrow> string \<Rightarrow> CollectionBackupStatus \<Rightarrow> int option \<Rightarrow> string option \<Rightarrow>
   exn + CollectionTarget" where
  "mk_CollectionTarget db coll st size_b err =
     validated valid_CollectionTarget ''CollectionTarget''
       \<lparr>ct_database = db, ct_collection = coll, ct_status = st, ct_size_bytes = size_b,
        ct_error_message = err\<rparr>"

record JobProgress =
  jp_total_collections :: int
  jp_completed_collections :: int
  jp_failed_collections :: int
  jp_retry_count :: int
  jp_percent_complete :: int \<comment> \<open>hundredths of a percent\<close>
  jp_bytes_processed :: int

definition valid_JobProgress :: "JobProgress \<Rightarrow> bool" where
  "valid_JobProgress p \<longleftrightarrow>
     0 \<le> jp_total_collections p \<and> 0 \<le> jp_completed_collections p \<and>
     0 \<le> jp_failed_collections p \<and> 0 \<le> jp_retry_count p \<and>
     0 \<le> jp_percent_complete p \<and> jp_percent_complete p \<le> 10000 \<and>
     0 \<le> jp_bytes_processed p"

definition mk_JobProgress ::
  "int \<Rightarrow> int \<Rightarrow> int \<Rightarrow> int \<Rightarrow> int \<Rightarrow> int \<Rightarrow> exn + JobProgress" where
  "mk_JobProgress total_c completed failed retry percent bytes =
     validated valid_JobProgress ''JobProgress''
       \<lparr>jp_total_collections = total_c, jp_completed_collections = completed,
        jp_failed_collections = failed, jp_retry_count = retry,
        jp_percent_complete = percent, jp_bytes_processed = bytes\<rparr>"

text \<open>\<open>round((part / total) * 100, 2)\<close>, in hundredths of a percent, for \<open>total > 0\<close>.\<close>

definition percent_of :: "int \<Rightarrow> int \<Rightarrow> int" where
  "percent_of part n = round_div (part * 10000) n"

lemma percent_of_bounds:
  assumes "0 \<le> part" "part \<le> n" "0 < n"
  shows "0 \<le> percent_of part n" and "percent_of part n \<le> 10000"
proof -
  show "0 \<le> percent_of part n"
    using assms by (simp add: percent_of_def round_div_nonneg)
  show "percent_of part n \<le> 10000"
    unfolding percent_of_def by (rule round_div_le) (use assms in simp_all)
qed

end
