(* ===== verification/Users.thy ===== *)
theory Users
  imports Enums
begin

text \<open>
  \<^verbatim>\<open>app/domain/entities/user.py\<close>: the platform user, its immutability guard and the RBAC
  matrices embedded in the entity; and \<open>UserPrincipalDto\<close> of \<^verbatim>\<open>app/application/dtos.py\<close>.
\<close>

record User =
  u_telegram_id :: int
  u_username :: "string option"
  u_role :: UserRole
  u_is_active :: bool
  u_created_at :: datetime

definition mk_User ::
  "int \<Rightarrow> string option \<Rightarrow> UserRole \<Rightarrow> bool \<Rightarrow> datetime \<Rightarrow> exn + User" where
  "mk_User tid name role active created =
     (if 0 < tid
      then Inr \<lparr>u_telegram_id = tid, u_username = name, u_role = role, u_is_active = active,
                u_created_at = created\<rparr>
      else Inl (ValidationError ''User''))"

text \<open>
  \<open>_COMMAND_PERMISSIONS\<close> and \<open>_TOPIC_PERMISSIONS\<close>; \<open>None\<close> is a missing key, which the
  \<open>.get(key, frozenset())\<close> of the callers turns into the empty set.
\<close>

definition COMMAND_PERMISSIONS :: "string \<Rightarrow> UserRole set option" where
  "COMMAND_PERMISSIONS = map_of
     [(''BACKUP'', {UserRole.ADMIN, DBA, OPERATOR}),
      (''SIZE_QUERY'', {UserRole.ADMIN, DBA, OPERATOR, READONLY}),
      (''CANCEL_JOB'', {UserRole.ADMIN, DBA, OPERATOR}),
      (''LIST_JOBS'', {UserRole.ADMIN, DBA, OPERATOR, READONLY}),
      (''MANAGE_USERS'', {UserRole.ADMIN})]"

fun TOPIC_PERMISSIONS :: "TopicType \<Rightarrow> UserRole set option" where
  "TOPIC_PERMISSIONS BACKUP_REQUESTS = Some {UserRole.ADMIN, DBA, OPERATOR}"
| "TOPIC_PERMISSIONS SIZE_ASK = Some {UserRole.ADMIN, DBA, OPERATOR, READONLY}"
| "TOPIC_PERMISSIONS EXECUTION_ERRORS = Some {UserRole.ADMIN, DBA}"
| "TOPIC_PERMISSIONS TopicType.ADMIN = Some {UserRole.ADMIN}"

definition get_roles :: "UserRole set option \<Rightarrow> UserRole set" where
  "get_roles x = (case x of None \<Rightarrow> {} | Some s \<Rightarrow> s)"

lemma get_roles_simps [simp]: "get_roles None = {}" "get_roles (Some s) = s"
  by (simp_all add: get_roles_def)

definition User_has_role :: "User \<Rightarrow> UserRole \<Rightarrow> bool" where
  "User_has_role u r \<longleftrightarrow> u_role u = r"

definition User_can_execute :: "User \<Rightarrow> string \<Rightarrow> string \<Rightarrow> bool" where
  "User_can_execute u command topic =
     (if \<not> u_is_active u then False
      else if u_role u \<notin> get_roles (COMMAND_PERMISSIONS command) then False
      else (case parse_topic topic of
              Inl _ \<Rightarrow> False
            | Inr t \<Rightarrow> u_role u \<in> get_roles (TOPIC_PERMISSIONS t)))"

text \<open>Attribute assignment, \<open>user.name = value\<close>, after construction.\<close>

datatype user_attr =
    UA_telegram_id int
  | UA_username "string option"
  | UA_role UserRole
  | UA_is_active bool
  | UA_created_at datetime

fun attr_name :: "user_attr \<Rightarrow> string" where
  "attr_name (UA_telegram_id _) = ''telegram_id''"
| "attr_name (UA_username _) = ''username''"
| "attr_name (UA_role _) = ''role''"
| "attr_name (UA_is_active _) = ''is_active''"
| "attr_name (UA_created_at _) = ''created_at''"

fun set_attr :: "user_attr \<Rightarrow> User \<Rightarrow> User" where
  "set_attr (UA_telegram_id v) u = u\<lparr>u_telegram_id := v\<rparr>"
| "set_attr (UA_username v) u = u\<lparr>u_username := v\<rparr>"
| "set_attr (UA_role v) u = u\<lparr>u_role := v\<rparr>"
| "set_attr (UA_is_active v) u = u\<lparr>u_is_active := v\<rparr>"
| "set_attr (UA_created_at v) u = u\<lparr>u_created_at := v\<rparr>"

definition User_setattr :: "User \<Rightarrow> user_attr \<Rightarrow> exn + User" where
  "User_setattr u a =
     (if attr_name a \<notin> {''is_active'', ''_initialized''}
      then Inl (AttributeError (''User.'' @ attr_name a @ '' is immutable after creation''))
      else Inr (set_attr a u))"

fun User_assign_all :: "User \<Rightarrow> user_attr list \<Rightarrow> User" where
  "User_assign_all u [] = u"
| "User_assign_all u (a # as) =
     (case User_setattr u a of Inl _ \<Rightarrow> User_assign_all u as | Inr u' \<Rightarrow> User_assign_all u' as)"

record UserPrincipalDto =
  up_telegram_id :: int
  up_username :: "string option"
  up_role :: UserRole
  up_is_active :: bool

definition valid_UserPrincipalDto :: "UserPrincipalDto \<Rightarrow> bool" where
  "valid_UserPrincipalDto p \<longleftrightarrow> 0 < up_telegram_id p"

definition UserPrincipalDto_has_role :: "UserPrincipalDto \<Rightarrow> UserRole \<Rightarrow> bool" where
  "UserPrincipalDto_has_role p r \<longleftrightarrow> up_role p = r"

definition UserPrincipalDto_from_user :: "User \<Rightarrow> UserPrincipalDto" where
  "UserPrincipalDto_from_user u =
     \<lparr>up_telegram_id = u_telegram_id u, up_username = u_username u, up_role = u_role u,
      up_is_active = u_is_active u\<rparr>"

text \<open>
  The use cases rebuild a \<open>User\<close> from the principal they are given, without a user name:
  \<open>User(telegram_id=dto.user.telegram_id, role=dto.user.role, is_active=dto.user.is_active)\<close>.
  The creation time is the clock reading of the construction; nothing reads it.
\<close>

definition user_of_principal :: "UserPrincipalDto \<Rightarrow> exn + User" where
  "user_of_principal p = mk_User (up_telegram_id p) None (up_role p) (up_is_active p) 0"

section \<open>Lemmas\<close>

lemma mk_User_Inr:
  "mk_User tid name role active created = Inr u \<longleftrightarrow>
     0 < tid \<and> u = \<lparr>u_telegram_id = tid, u_username = name, u_role = role,
                     u_is_active = active, u_created_at = created\<rparr>"
  by (auto simp: mk_User_def)

lemma user_of_principal_valid:
  "valid_UserPrincipalDto p \<Longrightarrow>
   user_of_principal p = Inr \<lparr>u_telegram_id = up_telegram_id p, u_username = None,
     u_role = up_role p, u_is_active = up_is_active p, u_created_at = 0\<rparr>"
  by (simp add: user_of_principal_def valid_UserPrincipalDto_def mk_User_def)

lemma User_setattr_Inr: "User_setattr u a = Inr u' \<longleftrightarrow> (\<exists>v. a = UA_is_active v \<and> u' = u\<lparr>u_is_active := v\<rparr>)"
  by (cases a) (auto simp: User_setattr_def)

lemma User_assign_all_frame:
  "\<exists>b. User_assign_all u as = u\<lparr>u_is_active := b\<rparr>"
proof (induction as arbitrary: u)
  case Nil
  have "User_assign_all u [] = u\<lparr>u_is_active := u_is_active u\<rparr>" by simp
  then show ?case by blast
next
  case (Cons a as)
  show ?case
  proof (cases "User_setattr u a")
    case (Inl e)
    then show ?thesis using Cons.IH [of u] by simp
  next
    case (Inr u')
    then obtain v where "u' = u\<lparr>u_is_active := v\<rparr>" by (auto simp: User_setattr_Inr)
    moreover obtain b where "User_assign_all u' as = u'\<lparr>u_is_active := b\<rparr>"
      using Cons.IH by blast
    ultimately have "User_assign_all u (a # as) = u\<lparr>u_is_active := b\<rparr>" using Inr by simp
    then show ?thesis by blast
  qed
qed

lemma User_can_execute_inactive: "\<not> u_is_active u \<Longrightarrow> \<not> User_can_execute u c t"
  by (simp add: User_can_execute_def)

lemma User_can_execute_iff:
  "User_can_execute u c t \<longleftrightarrow>
     u_is_active u \<and> u_role u \<in> get_roles (COMMAND_PERMISSIONS c) \<and>
     (\<exists>tt. t = topic_value tt \<and> u_role u \<in> get_roles (TOPIC_PERMISSIONS tt))"
proof (cases "parse_topic t")
  case (Inl e)
  then have "\<And>tt. t \<noteq> topic_value tt" by auto
  with Inl show ?thesis by (simp add: User_can_execute_def)
next
  case (Inr tt)
  then show ?thesis by (auto simp: User_can_execute_def parse_topic_Inr)
qed

lemma COMMAND_PERMISSIONS_Some:
  "COMMAND_PERMISSIONS c = Some R \<Longrightarrow>
     c \<in> {''BACKUP'', ''SIZE_QUERY'', ''CANCEL_JOB'', ''LIST_JOBS'', ''MANAGE_USERS''}"
  unfolding COMMAND_PERMISSIONS_def by (drule map_of_SomeD) auto

end
