(* ===== verification/Jobs.thy ===== *)
theory Jobs
  imports ValueObjects Users
begin

text \<open>
  \<^verbatim>\<open>app/domain/entities/backup_job.py\<close>: the backup job and its finite state machine. The
  methods mutate \<open>self\<close> and read the clock; here they return the updated record, and the clock
  readings are arguments: the first is the one \<open>_transition\<close> stores in \<open>updated_at\<close>, the
  second the one the method itself stores. \<open>job_run\<close> is the set of jobs that a factory and any
  sequence of operations produce, with the time of the last clock reading.
\<close>

record BackupJob =
  bj_id :: string
  bj_requester_telegram_id :: int
  bj_chat_id :: "int option"
  bj_topic_id :: "int option"
  bj_status_message_id :: "int option"
  bj_backup_type :: BackupType
  bj_status :: JobStatus
  bj_cluster_uri_hash :: string
  bj_target_collections :: "CollectionTarget list"
  bj_progress :: "JobProgress option"
  bj_output_path :: "path option"
  bj_error_log :: "string option"
  bj_started_at :: "datetime option"
  bj_completed_at :: "datetime option"
  bj_cancelled_by :: "int option"
  bj_queue_job_id :: "string option"
  bj_created_at :: datetime
  bj_updated_at :: datetime

definition SYSTEM_TELEGRAM_ID :: int where
  "SYSTEM_TELEGRAM_ID = -1"

definition valid_BackupJob :: "BackupJob \<Rightarrow> bool" where
  "valid_BackupJob j \<longleftrightarrow>
     bj_id j \<noteq> [] \<and> 0 < bj_requester_telegram_id j \<and> is_sha256_hex (bj_cluster_uri_hash j) \<and>
     list_all valid_CollectionTarget (bj_target_collections j) \<and>
     (case bj_progress j of None \<Rightarrow> True | Some p \<Rightarrow> valid_JobProgress p)"

text \<open>\<open>_VALID_TRANSITIONS\<close>; the dictionary has no entry for \<open>SUCCESS\<close>.\<close>

fun VALID_TRANSITIONS :: "JobStatus \<Rightarrow> JobStatus set option" where
  "VALID_TRANSITIONS JobStatus.PENDING = Some {QUEUED, CANCELLED}"
| "VALID_TRANSITIONS QUEUED = Some {JobStatus.RUNNING, CANCELLED}"
| "VALID_TRANSITIONS JobStatus.RUNNING =
     Some {JobStatus.SUCCESS, JobStatus.FAILED, PARTIAL_SUCCESS, CANCELLED}"
| "VALID_TRANSITIONS CANCELLED = Some {}"
| "VALID_TRANSITIONS JobStatus.FAILED = Some {}"
| "VALID_TRANSITIONS PARTIAL_SUCCESS = Some {}"
| "VALID_TRANSITIONS JobStatus.SUCCESS = None"

definition new_job ::
  "BackupType \<Rightarrow> CollectionTarget list \<Rightarrow> datetime \<Rightarrow> datetime \<Rightarrow> string \<Rightarrow> int \<Rightarrow> string \<Rightarrow>
   int option \<Rightarrow> int option \<Rightarrow> int option \<Rightarrow> exn + BackupJob" where
  "new_job btype targets t_created t_updated job_id requester hash chat topic msg =
     validated valid_BackupJob ''BackupJob''
       \<lparr>bj_id = job_id, bj_requester_telegram_id = requester, bj_chat_id = chat,
        bj_topic_id = topic, bj_status_message_id = msg, bj_backup_type = btype,
        bj_status = JobStatus.PENDING, bj_cluster_uri_hash = hash,
        bj_target_collections = targets, bj_progress = None, bj_output_path = None,
        bj_error_log = None, bj_started_at = None, bj_completed_at = None,
        bj_cancelled_by = None, bj_queue_job_id = None, bj_created_at = t_created,
        bj_updated_at = t_updated\<rparr>"

definition BackupJob_create_full ::
  "datetime \<Rightarrow> datetime \<Rightarrow> string \<Rightarrow> int \<Rightarrow> string \<Rightarrow> int option \<Rightarrow> int option \<Rightarrow> int option \<Rightarrow>
   exn + BackupJob" where
  "BackupJob_create_full t_created t_updated job_id requester hash chat topic msg =
     new_job FULL [] t_created t_updated job_id requester hash chat topic msg"

definition BackupJob_create_custom ::
  "datetime \<Rightarrow> datetime \<Rightarrow> string \<Rightarrow> int \<Rightarrow> string \<Rightarrow> CollectionTarget list \<Rightarrow>
   int option \<Rightarrow> int option \<Rightarrow> int option \<Rightarrow> exn + BackupJob" where
  "BackupJob_create_custom t_created t_updated job_id requester hash targets chat topic msg =
     new_job CUSTOM targets t_created t_updated job_id requester hash chat topic msg"

definition BackupJob_transition :: "JobStatus \<Rightarrow> datetime \<Rightarrow> BackupJob \<Rightarrow> exn + BackupJob" where
  "BackupJob_transition new t j =
     (if new \<notin> (case VALID_TRANSITIONS (bj_status j) of None \<Rightarrow> {} | Some s \<Rightarrow> s)
      then Inl (DomainExn InvalidStateTransitionError
             (''Illegal transition from '' @ status_value (bj_status j) @ '' to ''
                @ status_value new) [])
      else Inr (j\<lparr>bj_status := new, bj_updated_at := t\<rparr>))"

definition BackupJob_mark_queued :: "datetime \<Rightarrow> BackupJob \<Rightarrow> exn + BackupJob" where
  "BackupJob_mark_queued t j = BackupJob_transition QUEUED t j"

definition BackupJob_mark_running :: "datetime \<Rightarrow> datetime \<Rightarrow> BackupJob \<Rightarrow> exn + BackupJob" where
  "BackupJob_mark_running t1 t2 j =
     (case BackupJob_transition JobStatus.RUNNING t1 j of
        Inl e \<Rightarrow> Inl e
      | Inr j' \<Rightarrow> Inr (if bj_started_at j' = None then j'\<lparr>bj_started_at := Some t2\<rparr> else j'))"

definition BackupJob_mark_success :: "datetime \<Rightarrow> datetime \<Rightarrow> BackupJob \<Rightarrow> exn + BackupJob" where
  "BackupJob_mark_success t1 t2 j =
     (case BackupJob_transition JobStatus.SUCCESS t1 j of
        Inl e \<Rightarrow> Inl e
      | Inr j' \<Rightarrow> Inr (j'\<lparr>bj_completed_at := Some t2\<rparr>))"

definition BackupJob_mark_partial_success ::
  "datetime \<Rightarrow> datetime \<Rightarrow> BackupJob \<Rightarrow> exn + BackupJob" where
  "BackupJob_mark_partial_success t1 t2 j =
     (case BackupJob_transition PARTIAL_SUCCESS t1 j of
        Inl e \<Rightarrow> Inl e
      | Inr j' \<Rightarrow> Inr (j'\<lparr>bj_completed_at := Some t2\<rparr>))"

definition BackupJob_mark_failed ::
  "string option \<Rightarrow> datetime \<Rightarrow> datetime \<Rightarrow> BackupJob \<Rightarrow> exn + BackupJob" where
  "BackupJob_mark_failed err t1 t2 j =
     (case BackupJob_transition JobStatus.FAILED t1 j of
        Inl e \<Rightarrow> Inl e
      | Inr j' \<Rightarrow>
          Inr ((if truthy err then j'\<lparr>bj_error_log := err\<rparr> else j')\<lparr>bj_completed_at := Some t2\<rparr>))"

definition BackupJob_mark_cancelled ::
  "int \<Rightarrow> datetime \<Rightarrow> datetime \<Rightarrow> BackupJob \<Rightarrow> exn + BackupJob" where
  "BackupJob_mark_cancelled by_id t1 t2 j =
     (case BackupJob_transition CANCELLED t1 j of
        Inl e \<Rightarrow> Inl e
      | Inr j' \<Rightarrow> Inr (j'\<lparr>bj_cancelled_by := Some by_id, bj_completed_at := Some t2\<rparr>))"

definition BackupJob_update_progress :: "JobProgress \<Rightarrow> datetime \<Rightarrow> BackupJob \<Rightarrow> BackupJob" where
  "BackupJob_update_progress p t j = j\<lparr>bj_progress := Some p, bj_updated_at := t\<rparr>"

definition BackupJob_add_collection_result ::
  "CollectionTarget \<Rightarrow> datetime \<Rightarrow> BackupJob \<Rightarrow> BackupJob" where
  "BackupJob_add_collection_result r t j =
     j\<lparr>bj_target_collections := bj_target_collections j @ [r], bj_updated_at := t\<rparr>"

definition BackupJob_can_be_cancelled_by :: "User \<Rightarrow> BackupJob \<Rightarrow> bool" where
  "BackupJob_can_be_cancelled_by u j =
     (if bj_status j \<in> {JobStatus.SUCCESS, JobStatus.FAILED, PARTIAL_SUCCESS, CANCELLED} then False
      else if \<not> u_is_active u then False
      else if User_has_role u UserRole.ADMIN then True
      else u_telegram_id u = bj_requester_telegram_id j)"

lemmas mark_defs =
  BackupJob_mark_queued_def BackupJob_mark_running_def BackupJob_mark_success_def
  BackupJob_mark_partial_success_def BackupJob_mark_failed_def BackupJob_mark_cancelled_def

section \<open>Operations on a job, as one step function\<close>

datatype job_op =
    Op_mark_queued
  | Op_mark_running
  | Op_mark_success
  | Op_mark_partial_success
  | Op_mark_failed "string option"
  | Op_mark_cancelled int
  | Op_update_progress JobProgress
  | Op_add_collection_result CollectionTarget
  | Op_set_output_path path
  | Op_set_queue_job_id string
  | Op_set_target_collections "CollectionTarget list"

text \<open>
  The methods, and the three attributes the services assign directly. \<open>validate_assignment\<close>
  checks the assigned value.
\<close>

fun apply_job_op :: "datetime \<Rightarrow> datetime \<Rightarrow> job_op \<Rightarrow> BackupJob \<Rightarrow> exn + BackupJob" where
  "apply_job_op t1 t2 Op_mark_queued j = BackupJob_mark_queued t1 j"
| "apply_job_op t1 t2 Op_mark_running j = BackupJob_mark_running t1 t2 j"
| "apply_job_op t1 t2 Op_mark_success j = BackupJob_mark_success t1 t2 j"
| "apply_job_op t1 t2 Op_mark_partial_success j = BackupJob_mark_partial_success t1 t2 j"
| "apply_job_op t1 t2 (Op_mark_failed e) j = BackupJob_mark_failed e t1 t2 j"
| "apply_job_op t1 t2 (Op_mark_cancelled by_id) j = BackupJob_mark_cancelled by_id t1 t2 j"
| "apply_job_op t1 t2 (Op_update_progress p) j =
     (if valid_JobProgress p then Inr (BackupJob_update_progress p t1 j)
      else Inl (ValidationError ''progress''))"
| "apply_job_op t1 t2 (Op_add_collection_result r) j =
     (if valid_CollectionTarget r then Inr (BackupJob_add_collection_result r t1 j)
      else Inl (ValidationError ''result''))"
| "apply_job_op t1 t2 (Op_set_output_path p) j = Inr (j\<lparr>bj_output_path := Some p\<rparr>)"
| "apply_job_op t1 t2 (Op_set_queue_job_id q) j = Inr (j\<lparr>bj_queue_job_id := Some q\<rparr>)"
| "apply_job_op t1 t2 (Op_set_target_collections ts) j =
     (if list_all valid_CollectionTarget ts then Inr (j\<lparr>bj_target_collections := ts\<rparr>)
      else Inl (ValidationError ''target_collections''))"

inductive job_run :: "datetime \<Rightarrow> BackupJob \<Rightarrow> bool" where
  created_full:
    "BackupJob_create_full t u job_id req hash chat topic msg = Inr j \<Longrightarrow> t \<le> u \<Longrightarrow> job_run u j"
| created_custom:
    "BackupJob_create_custom t u job_id req hash targets chat topic msg = Inr j \<Longrightarrow> t \<le> u \<Longrightarrow>
     job_run u j"
| operated:
    "job_run t j \<Longrightarrow> t \<le> t1 \<Longrightarrow> t1 \<le> t2 \<Longrightarrow> apply_job_op t1 t2 op j = Inr j' \<Longrightarrow> job_run t2 j'"

inductive_cases job_run_cases: "job_run t j"

section \<open>Lemmas\<close>

lemma transition_Inr:
  "BackupJob_transition new t j = Inr j' \<longleftrightarrow>
     (\<exists>S. VALID_TRANSITIONS (bj_status j) = Some S \<and> new \<in> S) \<and>
     j' = j\<lparr>bj_status := new, bj_updated_at := t\<rparr>"
  by (auto simp: BackupJob_transition_def split: option.splits)

lemma transition_terminal:
  "terminal (bj_status j) \<Longrightarrow> \<exists>m. BackupJob_transition new t j = Inl (DomainExn InvalidStateTransitionError m [])"
  by (cases "bj_status j") (simp_all add: terminal_def BackupJob_transition_def)

text \<open>The nine edges of the machine.\<close>

lemma transition_edges:
  "(\<exists>j'. BackupJob_transition new t j = Inr j') \<longleftrightarrow>
     (bj_status j, new) \<in>
       {(JobStatus.PENDING, QUEUED), (JobStatus.PENDING, CANCELLED),
        (QUEUED, JobStatus.RUNNING), (QUEUED, CANCELLED),
        (JobStatus.RUNNING, JobStatus.SUCCESS), (JobStatus.RUNNING, JobStatus.FAILED),
        (JobStatus.RUNNING, PARTIAL_SUCCESS), (JobStatus.RUNNING, CANCELLED)}"
  by (cases "bj_status j") (auto simp: transition_Inr)

text \<open>
  The lifecycle invariant, in three parts: the pydantic constraints; which stamps a status goes
  with; and the order of the stamps, all of them readings of a clock that stood at \<open>t\<close> last.
\<close>

definition in_span :: "datetime \<Rightarrow> datetime \<Rightarrow> datetime option \<Rightarrow> bool" where
  "in_span lo hi x = (case x of None \<Rightarrow> True | Some s \<Rightarrow> lo \<le> s \<and> s \<le> hi)"

definition stamped :: "BackupJob \<Rightarrow> bool" where
  "stamped j \<longleftrightarrow>
     (terminal (bj_status j) \<longleftrightarrow> bj_completed_at j \<noteq> None) \<and>
     (bj_status j = CANCELLED \<longleftrightarrow> bj_cancelled_by j \<noteq> None) \<and>
     (bj_status j \<in> {JobStatus.PENDING, QUEUED} \<longrightarrow> bj_started_at j = None) \<and>
     (bj_status j \<in> {JobStatus.RUNNING, JobStatus.SUCCESS, JobStatus.FAILED, PARTIAL_SUCCESS} \<longrightarrow>
        bj_started_at j \<noteq> None) \<and>
     (bj_error_log j \<noteq> None \<longrightarrow> bj_status j = JobStatus.FAILED)"

definition clocked :: "datetime \<Rightarrow> BackupJob \<Rightarrow> bool" where
  "clocked t j \<longleftrightarrow>
     bj_created_at j \<le> bj_updated_at j \<and> bj_updated_at j \<le> t \<and>
     in_span (bj_created_at j) t (bj_started_at j) \<and>
     in_span (bj_created_at j) t (bj_completed_at j) \<and>
     (case bj_started_at j of None \<Rightarrow> True | Some s \<Rightarrow> in_span s t (bj_completed_at j))"

definition lifecycle_inv :: "datetime \<Rightarrow> BackupJob \<Rightarrow> bool" where
  "lifecycle_inv t j \<longleftrightarrow> valid_BackupJob j \<and> stamped j \<and> clocked t j"

lemma in_span_simps [simp]: "in_span lo hi None" "in_span lo hi (Some s) \<longleftrightarrow> lo \<le> s \<and> s \<le> hi"
  by (simp_all add: in_span_def)

lemma in_span_mono: "in_span lo hi x \<Longrightarrow> hi \<le> hi' \<Longrightarrow> in_span lo hi' x"
  by (cases x) simp_all

lemma clocked_mono: "clocked t j \<Longrightarrow> t \<le> t' \<Longrightarrow> clocked t' j"
  by (auto simp: clocked_def intro: in_span_mono split: option.splits)

lemma new_job_inv: "new_job b ts t u i r h c tp m = Inr j \<Longrightarrow> t \<le> u \<Longrightarrow> lifecycle_inv u j"
  by (auto simp: new_job_def lifecycle_inv_def stamped_def clocked_def terminal_def)

lemma apply_job_op_valid:
  "valid_BackupJob j \<Longrightarrow> apply_job_op t1 t2 op j = Inr j' \<Longrightarrow> valid_BackupJob j'"
  by (cases op)
     (auto simp: mark_defs transition_Inr valid_BackupJob_def BackupJob_update_progress_def
        BackupJob_add_collection_result_def split: sum.splits if_splits)

lemma apply_job_op_stamped:
  "stamped j \<Longrightarrow> apply_job_op t1 t2 op j = Inr j' \<Longrightarrow> stamped j'"
  by (cases op; cases "bj_status j")
     (auto simp: mark_defs BackupJob_transition_def stamped_def terminal_def
        BackupJob_update_progress_def BackupJob_add_collection_result_def split: if_splits)

text \<open>Which stamps an operation writes; a start is only stamped on a job that has not ended.\<close>

lemma apply_job_op_stamps:
  "stamped j \<Longrightarrow> apply_job_op t1 t2 op j = Inr j' \<Longrightarrow>
     bj_created_at j' = bj_created_at j \<and> bj_updated_at j' \<in> {bj_updated_at j, t1} \<and>
     (bj_started_at j' = bj_started_at j \<and> bj_completed_at j' \<in> {bj_completed_at j, Some t2} \<or>
      bj_started_at j' = Some t2 \<and> bj_completed_at j' = None)"
  by (cases op; cases "bj_status j")
     (auto simp: mark_defs BackupJob_transition_def stamped_def terminal_def
        BackupJob_update_progress_def BackupJob_add_collection_result_def split: if_splits)

lemma apply_job_op_clocked:
  assumes c: "clocked t j" and st: "stamped j" and le: "t \<le> t1" "t1 \<le> t2"
    and step: "apply_job_op t1 t2 op j = Inr j'"
  shows "clocked t2 j'"
proof -
  have tt: "t \<le> t2" and c2: "clocked t2 j"
    using c le clocked_mono [of t j t2] by simp_all
  have bound: "bj_created_at j \<le> t" "in_span (bj_created_at j) t (bj_started_at j)"
    using c by (simp_all add: clocked_def)
  have span: "in_span lo t x \<Longrightarrow> (case x of None \<Rightarrow> True | Some s \<Rightarrow> s \<le> t2)" for lo x
    using tt by (cases x) simp_all
  show ?thesis
    using apply_job_op_stamps [OF st step] c2 bound span [OF bound(2)] le tt
    by (cases "bj_started_at j")
       (elim conjE disjE insertE emptyE; simp add: clocked_def)+
qed

lemma apply_job_op_inv:
  assumes "lifecycle_inv t j" and "t \<le> t1" "t1 \<le> t2" and "apply_job_op t1 t2 op j = Inr j'"
  shows "lifecycle_inv t2 j'"
  using assms apply_job_op_valid apply_job_op_stamped apply_job_op_clocked
  unfolding lifecycle_inv_def by blast

lemma job_run_inv: "job_run t j \<Longrightarrow> lifecycle_inv t j"
proof (induction rule: job_run.induct)
  case created_full
  then show ?case by (auto simp: BackupJob_create_full_def intro: new_job_inv)
next
  case created_custom
  then show ?case by (auto simp: BackupJob_create_custom_def intro: new_job_inv)
next
  case operated
  then show ?case by (blast intro: apply_job_op_inv)
qed

text \<open>No operation changes the status of a terminal job.\<close>

lemma apply_job_op_terminal:
  "terminal (bj_status j) \<Longrightarrow> apply_job_op t1 t2 op j = Inr j' \<Longrightarrow> bj_status j' = bj_status j"
  by (cases op; cases "bj_status j")
     (auto simp: terminal_def mark_defs BackupJob_transition_def BackupJob_update_progress_def
        BackupJob_add_collection_result_def split: if_splits)

lemma can_be_cancelled_by_iff:
  "BackupJob_can_be_cancelled_by u j \<longleftrightarrow>
     \<not> terminal (bj_status j) \<and> u_is_active u \<and>
     (u_role u = UserRole.ADMIN \<or> u_telegram_id u = bj_requester_telegram_id j)"
  by (auto simp: BackupJob_can_be_cancelled_by_def User_has_role_def terminal_def)

text \<open>Whoever may cancel a job will not meet an illegal transition.\<close>

lemma mark_cancelled_nonterminal:
  "\<not> terminal (bj_status j) \<Longrightarrow>
   BackupJob_mark_cancelled by_id t1 t2 j =
     Inr (j\<lparr>bj_status := CANCELLED, bj_updated_at := t1, bj_cancelled_by := Some by_id,
            bj_completed_at := Some t2\<rparr>)"
  by (cases "bj_status j")
     (simp_all add: terminal_def BackupJob_mark_cancelled_def BackupJob_transition_def)

section \<open>Properties\<close>

text \<open>C11. The lifecycle invariant: whatever sequence of operations a job has been through, it satisfies
  its field constraints; it carries a completion time exactly when its status is terminal, a
  canceller exactly when it was cancelled, a start time when it has run, an error log only when it
  failed; and its time stamps are in order and not in the future.\<close>

theorem job_lifecycle_invariant:
  "job_run t j \<Longrightarrow>
     valid_BackupJob j \<and>
     (terminal (bj_status j) \<longleftrightarrow> bj_completed_at j \<noteq> None) \<and>
     (bj_status j = CANCELLED \<longleftrightarrow> bj_cancelled_by j \<noteq> None) \<and>
     (bj_status j \<in> {JobStatus.PENDING, QUEUED} \<longrightarrow> bj_started_at j = None) \<and>
     (bj_status j \<in> {JobStatus.RUNNING, JobStatus.SUCCESS, JobStatus.FAILED, PARTIAL_SUCCESS} \<longrightarrow>
        bj_started_at j \<noteq> None) \<and>
     (bj_error_log j \<noteq> None \<longrightarrow> bj_status j = JobStatus.FAILED) \<and>
     bj_created_at j \<le> bj_updated_at j \<and> bj_updated_at j \<le> t \<and>
     (\<forall>s. bj_started_at j = Some s \<longrightarrow> bj_created_at j \<le> s \<and> s \<le> t) \<and>
     (\<forall>c. bj_completed_at j = Some c \<longrightarrow> bj_created_at j \<le> c \<and> c \<le> t \<and>
        (\<forall>s. bj_started_at j = Some s \<longrightarrow> s \<le> c))"
  using job_run_inv [of t j]
  by (cases "bj_started_at j"; cases "bj_completed_at j")
     (simp_all add: lifecycle_inv_def stamped_def clocked_def)

lemma job_lifecycle_invariant_witness:
  "\<exists>j. job_run 40 j \<and> bj_status j = JobStatus.FAILED \<and> bj_error_log j = Some ''boom'' \<and>
     bj_completed_at j \<noteq> None \<and> bj_updated_at j \<le> 40"
proof -
  let ?hash = "replicate 64 (CHR ''a'')"
  let ?c = "BackupJob_create_full 10 11 ''j1'' 7 ?hash None None None"
  let ?q = "apply_job_op 12 12 Op_mark_queued (projr ?c)"
  let ?r = "apply_job_op 20 21 Op_mark_running (projr ?q)"
  let ?f = "apply_job_op 39 40 (Op_mark_failed (Some ''boom'')) (projr ?r)"
  have e: "?c = Inr (projr ?c)" "?q = Inr (projr ?q)" "?r = Inr (projr ?r)" "?f = Inr (projr ?f)"
    by code_simp+
  have "job_run 11 (projr ?c)" by (rule created_full [OF e(1)]) simp
  then have "job_run 12 (projr ?q)" by (rule operated [OF _ _ _ e(2)]) simp_all
  then have "job_run 21 (projr ?r)" by (rule operated [OF _ _ _ e(3)]) simp_all
  then have run: "job_run 40 (projr ?f)" by (rule operated [OF _ _ _ e(4)]) simp_all
  moreover have st: "bj_status (projr ?f) = JobStatus.FAILED" "bj_error_log (projr ?f) = Some ''boom''"
    by code_simp+
  ultimately show ?thesis
    using job_lifecycle_invariant [OF run] by (intro exI [of _ "projr ?f"]) (simp add: terminal_def)
qed

text \<open>The state machine: a status change succeeds exactly along its eight edges, stamps
  \<open>updated_at\<close> and changes nothing else; every other one raises
  \<open>InvalidStateTransitionError\<close>.\<close>

lemma job_transitions:
  "BackupJob_transition new t j =
     (if (bj_status j, new) \<in>
           {(JobStatus.PENDING, QUEUED), (JobStatus.PENDING, CANCELLED),
            (QUEUED, JobStatus.RUNNING), (QUEUED, CANCELLED),
            (JobStatus.RUNNING, JobStatus.SUCCESS), (JobStatus.RUNNING, JobStatus.FAILED),
            (JobStatus.RUNNING, PARTIAL_SUCCESS), (JobStatus.RUNNING, CANCELLED)}
      then Inr (j\<lparr>bj_status := new, bj_updated_at := t\<rparr>)
      else Inl (DomainExn InvalidStateTransitionError
             (''Illegal transition from '' @ status_value (bj_status j) @ '' to ''
                @ status_value new) []))"
  by (cases "bj_status j") (auto simp: BackupJob_transition_def)

text \<open>C12. Terminal jobs stay as they ended: no operation that returns changes the status of a terminal
  job, its completion time, its canceller or its error log.\<close>

theorem job_terminal_absorbing:
  "terminal (bj_status j) \<Longrightarrow> apply_job_op t1 t2 op j = Inr j' \<Longrightarrow>
     bj_status j' = bj_status j \<and> bj_completed_at j' = bj_completed_at j \<and>
     bj_cancelled_by j' = bj_cancelled_by j \<and> bj_error_log j' = bj_error_log j"
  by (cases op; cases "bj_status j")
     (auto simp: terminal_def mark_defs BackupJob_transition_def BackupJob_update_progress_def
        BackupJob_add_collection_result_def split: if_splits)

lemma job_terminal_absorbing_witness:
  "\<exists>j j'. terminal (bj_status j) \<and> apply_job_op 50 50 (Op_set_queue_job_id ''q'') j = Inr j' \<and>
     bj_status j' = CANCELLED"
proof -
  let ?c = "BackupJob_create_full 10 11 ''j1'' 7 (replicate 64 (CHR ''a'')) None None None"
  let ?x = "apply_job_op 12 12 (Op_mark_cancelled 7) (projr ?c)"
  have st: "bj_status (projr ?x) = CANCELLED" by code_simp
  have op: "apply_job_op 50 50 (Op_set_queue_job_id ''q'') (projr ?x) =
      Inr ((projr ?x)\<lparr>bj_queue_job_id := Some ''q''\<rparr>)" by simp
  have t: "terminal (bj_status (projr ?x))" using st by (simp add: terminal_def)
  from job_terminal_absorbing [OF t op] st t op show ?thesis by metis
qed

end
