(* ===== verification/IpAddress.thy ===== *)
theory IpAddress
  imports Prelude
begin

text \<open>
  \<open>ipaddress.ip_address\<close> of the standard library as a test, for the validator \<open>_validate_ip_address\<close> of
  \<^verbatim>\<open>app/domain/entities/audit_log.py\<close>: four decimal octets, or eight groups of hexadecimal digits of which one run may be
  left out and the last two may be written as an IPv4 address, with an optional zone.
\<close>

definition ipv4_octet :: "string \<Rightarrow> bool" where
  "ipv4_octet w \<longleftrightarrow>
     w \<noteq> [] \<and> list_all is_digit w \<and> length w \<le> 3 \<and> (w = ''0'' \<or> hd w \<noteq> CHR ''0'') \<and>
     foldl (\<lambda>n c. 10 * n + digit_value c) 0 w \<le> 255"

definition is_ipv4 :: "string \<Rightarrow> bool" where
  "is_ipv4 s \<longleftrightarrow> (let ws = split_on (CHR ''.'') s in length ws = 4 \<and> list_all ipv4_octet ws)"

definition is_hextet :: "string \<Rightarrow> bool" where
  "is_hextet w \<longleftrightarrow>
     w \<noteq> [] \<and> length w \<le> 4 \<and>
     list_all (\<lambda>c. is_digit c \<or> (let n = of_char c :: nat in (97 \<le> n \<and> n \<le> 102) \<or> (65 \<le> n \<and> n \<le> 70))) w"

text \<open>The parts between the colons: at most one inner part is empty, the left out run; an empty part at an end belongs to it.\<close>

definition ipv6_parts :: "string list \<Rightarrow> bool" where
  "ipv6_parts ps \<longleftrightarrow>
     length ps \<le> 9 \<and>
     (case filter (\<lambda>i. ps ! i = []) [1..<length ps - 1] of
        [] \<Rightarrow> length ps = 8 \<and> list_all is_hextet ps
      | [k] \<Rightarrow>
          (let hi = (if hd ps = [] then k - 1 else k);
               lo = (if last ps = [] then length ps - k - 2 else length ps - k - 1) in
           (hd ps = [] \<longrightarrow> hi = 0) \<and> (last ps = [] \<longrightarrow> lo = 0) \<and> hi + lo \<le> 7 \<and>
           list_all is_hextet (take hi ps) \<and> list_all is_hextet (drop (length ps - lo) ps))
      | _ \<Rightarrow> False)"

definition is_ipv6 :: "string \<Rightarrow> bool" where
  "is_ipv6 s \<longleftrightarrow>
     CHR ''/'' \<notin> set s \<and>
     (let addr = takeWhile (\<lambda>c. c \<noteq> CHR ''%'') s; zone = drop (length addr) s; ps = split_on (CHR '':'') addr in
      (zone = [] \<or> tl zone \<noteq> [] \<and> CHR ''%'' \<notin> set (tl zone)) \<and> 3 \<le> length ps \<and>
      (if CHR ''.'' \<in> set (last ps) then is_ipv4 (last ps) \<and> ipv6_parts (butlast ps @ [''0'', ''0'']) else ipv6_parts ps))"

definition is_ip_address :: "string \<Rightarrow> bool" where
  "is_ip_address s \<longleftrightarrow> is_ipv4 s \<or> is_ipv6 s"

lemma ip_samples:
  "list_all is_ip_address [''127.0.0.1'', ''::'', ''::1'', ''2001:db8::1'', ''1::'', ''fe80::1%eth0'', ''::ffff:1.2.3.4'', ''1:2:3:4:5:6:7:8'']"
  "\<not> list_ex is_ip_address [[], ''01.2.3.4'', ''256.0.0.1'', ''1.2.3'', '':1::2'', '':::'', ''1::2::3'', ''1:2:3:4:5:6:7'', ''::1/64'', ''::1%'', ''12345::'']"
  by code_simp+

end
