(* ===== verification/Ports.thy ===== *)
theory Ports
  imports Jobs IpAddress
begin

text \<open>
  The interfaces the application layer is written against: the protocols of
  \<^verbatim>\<open>app/domain/repositories/repositories.py\<close> and \<^verbatim>\<open>app/application/ports/ports.py\<close>, each a record
  with one field per method. A method is a computation on the state \<open>'s\<close> of everything outside
  the caller: databases, Redis, file system, Telegram, clock. An adapter of the program is a value
  of such a record (theories \<open>LockManager\<close>, \<open>RateLimit\<close>, \<open>JobStore\<close>, \<open>UserStore\<close>,
  \<open>AuditStore\<close>, \<open>Engine\<close>); for a service that is not part of the repository it is a
  parameter.

  Also here: the two entities those protocols mention (\<open>AuditLog\<close>, \<open>SizeReport\<close>), the
  standard-library readings (clock, \<open>uuid4\<close>), and the frame condition \<open>frames\<close>: a computation
  leaves a view of the state alone, whatever its outcome.
\<close>

section \<open>Frames\<close>

definition frames :: "('s \<Rightarrow> 'v) \<Rightarrow> ('s, 'e, 'a) em \<Rightarrow> bool" where
  "frames view m \<longleftrightarrow> (\<forall>s. view (snd (m s)) = view s)"

named_theorems frame_intros "frame rules of the computations"

lemma framesD: "frames view m \<Longrightarrow> m s = (r, s') \<Longrightarrow> view s' = view s"
  by (metis frames_def snd_conv)

lemma frames_keeps: "frames view m \<Longrightarrow> keeps (\<lambda>s. P (view s)) m"
  by (simp add: frames_def keeps_def)

lemma frames_comp: "frames view m \<Longrightarrow> frames (\<lambda>s. f (view s)) m"
  by (simp add: frames_def)

lemma frames_iff_keeps: "frames view m \<longleftrightarrow> (\<forall>v. keeps (\<lambda>s. view s = v) m)"
  by (auto simp: frames_def keeps_def)

lemma frames_basic [frame_intros]:
  "frames view (returnM x)" "frames view (raiseM e)" "frames view (liftE r)"
  "frames view (raise_domain c msg d)"
  by (simp_all add: frames_def)

lemma frames_bindM [frame_intros]:
  "frames view m \<Longrightarrow> (\<And>x. frames view (f x)) \<Longrightarrow> frames view (bindM m f)"
  by (simp add: frames_iff_keeps keeps_bindM)

lemma frames_thenM [frame_intros]:
  "frames view m \<Longrightarrow> frames view n \<Longrightarrow> frames view (thenM m n)"
  by (simp add: thenM_def frames_bindM)

lemma frames_tryM [frame_intros]:
  "frames view m \<Longrightarrow> (\<And>e. frames view (h e)) \<Longrightarrow> frames view (tryM m h)"
  by (simp add: frames_iff_keeps keeps_tryM)

lemma frames_finallyM [frame_intros]:
  "frames view m \<Longrightarrow> frames view f \<Longrightarrow> frames view (finallyM m f)"
  by (simp add: frames_iff_keeps keeps_finallyM)

lemma frames_whenM [frame_intros]: "frames view m \<Longrightarrow> frames view (whenM b m)"
  by (simp add: whenM_def frames_basic)

lemma frames_if [frame_intros]:
  "(b \<Longrightarrow> frames view m) \<Longrightarrow> (\<not> b \<Longrightarrow> frames view n) \<Longrightarrow> frames view (if b then m else n)"
  by simp

lemma frames_case_option [frame_intros]:
  "frames view m \<Longrightarrow> (\<And>x. frames view (f x)) \<Longrightarrow>
   frames view (case z of None \<Rightarrow> m | Some x \<Rightarrow> f x)"
  by (cases z) auto

lemma frames_case_prod [frame_intros]:
  "(\<And>x y. frames view (f x y)) \<Longrightarrow> frames view (case z of (x, y) \<Rightarrow> f x y)"
  by (cases z) simp

lemma frames_mapM_list [frame_intros]:
  "(\<And>x. frames view (f x)) \<Longrightarrow> frames view (mapM_list f xs)"
  by (induction xs) (auto intro!: frame_intros)

section \<open>Outcomes\<close>

text \<open>
  \<open>triple P m Q E\<close>: from a state in \<open>P\<close>, \<open>m\<close> returns in \<open>Q\<close> or raises in \<open>E\<close>. The rules
  with \<open>stays view v\<close> run a computation whose first part leaves \<open>view\<close> alone.
\<close>

definition triple ::
  "('s \<Rightarrow> bool) \<Rightarrow> ('s, 'e, 'a) em \<Rightarrow> ('a \<Rightarrow> 's \<Rightarrow> bool) \<Rightarrow> ('e \<Rightarrow> 's \<Rightarrow> bool) \<Rightarrow> bool" where
  "triple P m Q E \<longleftrightarrow>
     (\<forall>s. P s \<longrightarrow> (case m s of (Inl e, s') \<Rightarrow> E e s' | (Inr x, s') \<Rightarrow> Q x s'))"

definition stays :: "('s \<Rightarrow> 'v) \<Rightarrow> 'v \<Rightarrow> 's \<Rightarrow> bool" where
  "stays view v s \<longleftrightarrow> view s = v"

lemma tripleD:
  "triple P m Q E \<Longrightarrow> P s \<Longrightarrow> m s = (x, s') \<Longrightarrow>
   (case x of Inl e \<Rightarrow> E e s' | Inr y \<Rightarrow> Q y s')"
  by (fastforce simp: triple_def split: sum.splits)

lemma tripleI:
  "(\<And>s x s'. P s \<Longrightarrow> m s = (x, s') \<Longrightarrow> (case x of Inl e \<Rightarrow> E e s' | Inr y \<Rightarrow> Q y s')) \<Longrightarrow>
   triple P m Q E"
  by (fastforce simp: triple_def split: prod.splits sum.splits)

lemma triple_conseq:
  "triple P' m Q' E' \<Longrightarrow> (\<And>s. P s \<Longrightarrow> P' s) \<Longrightarrow> (\<And>x s. Q' x s \<Longrightarrow> Q x s) \<Longrightarrow>
   (\<And>e s. E' e s \<Longrightarrow> E e s) \<Longrightarrow> triple P m Q E"
  by (fastforce simp: triple_def split: prod.splits sum.splits)

lemma triple_bind:
  "triple P m R E \<Longrightarrow> (\<And>x. triple (R x) (f x) Q E) \<Longrightarrow> triple P (bindM m f) Q E"
  by (fastforce simp: triple_def bindM_def split: prod.splits sum.splits)

lemma triple_then:
  "triple P m (\<lambda>_. R) E \<Longrightarrow> triple R n Q E \<Longrightarrow> triple P (thenM m n) Q E"
  unfolding thenM_def by (rule triple_bind)

lemma triple_basic:
  "(\<And>s. P s \<Longrightarrow> Q x s) \<Longrightarrow> triple P (returnM x) Q E"
  "(\<And>s. P s \<Longrightarrow> E e s) \<Longrightarrow> triple P (raiseM e) Q E"
  "(\<And>s. P s \<Longrightarrow> E (DomainExn c msg d) s) \<Longrightarrow> triple P (raise_domain c msg d) Q (E :: exn \<Rightarrow> _)"
  "(\<And>s. P s \<Longrightarrow> case r of Inl e \<Rightarrow> E e s | Inr y \<Rightarrow> Q y s) \<Longrightarrow> triple P (liftE r) Q E"
  by (auto simp: triple_def split: sum.splits)

lemma triple_frame:
  "frames view m \<Longrightarrow> triple (stays view v) m (\<lambda>_. stays view v) (\<lambda>_. stays view v)"
  by (auto simp: triple_def stays_def split: prod.splits sum.splits dest: framesD)

lemma triple_bind_frame:
  "frames view m \<Longrightarrow> (\<And>e s. stays view v s \<Longrightarrow> E e s) \<Longrightarrow> (\<And>x. triple (stays view v) (f x) Q E) \<Longrightarrow>
   triple (stays view v) (bindM m f) Q E"
  by (rule triple_bind [where R = "\<lambda>_. stays view v"], rule triple_conseq [OF triple_frame]) auto

lemma triple_then_frame:
  "frames view m \<Longrightarrow> (\<And>e s. stays view v s \<Longrightarrow> E e s) \<Longrightarrow> triple (stays view v) n Q E \<Longrightarrow>
   triple (stays view v) (thenM m n) Q E"
  unfolding thenM_def by (rule triple_bind_frame)

lemma triple_bind_lift:
  "(\<And>e s. r = Inl e \<Longrightarrow> P s \<Longrightarrow> E e s) \<Longrightarrow> (\<And>y. r = Inr y \<Longrightarrow> triple P (f y) Q E) \<Longrightarrow>
   triple P (bindM (liftE r) f) Q E"
  by (cases r) (auto simp: triple_def bindM_def)

lemma triple_then_when:
  "(\<And>s. P s \<Longrightarrow> b \<Longrightarrow> E (DomainExn c msg d) s) \<Longrightarrow> (\<not> b \<Longrightarrow> triple P n Q E) \<Longrightarrow>
   triple P (thenM (whenM b (raise_domain c msg d)) n) Q E"
  by (cases b) (auto simp: triple_def thenM_def bindM_def whenM_def)

lemma triple_ex:
  assumes "\<And>k. triple (P k) m Q E"
  shows "triple (\<lambda>s. \<exists>k. P k s) m Q E"
  using assms by (intro tripleI) (blast intro: tripleD)

lemma triple_pure:
  assumes "b \<Longrightarrow> triple P m Q E"
  shows "triple (\<lambda>s. b \<and> P s) m Q E"
  using assms by (intro tripleI) (blast intro: tripleD)

lemma triple_frame_end:
  "frames view m \<Longrightarrow> (\<And>x s. stays view v s \<Longrightarrow> Q x s) \<Longrightarrow> (\<And>e s. stays view v s \<Longrightarrow> E e s) \<Longrightarrow>
   triple (stays view v) m Q E"
  by (rule triple_conseq [OF triple_frame])

section \<open>Entities the protocols mention\<close>

record AuditLog =
  al_id :: "int option"
  al_telegram_id :: int
  al_action :: string
  al_topic :: string
  al_command :: "string option"
  al_job_id :: "string option"
  al_cluster_uri_hash :: "string option"
  al_databases :: "string list option"
  al_collections :: "string list option"
  al_result :: string
  al_duration_ms :: "int option"
  al_ip_address :: "string option"
  al_user_agent :: "string option"
  al_timestamp :: datetime
  al_details :: "pydict option"

definition valid_AuditLog :: "AuditLog \<Rightarrow> bool" where
  "valid_AuditLog a \<longleftrightarrow>
     0 < al_telegram_id a \<and> al_action a \<noteq> [] \<and> al_topic a \<noteq> [] \<and>
     (case al_cluster_uri_hash a of None \<Rightarrow> True | Some h \<Rightarrow> is_sha256_hex h) \<and>
     al_result a \<noteq> [] \<and> opt_ge0 (al_duration_ms a) \<and>
     (case al_ip_address a of None \<Rightarrow> True | Some ip \<Rightarrow> is_ip_address ip)"

record CollectionSize =
  cs_database :: string
  cs_collection :: string
  cs_size_bytes :: int
  cs_document_count :: int

definition valid_CollectionSize :: "CollectionSize \<Rightarrow> bool" where
  "valid_CollectionSize c \<longleftrightarrow>
     cs_database c \<noteq> [] \<and> cs_collection c \<noteq> [] \<and> 0 \<le> cs_size_bytes c \<and>
     0 \<le> cs_document_count c"

record DatabaseSize =
  ds_database :: string
  ds_size_bytes :: int
  ds_collection_count :: int

definition valid_DatabaseSize :: "DatabaseSize \<Rightarrow> bool" where
  "valid_DatabaseSize d \<longleftrightarrow>
     ds_database d \<noteq> [] \<and> 0 \<le> ds_size_bytes d \<and> 0 \<le> ds_collection_count d"

record SizeReport =
  sr_cluster_uri_hash :: string
  sr_timestamp :: datetime
  sr_databases :: "DatabaseSize list"
  sr_collections :: "CollectionSize list"

definition valid_SizeReport :: "SizeReport \<Rightarrow> bool" where
  "valid_SizeReport r \<longleftrightarrow>
     is_sha256_hex (sr_cluster_uri_hash r) \<and> list_all valid_DatabaseSize (sr_databases r) \<and>
     list_all valid_CollectionSize (sr_collections r)"

definition SizeReport_total_size_bytes :: "SizeReport \<Rightarrow> int" where
  "SizeReport_total_size_bytes r = sum_list (map ds_size_bytes (sr_databases r))"

definition SizeReport_total_document_count :: "SizeReport \<Rightarrow> int" where
  "SizeReport_total_document_count r = sum_list (map cs_document_count (sr_collections r))"

definition SizeReport_collection_count :: "SizeReport \<Rightarrow> nat" where
  "SizeReport_collection_count r = length (sr_collections r)"

definition SizeReport_database_count :: "SizeReport \<Rightarrow> nat" where
  "SizeReport_database_count r = length (sr_databases r)"

section \<open>Clock and identifiers\<close>

text \<open>
  \<open>rt_now\<close> is \<open>datetime.now(timezone.utc)\<close>, \<open>rt_monotonic\<close> is \<open>time.monotonic()\<close> (both in
  microseconds), \<open>rt_uuid_hex\<close> is \<open>uuid.uuid4().hex\<close> and \<open>rt_uuid_str\<close> is
  \<open>str(uuid.uuid4())\<close>.
\<close>

record 's Runtime =
  rt_now :: "('s, datetime) M"
  rt_monotonic :: "('s, int) M"
  rt_uuid_hex :: "('s, string) M"
  rt_uuid_str :: "('s, string) M"
  rt_sleep_ms :: "int \<Rightarrow> ('s, unit) M"

text \<open>The standard library's clock and identifiers raise nothing and touch none of the stores.\<close>

definition runtime_frames :: "('s \<Rightarrow> 'v) \<Rightarrow> 's Runtime \<Rightarrow> bool" where
  "runtime_frames view rt \<longleftrightarrow>
     frames view (rt_now rt) \<and> frames view (rt_monotonic rt) \<and> frames view (rt_uuid_hex rt) \<and>
     frames view (rt_uuid_str rt) \<and> (\<forall>n. frames view (rt_sleep_ms rt n))"

lemma runtime_framesD [frame_intros]:
  assumes "runtime_frames view rt"
  shows "frames view (rt_now rt)" "frames view (rt_monotonic rt)"
    "frames view (rt_uuid_hex rt)" "frames view (rt_uuid_str rt)"
    "frames view (rt_sleep_ms rt n)"
  using assms by (simp_all add: runtime_frames_def)

section \<open>Repositories\<close>

record 's IUserRepository =
  ur_get_by_telegram_id :: "int \<Rightarrow> ('s, User option) M"
  ur_list_all :: "int \<Rightarrow> int \<Rightarrow> ('s, User list) M" \<comment> \<open>page, page\_size\<close>
  ur_count_all :: "('s, int) M"
  ur_save :: "User \<Rightarrow> ('s, unit) M"
  ur_update_role :: "int \<Rightarrow> UserRole \<Rightarrow> ('s, User option) M"
  ur_toggle_active :: "int \<Rightarrow> ('s, User option) M"

record job_stats =
  st_jobs_today :: int
  st_jobs_week :: int
  st_jobs_month :: int
  st_success_rate_percent :: int \<comment> \<open>hundredths of a percent\<close>
  st_avg_duration_seconds :: "int option" \<comment> \<open>hundredths of a second\<close>

record 's IJobRepository =
  jr_get_by_id :: "string \<Rightarrow> ('s, BackupJob option) M"
  jr_list_by_user :: "int \<Rightarrow> JobStatus option \<Rightarrow> int \<Rightarrow> int \<Rightarrow> ('s, BackupJob list) M"
  jr_list_by_status :: "JobStatus option \<Rightarrow> int \<Rightarrow> int \<Rightarrow> ('s, BackupJob list) M"
  jr_count_by_status :: "JobStatus \<Rightarrow> ('s, int) M"
  jr_save :: "BackupJob \<Rightarrow> ('s, unit) M"
  jr_clear_session_cache :: "('s, unit) M"
  jr_get_job_stats :: "('s, job_stats) M"

record 's IAuditRepository =
  ar_log :: "AuditLog \<Rightarrow> ('s, unit) M"
  ar_list_by_user :: "int \<Rightarrow> int \<Rightarrow> int \<Rightarrow> ('s, AuditLog list) M"
  ar_list_by_job :: "string \<Rightarrow> int \<Rightarrow> int \<Rightarrow> ('s, AuditLog list) M"
  ar_list_by_date_range :: "datetime \<Rightarrow> datetime \<Rightarrow> int \<Rightarrow> int \<Rightarrow> ('s, AuditLog list) M"

record 's IRateLimitRepository =
  rl_check_limit :: "int \<Rightarrow> string \<Rightarrow> int \<Rightarrow> int \<Rightarrow> ('s, bool) M"
  rl_increment :: "int \<Rightarrow> string \<Rightarrow> int \<Rightarrow> ('s, int) M"
  rl_reset :: "int \<Rightarrow> string \<Rightarrow> ('s, unit) M"

section \<open>Ports\<close>

record 's IBackupEngine =
  be_backup_collection :: "string \<Rightarrow> string \<Rightarrow> path \<Rightarrow> ('s, CollectionTarget) M"
  be_get_version :: "('s, string) M"
  be_validate_connection :: "string \<Rightarrow> ('s, bool) M"

text \<open>
  A message to a chat. The texts are Spanish sentences with emoji; \<open>text_line\<close> names the
  lines the execution use case builds and carries their values.
\<close>

datatype text_line =
    TxtProgressHeader
  | TxtFinishedHeader JobStatus
  | TxtJobId string
  | TxtStatus string
  | TxtCollections int int
  | TxtFailed int
  | TxtPercent int
  | TxtProcessed int
  | TxtTotalSize int
  | TxtOther string

record 's INotifier =
  no_send_message :: "int \<Rightarrow> text_line list \<Rightarrow> int option \<Rightarrow> ('s, unit) M" \<comment> \<open>chat, text, topic\<close>
  no_edit_message :: "int \<Rightarrow> int \<Rightarrow> text_line list \<Rightarrow> ('s, unit) M" \<comment> \<open>chat, message, text\<close>
  no_send_document :: "int \<Rightarrow> path \<Rightarrow> text_line list option \<Rightarrow> int option \<Rightarrow> ('s, unit) M"

record 's IJobQueue =
  jq_enqueue :: "string \<Rightarrow> string \<Rightarrow> pydict \<Rightarrow> string \<Rightarrow> ('s, string) M"
    \<comment> \<open>job\_id, job\_type, payload, priority\<close>
  jq_get_status :: "string \<Rightarrow> ('s, string option) M"
  jq_cancel_job :: "string \<Rightarrow> ('s, bool) M"

record 's ILockManager =
  lm_acquire :: "string \<Rightarrow> int \<Rightarrow> ('s, string option) M"
  lm_release :: "string \<Rightarrow> string \<Rightarrow> ('s, bool) M"
  lm_is_locked :: "string \<Rightarrow> ('s, bool) M"

record 's IFsUtils =
  fs_ensure_dir :: "path \<Rightarrow> ('s, unit) M"
  fs_write_text :: "path \<Rightarrow> string \<Rightarrow> ('s, unit) M"
  fs_get_folder_size :: "path \<Rightarrow> ('s, int) M"
  fs_get_disk_usage :: "path \<Rightarrow> ('s, int \<times> int \<times> int) M" \<comment> \<open>total, used, free\<close>
  fs_compress :: "path \<Rightarrow> path \<Rightarrow> ('s, unit) M"
  fs_delete :: "path \<Rightarrow> ('s, unit) M"
  fs_list_files :: "path \<Rightarrow> string \<Rightarrow> ('s, path list) M"
  fs_list_files_recursive :: "path \<Rightarrow> string \<Rightarrow> ('s, path list) M"
  fs_get_modification_time :: "path \<Rightarrow> ('s, datetime) M"

record deletion_summary =
  dl_deleted_count :: int
  dl_reclaimed_bytes :: int
  dl_errors :: "string list"

record storage_stats =
  ss_disk_total_bytes :: int
  ss_disk_used_bytes :: int
  ss_disk_free_bytes :: int
  ss_backup_size_bytes :: int
  ss_backup_file_count :: nat

record 's IRetentionManager =
  rm_apply_policy :: "('s, deletion_summary) M"
  rm_get_storage_stats :: "('s, storage_stats) M"

record 's IHealth =
  hp_ping :: "('s, bool) M"

record 's IMongoMetadata =
  mm_list_databases :: "string \<Rightarrow> ('s, string list) M"
  mm_list_collections :: "string \<Rightarrow> string \<Rightarrow> ('s, string list) M"
  mm_get_size_stats :: "string \<Rightarrow> ('s, SizeReport) M"

section \<open>The job repository contract\<close>

text \<open>
  What the services rely on. \<open>jobs\<close> reads the rows of a state as entities; \<open>persist s j\<close> is
  what reads back after storing \<open>j\<close> in \<open>s\<close>: the job itself, except that the creation time
  and, for a job without progress, the progress are those of the row it updates, and that the
  percentage is recomputed. \<open>wf\<close> are the jobs that survive the mapping, \<open>clean s i\<close> says that
  the row of \<open>i\<close>, if there is one, reads back. A save that raises may have been applied.
\<close>

definition same_progress :: "JobProgress \<Rightarrow> JobProgress \<Rightarrow> bool" where
  "same_progress p q \<longleftrightarrow>
     jp_total_collections p = jp_total_collections q \<and>
     jp_completed_collections p = jp_completed_collections q \<and>
     jp_failed_collections p = jp_failed_collections q \<and>
     jp_retry_count p = jp_retry_count q \<and> jp_bytes_processed p = jp_bytes_processed q"

definition same_job :: "BackupJob \<Rightarrow> BackupJob \<Rightarrow> bool" where
  "same_job k j \<longleftrightarrow>
     (\<exists>c p. k = j\<lparr>bj_created_at := c, bj_progress := p\<rparr> \<and>
        (case bj_progress j of None \<Rightarrow> True | Some q \<Rightarrow> \<exists>p'. p = Some p' \<and> same_progress p' q))"

locale job_repository =
  fixes repo :: "'s IJobRepository"
    and jobs :: "'s \<Rightarrow> string \<Rightarrow> BackupJob option"
    and persist :: "'s \<Rightarrow> BackupJob \<Rightarrow> BackupJob"
    and wf :: "BackupJob \<Rightarrow> bool"
    and clean :: "'s \<Rightarrow> string \<Rightarrow> bool"
  assumes get_value: "jr_get_by_id repo i s = (Inr r, s') \<Longrightarrow> r = jobs s i"
    and get_frame: "frames jobs (jr_get_by_id repo i)"
    and clear_frame: "frames jobs (jr_clear_session_cache repo)"
    and list_frame: "frames jobs (jr_list_by_status repo st p n)"
    and save_done: "jr_save repo j s = (Inr u, s') \<Longrightarrow> wf j \<Longrightarrow> clean s (bj_id j) \<Longrightarrow>
      jobs s' = (jobs s)(bj_id j \<mapsto> persist s j)"
    and save_failed: "jr_save repo j s = (Inl e, s') \<Longrightarrow> wf j \<Longrightarrow> clean s (bj_id j) \<Longrightarrow>
      jobs s' = jobs s \<or> jobs s' = (jobs s)(bj_id j \<mapsto> persist s j)"
    and persist_same: "wf j \<Longrightarrow> clean s (bj_id j) \<Longrightarrow> same_job (persist s j) j"
    and jobs_wf: "jobs s i = Some j \<Longrightarrow> wf j \<and> bj_id j = i \<and> clean s i"
begin

lemma get_run: "jr_get_by_id repo i s = (r, s') \<Longrightarrow> jobs s' = jobs s"
  using get_frame by (rule framesD)

lemma save_any:
  "jr_save repo j s = (r, s') \<Longrightarrow> wf j \<Longrightarrow> clean s (bj_id j) \<Longrightarrow>
   jobs s' = jobs s \<or> jobs s' = (jobs s)(bj_id j \<mapsto> persist s j)"
  by (cases r) (auto dest: save_done save_failed)

lemma save_other:
  "jr_save repo j s = (r, s') \<Longrightarrow> wf j \<Longrightarrow> clean s (bj_id j) \<Longrightarrow> i \<noteq> bj_id j \<Longrightarrow> jobs s' i = jobs s i"
  using save_any [of j s r s'] by auto

lemma save_then_get:
  assumes "jr_save repo j s = (Inr u, s')" "wf j" "clean s (bj_id j)"
    and "jr_get_by_id repo (bj_id j) s' = (Inr r, s'')"
  shows "\<exists>k. r = Some k \<and> same_job k j"
  using get_value [OF assms(4)] save_done [OF assms(1-3)] persist_same [OF assms(2,3)] by simp

text \<open>The two access patterns of the services.\<close>

lemma get_triple:
  "triple (stays jobs J) (jr_get_by_id repo i) (\<lambda>r s. stays jobs J s \<and> r = J i) (\<lambda>_. stays jobs J)"
proof (rule tripleI)
  fix s x s' assume "stays jobs J s" "jr_get_by_id repo i s = (x, s')"
  then show "case x of Inl e \<Rightarrow> stays jobs J s' | Inr y \<Rightarrow> stays jobs J s' \<and> y = J i"
    using get_run get_value by (fastforce simp: stays_def split: sum.split)
qed

lemma save_triple:
  assumes "wf j"
  shows "triple (\<lambda>s. stays jobs J s \<and> clean s (bj_id j)) (jr_save repo j)
    (\<lambda>_ s. \<exists>k. same_job k j \<and> stays jobs (J(bj_id j \<mapsto> k)) s)
    (\<lambda>_ s. stays jobs J s \<or> (\<exists>k. same_job k j \<and> stays jobs (J(bj_id j \<mapsto> k)) s))"
proof (rule tripleI)
  fix s x s' assume s: "stays jobs J s \<and> clean s (bj_id j)" and r: "jr_save repo j s = (x, s')"
  show "case x of
      Inl e \<Rightarrow> stays jobs J s' \<or> (\<exists>k. same_job k j \<and> stays jobs (J(bj_id j \<mapsto> k)) s')
    | Inr u \<Rightarrow> \<exists>k. same_job k j \<and> stays jobs (J(bj_id j \<mapsto> k)) s'"
    using s r save_done [of j s _ s'] save_failed [of j s _ s'] assms persist_same [of j s]
    by (cases x) (auto simp: stays_def)
qed

lemma save_stored_triple:
  assumes "wf j" "J (bj_id j) \<noteq> None"
  shows "triple (stays jobs J) (jr_save repo j)
    (\<lambda>_ s. \<exists>k. same_job k j \<and> stays jobs (J(bj_id j \<mapsto> k)) s)
    (\<lambda>_ s. stays jobs J s \<or> (\<exists>k. same_job k j \<and> stays jobs (J(bj_id j \<mapsto> k)) s))"
  by (rule triple_conseq [OF save_triple [OF assms(1)]])
    (use assms(2) jobs_wf in \<open>auto simp: stays_def\<close>)

end

section \<open>Sequences of lock calls\<close>

text \<open>
  Calls of any number of clients in the order the lock store serves them; \<open>lock_trace\<close>
  collects each call with the token it was granted, if any.
\<close>

datatype lock_op = L_acquire string int | L_release string string | L_is_locked string

fun run_lock_op :: "'s ILockManager \<Rightarrow> lock_op \<Rightarrow> 's \<Rightarrow> string option \<times> 's" where
  "run_lock_op lm (L_acquire r ttl) s =
     (case lm_acquire lm r ttl s of (Inl e, s') \<Rightarrow> (None, s') | (Inr x, s') \<Rightarrow> (x, s'))"
| "run_lock_op lm (L_release r tok) s = (None, snd (lm_release lm r tok s))"
| "run_lock_op lm (L_is_locked r) s = (None, snd (lm_is_locked lm r s))"

fun lock_trace :: "'s ILockManager \<Rightarrow> lock_op list \<Rightarrow> 's \<Rightarrow> (lock_op \<times> string option) list \<times> 's" where
  "lock_trace lm [] s = ([], s)"
| "lock_trace lm (c # cs) s =
     (let (g, s1) = run_lock_op lm c s; (gs, s2) = lock_trace lm cs s1 in ((c, g) # gs, s2))"

fun op_resource :: "lock_op \<Rightarrow> string" where
  "op_resource (L_acquire r ttl) = r"
| "op_resource (L_release r tok) = r"
| "op_resource (L_is_locked r) = r"

section \<open>The lock contract\<close>

text \<open>
  \<open>held s r\<close> is the token that holds resource \<open>r\<close>. An acquisition succeeds only on a free
  resource and hands out the token it stored; a release frees the resource only for its token.
  An operation whose answer is lost may still have taken effect, so the other outcomes are
  bounded and not determined.
\<close>

locale lock_manager =
  fixes lm :: "'s ILockManager"
    and held :: "'s \<Rightarrow> string \<Rightarrow> string option"
  assumes acquire_ok: "lm_acquire lm r ttl s = (Inr (Some tok), s') \<Longrightarrow>
      held s r = None \<and> held s' = (held s)(r \<mapsto> tok)"
    and acquire_no: "lm_acquire lm r ttl s = (Inr None, s') \<Longrightarrow> held s' = held s \<and> held s r \<noteq> None"
    and acquire_any: "lm_acquire lm r ttl s = (x, s') \<Longrightarrow>
      held s' = held s \<or> held s r = None \<and> (\<exists>tok. held s' = (held s)(r \<mapsto> tok))"
    and release_ok: "lm_release lm r tok s = (Inr True, s') \<Longrightarrow>
      held s r = Some tok \<and> held s' = (held s)(r := None)"
    and release_any: "lm_release lm r tok s = (y, s') \<Longrightarrow>
      held s' = held s \<or> held s r = Some tok \<and> held s' = (held s)(r := None)"
    and is_locked_frame: "frames held (lm_is_locked lm r)"
begin

text \<open>While a resource is held, nobody acquires it and nobody else releases it.\<close>

lemma acquire_excluded:
  "held s r = Some tok \<Longrightarrow> lm_acquire lm r ttl s = (x, s') \<Longrightarrow> held s' = held s \<and> (\<forall>t. x \<noteq> Inr (Some t))"
  using acquire_ok [of r ttl s] acquire_any [of r ttl s x s'] by fastforce

lemma release_wrong_token:
  "held s r = Some tok \<Longrightarrow> tok' \<noteq> tok \<Longrightarrow> lm_release lm r tok' s = (x, s') \<Longrightarrow> held s' = held s"
  using release_any [of r tok' s x s'] by auto

lemma release_other: "lm_release lm r tok s = (x, s') \<Longrightarrow> r' \<noteq> r \<Longrightarrow> held s' r' = held s r'"
  using release_any [of r tok s x s'] by auto

lemma acquire_other: "lm_acquire lm r ttl s = (x, s') \<Longrightarrow> r' \<noteq> r \<Longrightarrow> held s' r' = held s r'"
  using acquire_any [of r ttl s x s'] by auto

lemma run_lock_op_held:
  assumes "held s r = Some tok" "c \<noteq> L_release r tok" "run_lock_op lm c s = (g, s')"
  shows "held s' r = Some tok \<and> (op_resource c = r \<longrightarrow> g = None)"
proof (cases c)
  case (L_acquire r' ttl)
  obtain x s1 where a: "lm_acquire lm r' ttl s = (x, s1)" by force
  then have "s' = s1" "g = (case x of Inl e \<Rightarrow> None | Inr t \<Rightarrow> t)"
    using assms(3) L_acquire by (auto split: sum.splits)
  then show ?thesis
    using L_acquire assms(1) a acquire_other [OF a] acquire_excluded [of s r tok ttl x s1]
    by (cases "r' = r"; cases x; fastforce)
next
  case (L_release r' tok')
  obtain x s1 where "lm_release lm r' tok' s = (x, s1)" by force
  then show ?thesis
    using L_release assms release_other [of r' tok' s x s1] release_wrong_token [of s r tok tok' x s1]
    by (cases "r' = r") auto
next
  case (L_is_locked r')
  then show ?thesis
    using assms framesD [OF is_locked_frame [of r']] by (cases "lm_is_locked lm r' s") auto
qed

text \<open>A held resource stays with its token under any calls but the release with that token, and
  none of them is granted it.\<close>

lemma lock_trace_held:
  "held s r = Some tok \<Longrightarrow> L_release r tok \<notin> set cs \<Longrightarrow> lock_trace lm cs s = (gs, s') \<Longrightarrow>
   held s' r = Some tok \<and> (\<forall>(c, g) \<in> set gs. op_resource c = r \<longrightarrow> g = None)"
proof (induction cs arbitrary: s gs s')
  case (Cons c cs)
  obtain g s1 where c: "run_lock_op lm c s = (g, s1)" by force
  obtain gs1 where gs: "gs = (c, g) # gs1" "lock_trace lm cs s1 = (gs1, s')"
    using Cons.prems(3) c by (auto split: prod.splits)
  have "held s1 r = Some tok \<and> (op_resource c = r \<longrightarrow> g = None)"
    using Cons.prems(1,2) c by (intro run_lock_op_held) auto
  then show ?case using Cons.IH [OF _ _ gs(2)] Cons.prems(2) gs(1) by auto
qed simp

end

end
