(* ===== verification/Database.thy ===== *)
theory Database
  imports Ports "HOL-Library.Multiset"
begin

text \<open>
  The SQLAlchemy session as the repositories of \<^verbatim>\<open>app/infrastructure/persistence\<close> use it, for one
  mapped table with rows of type \<open>'r\<close>. SQLAlchemy and the database are not part of the
  repository, so a session is a parameter: a record of the four things the repositories ask of it.

  \<^item> \<open>ss_select\<close>: \<open>execute(select(...).where(...).order_by(...).offset(...).limit(...))\<close> and
    \<open>session.get\<close>; the query is a \<open>query\<close> record.
  \<^item> \<open>ss_count\<close>: \<open>scalar(select(func.count()).where(...))\<close>.
  \<^item> \<open>ss_commit\<close>: the objects added, modified or deleted since the last commit are a unit of
    work, which \<open>flush\<close> and \<open>commit\<close> send to the database together.
  \<^item> \<open>ss_rollback\<close>.

  \<open>sql_session\<close> states the documented behaviour. \<open>ref_session\<close> is a table in memory that
  behaves so, for the witnesses.
\<close>

section \<open>Queries and units of work\<close>

datatype 'r order = Unordered | Ascending "'r \<Rightarrow> int" | Descending "'r \<Rightarrow> int"

record 'r query =
  qr_where :: "'r \<Rightarrow> bool"
  qr_order :: "'r order"
  qr_offset :: int
  qr_limit :: "int option"

fun ordered :: "'r order \<Rightarrow> 'r list \<Rightarrow> bool" where
  "ordered Unordered xs \<longleftrightarrow> True"
| "ordered (Ascending k) xs \<longleftrightarrow> sorted_wrt (\<lambda>x y. k x \<le> k y) xs"
| "ordered (Descending k) xs \<longleftrightarrow> sorted_wrt (\<lambda>x y. k y \<le> k x) xs"

definition windowed :: "'r query \<Rightarrow> 'r list \<Rightarrow> 'r list" where
  "windowed q xs =
     (let ys = drop (nat (qr_offset q)) xs
      in case qr_limit q of None \<Rightarrow> ys | Some n \<Rightarrow> take (nat n) ys)"

text \<open>The answers a query may have: some arrangement of the matching rows in the requested
  order (ties are broken as the database likes), cut to the window.\<close>

definition answers :: "'r query \<Rightarrow> 'r list \<Rightarrow> 'r list \<Rightarrow> bool" where
  "answers q rows xs \<longleftrightarrow>
     (\<exists>zs. mset zs = mset (filter (qr_where q) rows) \<and> ordered (qr_order q) zs \<and> xs = windowed q zs)"

definition where_only :: "('r \<Rightarrow> bool) \<Rightarrow> 'r query" where
  "where_only P = \<lparr>qr_where = P, qr_order = Unordered, qr_offset = 0, qr_limit = None\<rparr>"

datatype 'r change =
    Added "int \<Rightarrow> 'r" \<comment> \<open>given the generated primary key\<close>
  | Modified 'r 'r
  | Deleted "'r \<Rightarrow> bool"

fun apply_change :: "int \<Rightarrow> 'r change \<Rightarrow> 'r list \<Rightarrow> 'r list" where
  "apply_change i (Added f) rows = rows @ [f i]"
| "apply_change i (Modified old new) rows = map (\<lambda>r. if r = old then new else r) rows"
| "apply_change i (Deleted P) rows = filter (\<lambda>r. \<not> P r) rows"

record ('s, 'r) session =
  ss_select :: "'r query \<Rightarrow> ('s, 'r list) M"
  ss_count :: "('r \<Rightarrow> bool) \<Rightarrow> ('s, int option) M"
  ss_commit :: "'r change \<Rightarrow> ('s, unit) M"
  ss_rollback :: "('s, unit) M"

text \<open>\<open>Result.scalar_one_or_none()\<close>\<close>

fun scalar_one_or_none :: "'r list \<Rightarrow> exn + 'r option" where
  "scalar_one_or_none [] = Inr None"
| "scalar_one_or_none [x] = Inr (Some x)"
| "scalar_one_or_none (x # y # zs) = Inl (OtherException ''MultipleResultsFound'' [])"

lemma scalar_one_or_none_Inr:
  "scalar_one_or_none xs = Inr r \<longleftrightarrow> (xs = [] \<and> r = None) \<or> (\<exists>x. xs = [x] \<and> r = Some x)"
  by (cases xs rule: scalar_one_or_none.cases) auto

section \<open>The session's contract\<close>

text \<open>
  A read returns an answer and changes nothing. A commit that returns has applied the unit of
  work; one that raises has either been rolled back or, when only the acknowledgement was lost,
  applied.
\<close>

locale sql_session =
  fixes ses :: "('s, 'r) session" and rows :: "'s \<Rightarrow> 'r list"
  assumes select_frame: "frames rows (ss_select ses q)"
    and select_ok: "ss_select ses q s = (Inr xs, s') \<Longrightarrow> answers q (rows s) xs"
    and count_frame: "frames rows (ss_count ses P)"
    and count_ok: "ss_count ses P s = (Inr n, s') \<Longrightarrow>
      n = Some (int (length (filter P (rows s))))"
    and commit_ok: "ss_commit ses c s = (Inr u, s') \<Longrightarrow> \<exists>i. rows s' = apply_change i c (rows s)"
    and commit_err: "ss_commit ses c s = (Inl e, s') \<Longrightarrow>
      rows s' = rows s \<or> (\<exists>i. rows s' = apply_change i c (rows s))"
    and rollback_frame: "frames rows (ss_rollback ses)"
begin

lemma select_where:
  assumes "ss_select ses (where_only P) s = (Inr xs, s')"
  shows "mset xs = mset (filter P (rows s)) \<and> rows s' = rows s"
  using select_ok [OF assms] framesD [OF select_frame assms]
  by (auto simp: answers_def where_only_def windowed_def)

lemma select_unique:
  assumes "ss_select ses (where_only P) s = (Inr xs, s')" "scalar_one_or_none xs = Inr r"
  shows "(r = None \<and> filter P (rows s) = []) \<or> (\<exists>x. r = Some x \<and> filter P (rows s) = [x])"
proof -
  have m: "mset (filter P (rows s)) = mset xs" using select_where [OF assms(1)] by simp
  then have "xs = [x] \<Longrightarrow> filter P (rows s) = [x]" for x
    by (metis mset_single_iff mset.simps mset_zero_iff)
  with m assms(2) show ?thesis by (auto simp: scalar_one_or_none_Inr simp del: mset_filter)
qed

lemma commit_any: "ss_commit ses c s = (x, s') \<Longrightarrow>
   rows s' = rows s \<or> (\<exists>i. rows s' = apply_change i c (rows s))"
  using commit_ok commit_err by (cases x) blast+

end

section \<open>A table in memory\<close>

definition run_query :: "'r query \<Rightarrow> 'r list \<Rightarrow> 'r list" where
  "run_query q rows =
     (let xs = filter (qr_where q) rows in
      windowed q (case qr_order q of Unordered \<Rightarrow> xs | Ascending k \<Rightarrow> sort_key k xs
        | Descending k \<Rightarrow> sort_key (\<lambda>x. - k x) xs))"

lemma sorted_wrt_map: "sorted (map k xs) = sorted_wrt (\<lambda>x y. k x \<le> k y) xs"
  by (simp add: sorted_wrt_map)

lemma answers_run_query: "answers q rows (run_query q rows)"
proof (cases "qr_order q")
  case Unordered
  then show ?thesis
    unfolding answers_def run_query_def Let_def
    by (intro exI [of _ "filter (qr_where q) rows"]) simp
next
  case (Ascending k)
  then show ?thesis
    using sorted_sort_key [of k "filter (qr_where q) rows"]
    unfolding answers_def run_query_def Let_def sorted_wrt_map
    by (intro exI [of _ "sort_key k (filter (qr_where q) rows)"]) simp
next
  case (Descending k)
  then show ?thesis
    using sorted_sort_key [of "\<lambda>x. - k x" "filter (qr_where q) rows"]
    unfolding answers_def run_query_def Let_def sorted_wrt_map
    by (intro exI [of _ "sort_key (\<lambda>x. - k x) (filter (qr_where q) rows)"]) simp
qed

record 'r ref_table =
  rf_rows :: "'r list"
  rf_next :: int

definition ref_session :: "('r ref_table, 'r) session" where
  "ref_session =
     \<lparr>ss_select = (\<lambda>q s. (Inr (run_query q (rf_rows s)), s)),
      ss_count = (\<lambda>P s. (Inr (Some (int (length (filter P (rf_rows s))))), s)),
      ss_commit = (\<lambda>c s. (Inr (), s\<lparr>rf_rows := apply_change (rf_next s) c (rf_rows s),
                                   rf_next := rf_next s + 1\<rparr>)),
      ss_rollback = (\<lambda>s. (Inr (), s))\<rparr>"

interpretation ref_sql: sql_session ref_session rf_rows
  by unfold_locales (auto simp: ref_session_def frames_def answers_run_query)

end
