(* ===== verification/JobStore.thy ===== *)
theory JobStore
  imports Database "HOL-Library.Char_ord" "HOL-Library.List_Lexorder"
begin

text \<open>
  \<^verbatim>\<open>app/infrastructure/persistence/sql_job_repository.py\<close> and the row it maps to,
  \<^verbatim>\<open>models/job.py\<close>: the two directions of the mapping, the queries, the update of an existing row,
  and the statistics. The session is the parameter of theory \<open>Database\<close>; under its contract the
  repository satisfies \<open>job_repository\<close>.
\<close>

section \<open>Paths as text\<close>

text \<open>\<open>str(path)\<close> and \<open>Path(text)\<close> for POSIX paths, a path being its \<open>parts\<close>.\<close>

definition slash :: char where "slash = CHR ''/''"

definition path_str :: "path \<Rightarrow> string" where
  "path_str p =
     (case p of [] \<Rightarrow> ''.''
      | r # ps \<Rightarrow> if r = ''/'' then ''/'' @ join ''/'' ps else join ''/'' p)"

definition path_of_str :: "string \<Rightarrow> path" where
  "path_of_str s =
     (let parts = filter (\<lambda>w. w \<noteq> [] \<and> w \<noteq> ''.'') (split_on slash s)
      in if s \<noteq> [] \<and> hd s = slash then ''/'' # parts else parts)"

text \<open>\<open>base / name\<close> of \<open>pathlib\<close>: an absolute right operand replaces the left one.\<close>

definition path_div :: "path \<Rightarrow> string \<Rightarrow> path" where
  "path_div base name =
     (if name \<noteq> [] \<and> hd name = slash then path_of_str name else base @ path_of_str name)"

definition good_part :: "string \<Rightarrow> bool" where
  "good_part w \<longleftrightarrow> w \<noteq> [] \<and> w \<noteq> ''.'' \<and> slash \<notin> set w"

definition wf_path :: "path \<Rightarrow> bool" where
  "wf_path p = (case p of [] \<Rightarrow> True
     | r # ps \<Rightarrow> (r = ''/'' \<or> good_part r) \<and> list_all good_part ps)"

lemma split_on_nonempty: "split_on c xs \<noteq> []"
  by (cases xs) (auto split: list.split)

lemma split_on_nosep: "c \<notin> set w \<Longrightarrow> split_on c w = [w]"
  by (induction w) auto

lemma split_on_append: "c \<notin> set w \<Longrightarrow> split_on c (w @ c # xs) = w # split_on c xs"
  by (induction w) auto

lemma split_join:
  "ps \<noteq> [] \<Longrightarrow> list_all (\<lambda>w. c \<notin> set w) ps \<Longrightarrow> split_on c (join [c] ps) = ps"
  by (induction "[c]" ps rule: join.induct) (auto simp: split_on_nosep split_on_append)

lemma split_on_parts: "w \<in> set (split_on c xs) \<Longrightarrow> c \<notin> set w"
  by (induction xs arbitrary: w) (auto split: list.splits if_splits simp: split_on_nonempty)

lemma wf_path_of_str: "wf_path (path_of_str s)"
proof -
  let ?ps = "filter (\<lambda>w. w \<noteq> [] \<and> w \<noteq> ''.'') (split_on slash s)"
  have g: "list_all good_part ?ps"
    by (auto simp: list_all_iff good_part_def dest: split_on_parts)
  then have "wf_path ?ps" by (cases ?ps) (simp_all add: wf_path_def)
  with g show ?thesis by (simp add: path_of_str_def wf_path_def Let_def)
qed

lemma join_hd: "ps \<noteq> [] \<Longrightarrow> hd ps \<noteq> [] \<Longrightarrow> join sep ps \<noteq> [] \<and> hd (join sep ps) = hd (hd ps)"
  by (cases ps; cases "tl ps") auto

lemma path_round_trip: 
  assumes "wf_path p"
  shows "path_of_str (path_str p) = p"
proof (cases p)
  case Nil
  then show ?thesis by (simp add: path_str_def path_of_str_def slash_def)
next
  case (Cons r ps)
  have sl: "''/'' = [slash]" by (simp add: slash_def)
  have keep: "list_all good_part qs \<Longrightarrow> filter (\<lambda>w. w \<noteq> [] \<and> w \<noteq> ''.'') qs = qs" for qs
    by (auto simp: list_all_iff good_part_def intro!: filter_True)
  have nos: "list_all good_part qs \<Longrightarrow> list_all (\<lambda>w. slash \<notin> set w) qs" for qs
    by (auto simp: list_all_iff good_part_def)
  have g: "list_all good_part ps" using assms Cons by (simp add: wf_path_def)
  show ?thesis
  proof (cases "r = ''/''")
    case True
    show ?thesis
    proof (cases "ps = []")
      case False
      then show ?thesis
        using True Cons g split_join [OF False nos [OF g]] keep
        by (simp add: path_str_def path_of_str_def sl Let_def)
    qed (use True Cons in \<open>simp add: path_str_def path_of_str_def sl\<close>)
  next
    case False
    then have gr: "good_part r" using assms Cons by (simp add: wf_path_def)
    with g Cons have gp: "list_all good_part p" "p \<noteq> []" "hd p = r" by simp_all
    moreover have "hd r \<noteq> slash" "r \<noteq> []" using gr by (cases r; auto simp: good_part_def)+
    ultimately show ?thesis
      using False Cons split_join [OF gp(2) nos [OF gp(1)]] keep [OF gp(1)] join_hd [of p "[slash]"]
      by (simp add: path_str_def path_of_str_def sl Let_def)
  qed
qed

section \<open>The row\<close>

record JobORM =
  jo_id :: string
  jo_requester_telegram_id :: int
  jo_chat_id :: "int option"
  jo_topic_id :: "int option"
  jo_status_message_id :: "int option"
  jo_backup_type :: string
  jo_status :: string
  jo_cluster_uri_hash :: string
  jo_target_databases :: "string list option"
  jo_target_collections :: "pydict list option"
  jo_output_path :: "string option"
  jo_error_log :: "string option"
  jo_started_at :: "datetime option"
  jo_completed_at :: "datetime option"
  jo_cancelled_by :: "int option"
  jo_queue_job_id :: "string option"
  jo_retry_count :: int
  jo_total_collections :: "int option"
  jo_completed_collections :: int
  jo_failed_collections :: int
  jo_bytes_processed :: int
  jo_created_at :: datetime
  jo_updated_at :: datetime

text \<open>\<open>CollectionTarget.model_dump(mode="json")\<close> and \<open>CollectionTarget(**item)\<close>.\<close>

definition ct_dump :: "CollectionTarget \<Rightarrow> pydict" where
  "ct_dump t =
     [(''database'', PStr (ct_database t)), (''collection'', PStr (ct_collection t)),
      (''status'', PStr (coll_status_value (ct_status t))),
      (''size_bytes'', opt_int (ct_size_bytes t)),
      (''error_message'', opt_str (ct_error_message t))]"

definition bind_sum :: "'e + 'a \<Rightarrow> ('a \<Rightarrow> 'e + 'b) \<Rightarrow> 'e + 'b" where
  "bind_sum x f = (case x of Inl e \<Rightarrow> Inl e | Inr y \<Rightarrow> f y)"

fun map_sum_list :: "('a \<Rightarrow> 'e + 'b) \<Rightarrow> 'a list \<Rightarrow> 'e + 'b list" where
  "map_sum_list f [] = Inr []"
| "map_sum_list f (x # xs) =
     bind_sum (f x) (\<lambda>y. bind_sum (map_sum_list f xs) (\<lambda>ys. Inr (y # ys)))"

definition load_str :: "pydict \<Rightarrow> string \<Rightarrow> exn + string" where
  "load_str d k = (case map_of d k of Some (PStr s) \<Rightarrow> Inr s | _ \<Rightarrow> Inl (ValidationError k))"

definition load_opt_int :: "pydict \<Rightarrow> string \<Rightarrow> exn + int option" where
  "load_opt_int d k = (case map_of d k of None \<Rightarrow> Inr None | Some PNone \<Rightarrow> Inr None
     | Some (PInt i) \<Rightarrow> Inr (Some i) | _ \<Rightarrow> Inl (ValidationError k))"

definition load_opt_str :: "pydict \<Rightarrow> string \<Rightarrow> exn + string option" where
  "load_opt_str d k = (case map_of d k of None \<Rightarrow> Inr None | Some PNone \<Rightarrow> Inr None
     | Some (PStr i) \<Rightarrow> Inr (Some i) | _ \<Rightarrow> Inl (ValidationError k))"

definition load_status :: "pydict \<Rightarrow> exn + CollectionBackupStatus" where
  "load_status d = (case map_of d ''status'' of None \<Rightarrow> Inr CollectionBackupStatus.PENDING
     | Some (PStr s) \<Rightarrow> (case parse_coll_status s of Inl e \<Rightarrow> Inl (ValidationError ''status'') | Inr x \<Rightarrow> Inr x)
     | _ \<Rightarrow> Inl (ValidationError ''status''))"

definition ct_load :: "pydict \<Rightarrow> exn + CollectionTarget" where
  "ct_load d =
     bind_sum (load_str d ''database'') (\<lambda>db.
     bind_sum (load_str d ''collection'') (\<lambda>coll.
     bind_sum (load_status d) (\<lambda>st.
     bind_sum (load_opt_int d ''size_bytes'') (\<lambda>sz.
     bind_sum (load_opt_str d ''error_message'') (\<lambda>err.
     mk_CollectionTarget db coll st sz err)))))"

section \<open>The mapping\<close>

definition progress_of_row :: "JobORM \<Rightarrow> exn + JobProgress option" where
  "progress_of_row r =
     (case jo_total_collections r of
        None \<Rightarrow> Inr None
      | Some n \<Rightarrow>
          bind_sum (mk_JobProgress n (jo_completed_collections r) (jo_failed_collections r)
                      (jo_retry_count r)
                      (if 0 < n then percent_of (jo_completed_collections r) n else 0)
                      (jo_bytes_processed r))
            (\<lambda>p. Inr (Some p)))"

definition to_entity :: "JobORM \<Rightarrow> exn + BackupJob" where
  "to_entity r =
     bind_sum (progress_of_row r) (\<lambda>progress.
     bind_sum (case jo_target_collections r of None \<Rightarrow> Inr [] | Some ds \<Rightarrow> map_sum_list ct_load ds) (\<lambda>collections.
     bind_sum (parse_backup_type (jo_backup_type r)) (\<lambda>btype.
     bind_sum (parse_status (jo_status r)) (\<lambda>status.
     validated valid_BackupJob ''BackupJob''
       \<lparr>bj_id = jo_id r, bj_requester_telegram_id = jo_requester_telegram_id r,
        bj_chat_id = jo_chat_id r, bj_topic_id = jo_topic_id r,
        bj_status_message_id = jo_status_message_id r, bj_backup_type = btype,
        bj_status = status, bj_cluster_uri_hash = jo_cluster_uri_hash r,
        bj_target_collections = collections, bj_progress = progress,
        bj_output_path = (if truthy (jo_output_path r)
                          then map_option path_of_str (jo_output_path r) else None),
        bj_error_log = jo_error_log r, bj_started_at = jo_started_at r,
        bj_completed_at = jo_completed_at r, bj_cancelled_by = jo_cancelled_by r,
        bj_queue_job_id = jo_queue_job_id r, bj_created_at = jo_created_at r,
        bj_updated_at = jo_updated_at r\<rparr>))))"

definition target_databases :: "CollectionTarget list \<Rightarrow> string list option" where
  "target_databases ts = (if ts = [] then None else Some (sort (remdups (map ct_database ts))))"

definition dump_targets :: "CollectionTarget list \<Rightarrow> pydict list option" where
  "dump_targets ts = (if ts = [] then None else Some (map ct_dump ts))"

definition set_progress :: "JobProgress option \<Rightarrow> JobORM \<Rightarrow> JobORM" where
  "set_progress po r = (case po of None \<Rightarrow> r
     | Some p \<Rightarrow> r\<lparr>jo_total_collections := Some (jp_total_collections p),
                   jo_completed_collections := jp_completed_collections p,
                   jo_failed_collections := jp_failed_collections p,
                   jo_retry_count := jp_retry_count p,
                   jo_bytes_processed := jp_bytes_processed p\<rparr>)"

text \<open>A new row; columns that are not given take their defaults.\<close>

definition to_orm :: "BackupJob \<Rightarrow> JobORM" where
  "to_orm j = set_progress (bj_progress j)
     \<lparr>jo_id = bj_id j, jo_requester_telegram_id = bj_requester_telegram_id j,
      jo_chat_id = bj_chat_id j, jo_topic_id = bj_topic_id j,
      jo_status_message_id = bj_status_message_id j,
      jo_backup_type = backup_type_value (bj_backup_type j),
      jo_status = status_value (bj_status j), jo_cluster_uri_hash = bj_cluster_uri_hash j,
      jo_target_databases = target_databases (bj_target_collections j),
      jo_target_collections = dump_targets (bj_target_collections j),
      jo_output_path = map_option path_str (bj_output_path j),
      jo_error_log = bj_error_log j, jo_started_at = bj_started_at j,
      jo_completed_at = bj_completed_at j, jo_cancelled_by = bj_cancelled_by j,
      jo_queue_job_id = bj_queue_job_id j, jo_retry_count = 0, jo_total_collections = None,
      jo_completed_collections = 0, jo_failed_collections = 0, jo_bytes_processed = 0,
      jo_created_at = bj_created_at j, jo_updated_at = bj_updated_at j\<rparr>"

definition update_orm :: "JobORM \<Rightarrow> BackupJob \<Rightarrow> JobORM" where
  "update_orm r j = set_progress (bj_progress j)
     (r\<lparr>jo_requester_telegram_id := bj_requester_telegram_id j,
        jo_chat_id := bj_chat_id j, jo_topic_id := bj_topic_id j,
        jo_status_message_id := bj_status_message_id j,
        jo_backup_type := backup_type_value (bj_backup_type j),
        jo_status := status_value (bj_status j),
        jo_cluster_uri_hash := bj_cluster_uri_hash j,
        jo_target_collections := dump_targets (bj_target_collections j),
        jo_target_databases := target_databases (bj_target_collections j),
        jo_output_path := map_option path_str (bj_output_path j),
        jo_error_log := bj_error_log j, jo_started_at := bj_started_at j,
        jo_completed_at := bj_completed_at j, jo_cancelled_by := bj_cancelled_by j,
        jo_queue_job_id := bj_queue_job_id j, jo_updated_at := bj_updated_at j\<rparr>)"

lemma bind_sum_Inr: "bind_sum x f = Inr y \<longleftrightarrow> (\<exists>z. x = Inr z \<and> f z = Inr y)"
  by (cases x) (auto simp: bind_sum_def)

lemma bind_sum_simps [simp]: "bind_sum (Inr x) f = f x" "bind_sum (Inl e) f = Inl e"
  by (simp_all add: bind_sum_def)

lemma ct_load_dump: "valid_CollectionTarget t \<Longrightarrow> ct_load (ct_dump t) = Inr t"
  by (cases t) (auto simp: ct_load_def ct_dump_def load_str_def load_opt_int_def load_opt_str_def
      load_status_def opt_int_def opt_str_def mk_CollectionTarget_def valid_CollectionTarget_def
      split: option.split)

lemma ct_load_valid: "ct_load d = Inr t \<Longrightarrow> valid_CollectionTarget t"
  by (auto simp: ct_load_def bind_sum_Inr mk_CollectionTarget_def)

lemma load_dump_targets:
  "list_all valid_CollectionTarget ts \<Longrightarrow>
   (case dump_targets ts of None \<Rightarrow> Inr [] | Some ds \<Rightarrow> map_sum_list ct_load ds) = Inr ts"
proof -
  have "list_all valid_CollectionTarget ts \<Longrightarrow> map_sum_list ct_load (map ct_dump ts) = Inr ts" for ts
    by (induction ts) (simp_all add: ct_load_dump)
  then show "list_all valid_CollectionTarget ts \<Longrightarrow> ?thesis" by (simp add: dump_targets_def)
qed

section \<open>The repository\<close>

definition SQLJobRepository_get_by_id ::
  "('s, JobORM) session \<Rightarrow> string \<Rightarrow> ('s, BackupJob option) M" where
  "SQLJobRepository_get_by_id ses job_id =
     bindM (ss_select ses (where_only (\<lambda>r. jo_id r = job_id))) (\<lambda>xs.
     bindM (liftE (scalar_one_or_none xs)) (\<lambda>orm.
     case orm of
       None \<Rightarrow> returnM None
     | Some r \<Rightarrow> bindM (liftE (to_entity r)) (\<lambda>j. returnM (Some j))))"

definition status_filter :: "JobStatus option \<Rightarrow> JobORM \<Rightarrow> bool" where
  "status_filter st r = (case st of None \<Rightarrow> True | Some x \<Rightarrow> jo_status r = status_value x)"

definition SQLJobRepository_list_by_user ::
  "('s, JobORM) session \<Rightarrow> int \<Rightarrow> JobStatus option \<Rightarrow> int \<Rightarrow> int \<Rightarrow> ('s, BackupJob list) M" where
  "SQLJobRepository_list_by_user ses telegram_id status page page_size =
     bindM (ss_select ses \<lparr>qr_where = (\<lambda>r. jo_requester_telegram_id r = telegram_id \<and> status_filter status r),
                           qr_order = Descending jo_created_at,
                           qr_offset = (page - 1) * page_size, qr_limit = Some page_size\<rparr>)
       (\<lambda>xs. liftE (map_sum_list to_entity xs))"

definition SQLJobRepository_list_by_status ::
  "('s, JobORM) session \<Rightarrow> JobStatus option \<Rightarrow> int \<Rightarrow> int \<Rightarrow> ('s, BackupJob list) M" where
  "SQLJobRepository_list_by_status ses status page page_size =
     bindM (ss_select ses \<lparr>qr_where = status_filter status, qr_order = Descending jo_created_at,
                           qr_offset = (page - 1) * page_size, qr_limit = Some page_size\<rparr>)
       (\<lambda>xs. liftE (map_sum_list to_entity xs))"

text \<open>\<open>result or 0\<close>\<close>

definition or0 :: "int option \<Rightarrow> int" where
  "or0 x = (case x of None \<Rightarrow> 0 | Some n \<Rightarrow> n)"

definition SQLJobRepository_count_by_status ::
  "('s, JobORM) session \<Rightarrow> JobStatus \<Rightarrow> ('s, int) M" where
  "SQLJobRepository_count_by_status ses status =
     bindM (ss_count ses (\<lambda>r. jo_status r = status_value status)) (\<lambda>n. returnM (or0 n))"

definition SQLJobRepository_save :: "('s, JobORM) session \<Rightarrow> BackupJob \<Rightarrow> ('s, unit) M" where
  "SQLJobRepository_save ses job =
     bindM (ss_select ses (where_only (\<lambda>r. jo_id r = bj_id job))) (\<lambda>xs.
     bindM (liftE (scalar_one_or_none xs)) (\<lambda>orm.
     case orm of
       None \<Rightarrow> ss_commit ses (Added (\<lambda>_. to_orm job))
     | Some r \<Rightarrow> ss_commit ses (Modified r (update_orm r job))))"

text \<open>Midnight of the day of an instant; the days of UTC are multiples of 86400 seconds.\<close>

definition midnight :: "datetime \<Rightarrow> datetime" where
  "midnight t = t - t mod 86400000000"

definition SQLJobRepository_get_job_stats ::
  "'s Runtime \<Rightarrow> ('s, JobORM) session \<Rightarrow> ('s, job_stats) M" where
  "SQLJobRepository_get_job_stats rt ses =
     bindM (rt_now rt) (\<lambda>now.
     bindM (ss_count ses (\<lambda>r. midnight now \<le> jo_created_at r)) (\<lambda>today_count.
     bindM (ss_count ses (\<lambda>r. now - 7 * 86400000000 \<le> jo_created_at r)) (\<lambda>week_count.
     bindM (ss_count ses (\<lambda>r. now - 30 * 86400000000 \<le> jo_created_at r)) (\<lambda>month_count.
     bindM (ss_count ses (\<lambda>r. jo_status r \<in> {''SUCCESS'', ''PARTIAL_SUCCESS'', ''FAILED''})) (\<lambda>total_completed.
     bindM (ss_count ses (\<lambda>r. jo_status r \<in> {''SUCCESS'', ''PARTIAL_SUCCESS''})) (\<lambda>successful.
     bindM (ss_select ses (where_only (\<lambda>r. jo_started_at r \<noteq> None \<and> jo_completed_at r \<noteq> None))) (\<lambda>xs.
     let durations = map (\<lambda>r. the (jo_completed_at r) - the (jo_started_at r)) xs in
     returnM \<lparr>st_jobs_today = or0 today_count, st_jobs_week = or0 week_count,
              st_jobs_month = or0 month_count,
              st_success_rate_percent =
                (if 0 < or0 total_completed then percent_of (or0 successful) (or0 total_completed) else 0),
              st_avg_duration_seconds =
                (if durations = [] then None
                 else Some (round_div (sum_list durations) (int (length durations) * 10000)))\<rparr>)))))))"

definition SQLJobRepository :: "'s Runtime \<Rightarrow> ('s, JobORM) session \<Rightarrow> 's IJobRepository" where
  "SQLJobRepository rt ses =
     \<lparr>jr_get_by_id = SQLJobRepository_get_by_id ses,
      jr_list_by_user = SQLJobRepository_list_by_user ses,
      jr_list_by_status = SQLJobRepository_list_by_status ses,
      jr_count_by_status = SQLJobRepository_count_by_status ses,
      jr_save = SQLJobRepository_save ses,
      jr_clear_session_cache = ss_rollback ses,
      jr_get_job_stats = SQLJobRepository_get_job_stats rt ses\<rparr>"

section \<open>Round trip\<close>

definition percent_of_counts :: "JobProgress \<Rightarrow> int" where
  "percent_of_counts p =
     (if 0 < jp_total_collections p
      then percent_of (jp_completed_collections p) (jp_total_collections p) else 0)"

definition recount :: "JobProgress \<Rightarrow> JobProgress" where
  "recount p = p\<lparr>jp_percent_complete := percent_of_counts p\<rparr>"

text \<open>The jobs that read back: valid, with a well-formed path and no more collections completed
  than there are (up to the rounding of the percentage).\<close>

definition wf_job :: "BackupJob \<Rightarrow> bool" where
  "wf_job j \<longleftrightarrow>
     valid_BackupJob j \<and>
     (case bj_output_path j of None \<Rightarrow> True | Some p \<Rightarrow> wf_path p) \<and>
     (case bj_progress j of None \<Rightarrow> True | Some p \<Rightarrow> percent_of_counts p \<le> 10000)"

lemma percent_of_nonneg: "0 \<le> a \<Longrightarrow> 0 < n \<Longrightarrow> 0 \<le> percent_of a n"
  by (simp add: percent_of_def round_div_nonneg)

lemma recount_valid: "valid_JobProgress p \<Longrightarrow> percent_of_counts p \<le> 10000 \<Longrightarrow> valid_JobProgress (recount p)"
  by (auto simp: valid_JobProgress_def recount_def percent_of_counts_def percent_of_nonneg)

lemma progress_of_set_progress:
  "valid_JobProgress p \<Longrightarrow> percent_of_counts p \<le> 10000 \<Longrightarrow>
   progress_of_row (set_progress (Some p) r) = Inr (Some (recount p))"
  using recount_valid [of p]
  by (cases p) (auto simp: progress_of_row_def set_progress_def mk_JobProgress_def bind_sum_def
      validated_def recount_def percent_of_counts_def)

lemma path_str_nonempty: "wf_path p \<Longrightarrow> path_str p \<noteq> []"
  using path_round_trip [of p] by (cases p) (auto simp: path_str_def path_of_str_def split: if_splits)

lemma to_entity_update:
  assumes "wf_job j" "jo_id r = bj_id j" "progress_of_row r = Inr p0"
  shows "to_entity (update_orm r j) = Inr (j\<lparr>bj_created_at := jo_created_at r,
           bj_progress := (case bj_progress j of None \<Rightarrow> p0 | Some p \<Rightarrow> Some (recount p))\<rparr>)"
proof -
  have v: "valid_BackupJob j" using assms(1) by (simp add: wf_job_def)
  let ?p = "case bj_progress j of None \<Rightarrow> p0 | Some p \<Rightarrow> Some (recount p)"
  have p: "progress_of_row (update_orm r j) = Inr ?p"
  proof (cases "bj_progress j")
    case None
    then show ?thesis using assms(3)
      by (cases "jo_total_collections r") (auto simp: update_orm_def set_progress_def progress_of_row_def)
  next
    case (Some p)
    then show ?thesis
      using progress_of_set_progress [of p] assms(1) v
      by (simp add: update_orm_def wf_job_def valid_BackupJob_def)
  qed
  have pv: "case p0 of None \<Rightarrow> True | Some q \<Rightarrow> valid_JobProgress q"
    using assms(3) by (auto simp: progress_of_row_def bind_sum_Inr mk_JobProgress_def split: option.splits)
  have path: "(if truthy (map_option path_str (bj_output_path j))
      then map_option path_of_str (map_option path_str (bj_output_path j)) else None) = bj_output_path j"
    using assms(1) path_str_nonempty path_round_trip
    by (auto simp: wf_job_def truthy_def split: option.splits)
  have f: "jo_target_collections (update_orm r j) = dump_targets (bj_target_collections j)"
    "jo_backup_type (update_orm r j) = backup_type_value (bj_backup_type j)"
    "jo_status (update_orm r j) = status_value (bj_status j)"
    "jo_output_path (update_orm r j) = map_option path_str (bj_output_path j)"
    "jo_id (update_orm r j) = bj_id j" "jo_created_at (update_orm r j) = jo_created_at r"
    "jo_requester_telegram_id (update_orm r j) = bj_requester_telegram_id j"
    "jo_chat_id (update_orm r j) = bj_chat_id j" "jo_topic_id (update_orm r j) = bj_topic_id j"
    "jo_status_message_id (update_orm r j) = bj_status_message_id j"
    "jo_cluster_uri_hash (update_orm r j) = bj_cluster_uri_hash j"
    "jo_error_log (update_orm r j) = bj_error_log j"
    "jo_started_at (update_orm r j) = bj_started_at j"
    "jo_completed_at (update_orm r j) = bj_completed_at j"
    "jo_cancelled_by (update_orm r j) = bj_cancelled_by j"
    "jo_queue_job_id (update_orm r j) = bj_queue_job_id j"
    "jo_updated_at (update_orm r j) = bj_updated_at j"
    using assms(2) by (simp_all add: update_orm_def set_progress_def split: option.split)
  have t: "list_all valid_CollectionTarget (bj_target_collections j)"
    using v by (simp add: valid_BackupJob_def)
  have v': "valid_BackupJob (j\<lparr>bj_created_at := jo_created_at r, bj_progress := ?p\<rparr>)"
    using v pv assms(1) recount_valid
    by (auto simp: valid_BackupJob_def wf_job_def split: option.splits)
  show ?thesis
    unfolding to_entity_def p f path load_dump_targets [OF t] bind_sum_simps
      parse_backup_type_value parse_status_value
    using v' by (cases j) (simp add: validated_def)
qed

lemma to_orm_update: "\<exists>r. to_orm j = update_orm r j \<and> jo_id r = bj_id j \<and> progress_of_row r = Inr None \<and>
   jo_created_at r = bj_created_at j"
proof -
  let ?r = "to_orm (j\<lparr>bj_progress := None\<rparr>)"
  have "to_orm j = update_orm ?r j"
    by (simp add: to_orm_def update_orm_def set_progress_def split: option.split)
  moreover have "jo_id ?r = bj_id j" "progress_of_row ?r = Inr None" "jo_created_at ?r = bj_created_at j"
    by (simp_all add: to_orm_def set_progress_def progress_of_row_def)
  ultimately show ?thesis by blast
qed

lemma to_entity_to_orm:
  assumes "wf_job j"
  shows "to_entity (to_orm j) = Inr (j\<lparr>bj_progress := map_option recount (bj_progress j)\<rparr>)"
proof -
  obtain r where r: "to_orm j = update_orm r j" "jo_id r = bj_id j" "progress_of_row r = Inr None"
    "jo_created_at r = bj_created_at j" using to_orm_update by blast
  have "(case bj_progress j of None \<Rightarrow> None | Some p \<Rightarrow> Some (recount p)) = map_option recount (bj_progress j)"
    by (cases "bj_progress j") simp_all
  then show ?thesis using to_entity_update [OF assms r(2,3)] r(1,4) by simp
qed

text \<open>What the mapping reads is always well formed.\<close>

lemma to_entity_wf:
  assumes "to_entity r = Inr j"
  shows "wf_job j \<and> bj_id j = jo_id r"
proof -
  obtain p where p: "progress_of_row r = Inr p" "valid_BackupJob j" "bj_progress j = p"
      "bj_id j = jo_id r" "bj_output_path j = (if truthy (jo_output_path r)
         then map_option path_of_str (jo_output_path r) else None)"
    using assms by (auto simp: to_entity_def bind_sum_Inr)
  have "case p of None \<Rightarrow> True | Some q \<Rightarrow> percent_of_counts q \<le> 10000"
    using p(1) by (auto simp: progress_of_row_def bind_sum_Inr mk_JobProgress_def valid_JobProgress_def
        percent_of_counts_def split: option.splits)
  then show ?thesis using p by (auto simp: wf_job_def wf_path_of_str split: option.splits)
qed

section \<open>The repository satisfies its contract\<close>

definition rows_of :: "string \<Rightarrow> JobORM list \<Rightarrow> JobORM list" where
  "rows_of i rs = filter (\<lambda>r. jo_id r = i) rs"

definition job_of_rows :: "JobORM list \<Rightarrow> string \<Rightarrow> BackupJob option" where
  "job_of_rows rs i =
     (case rows_of i rs of [r] \<Rightarrow> (case to_entity r of Inl e \<Rightarrow> None | Inr j \<Rightarrow> Some j) | _ \<Rightarrow> None)"

definition clean_rows :: "JobORM list \<Rightarrow> string \<Rightarrow> bool" where
  "clean_rows rs i \<longleftrightarrow> rows_of i rs = [] \<or> job_of_rows rs i \<noteq> None"

text \<open>What reads back after storing a job over the given rows.\<close>

definition persisted :: "JobORM list \<Rightarrow> BackupJob \<Rightarrow> BackupJob" where
  "persisted rs j =
     (case rows_of (bj_id j) rs of
        r # _ \<Rightarrow> (case to_entity (update_orm r j) of Inr k \<Rightarrow> k | Inl _ \<Rightarrow> j)
      | [] \<Rightarrow> j\<lparr>bj_progress := map_option recount (bj_progress j)\<rparr>)"

lemma job_of_rows_Some:
  "job_of_rows rs i = Some j \<longleftrightarrow> (\<exists>r. rows_of i rs = [r] \<and> to_entity r = Inr j)"
  by (auto simp: job_of_rows_def split: list.splits sum.splits)

lemma rows_of_add: "rows_of i (rs @ [r]) = rows_of i rs @ (if jo_id r = i then [r] else [])"
  by (simp add: rows_of_def)

lemma rows_of_modify:
  "jo_id new = jo_id old \<Longrightarrow>
   rows_of i (map (\<lambda>r. if r = old then new else r) rs) =
     map (\<lambda>r. if r = old then new else r) (rows_of i rs)"
  unfolding rows_of_def by (induction rs) auto

lemma update_orm_id [simp]: "jo_id (update_orm r j) = jo_id r"
  by (simp add: update_orm_def set_progress_def split: option.split)

lemma to_orm_id [simp]: "jo_id (to_orm j) = bj_id j"
  by (simp add: to_orm_def set_progress_def split: option.split)

lemma recount_same: "same_progress (recount p) p"
  by (simp add: same_progress_def recount_def)

lemma row_entity_progress: "to_entity r = Inr k \<Longrightarrow> progress_of_row r = Inr (bj_progress k)"
  by (auto simp: to_entity_def bind_sum_Inr)

lemma persisted_same:
  assumes "wf_job j" "clean_rows rs (bj_id j)"
  shows "same_job (persisted rs j) j"
proof (cases "rows_of (bj_id j) rs")
  case Nil
  have "persisted rs j = j\<lparr>bj_created_at := bj_created_at j, bj_progress := map_option recount (bj_progress j)\<rparr>"
    using Nil by (simp add: persisted_def)
  then show ?thesis unfolding same_job_def
    by (intro exI [of _ "bj_created_at j"] exI [of _ "map_option recount (bj_progress j)"])
      (simp add: recount_same split: option.split)
next
  case (Cons r rest)
  obtain k where k: "to_entity r = Inr k" "jo_id r = bj_id j"
  proof
    show "to_entity r = Inr (the (job_of_rows rs (bj_id j)))"
      using assms(2) Cons by (auto simp: clean_rows_def job_of_rows_def split: list.splits sum.splits)
    have "r \<in> set (rows_of (bj_id j) rs)" using Cons by simp
    then show "jo_id r = bj_id j" by (simp add: rows_of_def)
  qed
  let ?p = "case bj_progress j of None \<Rightarrow> bj_progress k | Some p \<Rightarrow> Some (recount p)"
  have "persisted rs j = j\<lparr>bj_created_at := jo_created_at r, bj_progress := ?p\<rparr>"
    using Cons to_entity_update [OF assms(1) k(2) row_entity_progress [OF k(1)]]
    by (simp add: persisted_def)
  then show ?thesis unfolding same_job_def
    by (intro exI [of _ "jo_created_at r"] exI [of _ ?p]) (simp add: recount_same split: option.split)
qed

lemma rows_of_id: "rows_of i rs = r # rest \<Longrightarrow> jo_id r = i"
  unfolding rows_of_def by (metis (mono_tags) filter_eq_Cons_iff)

lemma job_of_rows_added:
  assumes "wf_job j" "rows_of (bj_id j) rs = []"
  shows "job_of_rows (rs @ [to_orm j]) = (job_of_rows rs)(bj_id j \<mapsto> persisted rs j)"
  using assms to_entity_to_orm [OF assms(1)]
  by (auto simp: fun_eq_iff job_of_rows_def rows_of_add persisted_def)

lemma job_of_rows_modified:
  assumes "wf_job j" "rows_of (bj_id j) rs = [r]" "clean_rows rs (bj_id j)"
  shows "job_of_rows (map (\<lambda>x. if x = r then update_orm r j else x) rs) =
    (job_of_rows rs)(bj_id j \<mapsto> persisted rs j)"
proof
  fix i
  have id: "jo_id r = bj_id j" using assms(2) by (auto simp: rows_of_def filter_eq_Cons_iff)
  obtain k where k: "to_entity r = Inr k"
    using assms(2,3) by (auto simp: clean_rows_def job_of_rows_Some)
  note u = to_entity_update [OF assms(1) id row_entity_progress [OF k]]
  let ?rs = "map (\<lambda>x. if x = r then update_orm r j else x) rs"
  have ro: "rows_of i ?rs = map (\<lambda>x. if x = r then update_orm r j else x) (rows_of i rs)"
    by (rule rows_of_modify) simp
  show "job_of_rows ?rs i = ((job_of_rows rs)(bj_id j \<mapsto> persisted rs j)) i"
  proof (cases "i = bj_id j")
    case True
    then show ?thesis using ro assms(2) u by (simp add: job_of_rows_def persisted_def)
  next
    case False
    then have "r \<notin> set (rows_of i rs)" using id by (auto simp: rows_of_def)
    then have "rows_of i ?rs = rows_of i rs" unfolding ro by (intro map_idI) auto
    then show ?thesis using False by (simp add: job_of_rows_def)
  qed
qed

locale sql_job_session = sql_session ses rows for ses :: "('s, JobORM) session" and rows
begin

lemma get_spec:
  assumes "SQLJobRepository_get_by_id ses i s = (x, s')"
  shows "rows s' = rows s" and "x = Inr z \<Longrightarrow> z = job_of_rows (rows s) i"
proof -
  obtain y s1 where y: "ss_select ses (where_only (\<lambda>r. jo_id r = i)) s = (y, s1)" by force
  have s1: "rows s1 = rows s" using framesD [OF select_frame y] .
  show "rows s' = rows s"
    using assms y s1 by (auto simp: SQLJobRepository_get_by_id_def bindM_def
        split: sum.splits option.splits)
  assume z: "x = Inr z"
  then obtain xs orm where xs: "y = Inr xs" "scalar_one_or_none xs = Inr orm"
    "(case orm of None \<Rightarrow> returnM None
      | Some r \<Rightarrow> bindM (liftE (to_entity r)) (\<lambda>j. returnM (Some j))) s1 = (Inr z, s')"
    using assms y by (auto simp: SQLJobRepository_get_by_id_def bindM_def split: sum.splits)
  show "z = job_of_rows (rows s) i"
    using select_unique [OF y [unfolded xs(1)] xs(2)] xs(3)
    by (auto simp: job_of_rows_def rows_of_def bindM_def split: sum.splits)
qed

lemma save_spec:
  assumes "SQLJobRepository_save ses j s = (x, s')" "wf_job j" "clean_rows (rows s) (bj_id j)"
  shows "job_of_rows (rows s') = job_of_rows (rows s) \<and> (\<exists>e. x = Inl e) \<or>
         job_of_rows (rows s') = (job_of_rows (rows s))(bj_id j \<mapsto> persisted (rows s) j)"
proof -
  obtain y s1 where y: "ss_select ses (where_only (\<lambda>r. jo_id r = bj_id j)) s = (y, s1)" by force
  have s1: "rows s1 = rows s" using framesD [OF select_frame y] .
  show ?thesis
  proof (cases "\<exists>xs orm. y = Inr xs \<and> scalar_one_or_none xs = Inr orm")
    case False
    then show ?thesis
      using assms(1) y s1 by (cases y) (auto simp: SQLJobRepository_save_def bindM_def split: sum.splits)
  next
    case True
    then obtain xs orm where xs: "y = Inr xs" "scalar_one_or_none xs = Inr orm" by blast
    have u: "(orm = None \<and> rows_of (bj_id j) (rows s) = []) \<or>
             (\<exists>r. orm = Some r \<and> rows_of (bj_id j) (rows s) = [r])"
      using select_unique [OF y [unfolded xs(1)] xs(2)] by (simp add: rows_of_def)
    define c where "c = (case orm of None \<Rightarrow> Added (\<lambda>_. to_orm j) | Some r \<Rightarrow> Modified r (update_orm r j))"
    have run: "ss_commit ses c s1 = (x, s')"
      using assms(1) y xs by (auto simp: SQLJobRepository_save_def bindM_def c_def split: option.splits)
    have app: "job_of_rows (apply_change i c (rows s)) =
        (job_of_rows (rows s))(bj_id j \<mapsto> persisted (rows s) j)" for i
      using u job_of_rows_added [OF assms(2)] job_of_rows_modified [OF assms(2) _ assms(3)]
      by (auto simp: c_def)
    show ?thesis
    proof (cases x)
      case (Inl e)
      then show ?thesis using commit_err [of c s1 e s'] run app s1 by auto
    next
      case (Inr w)
      then show ?thesis using commit_ok [of c s1 w s'] run app s1 by auto
    qed
  qed
qed

end

sublocale sql_job_session \<subseteq> repo: job_repository "SQLJobRepository rt ses"
  "\<lambda>s. job_of_rows (rows s)" "\<lambda>s. persisted (rows s)" wf_job "\<lambda>s. clean_rows (rows s)" for rt
proof
  show "r = job_of_rows (rows s) i" if "jr_get_by_id (SQLJobRepository rt ses) i s = (Inr r, s')" for i s r s'
    using that get_spec(2) by (simp add: SQLJobRepository_def)
  show "frames (\<lambda>s. job_of_rows (rows s)) (jr_get_by_id (SQLJobRepository rt ses) i)" for i
    using get_spec(1) [of i] by (simp add: SQLJobRepository_def frames_def) (metis prod.collapse)
  show "frames (\<lambda>s. job_of_rows (rows s)) (jr_clear_session_cache (SQLJobRepository rt ses))"
    using rollback_frame by (simp add: SQLJobRepository_def frames_def)
  show "frames (\<lambda>s. job_of_rows (rows s)) (jr_list_by_status (SQLJobRepository rt ses) st p n)" for st p n
    unfolding SQLJobRepository_def SQLJobRepository_list_by_status_def IJobRepository.simps
    by (rule frames_comp [of rows], rule frames_bindM, rule select_frame, rule frames_basic)
  show "job_of_rows (rows s') = (job_of_rows (rows s))(bj_id j \<mapsto> persisted (rows s) j)"
    if "jr_save (SQLJobRepository rt ses) j s = (Inr u, s')" "wf_job j" "clean_rows (rows s) (bj_id j)" for j s u s'
    using save_spec [of j s "Inr u" s'] that by (simp add: SQLJobRepository_def)
  show "job_of_rows (rows s') = job_of_rows (rows s) \<or>
      job_of_rows (rows s') = (job_of_rows (rows s))(bj_id j \<mapsto> persisted (rows s) j)"
    if "jr_save (SQLJobRepository rt ses) j s = (Inl e, s')" "wf_job j" "clean_rows (rows s) (bj_id j)" for j s e s'
    using save_spec [of j s "Inl e" s'] that by (auto simp: SQLJobRepository_def)
  show "same_job (persisted (rows s) j) j" if "wf_job j" "clean_rows (rows s) (bj_id j)" for j s
    using that by (rule persisted_same)
  show "wf_job j \<and> bj_id j = i \<and> clean_rows (rows s) i" if job: "job_of_rows (rows s) i = Some j" for s i j
  proof -
    obtain r where r: "rows_of i (rows s) = [r]" "to_entity r = Inr j"
      using job by (auto simp: job_of_rows_Some)
    then show ?thesis using to_entity_wf [OF r(2)] rows_of_id [OF r(1)] job by (simp add: clean_rows_def)
  qed
qed

interpretation ref_jobs: sql_job_session ref_session rf_rows
  by unfold_locales

context sql_job_session begin

lemmas stored_job_reads_back = repo.save_then_get

end

section \<open>Properties\<close>

text \<open>C27. Round trip of the job mapping: storing a well-formed job and reading its row back gives the
  same job, except that the progress percentage is recomputed from the completed collections
  alone. Updating an existing row also keeps that row's creation time, and its progress when the
  job has none.\<close>

theorem job_row_round_trip:
  assumes "wf_job j"
  shows "to_entity (to_orm j) = Inr (j\<lparr>bj_progress := map_option recount (bj_progress j)\<rparr>) \<and>
    (jo_id r = bj_id j \<longrightarrow> to_entity r = Inr k \<longrightarrow>
      to_entity (update_orm r j) = Inr (j\<lparr>bj_created_at := jo_created_at r,
        bj_progress := (case bj_progress j of None \<Rightarrow> bj_progress k | Some p \<Rightarrow> Some (recount p))\<rparr>))"
  using to_entity_to_orm [OF assms] to_entity_update [OF assms _ row_entity_progress] by blast+

definition sample_job :: BackupJob where
  "sample_job =
     \<lparr>bj_id = ''j1'', bj_requester_telegram_id = 7, bj_chat_id = Some (-100), bj_topic_id = None,
      bj_status_message_id = None, bj_backup_type = CUSTOM, bj_status = JobStatus.RUNNING,
      bj_cluster_uri_hash = replicate 64 (CHR ''a''),
      bj_target_collections = [\<lparr>ct_database = ''db'', ct_collection = ''users'',
        ct_status = CollectionBackupStatus.FAILED, ct_size_bytes = None,
        ct_error_message = Some ''boom''\<rparr>],
      bj_progress = Some \<lparr>jp_total_collections = 2, jp_completed_collections = 0,
        jp_failed_collections = 1, jp_retry_count = 0, jp_percent_complete = 5000,
        jp_bytes_processed = 0\<rparr>,
      bj_output_path = Some [''/'', ''backups'', ''a''], bj_error_log = None,
      bj_started_at = Some 20, bj_completed_at = None, bj_cancelled_by = None,
      bj_queue_job_id = Some ''q'', bj_created_at = 10, bj_updated_at = 20\<rparr>"

lemma sample_job_wf: "wf_job sample_job"
  by code_simp

lemma job_row_round_trip_witness:
  "to_entity (to_orm sample_job) =
     Inr (sample_job\<lparr>bj_progress := map_option recount (bj_progress sample_job)\<rparr>) \<and>
   to_entity (update_orm (to_orm (sample_job\<lparr>bj_created_at := 3\<rparr>)) sample_job) =
     Inr (sample_job\<lparr>bj_created_at := 3, bj_progress := map_option recount (bj_progress sample_job)\<rparr>)"
proof -
  let ?r = "to_orm (sample_job\<lparr>bj_created_at := 3\<rparr>)"
  have w: "wf_job (sample_job\<lparr>bj_created_at := 3\<rparr>)" by code_simp
  have "jo_id ?r = bj_id sample_job" "jo_created_at ?r = 3" by code_simp+
  with job_row_round_trip [OF sample_job_wf, of ?r] to_entity_to_orm [OF w]
  show ?thesis by (simp add: sample_job_def)
qed

text \<open>The percentage does not survive the database: a running job with one of two collections
  failed has progress 50 percent, and reads back with 0 percent.\<close>

theorem job_percent_lost:
  "wf_job sample_job \<and> map_option jp_percent_complete (bj_progress sample_job) = Some 5000 \<and>
   (case to_entity (to_orm sample_job) of
      Inl e \<Rightarrow> None | Inr k \<Rightarrow> map_option jp_percent_complete (bj_progress k)) = Some 0"
  by code_simp

text \<open>C26. The SQL repository is a repository: after a save that returned, a lookup that returns finds
  the job under its identifier, unchanged but for creation time and progress percentage; every
  other identifier is untouched, also when the save raised.\<close>

theorem sql_save_then_get:
  assumes "sql_session ses rows" "wf_job j" "clean_rows (rows s) (bj_id j)"
    and "SQLJobRepository_save ses j s = (x, s')"
  shows "(i \<noteq> bj_id j \<longrightarrow> job_of_rows (rows s') i = job_of_rows (rows s) i) \<and>
    (\<forall>r s''. x = Inr () \<longrightarrow> SQLJobRepository_get_by_id ses (bj_id j) s' = (Inr r, s'') \<longrightarrow>
       (\<exists>k. r = Some k \<and> same_job k j))"
proof -
  have loc: "sql_job_session ses rows" using assms(1) by (simp add: sql_job_session_def)
  have "i \<noteq> bj_id j \<longrightarrow> job_of_rows (rows s') i = job_of_rows (rows s) i"
    using sql_job_session.save_spec [OF loc assms(4,2,3)] by auto
  moreover have "\<exists>k. r = Some k \<and> same_job k j"
    if "x = Inr ()" "SQLJobRepository_get_by_id ses (bj_id j) s' = (Inr r, s'')" for r s''
    using sql_job_session.stored_job_reads_back [OF loc, of undefined j s "()" s' r s''] assms that
    by (simp add: SQLJobRepository_def)
  ultimately show ?thesis by blast
qed

lemma sql_save_then_get_witness:
  "\<exists>s' k. SQLJobRepository_save ref_session sample_job \<lparr>rf_rows = [], rf_next = 0\<rparr> = (Inr (), s') \<and>
     SQLJobRepository_get_by_id ref_session ''j1'' s' = (Inr (Some k), s') \<and> same_job k sample_job"
proof -
  let ?s = "\<lparr>rf_rows = [], rf_next = 0\<rparr> :: JobORM ref_table"
  have c: "clean_rows (rf_rows ?s) (bj_id sample_job)" by (simp add: clean_rows_def rows_of_def)
  let ?s' = "\<lparr>rf_rows = [to_orm sample_job], rf_next = 1\<rparr>"
  have sv: "SQLJobRepository_save ref_session sample_job ?s = (Inr (), ?s')"
    by (simp add: SQLJobRepository_save_def ref_session_def bindM_def run_query_def where_only_def
        windowed_def)
  have id: "jo_id (to_orm sample_job) = ''j1''" "bj_id sample_job = ''j1''" by (simp_all add: sample_job_def)
  obtain k where g: "SQLJobRepository_get_by_id ref_session (bj_id sample_job) ?s' = (Inr (Some k), ?s')"
    using to_entity_to_orm [OF sample_job_wf] id
    by (simp add: SQLJobRepository_get_by_id_def ref_session_def bindM_def run_query_def where_only_def
        windowed_def)
  then show ?thesis
    using sql_save_then_get [OF ref_sql.sql_session_axioms sample_job_wf c sv] sv id by fastforce
qed

end
