(* ===== verification/Files.thy ===== *)
theory Files
  imports JobStore
begin

text \<open>
  The file system and \<^verbatim>\<open>app/infrastructure/filesystem/aio_fs_utils.py\<close>, the adapter of \<open>IFsUtils\<close>
  over it. A file system is a list of directory entries keyed by their canonical absolute path
  (regular files with size and modification time, directories with theirs, symbolic links), a working
  directory, the figures of the volume and the clock that stamps new files. The operations of
  \<open>pathlib\<close>, \<open>shutil\<close> and \<open>tarfile\<close> the adapter calls are functions on it.
\<close>

section \<open>File systems\<close>

datatype node = File int datetime | Directory datetime | Link path

type_synonym nodes = "(path \<times> node) list"

record file_system =
  vf_nodes :: nodes
  vf_cwd :: path
  vf_volume :: "int \<times> int \<times> int" \<comment> \<open>total, used, free\<close>
  vf_clock :: datetime

definition entry :: "file_system \<Rightarrow> path \<Rightarrow> node option" where
  "entry fs p = (if p = [''/''] then Some (Directory 0) else map_of (vf_nodes fs) p)"

definition is_absolute :: "path \<Rightarrow> bool" where
  "is_absolute p \<longleftrightarrow> p \<noteq> [] \<and> hd p = ''/''"

text \<open>
  \<open>Path.resolve()\<close>: component by component from \<open>acc\<close>, following at most \<open>n\<close> links. What does
  not exist stays as it is.
\<close>

fun walk :: "(path \<Rightarrow> node option) \<Rightarrow> nat \<Rightarrow> path \<Rightarrow> path \<Rightarrow> exn + path" where
  "walk nd n acc [] = Inr acc"
| "walk nd n acc (c # cs) =
     (if c = ''..'' then walk nd n (if length acc \<le> 1 then acc else butlast acc) cs
      else (case nd (acc @ [c]) of
              Some (Link t) \<Rightarrow>
                (case n of
                   0 \<Rightarrow> Inl (RuntimeError ''Symlink loop'')
                 | Suc m \<Rightarrow> if is_absolute t then walk nd m [''/''] (tl t @ cs) else walk nd m acc (t @ cs))
            | _ \<Rightarrow> walk nd n (acc @ [c]) cs))"

definition MAX_LINKS :: nat where "MAX_LINKS = 40"

definition resolve :: "file_system \<Rightarrow> path \<Rightarrow> exn + path" where
  "resolve fs p =
     (if is_absolute p then walk (entry fs) MAX_LINKS [''/''] (tl p)
      else walk (entry fs) MAX_LINKS (vf_cwd fs) p)"

text \<open>\<open>Path.stat()\<close> follows links; \<open>locate\<close> is the entry itself, as \<open>unlink\<close> and \<open>lstat\<close> see it.\<close>

definition stat :: "file_system \<Rightarrow> path \<Rightarrow> exn + node" where
  "stat fs p = (case resolve fs p of
     Inl e \<Rightarrow> Inl (OSError (exn_str e))
   | Inr q \<Rightarrow> (case entry fs q of None \<Rightarrow> Inl (FileNotFoundError (path_str p)) | Some nd \<Rightarrow> Inr nd))"

definition locate :: "file_system \<Rightarrow> path \<Rightarrow> exn + path" where
  "locate fs p = (if p = [] \<or> p = [''/''] \<or> last p = ''..'' then resolve fs p
     else bind_sum (resolve fs (butlast p)) (\<lambda>q. Inr (q @ [last p])))"

definition exists_path :: "file_system \<Rightarrow> path \<Rightarrow> bool" where
  "exists_path fs p = (case stat fs p of Inl _ \<Rightarrow> False | Inr _ \<Rightarrow> True)"

definition is_file :: "file_system \<Rightarrow> path \<Rightarrow> bool" where
  "is_file fs p = (case stat fs p of Inr (File _ _) \<Rightarrow> True | _ \<Rightarrow> False)"

definition is_symlink :: "file_system \<Rightarrow> path \<Rightarrow> bool" where
  "is_symlink fs p = (case locate fs p of
     Inr q \<Rightarrow> (case entry fs q of Some (Link _) \<Rightarrow> True | _ \<Rightarrow> False) | Inl _ \<Rightarrow> False)"

definition st_mtime :: "node \<Rightarrow> datetime" where
  "st_mtime nd = (case nd of File _ t \<Rightarrow> t | Directory t \<Rightarrow> t | Link _ \<Rightarrow> 0)"

text \<open>
  Putting an entry, and removing one with everything under it. Adding or removing an entry stamps
  the directory it is in; the time stamp of the root is not kept.
\<close>

definition stamp :: "bool \<Rightarrow> datetime \<Rightarrow> node \<Rightarrow> node" where
  "stamp b t nd = (case nd of Directory u \<Rightarrow> Directory (if b then t else u) | _ \<Rightarrow> nd)"

definition touch :: "datetime \<Rightarrow> path \<Rightarrow> nodes \<Rightarrow> nodes" where
  "touch t p nds = map (\<lambda>(q, nd). (q, stamp (q = p) t nd)) nds"

definition put_node :: "path \<Rightarrow> node \<Rightarrow> file_system \<Rightarrow> file_system" where
  "put_node p nd fs = fs\<lparr>vf_nodes :=
     (p, nd) # filter (\<lambda>(q, _). q \<noteq> p)
       (if entry fs p = None then touch (vf_clock fs) (butlast p) (vf_nodes fs) else vf_nodes fs)\<rparr>"

definition remove_tree :: "path \<Rightarrow> file_system \<Rightarrow> file_system" where
  "remove_tree p fs = fs\<lparr>vf_nodes :=
     touch (vf_clock fs) (butlast p) (filter (\<lambda>(q, _). \<not> prefix p q) (vf_nodes fs))\<rparr>"

definition is_directory :: "node option \<Rightarrow> bool" where
  "is_directory nd = (case nd of Some (Directory _) \<Rightarrow> True | _ \<Rightarrow> False)"

text \<open>\<open>Path.mkdir(parents=True, exist_ok=True)\<close>\<close>

fun make_dirs :: "path \<Rightarrow> path \<Rightarrow> file_system \<Rightarrow> exn + file_system" where
  "make_dirs done [] fs = Inr fs"
| "make_dirs done (c # cs) fs =
     (case entry fs (done @ [c]) of
        None \<Rightarrow> make_dirs (done @ [c]) cs (put_node (done @ [c]) (Directory (vf_clock fs)) fs)
      | Some (Directory _) \<Rightarrow> make_dirs (done @ [c]) cs fs
      | Some _ \<Rightarrow> Inl (OSError ''File exists''))"

definition mkdir :: "path \<Rightarrow> file_system \<Rightarrow> exn + file_system" where
  "mkdir p fs = bind_sum (resolve fs p) (\<lambda>q. make_dirs (take 1 q) (drop 1 q) fs)"

text \<open>Opening a file for writing: the parent must be a directory, the target no directory.\<close>

definition write_file :: "path \<Rightarrow> int \<Rightarrow> file_system \<Rightarrow> exn + file_system" where
  "write_file p n fs =
     bind_sum (resolve fs p) (\<lambda>q.
       if \<not> is_directory (entry fs (butlast q)) then Inl (FileNotFoundError (path_str p))
       else if is_directory (entry fs q) then Inl (OSError ''Is a directory'')
       else Inr (put_node q (File n (vf_clock fs)) fs))"

section \<open>Glob patterns\<close>

text \<open>\<open>fnmatch\<close> with the wildcards \<open>*\<close> and \<open>?\<close>; the program uses no bracket expressions.\<close>

fun fnmatch :: "string \<Rightarrow> string \<Rightarrow> bool" where
  "fnmatch [] s \<longleftrightarrow> s = []"
| "fnmatch (c # ps) [] \<longleftrightarrow> c = CHR ''*'' \<and> fnmatch ps []"
| "fnmatch (c # ps) (x # xs) \<longleftrightarrow>
     (if c = CHR ''*'' then fnmatch ps (x # xs) \<or> fnmatch (c # ps) xs
      else (c = CHR ''?'' \<or> c = x) \<and> fnmatch ps xs)"

definition children :: "file_system \<Rightarrow> path \<Rightarrow> string list" where
  "children fs q = map (last \<circ> fst) (filter (\<lambda>(p, _). p \<noteq> [] \<and> butlast p = q) (vf_nodes fs))"

text \<open>The paths below \<open>q\<close>, relative to it; the walk does not enter linked directories.\<close>

definition descendants :: "file_system \<Rightarrow> path \<Rightarrow> path list" where
  "descendants fs q =
     map (\<lambda>(p, _). drop (length q) p) (filter (\<lambda>(p, _). strict_prefix q p) (vf_nodes fs))"

text \<open>\<open>path.glob(pattern)\<close> for a pattern of one component, or of one after \<open>**/\<close>.\<close>

definition glob :: "file_system \<Rightarrow> path \<Rightarrow> string \<Rightarrow> path list" where
  "glob fs p pattern =
     (case resolve fs p of
        Inl _ \<Rightarrow> []
      | Inr q \<Rightarrow>
          if starts_with pattern ''**/''
          then map (\<lambda>r. p @ r) (filter (\<lambda>r. fnmatch (drop 3 pattern) (last r)) (descendants fs q))
          else map (\<lambda>c. p @ [c]) (filter (fnmatch pattern) (children fs q)))"

definition folder_size :: "file_system \<Rightarrow> path \<Rightarrow> int" where
  "folder_size fs p =
     (case stat fs p of
        Inl _ \<Rightarrow> 0
      | Inr (File n _) \<Rightarrow> n
      | Inr _ \<Rightarrow> sum_list (map (\<lambda>r. case stat fs (p @ r) of Inr (File n _) \<Rightarrow> n | _ \<Rightarrow> 0)
                  (case resolve fs p of Inl _ \<Rightarrow> [] | Inr q \<Rightarrow> descendants fs q)))"

text \<open>\<open>Path.name\<close>; the root and the empty path have none.\<close>

definition path_name :: "path \<Rightarrow> string" where
  "path_name p = (if p = [] \<or> p = [''/''] then [] else last p)"

section \<open>AioFsUtils\<close>

text \<open>\<open>au_gzip_size\<close> is the size of the archive \<open>tarfile\<close> writes for a tree of the given size.\<close>

record AioFsUtils =
  au_base_path :: "path option"
  au_gzip_size :: "int \<Rightarrow> int"

definition readF :: "(file_system \<Rightarrow> 'a) \<Rightarrow> (file_system, 'a) M" where
  "readF f = (\<lambda>fs. (Inr (f fs), fs))"

definition tryF :: "(file_system \<Rightarrow> exn + 'a) \<Rightarrow> (file_system, 'a) M" where
  "tryF f = (\<lambda>fs. (f fs, fs))"

definition updateF :: "(file_system \<Rightarrow> exn + file_system) \<Rightarrow> (file_system, unit) M" where
  "updateF f = (\<lambda>fs. case f fs of Inl e \<Rightarrow> (Inl e, fs) | Inr fs' \<Rightarrow> (Inr (), fs'))"

definition AioFsUtils_validate_path :: "AioFsUtils \<Rightarrow> path \<Rightarrow> (file_system, path) M" where
  "AioFsUtils_validate_path au p =
     bindM (tryF (\<lambda>fs. resolve fs p)) (\<lambda>resolved.
     case au_base_path au of
       None \<Rightarrow> returnM resolved
     | Some base \<Rightarrow>
         bindM (tryF (\<lambda>fs. resolve fs base)) (\<lambda>rbase.
         if \<not> prefix rbase resolved
         then raiseM (ValueError (''Path '' @ path_str resolved @ '' is outside the authorized base path''))
         else returnM resolved))"

definition AioFsUtils_ensure_dir :: "AioFsUtils \<Rightarrow> path \<Rightarrow> (file_system, unit) M" where
  "AioFsUtils_ensure_dir au p =
     bindM (AioFsUtils_validate_path au p) (\<lambda>_. updateF (mkdir p))"

definition AioFsUtils_write_text :: "AioFsUtils \<Rightarrow> path \<Rightarrow> string \<Rightarrow> (file_system, unit) M" where
  "AioFsUtils_write_text au p content =
     bindM (AioFsUtils_validate_path au p) (\<lambda>_.
     thenM (AioFsUtils_ensure_dir au (butlast p))
           (updateF (write_file p (int (utf8_length content)))))"

definition AioFsUtils_get_folder_size :: "AioFsUtils \<Rightarrow> path \<Rightarrow> (file_system, int) M" where
  "AioFsUtils_get_folder_size au p =
     bindM (AioFsUtils_validate_path au p) (\<lambda>_. readF (\<lambda>fs. folder_size fs p))"

definition AioFsUtils_get_disk_usage :: "AioFsUtils \<Rightarrow> path \<Rightarrow> (file_system, int \<times> int \<times> int) M" where
  "AioFsUtils_get_disk_usage au p =
     bindM (tryF (\<lambda>fs. stat fs p)) (\<lambda>_. readF vf_volume)"

definition AioFsUtils_compress :: "AioFsUtils \<Rightarrow> path \<Rightarrow> path \<Rightarrow> (file_system, unit) M" where
  "AioFsUtils_compress au src dest =
     bindM (AioFsUtils_validate_path au src) (\<lambda>_.
     bindM (AioFsUtils_validate_path au dest) (\<lambda>_.
     bindM (readF (\<lambda>fs. exists_path fs src)) (\<lambda>ex.
     if \<not> ex then raiseM (FileNotFoundError (''Source not found: '' @ path_str src))
     else updateF (\<lambda>fs. write_file dest (au_gzip_size au (folder_size fs src)) fs))))"

definition AioFsUtils_delete :: "AioFsUtils \<Rightarrow> path \<Rightarrow> (file_system, unit) M" where
  "AioFsUtils_delete au p =
     bindM (AioFsUtils_validate_path au p) (\<lambda>_.
     updateF (\<lambda>fs.
       if \<not> exists_path fs p then Inr fs
       else bind_sum (locate fs p) (\<lambda>q. Inr (remove_tree q fs))))"

definition AioFsUtils_list_files :: "AioFsUtils \<Rightarrow> path \<Rightarrow> string \<Rightarrow> (file_system, path list) M" where
  "AioFsUtils_list_files au p pattern =
     bindM (AioFsUtils_validate_path au p) (\<lambda>_.
     readF (\<lambda>fs. if \<not> exists_path fs p then [] else glob fs p pattern))"

definition AioFsUtils_list_files_recursive ::
  "AioFsUtils \<Rightarrow> path \<Rightarrow> string \<Rightarrow> (file_system, path list) M" where
  "AioFsUtils_list_files_recursive au p pattern =
     bindM (AioFsUtils_validate_path au p) (\<lambda>_.
     readF (\<lambda>fs. if \<not> exists_path fs p then [] else glob fs p pattern))"

definition AioFsUtils_get_modification_time :: "AioFsUtils \<Rightarrow> path \<Rightarrow> (file_system, datetime) M" where
  "AioFsUtils_get_modification_time au p =
     bindM (AioFsUtils_validate_path au p) (\<lambda>_.
     bindM (tryF (\<lambda>fs. stat fs p)) (\<lambda>nd.
     returnM (st_mtime nd)))"

definition AioFsUtils :: "AioFsUtils \<Rightarrow> file_system IFsUtils" where
  "AioFsUtils au =
     \<lparr>fs_ensure_dir = AioFsUtils_ensure_dir au, fs_write_text = AioFsUtils_write_text au,
      fs_get_folder_size = AioFsUtils_get_folder_size au,
      fs_get_disk_usage = AioFsUtils_get_disk_usage au, fs_compress = AioFsUtils_compress au,
      fs_delete = AioFsUtils_delete au, fs_list_files = AioFsUtils_list_files au,
      fs_list_files_recursive = AioFsUtils_list_files_recursive au,
      fs_get_modification_time = AioFsUtils_get_modification_time au\<rparr>"

section \<open>Lemmas\<close>

lemma fileM_run [run_simps]:
  "readF f fs = (Inr (f fs), fs)" "tryF g fs = (g fs, fs)"
  "updateF h fs = (case h fs of Inl e \<Rightarrow> (Inl e, fs) | Inr fs' \<Rightarrow> (Inr (), fs'))"
  by (simp_all add: readF_def tryF_def updateF_def)

lemma bind_sum_eq_Inr: "bind_sum m f = Inr y \<longleftrightarrow> (\<exists>x. m = Inr x \<and> f x = Inr y)"
  by (cases m) (simp_all add: bind_sum_def)

lemma stamp_simps [simp]:
  "stamp False t nd = nd" "stamp b t nd = Link l \<longleftrightarrow> nd = Link l" "stamp b t nd = File n u \<longleftrightarrow> nd = File n u"
  "is_directory (Some (stamp b t nd)) = is_directory (Some nd)"
  by (cases nd; simp add: stamp_def is_directory_def)+

lemma map_of_touch: "map_of (touch t p nds) q = map_option (stamp (q = p) t) (map_of nds q)"
  by (induction nds) (auto simp: touch_def)

lemma map_of_filter_key: "map_of (filter (\<lambda>(q, _). P q) nds) q = (if P q then map_of nds q else None)"
  by (induction nds) auto

lemma entry_put_node:
  "p \<noteq> [''/''] \<Longrightarrow> q \<noteq> butlast p \<Longrightarrow> entry (put_node p nd fs) q = (if q = p then Some nd else entry fs q)"
  by (cases "map_of (vf_nodes fs) q") (simp_all add: entry_def put_node_def map_of_filter_key map_of_touch)

text \<open>An entry's kind survives a stamp; links in particular.\<close>

definition same_links :: "file_system \<Rightarrow> file_system \<Rightarrow> bool" where
  "same_links fs fs' \<longleftrightarrow> vf_cwd fs' = vf_cwd fs \<and> (\<forall>q t. entry fs' q = Some (Link t) \<longleftrightarrow> entry fs q = Some (Link t))"

lemma walk_same_links:
  assumes same: "\<And>q t. nd' q = Some (Link t) \<longleftrightarrow> nd q = Some (Link t)"
  shows "walk nd' n acc cs = walk nd n acc cs"
proof (induction n arbitrary: acc cs)
  case 0
  then show ?case
  proof (induction cs arbitrary: acc)
    case (Cons c cs)
    then show ?case using same [of "acc @ [c]"] by (cases "nd (acc @ [c])"; cases "nd' (acc @ [c])")
      (auto split: node.splits)
  qed simp
next
  case (Suc n)
  note links = Suc
  show ?case
  proof (induction cs arbitrary: acc)
    case (Cons c cs)
    then show ?case using same [of "acc @ [c]"] links by (cases "nd (acc @ [c])"; cases "nd' (acc @ [c])")
      (auto split: node.splits)
  qed simp
qed

lemma resolve_same_links: "same_links fs fs' \<Longrightarrow> resolve fs' p = resolve fs p"
  unfolding resolve_def same_links_def using walk_same_links [of "entry fs'" "entry fs"] by simp

lemma same_links_put:
  "entry fs p = None \<Longrightarrow> (\<And>t. nd \<noteq> Link t) \<Longrightarrow> same_links fs (put_node p nd fs)"
  by (auto simp: same_links_def entry_def put_node_def map_of_filter_key map_of_touch split: if_splits)

lemma same_links_trans: "same_links a b \<Longrightarrow> same_links b c \<Longrightarrow> same_links a c"
  by (simp add: same_links_def)

text \<open>Entries that a change to \<open>q\<close>, and to the stamp of its directory, cannot concern.\<close>

definition off_path :: "path \<Rightarrow> path \<Rightarrow> bool" where
  "off_path rb q \<longleftrightarrow> \<not> prefix rb q \<and> \<not> prefix q rb"

lemma off_path_prefix: "off_path rb q \<Longrightarrow> prefix rb p \<Longrightarrow> prefix x p \<Longrightarrow> x \<noteq> q"
  by (auto simp: off_path_def dest: prefix_same_cases)

lemma entry_put_off:
  "off_path rb q \<Longrightarrow> prefix rb p \<Longrightarrow> prefix x p \<Longrightarrow> x \<noteq> [''/''] \<Longrightarrow> entry (put_node x nd fs) q = entry fs q"
proof -
  assume a: "off_path rb q" "prefix rb p" "prefix x p" "x \<noteq> [''/'']"
  have "prefix (butlast x) p" using a(3) by (metis prefix_order.trans prefixeq_butlast)
  then have "q \<noteq> butlast x" "q \<noteq> x" using off_path_prefix a by blast+
  then show ?thesis by (simp add: entry_put_node a(4))
qed

lemma make_dirs_frame:
  "make_dirs done cs fs = Inr fs' \<Longrightarrow> prefix rb (done @ cs) \<Longrightarrow> done \<noteq> [] \<Longrightarrow>
   same_links fs fs' \<and> (\<forall>q. off_path rb q \<longrightarrow> entry fs' q = entry fs q)"
proof (induction "done" cs fs rule: make_dirs.induct)
  case (1 "done" fs)
  then show ?case by (simp add: same_links_def)
next
  case (2 "done" c cs fs)
  let ?x = "done @ [c]"
  have x: "?x \<noteq> [''/'']" using 2(5) by simp
  show ?case
  proof (cases "entry fs ?x")
    case None
    let ?fs = "put_node ?x (Directory (vf_clock fs)) fs"
    have "same_links ?fs fs' \<and> (\<forall>q. off_path rb q \<longrightarrow> entry fs' q = entry ?fs q)"
      using 2(1) [OF None] 2(3,4) None by simp
    moreover have "entry ?fs q = entry fs q" if "off_path rb q" for q
      by (rule entry_put_off [OF that 2(4) _ x]) simp
    moreover have "same_links fs ?fs" by (rule same_links_put [OF None]) simp
    ultimately show ?thesis by (auto intro: same_links_trans)
  next
    case (Some nd)
    then show ?thesis using 2 by (cases nd) simp_all
  qed
qed

lemma mkdir_frame:
  assumes "mkdir p fs = Inr fs'" "resolve fs p = Inr q" "prefix rb q"
  shows "same_links fs fs' \<and> (\<forall>x. off_path rb x \<longrightarrow> entry fs' x = entry fs x)"
proof (cases q)
  case Nil
  then show ?thesis using assms by (simp add: mkdir_def bind_sum_def same_links_def)
next
  case (Cons c cs)
  then show ?thesis
    using make_dirs_frame [of "[c]" cs fs fs' rb] assms by (simp add: mkdir_def bind_sum_def)
qed

lemma write_file_frame:
  assumes "write_file p n fs = Inr fs'" "resolve fs p = Inr q" "prefix rb q" "off_path rb x"
  shows "entry fs' x = entry fs x"
proof -
  have w: "fs' = put_node q (File n (vf_clock fs)) fs" "\<not> is_directory (entry fs q)"
    using assms(1,2) by (auto simp: write_file_def bind_sum_def split: if_splits)
  then have "q \<noteq> [''/'']" by (auto simp: entry_def is_directory_def)
  then show ?thesis using entry_put_off [OF assms(4,3)] w(1) by simp
qed

lemma entry_remove_tree:
  "x \<noteq> butlast p \<Longrightarrow> entry (remove_tree p fs) x = (if prefix p x \<and> x \<noteq> [''/''] then None else entry fs x)"
  by (cases "map_of (vf_nodes fs) x") (auto simp: entry_def remove_tree_def map_of_touch map_of_filter_key)

lemma remove_tree_frame:
  "off_path rb x \<Longrightarrow> prefix rb q \<Longrightarrow> entry (remove_tree q fs) x = entry fs x"
proof -
  assume a: "off_path rb x" "prefix rb q"
  then have "x \<noteq> butlast q" using off_path_prefix [OF a prefixeq_butlast] by blast
  moreover have "\<not> prefix q x" using a by (auto simp: off_path_def dest: prefix_order.trans)
  ultimately show ?thesis by (simp add: entry_remove_tree)
qed

lemma validate_path_run:
  assumes "AioFsUtils_validate_path au p fs = (x, fs')"
  shows "fs' = fs" and "x = Inr r \<Longrightarrow> resolve fs p = Inr r \<and>
    (case au_base_path au of None \<Rightarrow> True | Some b \<Rightarrow> \<exists>rb. resolve fs b = Inr rb \<and> prefix rb r)"
  using assms
  by (auto simp: AioFsUtils_validate_path_def run_simps split: sum.splits option.splits if_splits)

lemma validate_path_rejects:
  assumes "au_base_path au = Some b" "resolve fs b = Inr rb" "resolve fs p = Inr r" "\<not> prefix rb r"
  shows "\<exists>m. AioFsUtils_validate_path au p fs = (Inl (ValueError m), fs)"
  using assms by (simp add: AioFsUtils_validate_path_def run_simps)

text \<open>A path that is no link names the entry it resolves to.\<close>

lemma locate_resolve:
  assumes "locate fs p = Inr q" "resolve fs p = Inr r" "\<not> is_symlink fs p"
  shows "q = r"
proof (cases "p = [] \<or> p = [''/''] \<or> last p = ''..''")
  case True
  then show ?thesis using assms by (auto simp: locate_def)
next
  case False
  obtain d where d: "resolve fs (butlast p) = Inr d" "q = d @ [last p]"
    using assms(1) False by (auto simp: locate_def bind_sum_eq_Inr)
  have nl: "\<nexists>t. entry fs q = Some (Link t)"
    using assms(1,3) by (auto simp: is_symlink_def split: option.splits node.splits)
  have step: "walk (entry fs) n acc (cs @ [c]) = Inr r"
    if "walk (entry fs) n acc cs = Inr d" "\<nexists>t. entry fs (d @ [c]) = Some (Link t)" "c \<noteq> ''..''" "r = d @ [c]"
    for n acc cs c r
    using that
  proof (induction "entry fs" n acc cs rule: walk.induct)
    case (1 n acc)
    then show ?case by (auto split: option.split node.split)
  next
    case (2 n acc c' cs)
    then show ?case by (auto split: option.splits node.splits nat.splits if_splits)
  qed
  have p: "p = butlast p @ [last p]" using False by simp
  have "resolve fs p = Inr (d @ [last p])"
  proof (cases "is_absolute p")
    case True
    then have "tl p = tl (butlast p) @ [last p]" "is_absolute (butlast p)"
      using False by (cases p; auto simp: is_absolute_def)+
    then show ?thesis using d nl False step [of MAX_LINKS "[''/'']" "tl (butlast p)" "last p"] True
      by (simp add: resolve_def)
  next
    case na: False
    then have "\<not> is_absolute (butlast p)" using False by (cases p) (auto simp: is_absolute_def split: if_splits)
    then show ?thesis using d nl False step [of MAX_LINKS "vf_cwd fs" "butlast p" "last p"] na p
      by (simp add: resolve_def)
  qed
  then show ?thesis using assms(2) d(2) by simp
qed

section \<open>File systems without links\<close>

definition canonical :: "path \<Rightarrow> bool" where
  "canonical p \<longleftrightarrow> is_absolute p \<and> ''..'' \<notin> set p"

definition plain :: "file_system \<Rightarrow> bool" where
  "plain fs \<longleftrightarrow> distinct (map fst (vf_nodes fs)) \<and>
     (\<forall>(q, nd) \<in> set (vf_nodes fs). canonical q \<and> 2 \<le> length q \<and> (\<forall>t. nd \<noteq> Link t))"

lemma walk_plain: "(\<And>q t. nd q \<noteq> Some (Link t)) \<Longrightarrow> ''..'' \<notin> set cs \<Longrightarrow> walk nd n acc cs = Inr (acc @ cs)"
proof (induction cs arbitrary: acc)
  case (Cons c cs)
  then show ?case by (auto split: option.split node.split)
qed simp

lemma plain_entry: "plain fs \<Longrightarrow> entry fs q = Some nd \<Longrightarrow> q \<noteq> [''/''] \<Longrightarrow> canonical q \<and> 2 \<le> length q \<and> (\<forall>t. nd \<noteq> Link t)"
  by (auto simp: plain_def entry_def dest!: map_of_SomeD)

lemma resolve_plain:
  assumes "plain fs" "canonical p"
  shows "resolve fs p = Inr p"
proof -
  have "entry fs q \<noteq> Some (Link t)" for q t
    using plain_entry [OF assms(1), of q] by (cases "q = [''/'']") (auto simp: entry_def)
  moreover have "p = [''/''] @ tl p" "''..'' \<notin> set (tl p)"
    using assms(2) by (cases p; auto simp: canonical_def is_absolute_def)+
  ultimately show ?thesis using assms(2) walk_plain [of "entry fs" "tl p" MAX_LINKS "[''/'']"]
    by (simp add: resolve_def canonical_def)
qed

lemma stat_plain: "plain fs \<Longrightarrow> canonical p \<Longrightarrow>
    stat fs p = (case entry fs p of None \<Rightarrow> Inl (FileNotFoundError (path_str p)) | Some nd \<Rightarrow> Inr nd)"
  by (simp add: stat_def resolve_plain)

text \<open>The entries of one directory, with size and time, as the retention manager sees them.\<close>

definition archives :: "path \<Rightarrow> file_system \<Rightarrow> path \<Rightarrow> (int \<times> datetime) option" where
  "archives base fs p =
     (if p \<noteq> [''/''] \<and> p \<noteq> [] \<and> butlast p = base
      then map_option (\<lambda>nd. (folder_size fs p, st_mtime nd)) (entry fs p) else None)"

lemma archives_Some: "archives base fs p = Some (n, t) \<longleftrightarrow>
    p \<noteq> [''/''] \<and> p \<noteq> [] \<and> butlast p = base \<and> (\<exists>nd. entry fs p = Some nd \<and> n = folder_size fs p \<and> t = st_mtime nd)"
  by (auto simp: archives_def)

lemma archives_dom: "p \<in> dom (archives base fs) \<longleftrightarrow> p \<noteq> [''/''] \<and> p \<noteq> [] \<and> butlast p = base \<and> entry fs p \<noteq> None"
  by (auto simp: archives_def domIff)

lemma validate_plain:
  assumes "plain fs" "canonical p" "au_base_path au = Some b" "canonical b" "prefix b p"
  shows "AioFsUtils_validate_path au p fs = (Inr p, fs)"
  using assms by (simp add: AioFsUtils_validate_path_def run_simps resolve_plain)

lemma glob_plain:
  assumes "plain fs" "canonical b" "\<not> starts_with pat ''**/''"
  shows "distinct (glob fs b pat) \<and> set (glob fs b pat) \<subseteq> dom (archives b fs)"
proof -
  let ?ps = "map fst (filter (\<lambda>(p, _). p \<noteq> [] \<and> butlast p = b) (vf_nodes fs))"
  have "map (\<lambda>c. b @ [c]) (filter Q (children fs b)) = filter (\<lambda>p. Q (last p)) ?ps" for Q
  proof -
    have "map (\<lambda>c. b @ [c]) (filter Q (map (last \<circ> fst) (filter (\<lambda>(p, _). p \<noteq> [] \<and> butlast p = b) nds))) =
        filter (\<lambda>p. Q (last p)) (map fst (filter (\<lambda>(p, _). p \<noteq> [] \<and> butlast p = b) nds))" for nds :: nodes
      by (induction nds) auto
    then show ?thesis by (simp add: children_def)
  qed
  then have g: "glob fs b pat = filter (\<lambda>p. fnmatch pat (last p)) ?ps"
    using assms by (simp add: glob_def resolve_plain)
  have "distinct ?ps" using assms(1) by (auto simp: plain_def distinct_map_filter)
  moreover have "set ?ps \<subseteq> dom (archives b fs)"
  proof
    fix p assume "p \<in> set ?ps"
    then obtain nd where nd: "(p, nd) \<in> set (vf_nodes fs)" "p \<noteq> []" "butlast p = b" by auto
    then have "p \<noteq> [''/'']" using assms(1) by (auto simp: plain_def)
    moreover have "map_of (vf_nodes fs) p = Some nd" using nd(1) assms(1) by (simp add: plain_def)
    ultimately show "p \<in> dom (archives b fs)" using nd by (simp add: archives_dom entry_def)
  qed
  ultimately show ?thesis unfolding g by auto
qed

lemma remove_tree_keys: "map fst (vf_nodes (remove_tree p fs)) = filter (\<lambda>q. \<not> prefix p q) (map fst (vf_nodes fs))"
  by (induction "vf_nodes fs" arbitrary: fs) (auto simp: remove_tree_def touch_def filter_map comp_def case_prod_unfold)

lemma remove_tree_plain: "plain fs \<Longrightarrow> plain (remove_tree p fs)"
proof -
  assume fs: "plain fs"
  have "distinct (map fst (vf_nodes (remove_tree p fs)))"
    unfolding remove_tree_keys using fs by (simp add: plain_def)
  moreover have "canonical q \<and> 2 \<le> length q \<and> (\<forall>t. nd \<noteq> Link t)"
    if "(q, nd) \<in> set (vf_nodes (remove_tree p fs))" for q nd
    using that fs by (auto simp: remove_tree_def touch_def plain_def)
  ultimately show ?thesis by (auto simp: plain_def)
qed

lemma descendants_keys: "descendants fs q = map (drop (length q)) (filter (strict_prefix q) (map fst (vf_nodes fs)))"
  by (simp add: descendants_def filter_map comp_def case_prod_unfold)

lemma folder_size_remove:
  assumes fs: "plain fs" and q: "canonical q" "length q = length p" "q \<noteq> p" "entry fs q \<noteq> None" and b: "p \<noteq> []"
  shows "folder_size (remove_tree p fs) q = folder_size fs q"
proof -
  let ?fs = "remove_tree p fs"
  have np: "\<not> prefix p k" if "prefix q k" for k
    using that q(2,3) by (metis prefix_length_prefix prefix_order.antisym order_refl)
  have nb: "k \<noteq> butlast p" if "prefix q k" for k
    using prefix_length_le [OF that] q(2) b by (cases p rule: rev_cases) auto
  have en: "entry ?fs k = entry fs k" if "prefix q k" for k
    using entry_remove_tree [OF nb [OF that]] np [OF that] by simp
  have d: "descendants ?fs q = descendants fs q"
    unfolding descendants_keys remove_tree_keys
    using np by (auto simp: filter_filter strict_prefix_def intro!: arg_cong [where f = "map _"] filter_cong)
  have st: "stat ?fs (q @ r) = stat fs (q @ r)" if "r \<in> set (descendants fs q)" for r
  proof -
    have "canonical (q @ r)" using that fs by (auto simp: descendants_keys strict_prefix_def prefix_def plain_def)
    then show ?thesis using en [of "q @ r"] fs remove_tree_plain [OF fs] by (simp add: stat_plain)
  qed
  have "stat ?fs q = stat fs q" using en [of q] fs remove_tree_plain [OF fs] q(1) by (simp add: stat_plain)
  moreover have "resolve ?fs q = Inr q" "resolve fs q = Inr q"
    using fs remove_tree_plain [OF fs] q(1) by (simp_all add: resolve_plain)
  ultimately show ?thesis
    using d st by (auto simp: folder_size_def split: sum.split node.split intro!: arg_cong [where f = sum_list] map_cong)
qed

lemma delete_plain:
  assumes fs: "plain fs" and au: "au_base_path au = Some b" "canonical b" and p: "p \<in> dom (archives b fs)"
  shows "AioFsUtils_delete au p fs = (Inr (), remove_tree p fs)"
    and "archives b (remove_tree p fs) = (archives b fs)(p := None)"
proof -
  have e: "p \<noteq> [''/'']" "p \<noteq> []" "butlast p = b" "entry fs p \<noteq> None" using p by (simp_all add: archives_dom)
  then have c: "canonical p" using plain_entry [OF fs] by blast
  have pb: "prefix b p" using e(3) prefixeq_butlast by metis
  have "last p \<noteq> ''..''" using c e(2) last_in_set [of p] by (auto simp: canonical_def simp del: last_in_set)
  then have "locate fs p = Inr p"
    using e fs au(2) append_butlast_last_id [OF e(2)] by (simp add: locate_def bind_sum_def resolve_plain)
  moreover have "exists_path fs p" using e(4) by (auto simp: exists_path_def stat_plain [OF fs c] split: option.split)
  ultimately show "AioFsUtils_delete au p fs = (Inr (), remove_tree p fs)"
    using validate_plain [OF fs c au pb] by (simp add: AioFsUtils_delete_def run_simps bind_sum_def)
  show "archives b (remove_tree p fs) = (archives b fs)(p := None)"
  proof
    fix q
    show "archives b (remove_tree p fs) q = ((archives b fs)(p := None)) q"
    proof (cases "q \<noteq> [''/''] \<and> q \<noteq> [] \<and> butlast q = b")
      case False
      then show ?thesis using e by (auto simp: archives_def)
    next
      case q: True
      then have len: "length q = length p" using e(2,3) by (metis append_butlast_last_id length_append_singleton)
      have nb: "x \<noteq> butlast p" if "length x = length p" for x :: path using e(2) that by (cases p rule: rev_cases) auto
      show ?thesis
      proof (cases "q = p")
        case True
        then show ?thesis using entry_remove_tree [OF nb, of p] e(1) by (simp add: archives_def)
      next
        case False
        then have "\<not> prefix p q" using len by (auto simp: prefix_def)
        then have en: "entry (remove_tree p fs) q = entry fs q" using entry_remove_tree [OF nb [OF len]] by simp
        show ?thesis
        proof (cases "entry fs q")
          case None
          then show ?thesis using en False by (simp add: archives_def)
        next
          case (Some nd)
          then have "canonical q" using plain_entry [OF fs] q by blast
          then show ?thesis using folder_size_remove [OF fs _ len False _ e(2)] en Some False q
            by (simp add: archives_def)
        qed
      qed
    qed
  qed
qed

section \<open>Properties\<close>

datatype fs_change = F_ensure_dir path | F_write_text path string | F_compress path path | F_delete path

fun run_change :: "AioFsUtils \<Rightarrow> fs_change \<Rightarrow> (file_system, unit) M" where
  "run_change au (F_ensure_dir p) = AioFsUtils_ensure_dir au p"
| "run_change au (F_write_text p c) = AioFsUtils_write_text au p c"
| "run_change au (F_compress p q) = AioFsUtils_compress au p q"
| "run_change au (F_delete p) = AioFsUtils_delete au p"

text \<open>The paths a call names.\<close>

fun named_paths :: "fs_change \<Rightarrow> path list" where
  "named_paths (F_ensure_dir p) = [p]"
| "named_paths (F_write_text p c) = [p]"
| "named_paths (F_compress p q) = [p, q]"
| "named_paths (F_delete p) = [p]"

lemma ensure_dir_frame:
  assumes "au_base_path au = Some b" "resolve fs b = Inr rb" "AioFsUtils_ensure_dir au p fs = (x, fs')"
  shows "same_links fs fs' \<and> (\<forall>y. off_path rb y \<longrightarrow> entry fs' y = entry fs y)"
proof -
  obtain v fs1 where v: "AioFsUtils_validate_path au p fs = (v, fs1)" by force
  have "fs' = fs \<or> (\<exists>r. resolve fs p = Inr r \<and> prefix rb r \<and> mkdir p fs = Inr fs')"
    using assms v validate_path_run [OF v]
    by (cases v) (auto simp: AioFsUtils_ensure_dir_def run_simps split: sum.splits)
  then show ?thesis
  proof
    assume "fs' = fs"
    then show ?thesis by (simp add: same_links_def)
  qed (use mkdir_frame in blast)
qed


definition sample_fs :: file_system where
  "sample_fs = \<lparr>vf_nodes = [([''/'', ''b''], Directory 5), ([''/'', ''b'', ''old''], File 10 3),
      ([''/'', ''etc''], Directory 1), ([''/'', ''etc'', ''conf''], File 7 1),
      ([''/'', ''etc'', ''ln''], Link [''/'', ''b'', ''old'']),
      ([''/'', ''b'', ''out''], Link [''/'', ''etc''])],
    vf_cwd = [''/''], vf_volume = (100, 50, 50), vf_clock = 9\<rparr>"

definition sample_au :: AioFsUtils where
  "sample_au = \<lparr>au_base_path = Some [''/'', ''b''], au_gzip_size = (\<lambda>n. n)\<rparr>"


text \<open>A call that names a path whose resolution lies outside the authorised base raises
  \<open>ValueError\<close> and leaves the file system exactly as it was.\<close>

lemma fs_rejects_outside:
  assumes "au_base_path au = Some b" "resolve fs b = Inr rb"
    and "p = hd (named_paths c)" "resolve fs p = Inr r" "\<not> prefix rb r"
  shows "\<exists>m. run_change au c fs = (Inl (ValueError m), fs)"
proof -
  obtain m where m: "AioFsUtils_validate_path au p fs = (Inl (ValueError m), fs)"
    using validate_path_rejects [OF assms(1,2,4,5)] by blast
  show ?thesis
    using m assms(3)
    by (cases c) (auto simp: AioFsUtils_ensure_dir_def AioFsUtils_write_text_def AioFsUtils_compress_def
        AioFsUtils_delete_def bindM_Inl)
qed

lemma fs_rejects_outside_witness:
  "\<exists>m. run_change sample_au (F_write_text [''/'', ''b'', ''out'', ''x''] ''hi'') sample_fs =
     (Inl (ValueError m), sample_fs)"
  by (rule fs_rejects_outside [of _ "[''/'', ''b'']" _ "[''/'', ''b'']" _ _ "[''/'', ''etc'', ''x'']"])
    (code_simp, code_simp, simp, code_simp, simp)

text \<open>The exception of the containment: a symbolic link that lies outside the base and points
  into it passes the check, because the check looks at its target, and is removed.\<close>

theorem fs_delete_escapes:
  "let fs' = snd (AioFsUtils_delete sample_au [''/'', ''etc'', ''ln''] sample_fs) in
   au_base_path sample_au = Some [''/'', ''b''] \<and> resolve sample_fs [''/'', ''b''] = Inr [''/'', ''b''] \<and>
   entry sample_fs [''/'', ''etc'', ''ln''] \<noteq> None \<and> entry fs' [''/'', ''etc'', ''ln''] = None \<and>
   entry fs' [''/'', ''b'', ''old''] = entry sample_fs [''/'', ''b'', ''old'']"
  by code_simp

text \<open>\<open>list_files_recursive\<close> does not descend: with a pattern of one component, such as the one
  the retention manager uses, every path it returns lies directly in the directory asked for.\<close>

theorem recursive_listing_flat:
  assumes "AioFsUtils_list_files_recursive au p pattern fs = (Inr ps, fs')"
    and "\<not> starts_with pattern ''**/''" and "q \<in> set ps"
  shows "fs' = fs \<and> (\<exists>c. q = p @ [c] \<and> fnmatch pattern c)"
proof -
  obtain v fs1 where v: "AioFsUtils_validate_path au p fs = (v, fs1)" by force
  show ?thesis
    using assms v validate_path_run [OF v]
    by (cases v) (auto simp: AioFsUtils_list_files_recursive_def run_simps glob_def split: sum.splits if_splits)
qed

lemma recursive_listing_flat_witness:
  "\<exists>c. [''/'', ''b'', ''old''] = [''/'', ''b''] @ [c] \<and> fnmatch ''o*'' c"
proof -
  have run: "AioFsUtils_list_files_recursive sample_au [''/'', ''b''] ''o*'' sample_fs =
      (Inr [[''/'', ''b'', ''old''], [''/'', ''b'', ''out'']], sample_fs)" by code_simp
  have "\<not> starts_with ''o*'' ''**/''" by code_simp
  from recursive_listing_flat [OF run this, of "[''/'', ''b'', ''old'']"] show ?thesis by simp
qed

end
