(* ===== verification/Config.thy ===== *)
theory Config
  imports Files
begin

text \<open>
  \<^verbatim>\<open>app/config.py\<close>, the settings with their constraints and validators, and the two connections that
  are built from them: \<^verbatim>\<open>app/infrastructure/mongo/mongo_connection.py\<close> and
  \<^verbatim>\<open>app/infrastructure/queue/redis_connection.py\<close>. What of \<open>str\<close>, \<open>int\<close> and \<open>urllib.parse\<close> they and
  the Telegram layer use is defined first.
\<close>

section \<open>Strings\<close>

text \<open>\<open>s.partition(c)\<close> and \<open>s.rpartition(c)\<close>: the text before, whether \<open>c\<close> occurs, the text after.\<close>

definition py_partition :: "char \<Rightarrow> string \<Rightarrow> string \<times> bool \<times> string" where
  "py_partition c s =
     (takeWhile (\<lambda>x. x \<noteq> c) s, c \<in> set s, drop (Suc (length (takeWhile (\<lambda>x. x \<noteq> c) s))) s)"

definition py_rpartition :: "char \<Rightarrow> string \<Rightarrow> string \<times> bool \<times> string" where
  "py_rpartition c s =
     (case py_partition c (rev s) of (after, found, before) \<Rightarrow> if found then (rev before, True, rev after) else ([], False, s))"

text \<open>\<open>s.split(maxsplit=n)\<close> on white space: the rest keeps its trailing space. \<open>s.split()\<close> when \<open>n\<close> is the
  length of \<open>s\<close>.\<close>

fun split_space :: "nat \<Rightarrow> string \<Rightarrow> string list" where
  "split_space 0 s = (let t = dropWhile is_space s in if t = [] then [] else [t])"
| "split_space (Suc n) s =
     (let t = dropWhile is_space s in
      if t = [] then []
      else takeWhile (\<lambda>c. \<not> is_space c) t # split_space n (dropWhile (\<lambda>c. \<not> is_space c) t))"

text \<open>\<open>int(s)\<close>: surrounding white space, a sign, and single underscores between digits are accepted.\<close>

fun parse_digits :: "bool \<Rightarrow> int \<Rightarrow> string \<Rightarrow> int option" where
  "parse_digits after acc [] = (if after then Some acc else None)"
| "parse_digits after acc (c # cs) =
     (if is_digit c then parse_digits True (acc * 10 + digit_value c) cs
      else if c = CHR ''_'' \<and> after then parse_digits False acc cs else None)"

definition py_int :: "string \<Rightarrow> exn + int" where
  "py_int s =
     (let t = py_strip s;
          n = (case t of
                 [] \<Rightarrow> None
               | c # cs \<Rightarrow> if c = CHR ''-'' then map_option uminus (parse_digits False 0 cs)
                          else if c = CHR ''+'' then parse_digits False 0 cs
                          else parse_digits False 0 t) in
      case n of None \<Rightarrow> Inl (ValueError (''invalid literal for int() with base 10: '' @ py_repr s)) | Some i \<Rightarrow> Inr i)"

lemma parse_digits_all: "list_all is_digit s \<Longrightarrow> s \<noteq> [] \<or> after \<Longrightarrow> \<exists>n. parse_digits after acc s = Some n"
  by (induction s arbitrary: after acc) auto

lemma digit_not_space: "is_digit c \<Longrightarrow> \<not> is_space c"
  by (auto simp: is_digit_def is_space_def Let_def)

section \<open>URLs\<close>

definition is_scheme_char :: "char \<Rightarrow> bool" where
  "is_scheme_char c \<longleftrightarrow>
     (let n = of_char c :: nat in (65 \<le> n \<and> n \<le> 90) \<or> (97 \<le> n \<and> n \<le> 122)) \<or> is_digit c \<or> c \<in> set ''+-.''"

record parsed_url =
  pu_scheme :: string
  pu_netloc :: string

text \<open>
  \<open>urlparse\<close>, as far as \<open>scheme\<close> and \<open>netloc\<close>. The normalisation check of a \<open>netloc\<close> beyond ASCII and the
  syntax of an address in brackets are left out; newer Python versions reject some of those.
\<close>

definition urlparse :: "string \<Rightarrow> exn + parsed_url" where
  "urlparse url =
     (let s = filter (\<lambda>c. of_char c \<notin> {9, 10, 13 :: nat}) (dropWhile (\<lambda>c. of_char c \<le> (32 :: nat)) url);
          (pre, found, rest) = py_partition (CHR '':'') s;
          has_scheme = (found \<and> pre \<noteq> [] \<and> is_scheme_char (hd pre) \<and> \<not> is_digit (hd pre) \<and> hd pre \<notin> set ''+-.'' \<and>
                        list_all is_scheme_char pre);
          scheme = (if has_scheme then lower pre else []);
          body = (if has_scheme then rest else s);
          netloc = (if take 2 body = ''//'' then takeWhile (\<lambda>c. c \<notin> set ''/?#'') (drop 2 body) else []) in
      if (CHR ''['' \<in> set netloc) \<noteq> (CHR '']'' \<in> set netloc) then Inl (ValueError ''Invalid IPv6 URL'')
      else Inr \<lparr>pu_scheme = scheme, pu_netloc = netloc\<rparr>)"

definition url_hostname :: "parsed_url \<Rightarrow> string option" where
  "url_hostname p =
     (let (_, _, hostinfo) = py_rpartition (CHR ''@'') (pu_netloc p);
          (_, have_open_br, bracketed) = py_partition (CHR ''['') hostinfo;
          host = (if have_open_br then fst (py_partition (CHR '']'') bracketed)
                  else fst (py_partition (CHR '':'') hostinfo));
          (name, delim, zone) = py_partition (CHR ''%'') host in
      if host = [] then None else Some (lower name @ (if delim then ''%'' @ zone else [])))"

section \<open>AppConfig\<close>

record AppConfig =
  ac_telegram_bot_token :: string
  ac_telegram_chat_id :: string
  ac_topic_backup_requests :: int
  ac_topic_size_ask :: int
  ac_topic_execution_errors :: int
  ac_topic_admin :: int
  ac_mongodb_uri :: string
  ac_mongodump_path :: "string option"
  ac_redis_url :: string
  ac_database_url :: string
  ac_backup_base_path :: path
  ac_retention_full_weeks :: int
  ac_retention_custom_weeks :: int
  ac_retention_max_gb :: int
  ac_log_level :: string
  ac_sqlalchemy_echo :: bool
  ac_rate_limit_max_requests :: int
  ac_rate_limit_window_seconds :: int
  ac_max_concurrent_backups :: int

text \<open>The pattern of \<open>telegram_chat_id\<close>.\<close>

definition is_chat_id :: "string \<Rightarrow> bool" where
  "is_chat_id s = (let ds = (if s \<noteq> [] \<and> hd s = CHR ''-'' then tl s else s) in ds \<noteq> [] \<and> list_all is_digit ds)"

definition valid_AppConfig_fields :: "AppConfig \<Rightarrow> bool" where
  "valid_AppConfig_fields c \<longleftrightarrow>
     ac_telegram_bot_token c \<noteq> [] \<and> is_chat_id (ac_telegram_chat_id c) \<and>
     1 \<le> ac_topic_backup_requests c \<and> 1 \<le> ac_topic_size_ask c \<and> 1 \<le> ac_topic_execution_errors c \<and>
     1 \<le> ac_topic_admin c \<and> ac_mongodb_uri c \<noteq> [] \<and> ac_redis_url c \<noteq> [] \<and> ac_database_url c \<noteq> [] \<and>
     1 \<le> ac_retention_full_weeks c \<and> ac_retention_full_weeks c \<le> 52 \<and>
     1 \<le> ac_retention_custom_weeks c \<and> ac_retention_custom_weeks c \<le> 52 \<and>
     1 \<le> ac_retention_max_gb c \<and> ac_retention_max_gb c \<le> 1000 \<and>
     1 \<le> ac_rate_limit_max_requests c \<and> 1 \<le> ac_rate_limit_window_seconds c \<and>
     1 \<le> ac_max_concurrent_backups c \<and> ac_max_concurrent_backups c \<le> 20"

definition validate_mongodb_uri :: "string \<Rightarrow> exn + string" where
  "validate_mongodb_uri value =
     bind_sum (urlparse value) (\<lambda>parsed.
     if pu_scheme parsed = [] \<or> url_hostname parsed = None
     then Inl (ValueError ''mongodb_uri must contain a valid scheme and host'')
     else if pu_scheme parsed \<notin> {''mongodb'', ''mongodb+srv''}
     then Inl (ValueError (''mongodb_uri scheme must be '' @ py_repr ''mongodb'' @ '' or '' @ py_repr ''mongodb+srv''))
     else Inr value)"

definition validate_backup_base_path :: "path \<Rightarrow> (file_system, path) M" where
  "validate_backup_base_path value =
     bindM (tryF (\<lambda>fs. resolve fs value)) (\<lambda>resolved.
     bindM (readF (\<lambda>fs. stat fs resolved)) (\<lambda>st.
     case st of
       Inr nd \<Rightarrow> if is_directory (Some nd) then returnM resolved
                 else raiseM (ValueError ''backup_base_path must be a directory, not a file'')
     | Inl _ \<Rightarrow>
         thenM (tryM (updateF (mkdir resolved)) (\<lambda>exc.
                  if is_OSError exc
                  then raiseM (ValueError (''backup_base_path '' @ py_repr (path_str resolved) @ '' cannot be created: '' @ exn_str exc))
                  else raiseM exc))
               (returnM resolved)))"

definition validate_log_level :: "string \<Rightarrow> exn + string" where
  "validate_log_level value =
     (let u = upper value in
      if u \<notin> {''DEBUG'', ''INFO'', ''WARNING'', ''ERROR'', ''CRITICAL''}
      then Inl (ValueError (''log_level must be one of the known levels, got '' @ py_repr value))
      else Inr u)"

text \<open>
  Building the settings from raw values of the right types. Pydantic runs the validators of all fields and
  collects their \<open>ValueError\<close>s, so the directory is made even when another field is wrong.
\<close>

definition is_Inr :: "'a + 'b \<Rightarrow> bool" where
  "is_Inr x = (case x of Inl _ \<Rightarrow> False | Inr _ \<Rightarrow> True)"

definition mk_AppConfig :: "AppConfig \<Rightarrow> (file_system, AppConfig) M" where
  "mk_AppConfig raw =
     bindM (tryM (bindM (validate_backup_base_path (ac_backup_base_path raw)) (\<lambda>p. returnM (Some p)))
                 (\<lambda>exc. if is_ValueError exc then returnM None else raiseM exc)) (\<lambda>base.
     case (base, validate_log_level (ac_log_level raw)) of
       (Some p, Inr level) \<Rightarrow>
         if valid_AppConfig_fields raw \<and> is_Inr (validate_mongodb_uri (ac_mongodb_uri raw))
         then returnM (raw\<lparr>ac_backup_base_path := p, ac_log_level := level\<rparr>)
         else raiseM (ValidationError ''AppConfig'')
     | _ \<Rightarrow> raiseM (ValidationError ''AppConfig''))"

text \<open>The hash of the URI; \<open>sha256\<close> is the digest in hexadecimal of the UTF-8 bytes.\<close>

definition AppConfig_cluster_uri_hash :: "(string \<Rightarrow> string) \<Rightarrow> AppConfig \<Rightarrow> string" where
  "AppConfig_cluster_uri_hash sha256 c = sha256 (ac_mongodb_uri c)"

section \<open>Connections\<close>

text \<open>
  A connection holds its client in a cell of the state, \<open>None\<close> before \<open>connect\<close> and after \<open>close\<close>. Clients are
  made by a parameter, from the settings the constructor was given.
\<close>

record mongo_options =
  mo_uri :: string
  mo_server_selection_timeout_ms :: int
  mo_connect_timeout_ms :: int
  mo_socket_timeout_ms :: int
  mo_max_pool_size :: int

record ('s, 'c) MongoConnection =
  mcn_options :: mongo_options
  mcn_client :: "'s \<Rightarrow> 'c option"
  mcn_set_client :: "'c option \<Rightarrow> 's \<Rightarrow> 's"
  mcn_new_client :: "mongo_options \<Rightarrow> ('s, 'c) M"
  mcn_close_client :: "'c \<Rightarrow> ('s, unit) M"
  mcn_ping_client :: "'c \<Rightarrow> ('s, unit) M" \<comment> \<open>\<open>client.admin.command("ping")\<close>\<close>

definition MongoConnection_from_config :: "AppConfig \<Rightarrow> mongo_options" where
  "MongoConnection_from_config c =
     \<lparr>mo_uri = ac_mongodb_uri c, mo_server_selection_timeout_ms = 5000, mo_connect_timeout_ms = 5000,
      mo_socket_timeout_ms = 10000, mo_max_pool_size = 50\<rparr>"

definition MongoConnection_close :: "('s, 'c) MongoConnection \<Rightarrow> ('s, unit) M" where
  "MongoConnection_close mc = (\<lambda>s. case mcn_client mc s of
     None \<Rightarrow> (Inr (), s)
   | Some c \<Rightarrow> thenM (mcn_close_client mc c) (\<lambda>s. (Inr (), mcn_set_client mc None s)) s)"

definition MongoConnection_connect :: "('s, 'c) MongoConnection \<Rightarrow> ('s, unit) M" where
  "MongoConnection_connect mc =
     thenM (\<lambda>s. if mcn_client mc s \<noteq> None then MongoConnection_close mc s else (Inr (), s))
    (bindM (mcn_new_client mc (mcn_options mc)) (\<lambda>c s. (Inr (), mcn_set_client mc (Some c) s)))"

definition MongoConnection_client :: "('s, 'c) MongoConnection \<Rightarrow> ('s, 'c) M" where
  "MongoConnection_client mc = (\<lambda>s. case mcn_client mc s of
     None \<Rightarrow> (Inl (RuntimeError ''MongoConnection not open; call connect() first''), s)
   | Some c \<Rightarrow> (Inr c, s))"

definition MongoConnection_is_open :: "('s, 'c) MongoConnection \<Rightarrow> 's \<Rightarrow> bool" where
  "MongoConnection_is_open mc s \<longleftrightarrow> mcn_client mc s \<noteq> None"

text \<open>\<open>_uri_masked\<close> and \<open>_url_masked\<close>, which are all the log ever shows of a URI.\<close>

definition masked :: "string \<Rightarrow> string \<Rightarrow> string" where
  "masked default_scheme uri =
     (case urlparse uri of
        Inl _ \<Rightarrow> default_scheme @ ''://***''
      | Inr p \<Rightarrow> (if pu_scheme p = [] then default_scheme else pu_scheme p) @ ''://***@'' @
                (case url_hostname p of None \<Rightarrow> ''unknown'' | Some h \<Rightarrow> h))"

definition MongoConnection_uri_masked :: "mongo_options \<Rightarrow> string" where
  "MongoConnection_uri_masked mo = masked ''mongodb'' (mo_uri mo)"

definition MongoConnection_ping :: "('s, 'c) MongoConnection \<Rightarrow> ('s, bool) M" where
  "MongoConnection_ping mc = (\<lambda>s. case mcn_client mc s of
     None \<Rightarrow> (Inr False, s)
   | Some c \<Rightarrow> tryM (thenM (mcn_ping_client mc c) (returnM True)) (\<lambda>exc. returnM False) s)"

record redis_options =
  ro_redis_url :: string
  ro_socket_timeout :: int
  ro_socket_connect_timeout :: int
  ro_max_connections :: int

record ('s, 'c) RedisConnection =
  rcn_options :: redis_options
  rcn_client :: "'s \<Rightarrow> 'c option"
  rcn_set_client :: "'c option \<Rightarrow> 's \<Rightarrow> 's"
  rcn_new_client :: "redis_options \<Rightarrow> bool \<Rightarrow> ('s, 'c) M" \<comment> \<open>whether certificates are required\<close>
  rcn_close_client :: "'c \<Rightarrow> ('s, unit) M"
  rcn_ping_client :: "'c \<Rightarrow> ('s, bool) M"

definition RedisConnection_from_config :: "AppConfig \<Rightarrow> redis_options" where
  "RedisConnection_from_config c =
     \<lparr>ro_redis_url = ac_redis_url c, ro_socket_timeout = 5, ro_socket_connect_timeout = 5, ro_max_connections = 50\<rparr>"

definition RedisConnection_close :: "('s, 'c) RedisConnection \<Rightarrow> ('s, unit) M" where
  "RedisConnection_close rc = (\<lambda>s. case rcn_client rc s of
     None \<Rightarrow> (Inr (), s)
   | Some c \<Rightarrow> thenM (rcn_close_client rc c) (\<lambda>s. (Inr (), rcn_set_client rc None s)) s)"

definition RedisConnection_connect :: "('s, 'c) RedisConnection \<Rightarrow> ('s, unit) M" where
  "RedisConnection_connect rc =
     thenM (\<lambda>s. if rcn_client rc s \<noteq> None then RedisConnection_close rc s else (Inr (), s))
    (bindM (liftE (urlparse (ro_redis_url (rcn_options rc)))) (\<lambda>parsed.
     bindM (rcn_new_client rc (rcn_options rc) (pu_scheme parsed = ''rediss''))
       (\<lambda>c s. (Inr (), rcn_set_client rc (Some c) s))))"

definition RedisConnection_client :: "('s, 'c) RedisConnection \<Rightarrow> ('s, 'c) M" where
  "RedisConnection_client rc = (\<lambda>s. case rcn_client rc s of
     None \<Rightarrow> (Inl (RuntimeError ''RedisConnection not open; call connect() first''), s)
   | Some c \<Rightarrow> (Inr c, s))"

definition RedisConnection_is_open :: "('s, 'c) RedisConnection \<Rightarrow> 's \<Rightarrow> bool" where
  "RedisConnection_is_open rc s \<longleftrightarrow> rcn_client rc s \<noteq> None"

definition RedisConnection_url_masked :: "redis_options \<Rightarrow> string" where
  "RedisConnection_url_masked ro = masked ''redis'' (ro_redis_url ro)"

definition RedisConnection_ping :: "('s, 'c) RedisConnection \<Rightarrow> ('s, bool) M" where
  "RedisConnection_ping rc = (\<lambda>s. case rcn_client rc s of
     None \<Rightarrow> (Inr False, s)
   | Some c \<Rightarrow> tryM (rcn_ping_client rc c) (\<lambda>exc. returnM False) s)"

end
