(* ===== verification/UserStore.thy ===== *)
theory UserStore
  imports JobStore
begin

text \<open>
  \<^verbatim>\<open>app/infrastructure/persistence/sql_user_repository.py\<close> and
  \<^verbatim>\<open>sql_audit_repository.py\<close> with their rows, over the session parameter of theory \<open>Database\<close>.
  The JSON columns of the audit row are represented by the document they hold, a \<open>pyval\<close>.
\<close>

section \<open>SQLUserRepository\<close>

record UserORM =
  uo_telegram_id :: int
  uo_username :: "string option"
  uo_role :: string
  uo_is_active :: bool
  uo_created_at :: datetime
  uo_updated_at :: datetime

definition user_to_entity :: "UserORM \<Rightarrow> exn + User" where
  "user_to_entity r =
     bind_sum (parse_role (uo_role r)) (\<lambda>role.
     mk_User (uo_telegram_id r) (uo_username r) role (uo_is_active r) (uo_created_at r))"

text \<open>\<open>updated_at\<close> of a new row is the column default, the database's clock; here its creation.\<close>

definition user_to_orm :: "User \<Rightarrow> UserORM" where
  "user_to_orm u =
     \<lparr>uo_telegram_id = u_telegram_id u, uo_username = u_username u, uo_role = role_value (u_role u),
      uo_is_active = u_is_active u, uo_created_at = u_created_at u, uo_updated_at = u_created_at u\<rparr>"

definition user_row :: "('s, UserORM) session \<Rightarrow> int \<Rightarrow> ('s, UserORM option) M" where
  "user_row ses telegram_id =
     bindM (ss_select ses (where_only (\<lambda>r. uo_telegram_id r = telegram_id)))
       (\<lambda>xs. liftE (scalar_one_or_none xs))"

definition SQLUserRepository_get_by_telegram_id ::
  "('s, UserORM) session \<Rightarrow> int \<Rightarrow> ('s, User option) M" where
  "SQLUserRepository_get_by_telegram_id ses telegram_id =
     bindM (user_row ses telegram_id) (\<lambda>orm.
     case orm of None \<Rightarrow> returnM None
     | Some r \<Rightarrow> bindM (liftE (user_to_entity r)) (\<lambda>u. returnM (Some u)))"

definition SQLUserRepository_list_all ::
  "('s, UserORM) session \<Rightarrow> int \<Rightarrow> int \<Rightarrow> ('s, User list) M" where
  "SQLUserRepository_list_all ses page page_size =
     bindM (ss_select ses \<lparr>qr_where = (\<lambda>_. True), qr_order = Ascending uo_created_at,
                           qr_offset = (page - 1) * page_size, qr_limit = Some page_size\<rparr>)
       (\<lambda>xs. liftE (map_sum_list user_to_entity xs))"

definition SQLUserRepository_count_all :: "('s, UserORM) session \<Rightarrow> ('s, int) M" where
  "SQLUserRepository_count_all ses =
     bindM (ss_count ses (\<lambda>_. True)) (\<lambda>n. returnM (or0 n))"

definition SQLUserRepository_save :: "('s, UserORM) session \<Rightarrow> User \<Rightarrow> ('s, unit) M" where
  "SQLUserRepository_save ses user =
     bindM (user_row ses (u_telegram_id user)) (\<lambda>orm.
     case orm of
       None \<Rightarrow> ss_commit ses (Added (\<lambda>_. user_to_orm user))
     | Some r \<Rightarrow> ss_commit ses (Modified r (r\<lparr>uo_username := u_username user,
           uo_role := role_value (u_role user), uo_is_active := u_is_active user,
           uo_updated_at := u_created_at user\<rparr>)))"

definition SQLUserRepository_update_role ::
  "('s, UserORM) session \<Rightarrow> int \<Rightarrow> UserRole \<Rightarrow> ('s, User option) M" where
  "SQLUserRepository_update_role ses telegram_id role =
     bindM (user_row ses telegram_id) (\<lambda>orm.
     case orm of
       None \<Rightarrow> returnM None
     | Some r \<Rightarrow>
         let r' = r\<lparr>uo_role := role_value role\<rparr> in
         thenM (ss_commit ses (Modified r r'))
               (bindM (liftE (user_to_entity r')) (\<lambda>u. returnM (Some u))))"

definition SQLUserRepository_toggle_active ::
  "('s, UserORM) session \<Rightarrow> int \<Rightarrow> ('s, User option) M" where
  "SQLUserRepository_toggle_active ses telegram_id =
     bindM (user_row ses telegram_id) (\<lambda>orm.
     case orm of
       None \<Rightarrow> returnM None
     | Some r \<Rightarrow>
         let r' = r\<lparr>uo_is_active := \<not> uo_is_active r\<rparr> in
         thenM (ss_commit ses (Modified r r'))
               (bindM (liftE (user_to_entity r')) (\<lambda>u. returnM (Some u))))"

definition SQLUserRepository :: "('s, UserORM) session \<Rightarrow> 's IUserRepository" where
  "SQLUserRepository ses =
     \<lparr>ur_get_by_telegram_id = SQLUserRepository_get_by_telegram_id ses,
      ur_list_all = SQLUserRepository_list_all ses,
      ur_count_all = SQLUserRepository_count_all ses,
      ur_save = SQLUserRepository_save ses,
      ur_update_role = SQLUserRepository_update_role ses,
      ur_toggle_active = SQLUserRepository_toggle_active ses\<rparr>"

subsection \<open>What is stored\<close>

definition user_rows :: "int \<Rightarrow> UserORM list \<Rightarrow> UserORM list" where
  "user_rows i rs = filter (\<lambda>r. uo_telegram_id r = i) rs"

definition user_of_rows :: "UserORM list \<Rightarrow> int \<Rightarrow> User option" where
  "user_of_rows rs i =
     (case user_rows i rs of [r] \<Rightarrow> (case user_to_entity r of Inl e \<Rightarrow> None | Inr u \<Rightarrow> Some u) | _ \<Rightarrow> None)"

lemma user_to_entity_Inr:
  "user_to_entity r = Inr u \<longleftrightarrow>
     0 < uo_telegram_id r \<and> uo_role r = role_value (u_role u) \<and>
     u_telegram_id u = uo_telegram_id r \<and> u_username u = uo_username r \<and>
     u_is_active u = uo_is_active r \<and> u_created_at u = uo_created_at r"
  by (cases u) (auto simp: user_to_entity_def bind_sum_Inr mk_User_Inr parse_role_Inr)

lemma user_of_rows_Some:
  "user_of_rows rs i = Some u \<longleftrightarrow> (\<exists>r. user_rows i rs = [r] \<and> user_to_entity r = Inr u)"
  by (auto simp: user_of_rows_def split: list.splits sum.splits)

lemma user_rows_id: "user_rows i rs = r # rest \<Longrightarrow> uo_telegram_id r = i"
  unfolding user_rows_def by (metis (mono_tags) filter_eq_Cons_iff)

lemma user_rows_modify:
  "uo_telegram_id new = uo_telegram_id old \<Longrightarrow>
   user_rows i (map (\<lambda>r. if r = old then new else r) rs) =
     map (\<lambda>r. if r = old then new else r) (user_rows i rs)"
  unfolding user_rows_def by (induction rs) auto

text \<open>Writing to the one row of a user changes that user only.\<close>

lemma user_of_rows_modified:
  assumes "user_rows i rs = [r]" "uo_telegram_id r' = uo_telegram_id r" "user_to_entity r' = Inr u"
  shows "user_of_rows (map (\<lambda>x. if x = r then r' else x) rs) = (user_of_rows rs)(i \<mapsto> u)"
proof
  fix k
  let ?rs = "map (\<lambda>x. if x = r then r' else x) rs"
  have ro: "user_rows k ?rs = map (\<lambda>x. if x = r then r' else x) (user_rows k rs)"
    by (rule user_rows_modify) (rule assms(2))
  show "user_of_rows ?rs k = ((user_of_rows rs)(i \<mapsto> u)) k"
  proof (cases "k = i")
    case True
    then show ?thesis using ro assms by (simp add: user_of_rows_def)
  next
    case False
    then have "r \<notin> set (user_rows k rs)" using user_rows_id [OF assms(1)] by (auto simp: user_rows_def)
    then have "user_rows k ?rs = user_rows k rs" unfolding ro by (intro map_idI) auto
    then show ?thesis using False by (simp add: user_of_rows_def)
  qed
qed

locale sql_user_session = sql_session ses rows for ses :: "('s, UserORM) session" and rows
begin

lemma user_row_spec:
  assumes "user_row ses i s = (x, s')"
  shows "rows s' = rows s \<and> (\<forall>orm. x = Inr orm \<longrightarrow>
     (orm = None \<and> user_rows i (rows s) = []) \<or> (\<exists>r. orm = Some r \<and> user_rows i (rows s) = [r]))"
proof -
  obtain y s1 where y: "ss_select ses (where_only (\<lambda>r. uo_telegram_id r = i)) s = (y, s1)" by force
  show ?thesis
  proof (cases y)
    case (Inl e)
    then show ?thesis using assms y framesD [OF select_frame y] by (auto simp: user_row_def bindM_def)
  next
    case (Inr xs)
    then show ?thesis
      using assms y framesD [OF select_frame y] select_unique [OF y [unfolded Inr]]
      by (auto simp: user_row_def bindM_def user_rows_def)
  qed
qed

text \<open>One modification of the row of a user, and reading back its entity.\<close>

lemma modify_user_spec:
  assumes run: "bindM (user_row ses i) (\<lambda>orm. case orm of None \<Rightarrow> returnM None
      | Some r \<Rightarrow> thenM (ss_commit ses (Modified r (f r)))
          (bindM (liftE (user_to_entity (f r))) (\<lambda>u. returnM (Some u)))) s = (x, s')"
    and f: "\<And>r u. user_to_entity r = Inr u \<Longrightarrow> user_to_entity (f r) = Inr (g u)"
      "\<And>r. uo_telegram_id (f r) = uo_telegram_id r"
    and u: "user_of_rows (rows s) i = Some u"
  shows "(x = Inr (Some (g u)) \<and> user_of_rows (rows s') = (user_of_rows (rows s))(i \<mapsto> g u)) \<or>
    (\<exists>e. x = Inl e) \<and> (user_of_rows (rows s') = user_of_rows (rows s) \<or>
      user_of_rows (rows s') = (user_of_rows (rows s))(i \<mapsto> g u))"
proof -
  obtain y s1 where y: "user_row ses i s = (y, s1)" by force
  note sp = user_row_spec [OF y]
  obtain r where r: "user_rows i (rows s) = [r]" "user_to_entity r = Inr u"
    using u by (auto simp: user_of_rows_Some)
  show ?thesis
  proof (cases y)
    case (Inl e)
    then show ?thesis using run y sp by (auto simp: bindM_def)
  next
    case (Inr orm)
    then have "orm = Some r" using sp r(1) by auto
    then obtain z s2 where z: "ss_commit ses (Modified r (f r)) s1 = (z, s2)" "s' = s2"
      "x = (case z of Inl e \<Rightarrow> Inl e | Inr _ \<Rightarrow> Inr (Some (g u)))"
      using run y Inr f(1) [OF r(2)] by (cases "ss_commit ses (Modified r (f r)) s1")
        (auto simp: bindM_def thenM_def split: sum.splits)
    have app: "user_of_rows (apply_change n (Modified r (f r)) (rows s)) = (user_of_rows (rows s))(i \<mapsto> g u)" for n
      using user_of_rows_modified [OF r(1) f(2) f(1) [OF r(2)]] by simp
    show ?thesis
    proof (cases z)
      case (Inl e)
      then show ?thesis using commit_err [OF z(1) [unfolded Inl]] z sp app by auto
    next
      case (Inr v)
      then show ?thesis using commit_ok [OF z(1) [unfolded Inr]] z sp app by auto
    qed
  qed
qed

text \<open>Saving a user who has no row adds one.\<close>

lemma save_new_user:
  assumes run: "SQLUserRepository_save ses u s = (x, s')" and new: "user_rows (u_telegram_id u) (rows s) = []"
    and pos: "0 < u_telegram_id u"
  shows "(x = Inr () \<and> user_of_rows (rows s') = (user_of_rows (rows s))(u_telegram_id u \<mapsto> u)) \<or>
    (\<exists>e. x = Inl e) \<and> (rows s' = rows s \<or> user_of_rows (rows s') = (user_of_rows (rows s))(u_telegram_id u \<mapsto> u))"
proof -
  obtain y s1 where y: "user_row ses (u_telegram_id u) s = (y, s1)" by force
  note sp = user_row_spec [OF y]
  have ent: "user_to_entity (user_to_orm u) = Inr u"
    using pos by (simp add: user_to_entity_Inr user_to_orm_def)
  have "user_of_rows (apply_change n (Added (\<lambda>_. user_to_orm u)) (rows s)) k =
      ((user_of_rows (rows s))(u_telegram_id u \<mapsto> u)) k" for n k
    using new ent by (simp add: user_of_rows_def user_rows_def user_to_orm_def)
  then have app: "user_of_rows (apply_change n (Added (\<lambda>_. user_to_orm u)) (rows s)) =
      (user_of_rows (rows s))(u_telegram_id u \<mapsto> u)" for n by blast
  show ?thesis
  proof (cases y)
    case (Inl e)
    then show ?thesis using run y sp by (auto simp: SQLUserRepository_save_def bindM_def)
  next
    case (Inr orm)
    then have "orm = None" using sp new by auto
    then have c: "ss_commit ses (Added (\<lambda>_. user_to_orm u)) s1 = (x, s')"
      using run y Inr by (auto simp: SQLUserRepository_save_def bindM_def)
    show ?thesis
    proof (cases x)
      case (Inl e)
      then show ?thesis using commit_err [OF c [unfolded Inl]] sp app by auto
    next
      case (Inr v)
      then show ?thesis using commit_ok [OF c [unfolded Inr]] sp app by auto
    qed
  qed
qed

lemma get_user_spec:
  assumes "SQLUserRepository_get_by_telegram_id ses i s = (x, s')"
  shows "rows s' = rows s \<and> (x = Inr None \<longrightarrow> user_rows i (rows s) = []) \<and>
    (\<forall>u. x = Inr (Some u) \<longrightarrow> user_of_rows (rows s) i = Some u)"
proof -
  obtain y s1 where y: "user_row ses i s = (y, s1)" by force
  show ?thesis
    using assms y user_row_spec [OF y]
    by (auto simp: SQLUserRepository_get_by_telegram_id_def bindM_def user_of_rows_Some
        split: sum.splits option.splits)
qed

lemma get_user_id: "SQLUserRepository_get_by_telegram_id ses i s = (Inr (Some u), s') \<Longrightarrow> u_telegram_id u = i"
  using get_user_spec user_rows_id by (fastforce simp: user_of_rows_Some user_to_entity_Inr)

end

interpretation ref_users: sql_user_session ref_session rf_rows
  by unfold_locales

section \<open>SQLAuditRepository\<close>

record AuditLogORM =
  ao_id :: int
  ao_telegram_id :: "int option"
  ao_action :: string
  ao_topic :: "string option"
  ao_command :: "string option"
  ao_job_id :: "string option"
  ao_cluster_uri_hash :: "string option"
  ao_databases :: "pyval option"
  ao_collections :: "pyval option"
  ao_result :: "string option"
  ao_duration_ms :: "int option"
  ao_ip_address :: "string option"
  ao_user_agent :: "string option"
  ao_timestamp :: datetime
  ao_details :: "pyval option"

definition dumps_json_list :: "string list option \<Rightarrow> pyval option" where
  "dumps_json_list x = map_option (\<lambda>xs. PList (map PStr xs)) x"

definition dumps_json_dict :: "pydict option \<Rightarrow> pyval option" where
  "dumps_json_dict x = map_option PDict x"

text \<open>What pydantic accepts for \<open>list[str] | None\<close> and \<open>dict[str, Any] | None\<close>.\<close>

definition loads_json_list :: "pyval option \<Rightarrow> exn + string list option" where
  "loads_json_list x = (case x of None \<Rightarrow> Inr None
     | Some PNone \<Rightarrow> Inr None
     | Some (PList vs) \<Rightarrow>
         bind_sum (map_sum_list (\<lambda>v. case v of PStr s \<Rightarrow> Inr s | _ \<Rightarrow> Inl (ValidationError ''list'')) vs)
           (\<lambda>ss. Inr (Some ss))
     | _ \<Rightarrow> Inl (ValidationError ''list''))"

definition loads_json_dict :: "pyval option \<Rightarrow> exn + pydict option" where
  "loads_json_dict x = (case x of None \<Rightarrow> Inr None
     | Some PNone \<Rightarrow> Inr None
     | Some (PDict d) \<Rightarrow> Inr (Some d)
     | _ \<Rightarrow> Inl (ValidationError ''dict''))"

definition or_empty :: "string option \<Rightarrow> string" where
  "or_empty x = (case x of None \<Rightarrow> [] | Some s \<Rightarrow> s)"

definition audit_to_entity :: "AuditLogORM \<Rightarrow> exn + AuditLog" where
  "audit_to_entity r =
     bind_sum (loads_json_list (ao_databases r)) (\<lambda>dbs.
     bind_sum (loads_json_list (ao_collections r)) (\<lambda>colls.
     bind_sum (loads_json_dict (ao_details r)) (\<lambda>details.
     validated valid_AuditLog ''AuditLog''
       \<lparr>al_id = Some (ao_id r), al_telegram_id = or0 (ao_telegram_id r), al_action = ao_action r,
        al_topic = or_empty (ao_topic r), al_command = ao_command r, al_job_id = ao_job_id r,
        al_cluster_uri_hash = ao_cluster_uri_hash r, al_databases = dbs, al_collections = colls,
        al_result = or_empty (ao_result r), al_duration_ms = ao_duration_ms r,
        al_ip_address = ao_ip_address r, al_user_agent = ao_user_agent r, al_timestamp = ao_timestamp r, al_details = details\<rparr>)))"

definition audit_to_orm :: "AuditLog \<Rightarrow> int \<Rightarrow> AuditLogORM" where
  "audit_to_orm e i =
     \<lparr>ao_id = i, ao_telegram_id = Some (al_telegram_id e), ao_action = al_action e,
      ao_topic = Some (al_topic e), ao_command = al_command e, ao_job_id = al_job_id e,
      ao_cluster_uri_hash = al_cluster_uri_hash e, ao_databases = dumps_json_list (al_databases e),
      ao_collections = dumps_json_list (al_collections e), ao_result = Some (al_result e),
      ao_duration_ms = al_duration_ms e, ao_ip_address = al_ip_address e, ao_user_agent = al_user_agent e,
      ao_timestamp = al_timestamp e, ao_details = dumps_json_dict (al_details e)\<rparr>"

definition SQLAuditRepository_log :: "('s, AuditLogORM) session \<Rightarrow> AuditLog \<Rightarrow> ('s, unit) M" where
  "SQLAuditRepository_log ses entry = ss_commit ses (Added (audit_to_orm entry))"

definition audit_query :: "(AuditLogORM \<Rightarrow> bool) \<Rightarrow> int \<Rightarrow> int \<Rightarrow> AuditLogORM query" where
  "audit_query P page page_size =
     \<lparr>qr_where = P, qr_order = Descending ao_timestamp, qr_offset = (page - 1) * page_size,
      qr_limit = Some page_size\<rparr>"

definition SQLAuditRepository_list_by_user ::
  "('s, AuditLogORM) session \<Rightarrow> int \<Rightarrow> int \<Rightarrow> int \<Rightarrow> ('s, AuditLog list) M" where
  "SQLAuditRepository_list_by_user ses telegram_id page page_size =
     bindM (ss_select ses (audit_query (\<lambda>r. ao_telegram_id r = Some telegram_id) page page_size))
       (\<lambda>xs. liftE (map_sum_list audit_to_entity xs))"

definition SQLAuditRepository_list_by_job ::
  "('s, AuditLogORM) session \<Rightarrow> string \<Rightarrow> int \<Rightarrow> int \<Rightarrow> ('s, AuditLog list) M" where
  "SQLAuditRepository_list_by_job ses job_id page page_size =
     bindM (ss_select ses (audit_query (\<lambda>r. ao_job_id r = Some job_id) page page_size))
       (\<lambda>xs. liftE (map_sum_list audit_to_entity xs))"

definition SQLAuditRepository_list_by_date_range ::
  "('s, AuditLogORM) session \<Rightarrow> datetime \<Rightarrow> datetime \<Rightarrow> int \<Rightarrow> int \<Rightarrow> ('s, AuditLog list) M" where
  "SQLAuditRepository_list_by_date_range ses start_t end_t page page_size =
     bindM (ss_select ses (audit_query (\<lambda>r. start_t \<le> ao_timestamp r \<and> ao_timestamp r \<le> end_t) page page_size))
       (\<lambda>xs. liftE (map_sum_list audit_to_entity xs))"

definition SQLAuditRepository :: "('s, AuditLogORM) session \<Rightarrow> 's IAuditRepository" where
  "SQLAuditRepository ses =
     \<lparr>ar_log = SQLAuditRepository_log ses,
      ar_list_by_user = SQLAuditRepository_list_by_user ses,
      ar_list_by_job = SQLAuditRepository_list_by_job ses,
      ar_list_by_date_range = SQLAuditRepository_list_by_date_range ses\<rparr>"

lemma loads_dumps_list [simp]: "loads_json_list (dumps_json_list x) = Inr x"
proof -
  have "map_sum_list (\<lambda>v. case v of PStr s \<Rightarrow> Inr s | _ \<Rightarrow> Inl (ValidationError ''list'')) (map PStr xs) = Inr xs" for xs
    by (induction xs) simp_all
  then show ?thesis by (cases x) (simp_all add: loads_json_list_def dumps_json_list_def)
qed

lemma loads_dumps_dict [simp]: "loads_json_dict (dumps_json_dict x) = Inr x"
  by (cases x) (simp_all add: loads_json_dict_def dumps_json_dict_def)

lemma audit_round_trip:
  "valid_AuditLog e \<Longrightarrow> audit_to_entity (audit_to_orm e i) = Inr (e\<lparr>al_id := Some i\<rparr>)"
  by (cases e) (simp add: audit_to_entity_def audit_to_orm_def or0_def or_empty_def validated_def valid_AuditLog_def)

section \<open>Properties\<close>

text \<open>Toggling a user: on a stored user, \<open>toggle_active\<close> either raises, or flips the activity flag
  in the database, leaves every other field and every other user alone, and returns the user as
  stored.\<close>

theorem toggle_active_spec:
  assumes "sql_session ses rows" "user_of_rows (rows s) i = Some u"
    and "SQLUserRepository_toggle_active ses i s = (Inr v, s')"
  shows "v = Some (u\<lparr>u_is_active := \<not> u_is_active u\<rparr>) \<and>
    user_of_rows (rows s') = (user_of_rows (rows s))(i \<mapsto> u\<lparr>u_is_active := \<not> u_is_active u\<rparr>)"
proof -
  have loc: "sql_user_session ses rows" using assms(1) by (simp add: sql_user_session_def)
  show ?thesis
    using sql_user_session.modify_user_spec [OF loc assms(3) [unfolded SQLUserRepository_toggle_active_def Let_def] _ _ assms(2),
        of "\<lambda>u. u\<lparr>u_is_active := \<not> u_is_active u\<rparr>"]
    by (auto simp: user_to_entity_Inr)
qed

definition sample_user :: User where
  "sample_user = \<lparr>u_telegram_id = 7, u_username = Some ''ana'', u_role = OPERATOR,
     u_is_active = True, u_created_at = 5\<rparr>"

definition sample_users :: "UserORM ref_table" where
  "sample_users = \<lparr>rf_rows = [user_to_orm (sample_user\<lparr>u_telegram_id := 3\<rparr>), user_to_orm sample_user],
     rf_next = 0\<rparr>"

lemma sample_users_7: "user_of_rows (rf_rows sample_users) 7 = Some sample_user"
  by code_simp

lemma toggle_active_spec_witness:
  "\<exists>s'. SQLUserRepository_toggle_active ref_session 7 sample_users =
       (Inr (Some (sample_user\<lparr>u_is_active := False\<rparr>)), s') \<and>
     user_of_rows (rf_rows s') 7 = Some (sample_user\<lparr>u_is_active := False\<rparr>) \<and>
     user_of_rows (rf_rows s') 3 = user_of_rows (rf_rows sample_users) 3"
proof -
  obtain v s' where r: "SQLUserRepository_toggle_active ref_session 7 sample_users = (Inr v, s')"
    by (auto simp: SQLUserRepository_toggle_active_def user_row_def ref_session_def bindM_def thenM_def
        run_query_def where_only_def windowed_def sample_users_def sample_user_def user_to_orm_def
        user_to_entity_def mk_User_def parse_role_def enum_lookup_def)
  from toggle_active_spec [OF ref_sql.sql_session_axioms sample_users_7 r] r show ?thesis
    by (auto simp: sample_user_def)
qed

text \<open>Changing a role: on a stored user, \<open>update_role\<close> that returns has stored the new role and
  nothing else, for that user only, and returns the user as stored; for an unknown user it returns
  \<open>None\<close> and changes nothing.\<close>

theorem update_role_spec:
  assumes "sql_session ses rows" "user_rows i (rows s) = [] \<or> user_of_rows (rows s) i \<noteq> None"
    and "SQLUserRepository_update_role ses i role s = (Inr v, s')"
  shows "v = map_option (\<lambda>u. u\<lparr>u_role := role\<rparr>) (user_of_rows (rows s) i) \<and>
    user_of_rows (rows s') = (user_of_rows (rows s))(i := v)"
proof -
  have loc: "sql_user_session ses rows" using assms(1) by (simp add: sql_user_session_def)
  show ?thesis
  proof (cases "user_of_rows (rows s) i")
    case None
    then have nil: "user_rows i (rows s) = []" using assms(2) by simp
    obtain y s1 where y: "user_row ses i s = (y, s1)" by force
    have "v = None" "rows s' = rows s"
      using sql_user_session.user_row_spec [OF loc y] assms(3) y nil
      by (auto simp: SQLUserRepository_update_role_def bindM_def split: sum.splits option.splits)
    then show ?thesis using None by auto
  next
    case (Some u)
    then show ?thesis
      using sql_user_session.modify_user_spec [OF loc assms(3) [unfolded SQLUserRepository_update_role_def Let_def] _ _ Some,
          of "\<lambda>u. u\<lparr>u_role := role\<rparr>"]
      by (auto simp: user_to_entity_Inr)
  qed
qed

lemma update_role_spec_witness:
  "\<exists>s'. SQLUserRepository_update_role ref_session 7 DBA sample_users =
       (Inr (Some (sample_user\<lparr>u_role := DBA\<rparr>)), s') \<and>
     user_of_rows (rf_rows s') 7 = Some (sample_user\<lparr>u_role := DBA\<rparr>)"
proof -
  obtain v s' where r: "SQLUserRepository_update_role ref_session 7 DBA sample_users = (Inr v, s')"
    by (auto simp: SQLUserRepository_update_role_def user_row_def ref_session_def bindM_def thenM_def
        run_query_def where_only_def windowed_def sample_users_def sample_user_def user_to_orm_def
        user_to_entity_def mk_User_def parse_role_def enum_lookup_def)
  from update_role_spec [OF ref_sql.sql_session_axioms _ r] sample_users_7 r show ?thesis by auto
qed

text \<open>The audit trail survives the database: a valid entry reads back from its row unchanged, with
  the row's generated identifier.\<close>

lemma audit_row_round_trip:
  "valid_AuditLog e \<Longrightarrow> audit_to_entity (audit_to_orm e i) = Inr (e\<lparr>al_id := Some i\<rparr>)"
  by (rule audit_round_trip)

lemma audit_row_round_trip_witness:
  "let e = \<lparr>al_id = None, al_telegram_id = 7, al_action = ''JOB_QUEUED'', al_topic = ''JOB_EVENTS'',
       al_command = None, al_job_id = Some ''j1'', al_cluster_uri_hash = None, al_databases = Some [''db''],
       al_collections = None, al_result = ''SUCCESS'', al_duration_ms = Some 3, al_ip_address = Some ''10.0.0.1'', al_user_agent = None,
       al_timestamp = 4, al_details = Some [(''n'', PInt 1)]\<rparr>
   in audit_to_entity (audit_to_orm e 9) = Inr (e\<lparr>al_id := Some 9\<rparr>)"
  unfolding Let_def by (rule audit_row_round_trip) code_simp

end
