(* ===== verification/Redis.thy ===== *)
theory Redis
  imports Ports "HOL-Library.AList"
begin

text \<open>
  The Redis server as the program sees it: the record \<open>redis\<close> of the commands the adapters
  under \<^verbatim>\<open>app/infrastructure/queue\<close> send, a parameter of those adapters. \<open>EVAL\<close> takes the
  script as a computation over the same commands.

  \<open>ref_redis\<close> is a server written out as a definition: string keys and sorted sets with
  millisecond expiry on its own clock. It is an instance of the contracts the adapters are
  verified against and the server the witnesses run on.
\<close>

section \<open>The commands\<close>

record 's redis =
  rd_set_nx_ex :: "string \<Rightarrow> string \<Rightarrow> int \<Rightarrow> ('s, bool) M" \<comment> \<open>key, value, seconds\<close>
  rd_get :: "string \<Rightarrow> ('s, string option) M"
  rd_del :: "string \<Rightarrow> ('s, int) M"
  rd_exists :: "string \<Rightarrow> ('s, int) M"
  rd_zremrangebyscore :: "string \<Rightarrow> int \<Rightarrow> int \<Rightarrow> ('s, int) M"
  rd_zadd :: "string \<Rightarrow> int \<Rightarrow> string \<Rightarrow> ('s, int) M" \<comment> \<open>key, score, member\<close>
  rd_expire :: "string \<Rightarrow> int \<Rightarrow> ('s, int) M"
  rd_zcard :: "string \<Rightarrow> ('s, int) M"
  rd_eval :: "('s, int) M \<Rightarrow> ('s, int) M" \<comment> \<open>\<open>EVAL\<close> of a script, atomically\<close>

definition is_RedisError :: "exn \<Rightarrow> bool" where
  "is_RedisError e = (case e of OtherException c _ \<Rightarrow> c = ''RedisError'' | _ \<Rightarrow> False)"

section \<open>A reference server\<close>

record ref_store =
  rs_clock_ms :: int
  rs_uuid :: nat \<comment> \<open>identifiers handed out so far\<close>
  rs_strings :: "string \<Rightarrow> (string \<times> int) option" \<comment> \<open>value, expiry\<close>
  rs_zsets :: "string \<Rightarrow> (string \<times> int) list" \<comment> \<open>members with their scores\<close>
  rs_zexpiry :: "string \<Rightarrow> int option"

definition empty_store :: ref_store where
  "empty_store = \<lparr>rs_clock_ms = 0, rs_uuid = 0, rs_strings = (\<lambda>_. None), rs_zsets = (\<lambda>_. []),
     rs_zexpiry = (\<lambda>_. None)\<rparr>"

definition live_string :: "ref_store \<Rightarrow> string \<Rightarrow> string option" where
  "live_string s k = (case rs_strings s k of None \<Rightarrow> None
     | Some (v, e) \<Rightarrow> if rs_clock_ms s < e then Some v else None)"

definition live_zset :: "ref_store \<Rightarrow> string \<Rightarrow> (string \<times> int) list" where
  "live_zset s k = (case rs_zexpiry s k of None \<Rightarrow> AList.clearjunk (rs_zsets s k)
     | Some e \<Rightarrow> if rs_clock_ms s < e then AList.clearjunk (rs_zsets s k) else [])"

text \<open>A write to an expired sorted set starts from an empty one, without expiry.\<close>

definition live_expiry :: "ref_store \<Rightarrow> string \<Rightarrow> int option" where
  "live_expiry s k = (case rs_zexpiry s k of None \<Rightarrow> None
     | Some e \<Rightarrow> if rs_clock_ms s < e then Some e else None)"

definition ref_uuid :: "(ref_store, string) M" where
  "ref_uuid = (\<lambda>s. (Inr (str_int (int (rs_uuid s))), s\<lparr>rs_uuid := Suc (rs_uuid s)\<rparr>))"

definition ref_runtime :: "ref_store Runtime" where
  "ref_runtime =
     \<lparr>rt_now = (\<lambda>s. (Inr (rs_clock_ms s * 1000), s)),
      rt_monotonic = (\<lambda>s. (Inr (rs_clock_ms s * 1000), s)),
      rt_uuid_hex = ref_uuid, rt_uuid_str = ref_uuid,
      rt_sleep_ms = (\<lambda>n s. (Inr (), s))\<rparr>"

definition ref_set_nx_ex :: "string \<Rightarrow> string \<Rightarrow> int \<Rightarrow> (ref_store, bool) M" where
  "ref_set_nx_ex k v ttl s =
     (if ttl \<le> 0 then (Inl (OtherException ''RedisError'' ''invalid expire time''), s)
      else if live_string s k = None
      then (Inr True, s\<lparr>rs_strings := (rs_strings s)(k \<mapsto> (v, rs_clock_ms s + ttl * 1000))\<rparr>)
      else (Inr False, s))"

definition ref_del :: "string \<Rightarrow> (ref_store, int) M" where
  "ref_del k s =
     (Inr (if live_string s k = None \<and> live_zset s k = [] then 0 else 1),
      s\<lparr>rs_strings := (rs_strings s)(k := None), rs_zsets := (rs_zsets s)(k := []),
        rs_zexpiry := (rs_zexpiry s)(k := None)\<rparr>)"

definition ref_zremrangebyscore :: "string \<Rightarrow> int \<Rightarrow> int \<Rightarrow> (ref_store, int) M" where
  "ref_zremrangebyscore k lo hi s =
     (let old = live_zset s k; new = filter (\<lambda>(m, sc). \<not> (lo \<le> sc \<and> sc \<le> hi)) old
      in (Inr (int (length old) - int (length new)),
          s\<lparr>rs_zsets := (rs_zsets s)(k := new),
            rs_zexpiry := (rs_zexpiry s)(k := if new = [] then None else live_expiry s k)\<rparr>))"

definition ref_zadd :: "string \<Rightarrow> int \<Rightarrow> string \<Rightarrow> (ref_store, int) M" where
  "ref_zadd k score member s =
     (let old = live_zset s k; rest = filter (\<lambda>(m, sc). m \<noteq> member) old
      in (Inr (if length rest = length old then 1 else 0),
          s\<lparr>rs_zsets := (rs_zsets s)(k := rest @ [(member, score)]),
            rs_zexpiry := (rs_zexpiry s)(k := live_expiry s k)\<rparr>))"

definition ref_expire :: "string \<Rightarrow> int \<Rightarrow> (ref_store, int) M" where
  "ref_expire k secs s =
     (if live_zset s k = [] then (Inr 0, s)
      else if secs \<le> 0
      then (Inr 1, s\<lparr>rs_zsets := (rs_zsets s)(k := []), rs_zexpiry := (rs_zexpiry s)(k := None)\<rparr>)
      else (Inr 1, s\<lparr>rs_zexpiry := (rs_zexpiry s)(k \<mapsto> rs_clock_ms s + secs * 1000)\<rparr>))"

definition ref_redis :: "ref_store redis" where
  "ref_redis =
     \<lparr>rd_set_nx_ex = ref_set_nx_ex,
      rd_get = (\<lambda>k s. (Inr (live_string s k), s)),
      rd_del = ref_del,
      rd_exists = (\<lambda>k s. (Inr (if live_string s k = None \<and> live_zset s k = [] then 0 else 1), s)),
      rd_zremrangebyscore = ref_zremrangebyscore,
      rd_zadd = ref_zadd,
      rd_expire = ref_expire,
      rd_zcard = (\<lambda>k s. (Inr (int (length (live_zset s k))), s)),
      rd_eval = (\<lambda>m. m)\<rparr>"

text \<open>Time passing on the server, which is also the clock of \<open>ref_runtime\<close>.\<close>

definition set_clock :: "int \<Rightarrow> ref_store \<Rightarrow> ref_store" where
  "set_clock t s = s\<lparr>rs_clock_ms := t\<rparr>"

lemmas ref_redis_defs =
  ref_redis_def ref_runtime_def ref_uuid_def ref_set_nx_ex_def ref_del_def
  ref_zremrangebyscore_def ref_zadd_def ref_expire_def live_string_def live_zset_def
  live_expiry_def set_clock_def empty_store_def

end
