(* ===== verification/RateLimit.thy ===== *)
theory RateLimit
  imports Redis Database
begin

text \<open>
  The two rate limiters behind \<open>IRateLimitRepository\<close>:
  \<^verbatim>\<open>app/infrastructure/queue/redis_rate_limit_repository.py\<close>, a sliding window over a Redis
  sorted set, and \<^verbatim>\<open>app/infrastructure/persistence/sql_rate_limit_repository.py\<close>, one counter
  row per window. The first is verified against the documented behaviour of the sorted-set
  commands (\<open>redis_zsets\<close>), the second against \<open>sql_session\<close>.
\<close>

section \<open>RedisRateLimitRepository\<close>

definition rate_key :: "int \<Rightarrow> string \<Rightarrow> string" where
  "rate_key telegram_id action = ''rate_limit:'' @ str_int telegram_id @ '':'' @ action"

definition INCREMENT_SCRIPT :: "'s redis \<Rightarrow> string \<Rightarrow> int \<Rightarrow> string \<Rightarrow> int \<Rightarrow> int \<Rightarrow> ('s, int) M" where
  "INCREMENT_SCRIPT rd key window_start_ms unique_member now_ms window_seconds =
     thenM (rd_zremrangebyscore rd key 0 window_start_ms)
    (thenM (rd_zadd rd key now_ms unique_member)
    (thenM (rd_expire rd key window_seconds)
           (rd_zcard rd key)))"

definition CHECK_SCRIPT :: "'s redis \<Rightarrow> string \<Rightarrow> int \<Rightarrow> ('s, int) M" where
  "CHECK_SCRIPT rd key window_start_ms =
     thenM (rd_zremrangebyscore rd key 0 window_start_ms) (rd_zcard rd key)"

text \<open>\<open>int(time.time() * 1000)\<close>\<close>

definition now_ms :: "'s Runtime \<Rightarrow> ('s, int) M" where
  "now_ms rt = bindM (rt_now rt) (\<lambda>t. returnM (t div 1000))"

definition RedisRateLimitRepository_check_limit ::
  "'s Runtime \<Rightarrow> 's redis \<Rightarrow> int \<Rightarrow> string \<Rightarrow> int \<Rightarrow> int \<Rightarrow> ('s, bool) M" where
  "RedisRateLimitRepository_check_limit rt rd telegram_id action max_allowed window_seconds =
     bindM (now_ms rt) (\<lambda>now.
     bindM (rd_eval rd (CHECK_SCRIPT rd (rate_key telegram_id action) (now - window_seconds * 1000)))
       (\<lambda>current. returnM (current < max_allowed)))"

definition unique_member :: "int \<Rightarrow> string \<Rightarrow> string" where
  "unique_member now uuid_hex = str_int now @ '':'' @ take 8 uuid_hex"

definition RedisRateLimitRepository_increment ::
  "'s Runtime \<Rightarrow> 's redis \<Rightarrow> int \<Rightarrow> string \<Rightarrow> int \<Rightarrow> ('s, int) M" where
  "RedisRateLimitRepository_increment rt rd telegram_id action window_seconds =
     bindM (now_ms rt) (\<lambda>now.
     bindM (rt_uuid_hex rt) (\<lambda>u.
     rd_eval rd (INCREMENT_SCRIPT rd (rate_key telegram_id action) (now - window_seconds * 1000)
                   (unique_member now u) now window_seconds)))"

definition RedisRateLimitRepository_reset ::
  "'s redis \<Rightarrow> int \<Rightarrow> string \<Rightarrow> ('s, unit) M" where
  "RedisRateLimitRepository_reset rd telegram_id action =
     thenM (rd_del rd (rate_key telegram_id action)) (returnM ())"

definition RedisRateLimitRepository :: "'s Runtime \<Rightarrow> 's redis \<Rightarrow> 's IRateLimitRepository" where
  "RedisRateLimitRepository rt rd =
     \<lparr>rl_check_limit = RedisRateLimitRepository_check_limit rt rd,
      rl_increment = RedisRateLimitRepository_increment rt rd,
      rl_reset = RedisRateLimitRepository_reset rd\<rparr>"

text \<open>
  The documented behaviour of the sorted-set commands: a sorted set maps members to scores.
\<close>

locale redis_zsets =
  fixes rd :: "'s redis" and zs :: "'s \<Rightarrow> string \<Rightarrow> (string \<Rightarrow> int option)"
  assumes zrem_ok: "rd_zremrangebyscore rd k lo hi s = (Inr n, s') \<Longrightarrow>
      zs s' = (zs s)(k := (\<lambda>m. case zs s k m of None \<Rightarrow> None
                              | Some sc \<Rightarrow> if lo \<le> sc \<and> sc \<le> hi then None else Some sc))"
    and zadd_ok: "rd_zadd rd k sc m s = (Inr n, s') \<Longrightarrow> zs s' = (zs s)(k := (zs s k)(m \<mapsto> sc))"
    and expire_ok: "0 < secs \<Longrightarrow> rd_expire rd k secs s = (Inr n, s') \<Longrightarrow> zs s' = zs s"
    and zcard_ok: "rd_zcard rd k s = (Inr n, s') \<Longrightarrow> zs s' = zs s \<and> n = int (card (dom (zs s k)))"
    and zeval_ok: "rd_eval rd script s = (Inr n, s') \<Longrightarrow> script s = (Inr n, s')"
    and zfinite: "finite (dom (zs s k))"
begin

text \<open>What one successful increment does to its sorted set and returns.\<close>

lemma script_spec:
  assumes "INCREMENT_SCRIPT rd k ws m now win s = (Inr n, s')" and "0 < win"
  shows "zs s' = (zs s)(k := (\<lambda>x. case zs s k x of None \<Rightarrow> None
             | Some sc \<Rightarrow> if 0 \<le> sc \<and> sc \<le> ws then None else Some sc)(m \<mapsto> now))"
    and "n = int (card (dom (zs s' k)))"
proof -
  obtain a s1 b s2 c s3 where
    "rd_zremrangebyscore rd k 0 ws s = (Inr a, s1)" "rd_zadd rd k now m s1 = (Inr b, s2)"
    "rd_expire rd k win s2 = (Inr c, s3)" "rd_zcard rd k s3 = (Inr n, s')"
    using assms(1) by (auto simp: INCREMENT_SCRIPT_def thenM_eq_Inr)
  note steps = zrem_ok [OF this(1)] zadd_ok [OF this(2)] expire_ok [OF assms(2) this(3)]
    zcard_ok [OF this(4)]
  show "n = int (card (dom (zs s' k)))" using steps by simp
  show "zs s' = (zs s)(k := (\<lambda>x. case zs s k x of None \<Rightarrow> None
             | Some sc \<Rightarrow> if 0 \<le> sc \<and> sc \<le> ws then None else Some sc)(m \<mapsto> now))"
    using steps by simp
qed

end

text \<open>The readings of one call: the time in milliseconds and the fresh identifier.\<close>

definition call_runtime :: "int \<Rightarrow> string \<Rightarrow> 's Runtime" where
  "call_runtime t u =
     \<lparr>rt_now = returnM (t * 1000), rt_monotonic = returnM (t * 1000), rt_uuid_hex = returnM u,
      rt_uuid_str = returnM u, rt_sleep_ms = (\<lambda>_. returnM ())\<rparr>"

text \<open>
  Runs of one limiter key. \<open>rate_run \<dots> clk s H\<close>: at time \<open>clk\<close> the state is \<open>s\<close> and \<open>H\<close>
  lists the increments made so far, newest first, each with its time and the count it returned.
  Between calls the server may drop members that are a whole window old (the key's expiry does).
  The identifier of a call must not repeat one still in the set (\<open>uuid4\<close>).
\<close>

inductive rate_run ::
  "'s redis \<Rightarrow> ('s \<Rightarrow> string \<Rightarrow> (string \<Rightarrow> int option)) \<Rightarrow> int \<Rightarrow> string \<Rightarrow> int \<Rightarrow>
   int \<Rightarrow> 's \<Rightarrow> (int \<times> int) list \<Rightarrow> bool"
  for rd zs tid act win where
  rate_start: "zs s (rate_key tid act) = Map.empty \<Longrightarrow> rate_run rd zs tid act win clk s []"
| rate_wait:
    "rate_run rd zs tid act win clk s H \<Longrightarrow> clk \<le> clk' \<Longrightarrow>
     zs s' (rate_key tid act) \<subseteq>\<^sub>m zs s (rate_key tid act) \<Longrightarrow>
     (\<forall>m sc. zs s (rate_key tid act) m = Some sc \<longrightarrow> zs s' (rate_key tid act) m = None \<longrightarrow>
             sc \<le> clk' - win * 1000) \<Longrightarrow>
     rate_run rd zs tid act win clk' s' H"
| rate_inc:
    "rate_run rd zs tid act win clk s H \<Longrightarrow> clk \<le> t \<Longrightarrow> 0 \<le> t \<Longrightarrow>
     zs s (rate_key tid act) (unique_member t u) = None \<Longrightarrow>
     RedisRateLimitRepository_increment (call_runtime t u) rd tid act win s = (Inr n, s') \<Longrightarrow>
     rate_run rd zs tid act win t s' ((t, n) # H)"

text \<open>The members younger than \<open>lo\<close>, and the calls of a history younger than \<open>lo\<close>.\<close>

definition young :: "(string \<Rightarrow> int option) \<Rightarrow> int \<Rightarrow> string set" where
  "young z lo = {m. \<exists>sc. z m = Some sc \<and> lo < sc}"

definition calls_after :: "int \<Rightarrow> (int \<times> int) list \<Rightarrow> int" where
  "calls_after lo H = int (length (filter (\<lambda>(t, n). lo < t) H))"

lemma increment_run:
  "RedisRateLimitRepository_increment (call_runtime t u) rd tid act win s =
     rd_eval rd (INCREMENT_SCRIPT rd (rate_key tid act) (t - win * 1000) (unique_member t u) t win) s"
  by (simp add: RedisRateLimitRepository_increment_def now_ms_def call_runtime_def bindM_def)

context redis_zsets begin

definition sees :: "int \<Rightarrow> int \<Rightarrow> 's \<Rightarrow> string \<Rightarrow> (int \<times> int) list \<Rightarrow> bool" where
  "sees win clk s k H \<longleftrightarrow>
     (\<forall>lo \<ge> clk - win * 1000. int (card (young (zs s k) lo)) = calls_after lo H) \<and>
     (\<forall>m sc. zs s k m = Some sc \<longrightarrow> 0 \<le> sc \<and> sc \<le> clk) \<and> (\<forall>(t, n) \<in> set H. t \<le> clk)"

lemma young_finite: "finite (young (zs s k) lo)"
  by (rule finite_subset [OF _ zfinite [of s k]]) (auto simp: young_def)

lemma sees_wait:
  assumes "sees win clk s k H" "clk \<le> clk'" "zs s' k \<subseteq>\<^sub>m zs s k"
    and "\<forall>m sc. zs s k m = Some sc \<longrightarrow> zs s' k m = None \<longrightarrow> sc \<le> clk' - win * 1000"
  shows "sees win clk' s' k H"
proof -
  have sub: "zs s' k m = Some sc \<Longrightarrow> zs s k m = Some sc" for m sc
    using assms(3) by (metis domI map_le_def)
  have "young (zs s' k) lo = young (zs s k) lo" if "clk' - win * 1000 \<le> lo" for lo
  proof (intro set_eqI iffI)
    fix m assume "m \<in> young (zs s k) lo"
    then obtain sc where sc: "zs s k m = Some sc" "lo < sc" by (auto simp: young_def)
    then have "zs s' k m \<noteq> None" using assms(4) that by fastforce
    then show "m \<in> young (zs s' k) lo" using sub sc by (fastforce simp: young_def)
  qed (auto simp: young_def dest: sub)
  then show ?thesis using assms(1,2) sub unfolding sees_def by fastforce
qed

lemma sees_inc:
  assumes "sees win clk s k H" "clk \<le> t" "0 \<le> t" "zs s k m = None" "0 < win"
    and "INCREMENT_SCRIPT rd k (t - win * 1000) m t win s = (Inr n, s')"
  shows "sees win t s' k ((t, n) # H) \<and> n = calls_after (t - win * 1000) ((t, n) # H)"
proof -
  note sp = script_spec [OF assms(6,5)]
  have z: "zs s' k x = (if x = m then Some t else case zs s k x of None \<Rightarrow> None
      | Some sc \<Rightarrow> if 0 \<le> sc \<and> sc \<le> t - win * 1000 then None else Some sc)" for x
    using sp(1) by simp
  have pos: "zs s k x = Some sc \<Longrightarrow> 0 \<le> sc \<and> sc \<le> clk" for x sc
    using assms(1) by (auto simp: sees_def)
  have y: "young (zs s' k) lo = (if lo < t then insert m (young (zs s k) lo) else {})"
    if "t - win * 1000 \<le> lo" for lo
    using that assms(2,4) pos by (auto simp: young_def z split: option.splits if_splits) fastforce+
  have cnt: "int (card (young (zs s' k) lo)) = calls_after lo ((t, n) # H)"
    if lo: "t - win * 1000 \<le> lo" for lo
  proof (cases "lo < t")
    case True
    have "m \<notin> young (zs s k) lo" using assms(4) by (simp add: young_def)
    then have "int (card (young (zs s' k) lo)) = int (card (young (zs s k) lo)) + 1"
      using y [OF lo] True young_finite by simp
    also have "int (card (young (zs s k) lo)) = calls_after lo H"
      using assms(1,2) lo by (simp add: sees_def)
    finally show ?thesis using True by (simp add: calls_after_def)
  next
    case False
    have "filter (\<lambda>(t, n). lo < t) H = []"
      using assms(1,2) False by (fastforce simp: sees_def filter_empty_conv)
    then show ?thesis using y [OF lo] False by (simp add: calls_after_def)
  qed
  have "dom (zs s' k) = young (zs s' k) (t - win * 1000)"
    using assms(3,5) pos by (auto simp: young_def z split: option.splits if_splits)
  then have "n = calls_after (t - win * 1000) ((t, n) # H)" using sp(2) cnt [of "t - win * 1000"] by simp
  moreover have "sees win t s' k ((t, n) # H)"
    unfolding sees_def using cnt assms(1-3) pos
    by (fastforce simp: z sees_def split: option.splits if_splits)
  ultimately show ?thesis by blast
qed

lemma rate_run_sees:
  "rate_run rd zs tid act win clk s H \<Longrightarrow> 0 < win \<Longrightarrow> sees win clk s (rate_key tid act) H"
proof (induction rule: rate_run.induct)
  case (rate_start s clk)
  then show ?case by (simp add: sees_def young_def calls_after_def)
next
  case (rate_wait clk s H clk' s')
  then show ?case by (blast intro: sees_wait)
next
  case (rate_inc clk s H t u n s')
  then show ?case using sees_inc zeval_ok unfolding increment_run by blast
qed

lemma rate_run_count:
  assumes "rate_run rd zs tid act win clk s H" "clk \<le> t" "0 \<le> t" "0 < win"
    and "zs s (rate_key tid act) (unique_member t u) = None"
    and "RedisRateLimitRepository_increment (call_runtime t u) rd tid act win s = (Inr n, s')"
  shows "n = 1 + calls_after (t - win * 1000) H"
proof -
  have "n = calls_after (t - win * 1000) ((t, n) # H)"
    using sees_inc [OF rate_run_sees [OF assms(1,4)] assms(2,3,5,4)] zeval_ok assms(6)
    unfolding increment_run by blast
  then show ?thesis using assms(4) by (simp add: calls_after_def)
qed

end

text \<open>A history whose counts are exact, and what it admits under a limit.\<close>

fun exact :: "int \<Rightarrow> (int \<times> int) list \<Rightarrow> bool" where
  "exact w [] \<longleftrightarrow> True"
| "exact w ((t, n) # H) \<longleftrightarrow>
     n = 1 + calls_after (t - w) H \<and> (\<forall>(t', n') \<in> set H. t' \<le> t) \<and> exact w H"

definition accepted_in :: "int \<Rightarrow> int \<Rightarrow> int \<Rightarrow> (int \<times> int) list \<Rightarrow> int" where
  "accepted_in lo hi m H = int (length (filter (\<lambda>(t, n). lo < t \<and> t \<le> hi \<and> n \<le> m) H))"

lemma filter_length_mono:
  "(\<And>x. x \<in> set xs \<Longrightarrow> P x \<Longrightarrow> Q x) \<Longrightarrow> length (filter P xs) \<le> length (filter Q xs)"
  by (induction xs) (auto simp: le_SucI)

lemma exact_accepted: "exact w H \<Longrightarrow> 0 \<le> m \<Longrightarrow> accepted_in (T - w) T m H \<le> m"
proof (induction w H rule: exact.induct)
  case (2 w t n H)
  show ?case
  proof (cases "T - w < t \<and> t \<le> T \<and> n \<le> m")
    case False
    then show ?thesis using 2 by (auto simp: accepted_in_def)
  next
    case True
    have "length (filter (\<lambda>(t', n'). T - w < t' \<and> t' \<le> T \<and> n' \<le> m) H)
        \<le> length (filter (\<lambda>(t', n'). t - w < t') H)"
      by (rule filter_length_mono) (use True in auto)
    then have "accepted_in (T - w) T m ((t, n) # H) \<le> 1 + calls_after (t - w) H"
      using True by (simp add: accepted_in_def calls_after_def)
    then show ?thesis using 2(2) True by simp
  qed
qed (simp add: accepted_in_def)

context redis_zsets begin

lemma rate_run_exact:
  "rate_run rd zs tid act win clk s H \<Longrightarrow> 0 < win \<Longrightarrow> exact (win * 1000) H"
proof (induction rule: rate_run.induct)
  case (rate_inc clk s H t u n s')
  have "\<forall>(t', n') \<in> set H. t' \<le> t"
    using rate_run_sees [OF rate_inc(1) rate_inc.prems] rate_inc(2) by (fastforce simp: sees_def)
  then show ?case using rate_inc rate_run_count [OF rate_inc(1-3) rate_inc.prems rate_inc(4,5)] by simp
qed simp_all

end

subsection \<open>The reference server has such sorted sets\<close>

lemma map_of_filter_distinct:
  "distinct (map fst l) \<Longrightarrow> map_of (filter (\<lambda>(m, sc). \<not> P sc) l) x =
     (case map_of l x of None \<Rightarrow> None | Some sc \<Rightarrow> if P sc then None else Some sc)"
  by (induction l) (auto split: option.splits simp: map_of_eq_None_iff image_iff)

lemma live_zset_distinct [simp]: "distinct (map fst (live_zset s k))"
  by (simp add: live_zset_def split: option.split)

definition zmap :: "ref_store \<Rightarrow> string \<Rightarrow> (string \<Rightarrow> int option)" where
  "zmap s k = map_of (live_zset s k)"

lemma live_zset_stored:
  "distinct (map fst l) \<Longrightarrow> e = None \<or> e = live_expiry s k \<Longrightarrow>
   live_zset (s\<lparr>rs_zsets := (rs_zsets s)(k := l), rs_zexpiry := (rs_zexpiry s)(k := e)\<rparr>) =
     (live_zset s)(k := l)"
  by (rule ext) (auto simp: live_zset_def live_expiry_def split: option.splits if_splits)

lemma distinct_filter_fst: "distinct (map fst l) \<Longrightarrow> distinct (map fst (filter P l))"
  by (rule distinct_map_filter)

lemma map_of_replace:
  "map_of (filter (\<lambda>(m', sc'). m' \<noteq> m) l @ [(m, sc)]) = (map_of l)(m \<mapsto> sc)"
proof -
  have "map_of (filter (\<lambda>(m', sc'). m' \<noteq> m) l) x = (if x = m then None else map_of l x)" for x
    by (induction l) auto
  then show ?thesis by (auto simp: fun_eq_iff map_add_def split: option.split)
qed

lemma zmap_zadd:
  "zmap (snd (ref_zadd k sc m s)) = (zmap s)(k := (zmap s k)(m \<mapsto> sc))"
proof (rule ext)
  fix x
  let ?rest = "filter (\<lambda>(m', sc). m' \<noteq> m) (live_zset s k)"
  have d: "distinct (map fst (?rest @ [(m, sc)]))" by (auto simp: distinct_map_filter)
  show "zmap (snd (ref_zadd k sc m s)) x = ((zmap s)(k := (zmap s k)(m \<mapsto> sc))) x"
    using live_zset_stored [OF d, of "live_expiry s k" s k] map_of_replace [of m "live_zset s k" sc]
    by (simp add: zmap_def ref_zadd_def Let_def)
qed

lemma zmap_zrem:
  "zmap (snd (ref_zremrangebyscore k lo hi s)) = (zmap s)(k := (\<lambda>m. case zmap s k m of None \<Rightarrow> None
     | Some sc \<Rightarrow> if lo \<le> sc \<and> sc \<le> hi then None else Some sc))"
proof (rule ext)
  fix x
  let ?new = "filter (\<lambda>(m, sc). \<not> (lo \<le> sc \<and> sc \<le> hi)) (live_zset s k)"
  have d: "distinct (map fst ?new)" by (simp add: distinct_map_filter)
  show "zmap (snd (ref_zremrangebyscore k lo hi s)) x = ((zmap s)(k := (\<lambda>m. case zmap s k m of None \<Rightarrow> None
     | Some sc \<Rightarrow> if lo \<le> sc \<and> sc \<le> hi then None else Some sc))) x"
    using live_zset_stored [OF d, of "if ?new = [] then None else live_expiry s k" s k]
      map_of_filter_distinct [of "live_zset s k" "\<lambda>sc. lo \<le> sc \<and> sc \<le> hi"]
    by (auto simp: zmap_def ref_zremrangebyscore_def Let_def fun_eq_iff)
qed

lemma zmap_expire: "0 < secs \<Longrightarrow> zmap (snd (ref_expire k secs s)) = zmap s"
  by (rule ext) (auto simp: zmap_def ref_expire_def live_zset_def split: option.splits if_splits)

interpretation ref_zsets: redis_zsets ref_redis zmap
proof
  show "zmap s' = (zmap s)(k := (\<lambda>m. case zmap s k m of None \<Rightarrow> None
      | Some sc \<Rightarrow> if lo \<le> sc \<and> sc \<le> hi then None else Some sc))"
    if "rd_zremrangebyscore ref_redis k lo hi s = (Inr n, s')" for k lo hi s n s'
    using that zmap_zrem [of k lo hi s] by (simp add: ref_redis_def)
  show "zmap s' = (zmap s)(k := (zmap s k)(m \<mapsto> sc))"
    if "rd_zadd ref_redis k sc m s = (Inr n, s')" for k sc m s n s'
    using that zmap_zadd [of k sc m s] by (simp add: ref_redis_def)
  show "zmap s' = zmap s" if "0 < secs" "rd_expire ref_redis k secs s = (Inr n, s')" for secs k s n s'
    using that zmap_expire [of secs k s] by (simp add: ref_redis_def)
  show "zmap s' = zmap s \<and> n = int (card (dom (zmap s k)))"
    if "rd_zcard ref_redis k s = (Inr n, s')" for k s n s'
  proof -
    have "card (dom (zmap s k)) = length (live_zset s k)"
      unfolding zmap_def dom_map_of_conv_image_fst
      by (metis distinct_card length_map list.set_map live_zset_distinct)
    with that show ?thesis by (auto simp: ref_redis_def)
  qed
  show "script s = (Inr n, s')" if "rd_eval ref_redis script s = (Inr n, s')" for script s n s'
    using that by (simp add: ref_redis_def)
  show "finite (dom (zmap s k))" for s k
    by (simp add: zmap_def finite_dom_map_of)
qed

section \<open>SQLRateLimitRepository\<close>

record RateLimitORM =
  rlo_id :: int
  rlo_telegram_id :: int
  rlo_action :: string
  rlo_window_start :: datetime
  rlo_count :: int

text \<open>The row whose window is still open at \<open>window_start = now - window\<close>.\<close>

definition live_row :: "int \<Rightarrow> string \<Rightarrow> datetime \<Rightarrow> RateLimitORM \<Rightarrow> bool" where
  "live_row telegram_id action window_start r \<longleftrightarrow>
     rlo_telegram_id r = telegram_id \<and> rlo_action r = action \<and> window_start \<le> rlo_window_start r"

definition SQLRateLimitRepository_check_limit ::
  "'s Runtime \<Rightarrow> ('s, RateLimitORM) session \<Rightarrow> int \<Rightarrow> string \<Rightarrow> int \<Rightarrow> int \<Rightarrow> ('s, bool) M" where
  "SQLRateLimitRepository_check_limit rt ses telegram_id action max_allowed window_seconds =
     bindM (rt_now rt) (\<lambda>now.
     bindM (ss_select ses (where_only (live_row telegram_id action (now - window_seconds * 1000000)))) (\<lambda>xs.
     bindM (liftE (scalar_one_or_none xs)) (\<lambda>orm.
     returnM (case orm of None \<Rightarrow> True | Some r \<Rightarrow> rlo_count r < max_allowed))))"

definition SQLRateLimitRepository_increment ::
  "'s Runtime \<Rightarrow> ('s, RateLimitORM) session \<Rightarrow> int \<Rightarrow> string \<Rightarrow> int \<Rightarrow> ('s, int) M" where
  "SQLRateLimitRepository_increment rt ses telegram_id action window_seconds =
     bindM (rt_now rt) (\<lambda>now.
     bindM (ss_select ses (where_only (live_row telegram_id action (now - window_seconds * 1000000)))) (\<lambda>xs.
     bindM (liftE (scalar_one_or_none xs)) (\<lambda>orm.
     case orm of
       None \<Rightarrow>
         thenM (ss_commit ses (Added (\<lambda>i. \<lparr>rlo_id = i, rlo_telegram_id = telegram_id,
                  rlo_action = action, rlo_window_start = now, rlo_count = 1\<rparr>)))
               (returnM 1)
     | Some r \<Rightarrow>
         thenM (ss_commit ses (Modified r (r\<lparr>rlo_count := rlo_count r + 1\<rparr>)))
               (returnM (rlo_count r + 1)))))"

definition SQLRateLimitRepository_reset ::
  "('s, RateLimitORM) session \<Rightarrow> int \<Rightarrow> string \<Rightarrow> ('s, unit) M" where
  "SQLRateLimitRepository_reset ses telegram_id action =
     ss_commit ses (Deleted (\<lambda>r. rlo_telegram_id r = telegram_id \<and> rlo_action r = action))"

definition SQLRateLimitRepository ::
  "'s Runtime \<Rightarrow> ('s, RateLimitORM) session \<Rightarrow> 's IRateLimitRepository" where
  "SQLRateLimitRepository rt ses =
     \<lparr>rl_check_limit = SQLRateLimitRepository_check_limit rt ses,
      rl_increment = SQLRateLimitRepository_increment rt ses,
      rl_reset = SQLRateLimitRepository_reset ses\<rparr>"

text \<open>
  The windows of one user and action, in the order they were opened, lie more than a window
  apart; so at most one is ever open, and \<open>scalar_one_or_none\<close> does not raise.
\<close>

definition windows :: "int \<Rightarrow> string \<Rightarrow> RateLimitORM list \<Rightarrow> datetime list" where
  "windows tid act rows =
     map rlo_window_start (filter (\<lambda>r. rlo_telegram_id r = tid \<and> rlo_action r = act) rows)"

definition spaced :: "int \<Rightarrow> datetime list \<Rightarrow> bool" where
  "spaced w ts \<longleftrightarrow> sorted_wrt (\<lambda>a b. a + w < b) ts"

lemma live_rows_le_one:
  assumes "spaced w (windows tid act rows)" "\<forall>t \<in> set (windows tid act rows). t \<le> now"
  shows "length (filter (live_row tid act (now - w)) rows) \<le> 1"
  using assms
proof (induction rows)
  case (Cons r rows)
  have ih: "length (filter (live_row tid act (now - w)) rows) \<le> 1"
    using Cons by (auto simp: windows_def spaced_def split: if_splits)
  show ?case
  proof (cases "live_row tid act (now - w) r")
    case True
    then have k: "rlo_telegram_id r = tid" "rlo_action r = act" "now - w \<le> rlo_window_start r"
      by (simp_all add: live_row_def)
    have "filter (live_row tid act (now - w)) rows = []"
    proof (rule ccontr)
      assume "filter (live_row tid act (now - w)) rows \<noteq> []"
      then obtain r' where r': "r' \<in> set rows" "live_row tid act (now - w) r'"
        by (auto simp: filter_empty_conv)
      then have "rlo_window_start r' \<in> set (windows tid act rows)"
        by (auto simp: windows_def live_row_def)
      then have "rlo_window_start r + w < rlo_window_start r'" "rlo_window_start r' \<le> now"
        using Cons.prems k by (auto simp: windows_def spaced_def)
      then show False using k(3) by simp
    qed
    then show ?thesis using True by simp
  next
    case False
    then show ?thesis using ih by simp
  qed
qed simp

lemma windows_modified:
  "rlo_window_start new = rlo_window_start old \<Longrightarrow> rlo_telegram_id new = rlo_telegram_id old \<Longrightarrow>
   rlo_action new = rlo_action old \<Longrightarrow>
   windows tid act (apply_change i (Modified old new) rows) = windows tid act rows"
  by (induction rows) (auto simp: windows_def)

lemma spaced_added:
  assumes "spaced w (windows tid act rows)" "filter (live_row tid act (now - w)) rows = []"
    and "rlo_telegram_id r = tid" "rlo_action r = act" "rlo_window_start r = now"
  shows "spaced w (windows tid act (rows @ [r]))"
proof -
  have "t + w < now" if "t \<in> set (windows tid act rows)" for t
    using that assms(2) by (fastforce simp: windows_def live_row_def filter_empty_conv)
  then show ?thesis using assms by (auto simp: spaced_def windows_def sorted_wrt_append)
qed

lemma sql_increment_cases:
  assumes sql: "sql_session ses rows"
    and sp: "spaced w (windows tid act (rows s))" "\<forall>t' \<in> set (windows tid act (rows s)). t' \<le> t * 1000"
    and w: "w = win * 1000000"
    and run: "SQLRateLimitRepository_increment (call_runtime t u) ses tid act win s = (x, s')"
  obtains (read_failed) e where "ss_select ses (where_only (live_row tid act (t * 1000 - w))) s = (Inl e, s')"
      "x = Inl e" "rows s' = rows s"
  | (opened) xs s1 where "filter (live_row tid act (t * 1000 - w)) (rows s) = []" "rows s1 = rows s"
      "ss_select ses (where_only (live_row tid act (t * 1000 - w))) s = (Inr xs, s1)"
      "thenM (ss_commit ses (Added (\<lambda>i. \<lparr>rlo_id = i, rlo_telegram_id = tid, rlo_action = act,
          rlo_window_start = t * 1000, rlo_count = 1\<rparr>))) (returnM 1) s1 = (x, s')"
  | (counted) r xs s1 where "filter (live_row tid act (t * 1000 - w)) (rows s) = [r]" "rows s1 = rows s"
      "ss_select ses (where_only (live_row tid act (t * 1000 - w))) s = (Inr xs, s1)"
      "thenM (ss_commit ses (Modified r (r\<lparr>rlo_count := rlo_count r + 1\<rparr>)))
         (returnM (rlo_count r + 1)) s1 = (x, s')"
proof -
  let ?P = "live_row tid act (t * 1000 - w)"
  obtain y s1 where sel: "ss_select ses (where_only ?P) s = (y, s1)" by force
  show ?thesis
  proof (cases y)
    case (Inl e)
    then show ?thesis
      using read_failed sel run sql_session.select_frame [OF sql] framesD [of rows _ s y s1] w
      by (auto simp: SQLRateLimitRepository_increment_def call_runtime_def bindM_def)
  next
    case (Inr xs)
    have m: "mset xs = mset (filter ?P (rows s))" and s1: "rows s1 = rows s"
      using sql_session.select_where [OF sql sel [unfolded Inr]] by simp_all
    have "length xs \<le> 1" using live_rows_le_one [OF sp] m by (metis size_mset)
    then consider "xs = []" | r where "xs = [r]" by (cases xs) auto
    then show ?thesis
    proof cases
      case 1
      then show ?thesis
        using opened m s1 sel Inr run w
        by (auto simp: SQLRateLimitRepository_increment_def call_runtime_def bindM_def simp del: mset_filter)
    next
      case (2 r)
      then have "filter ?P (rows s) = [r]" using m by (metis mset_single_iff mset.simps mset_zero_iff)
      then show ?thesis
        using counted 2 s1 sel Inr run w
        by (auto simp: SQLRateLimitRepository_increment_def call_runtime_def bindM_def simp del: mset_filter)
    qed
  qed
qed

lemma spaced_change:
  assumes "sql_session ses rows" "ss_commit ses c s1 = (y, s')" "rows s1 = rows s"
    and "spaced w (windows tid act (rows s))"
    and "\<And>i. spaced w (windows tid act (apply_change i c (rows s)))"
  shows "spaced w (windows tid act (rows s'))"
  using sql_session.commit_any [OF assms(1,2)] assms(3-5) by auto

section \<open>Properties\<close>

text \<open>C25. The Redis limiter is an exact sliding window: along any run of one key, each increment
  returned one more than the number of calls in the window before it, and in any window of the
  configured length at most \<open>m\<close> calls saw a count not above \<open>m\<close>, the ones the callers let
  through.\<close>

theorem redis_sliding_window:
  assumes "redis_zsets rd zs" and "rate_run rd zs tid act win clk s H" and "0 < win" and "0 \<le> m"
  shows "exact (win * 1000) H \<and> accepted_in (T - win * 1000) T m H \<le> m"
  using redis_zsets.rate_run_exact [OF assms(1-3)] exact_accepted assms(4) by blast

lemma redis_sliding_window_witness:
  "\<exists>s n1 n2. rate_run ref_redis zmap 7 ''BACKUP'' 60 2000 s [(2000, n2), (1000, n1)] \<and>
     exact 60000 [(2000, n2), (1000, n1)] \<and> accepted_in (-58000) 2000 1 [(2000, n2), (1000, n1)] \<le> 1"
proof -
  let ?k = "rate_key 7 ''BACKUP''"
  have eval: "\<exists>n s'. RedisRateLimitRepository_increment (call_runtime t u) ref_redis 7 ''BACKUP'' 60 s
      = (Inr n, s')" for t u s
    unfolding increment_run
    by (simp add: ref_redis_def INCREMENT_SCRIPT_def thenM_def bindM_def ref_zremrangebyscore_def
        ref_zadd_def ref_expire_def Let_def)
  have "rate_run ref_redis zmap 7 ''BACKUP'' 60 0 empty_store []"
    by (rule rate_start) (simp add: zmap_def live_zset_def empty_store_def)
  moreover have u1: "zmap empty_store ?k (unique_member 1000 ''a'') = None"
    by (simp add: zmap_def live_zset_def empty_store_def)
  moreover obtain n1 s1 where r1: "RedisRateLimitRepository_increment (call_runtime 1000 ''a'')
      ref_redis 7 ''BACKUP'' 60 empty_store = (Inr n1, s1)" using eval by blast
  ultimately have run1: "rate_run ref_redis zmap 7 ''BACKUP'' 60 1000 s1 [(1000, n1)]"
    by (intro rate_inc [of _ _ _ _ _ 0 empty_store]) simp_all
  have "zmap s1 ?k (unique_member 2000 ''b'') = None"
    using r1 unfolding increment_run by (simp add: ref_redis_def INCREMENT_SCRIPT_def thenM_def)
      (auto simp: bindM_def ref_zremrangebyscore_def ref_zadd_def ref_expire_def Let_def zmap_def
        live_zset_def live_expiry_def empty_store_def unique_member_def)
  moreover obtain n2 s2 where r2: "RedisRateLimitRepository_increment (call_runtime 2000 ''b'')
      ref_redis 7 ''BACKUP'' 60 s1 = (Inr n2, s2)" using eval by blast
  ultimately have run2: "rate_run ref_redis zmap 7 ''BACKUP'' 60 2000 s2 [(2000, n2), (1000, n1)]"
    by (intro rate_inc [OF run1]) simp_all
  from redis_sliding_window [OF ref_zsets.redis_zsets_axioms run2, of 1 2000] run2
  show ?thesis by auto
qed

text \<open>The SQL limiter: while the windows of a user and action were opened more than a window
  apart and none lies in the future, an increment never meets two open rows; it returns one more
  than the open row's count, or opens a row with count one; and the windows stay apart, whatever
  the outcome.\<close>

theorem sql_increment_window:
  assumes "sql_session ses rows" and "w = win * 1000000"
    and "spaced w (windows tid act (rows s))" "\<forall>t' \<in> set (windows tid act (rows s)). t' \<le> t * 1000"
    and "SQLRateLimitRepository_increment (call_runtime t u) ses tid act win s = (x, s')"
  shows "spaced w (windows tid act (rows s')) \<and>
    (\<forall>n. x = Inr n \<longrightarrow>
       (filter (live_row tid act (t * 1000 - w)) (rows s) = [] \<and> n = 1 \<and>
          windows tid act (rows s') = windows tid act (rows s) @ [t * 1000]) \<or>
       (\<exists>r. filter (live_row tid act (t * 1000 - w)) (rows s) = [r] \<and> n = rlo_count r + 1 \<and>
          windows tid act (rows s') = windows tid act (rows s)))"
  using assms(1,3,4,2,5)
proof (cases rule: sql_increment_cases)
  case (read_failed e)
  then show ?thesis using assms(3) by simp
next
  case (opened xs s1)
  then obtain y where c: "ss_commit ses (Added (\<lambda>i. \<lparr>rlo_id = i, rlo_telegram_id = tid, rlo_action = act,
      rlo_window_start = t * 1000, rlo_count = 1\<rparr>)) s1 = (y, s')" "\<forall>n. x = Inr n \<longrightarrow> n = 1 \<and> y = Inr ()"
    by (auto simp: thenM_run split: prod.splits sum.splits)
  have "spaced w (windows tid act (rows s'))"
    by (rule spaced_change [OF assms(1) c(1) opened(2) assms(3)])
       (use opened(1) assms(3) in \<open>auto intro: spaced_added\<close>)
  then show ?thesis
    using sql_session.commit_ok [OF assms(1)] c opened(1,2) by (fastforce simp: windows_def)
next
  case (counted r xs s1)
  then obtain y where c: "ss_commit ses (Modified r (r\<lparr>rlo_count := rlo_count r + 1\<rparr>)) s1 = (y, s')"
      "\<forall>n. x = Inr n \<longrightarrow> n = rlo_count r + 1 \<and> y = Inr ()"
    by (auto simp: thenM_run split: prod.splits sum.splits)
  have m: "windows tid act (apply_change i (Modified r (r\<lparr>rlo_count := rlo_count r + 1\<rparr>)) (rows s))
      = windows tid act (rows s)" for i
    by (rule windows_modified) simp_all
  have "windows tid act (rows s') = windows tid act (rows s)"
    using sql_session.commit_any [OF assms(1) c(1)] counted(2) m by auto
  then show ?thesis using c counted(1) assms(3) by auto
qed

lemma sql_increment_window_witness:
  "\<exists>s'. SQLRateLimitRepository_increment (call_runtime 1000 ''a'') ref_session 7 ''BACKUP'' 60
       \<lparr>rf_rows = [], rf_next = 0\<rparr> = (Inr 1, s') \<and>
     windows 7 ''BACKUP'' (rf_rows s') = [1000000]"
proof -
  let ?s = "\<lparr>rf_rows = [], rf_next = 0\<rparr> :: RateLimitORM ref_table"
  obtain s' where r: "SQLRateLimitRepository_increment (call_runtime 1000 ''a'') ref_session 7 ''BACKUP'' 60 ?s
      = (Inr 1, s')"
    by (auto simp: SQLRateLimitRepository_increment_def call_runtime_def bindM_def thenM_def
        ref_session_def run_query_def windowed_def where_only_def)
  have "spaced 60000000 (windows 7 ''BACKUP'' (rf_rows ?s))"
    "\<forall>t' \<in> set (windows 7 ''BACKUP'' (rf_rows ?s)). t' \<le> 1000 * 1000"
    by (simp_all add: spaced_def windows_def)
  from sql_increment_window [OF ref_sql.sql_session_axioms _ this r] r show ?thesis
    by (auto simp: windows_def)
qed

text \<open>The increments of one user and action at the given milliseconds, newest first, with the
  counts they returned.\<close>

fun sql_counts ::
  "int list \<Rightarrow> RateLimitORM ref_table \<Rightarrow> (int \<times> int) list \<Rightarrow> (int \<times> int) list" where
  "sql_counts [] s H = H"
| "sql_counts (t # ts) s H =
     (case SQLRateLimitRepository_increment (call_runtime t ''u'') ref_session 7 ''BACKUP'' 60 s of
        (Inl e, s') \<Rightarrow> sql_counts ts s' H
      | (Inr n, s') \<Rightarrow> sql_counts ts s' ((t, n) # H))"

text \<open>The SQL limiter is a fixed window and not a sliding one: with a limit of three calls in
  60 seconds, calls at 0, 58 and 59 seconds and again at 61, 62 and 63 seconds all get through,
  five of them within 60 seconds.\<close>

theorem sql_fixed_window_burst:
  "accepted_in (63000 - 60 * 1000) 63000 3
     (sql_counts [0, 58000, 59000, 61000, 62000, 63000] \<lparr>rf_rows = [], rf_next = 0\<rparr> []) = 5"
  by code_simp

end
