(* ===== verification/Telegram.thy ===== *)
theory Telegram
  imports Config UserStore RateLimit
begin

text \<open>
  What the handlers of \<^verbatim>\<open>app/telegram\<close> are given, and \<^verbatim>\<open>app/telegram/middlewares/_utils.py\<close>. The classes
  of aiogram are records of the fields the code reads; the Bot API is a parameter, a record of the calls
  the code makes. Characters have code points below 256, so the emoji and arrows of the texts, which are
  beyond, are left out, accented letters are not.
\<close>

section \<open>Updates\<close>

record Message =
  msg_id :: int
  msg_chat_id :: int
  msg_thread_id :: "int option"
  msg_from_id :: "int option"
  msg_text :: "string option"

text \<open>The message of a callback is \<open>None\<close> also when Telegram gives an inaccessible one.\<close>

record CallbackQuery =
  cq_from_id :: int
  cq_message :: "Message option"
  cq_data :: "string option"

record Update =
  upd_id :: int
  upd_message :: "Message option"
  upd_edited_message :: "Message option"
  upd_callback_query :: "CallbackQuery option"
  upd_channel_post :: "Message option"
  upd_edited_channel_post :: "Message option"

datatype event = UpdateEvent Update | MessageEvent Message | CallbackEvent CallbackQuery | OtherEvent

definition or_else :: "'a option \<Rightarrow> 'a option \<Rightarrow> 'a option" where
  "or_else x y = (case x of None \<Rightarrow> y | Some _ \<Rightarrow> x)"

record UpdateContext =
  uc_update_id :: "int option"
  uc_user_id :: "int option"
  uc_chat_id :: "int option"
  uc_topic_id :: "int option"

definition message_context :: "Message \<Rightarrow> UpdateContext" where
  "message_context m =
     \<lparr>uc_update_id = None, uc_user_id = msg_from_id m, uc_chat_id = Some (msg_chat_id m), uc_topic_id = msg_thread_id m\<rparr>"

definition callback_context :: "CallbackQuery \<Rightarrow> UpdateContext" where
  "callback_context cb =
     \<lparr>uc_update_id = None, uc_user_id = Some (cq_from_id cb),
      uc_chat_id = map_option msg_chat_id (cq_message cb),
      uc_topic_id = Option.bind (cq_message cb) msg_thread_id\<rparr>"

definition no_context :: UpdateContext where
  "no_context = \<lparr>uc_update_id = None, uc_user_id = None, uc_chat_id = None, uc_topic_id = None\<rparr>"

text \<open>The first of the five kinds of an update that is present; it decides the context.\<close>

definition update_sub :: "Update \<Rightarrow> (Message + CallbackQuery) option" where
  "update_sub u =
     or_else (map_option Inl (upd_message u))
    (or_else (map_option Inl (upd_edited_message u))
    (or_else (map_option Inr (upd_callback_query u))
    (or_else (map_option Inl (upd_channel_post u))
             (map_option Inl (upd_edited_channel_post u)))))"

definition extract_context :: "event \<Rightarrow> UpdateContext" where
  "extract_context ev = (case ev of
     UpdateEvent u \<Rightarrow>
       (case update_sub u of
          None \<Rightarrow> no_context | Some (Inl m) \<Rightarrow> message_context m | Some (Inr cb) \<Rightarrow> callback_context cb)
       \<lparr>uc_update_id := Some (upd_id u)\<rparr>
   | MessageEvent m \<Rightarrow> message_context m
   | CallbackEvent cb \<Rightarrow> callback_context cb
   | OtherEvent \<Rightarrow> no_context)"

section \<open>Commands\<close>

definition map_telegram_command :: "string \<Rightarrow> string option" where
  "map_telegram_command cmd = map_of
     [(''BACKUP'', ''BACKUP''), (''SIZE'', ''SIZE_QUERY''), (''CANCEL'', ''CANCEL_JOB''), (''JOBS'', ''LIST_JOBS''),
      (''ADMIN'', ''MANAGE_USERS''), (''USERS'', ''MANAGE_USERS'')] cmd"

definition map_callback_data :: "string \<Rightarrow> string option" where
  "map_callback_data data =
     (if starts_with data ''backup'' then Some ''BACKUP''
      else if starts_with data ''size'' then Some ''SIZE_QUERY''
      else if starts_with data ''cancel'' then Some ''CANCEL_JOB''
      else if starts_with data ''jobs'' then Some ''LIST_JOBS''
      else if starts_with data ''admin'' then Some ''MANAGE_USERS''
      else None)"

text \<open>\<open>text.split()[0][1:].split("@")[0].upper()\<close> of a text that starts with a slash.\<close>

definition raw_command :: "string \<Rightarrow> string" where
  "raw_command text = upper (takeWhile (\<lambda>c. c \<noteq> CHR ''@'') (tl (takeWhile (\<lambda>c. \<not> is_space c) text)))"

definition event_message :: "event \<Rightarrow> Message option" where
  "event_message ev = (case ev of
     UpdateEvent u \<Rightarrow> or_else (upd_message u) (upd_edited_message u) | MessageEvent m \<Rightarrow> Some m | _ \<Rightarrow> None)"

definition event_callback :: "event \<Rightarrow> CallbackQuery option" where
  "event_callback ev = (case ev of UpdateEvent u \<Rightarrow> upd_callback_query u | CallbackEvent cb \<Rightarrow> Some cb | _ \<Rightarrow> None)"

definition extract_command :: "event \<Rightarrow> string option" where
  "extract_command ev =
     (let text = map_option py_strip (Option.bind (event_message ev) msg_text);
          data = Option.bind (event_callback ev) cq_data in
      case text of
        Some (c # cs) \<Rightarrow>
          if c = CHR ''/'' then map_telegram_command (raw_command (c # cs))
          else Option.bind data map_callback_data
      | _ \<Rightarrow> Option.bind data map_callback_data)"

section \<open>Topics\<close>

text \<open>Of equal keys in a dictionary display the last one counts.\<close>

definition resolve_topic :: "int option \<Rightarrow> AppConfig \<Rightarrow> string" where
  "resolve_topic topic_id c =
     (case map_of (rev [(Some (ac_topic_backup_requests c), topic_value BACKUP_REQUESTS),
                        (Some (ac_topic_size_ask c), topic_value SIZE_ASK),
                        (Some (ac_topic_execution_errors c), topic_value EXECUTION_ERRORS),
                        (Some (ac_topic_admin c), topic_value TopicType.ADMIN)]) topic_id of
        None \<Rightarrow> ''GENERAL'' | Some t \<Rightarrow> t)"

section \<open>The Bot API\<close>

type_synonym keyboard = "(string \<times> string) list list" \<comment> \<open>rows of buttons: text and callback data\<close>

datatype ChatMemberStatus = CREATOR | ADMINISTRATOR | MEMBER | RESTRICTED | LEFT | KICKED

record 's Bot =
  bot_send_message :: "int \<Rightarrow> string \<Rightarrow> int option \<Rightarrow> keyboard option \<Rightarrow> ('s, unit) M" \<comment> \<open>chat, text, topic\<close>
  bot_edit_text :: "Message \<Rightarrow> string \<Rightarrow> keyboard option \<Rightarrow> ('s, unit) M" \<comment> \<open>\<open>message.edit_text\<close>\<close>
  bot_answer_callback :: "CallbackQuery \<Rightarrow> string option \<Rightarrow> bool \<Rightarrow> ('s, unit) M" \<comment> \<open>text, show\_alert\<close>
  bot_send_document :: "int \<Rightarrow> string \<Rightarrow> string \<Rightarrow> int option \<Rightarrow> ('s, unit) M" \<comment> \<open>chat, content, caption, topic\<close>
  bot_get_chat_member :: "string \<Rightarrow> int \<Rightarrow> ('s, ChatMemberStatus) M"
  bot_get_me :: "('s, bool) M" \<comment> \<open>\<open>me is not None\<close>\<close>

text \<open>\<open>message.answer(text)\<close> replies in the chat and the thread of the message.\<close>

definition Message_answer :: "'s Bot \<Rightarrow> Message \<Rightarrow> string \<Rightarrow> keyboard option \<Rightarrow> ('s, unit) M" where
  "Message_answer b m text kb = bot_send_message b (msg_chat_id m) text (msg_thread_id m) kb"

text \<open>\<open>data\<close>: what the middlewares read and write of the dictionary they pass on.\<close>

record 's middleware_data =
  md_user :: "User option"
  md_event_from_user :: "int option"
  md_bot :: "'s Bot option"

definition safe_send_message :: "'s middleware_data \<Rightarrow> int \<Rightarrow> string \<Rightarrow> int option \<Rightarrow> ('s, unit) M" where
  "safe_send_message data chat_id text topic_id =
     (case md_bot data of
        None \<Rightarrow> returnM ()
      | Some b \<Rightarrow> tryM (bot_send_message b chat_id text topic_id None) (\<lambda>exc. returnM ()))"

lemma safe_send_never_raises: "fst (safe_send_message data c t z s) = Inr ()"
  by (auto simp: safe_send_message_def run_simps split: option.split sum.split prod.split)

section \<open>Names of exceptions\<close>

text \<open>\<open>type(exc).__name__\<close>\<close>

fun err_class_name :: "err_class \<Rightarrow> string" where
  "err_class_name MongoOpsError = ''MongoOpsError''"
| "err_class_name ConfigurationError = ''ConfigurationError''"
| "err_class_name DomainPermissionError = ''DomainPermissionError''"
| "err_class_name BackupEngineError = ''BackupEngineError''"
| "err_class_name JobError = ''JobError''"
| "err_class_name NotificationError = ''NotificationError''"
| "err_class_name RepositoryError = ''RepositoryError''"
| "err_class_name RateLimitError = ''RateLimitError''"
| "err_class_name DiskSpaceError = ''DiskSpaceError''"
| "err_class_name DomainError = ''DomainError''"
| "err_class_name JobNotFoundError = ''JobNotFoundError''"
| "err_class_name InvalidStateTransitionError = ''InvalidStateTransitionError''"
| "err_class_name JobAlreadyRunningError = ''JobAlreadyRunningError''"
| "err_class_name PermissionDeniedError = ''PermissionDeniedError''"
| "err_class_name UserAlreadyExistsError = ''UserAlreadyExistsError''"

fun exn_type_name :: "exn \<Rightarrow> string" where
  "exn_type_name (DomainExn c _ _) = err_class_name c"
| "exn_type_name (ValidationError _) = ''ValidationError''"
| "exn_type_name (ValueError _) = ''ValueError''"
| "exn_type_name (AttributeError _) = ''AttributeError''"
| "exn_type_name (OSError _) = ''OSError''"
| "exn_type_name (FileNotFoundError _) = ''FileNotFoundError''"
| "exn_type_name (RuntimeError _) = ''RuntimeError''"
| "exn_type_name (TimeoutError _) = ''TimeoutError''"
| "exn_type_name (OtherException n _) = n"

end
