(* ===== verification/Permissions.thy ===== *)
theory Permissions
  imports Ports
begin

text \<open>
  \<^verbatim>\<open>app/application/services/permission_service.py\<close>: the RBAC evaluator with its optional
  injected matrices, and \<^verbatim>\<open>app/application/services/audit_service.py\<close>: the two ways an audit
  entry is built and handed to the repository.
\<close>

section \<open>PermissionService\<close>

record PermissionService =
  ps_command_permissions :: "(string \<times> UserRole set) list option"
  ps_topic_permissions :: "(TopicType \<times> UserRole set) list option"

definition PermissionService_can_execute ::
  "PermissionService \<Rightarrow> User \<Rightarrow> string \<Rightarrow> string \<Rightarrow> bool" where
  "PermissionService_can_execute ps u command topic =
     (if \<not> u_is_active u then False
      else (case ps_command_permissions ps of
          None \<Rightarrow> User_can_execute u command topic
        | Some cp \<Rightarrow>
            if u_role u \<notin> get_roles (map_of cp command) then False
            else (case parse_topic topic of
                Inl _ \<Rightarrow> False
              | Inr t \<Rightarrow>
                  (case ps_topic_permissions ps of
                     Some tp \<Rightarrow> u_role u \<in> get_roles (map_of tp t)
                   | None \<Rightarrow> User_can_execute u command topic))))"

definition PermissionService_can_cancel :: "PermissionService \<Rightarrow> User \<Rightarrow> BackupJob \<Rightarrow> bool" where
  "PermissionService_can_cancel ps u j = BackupJob_can_be_cancelled_by u j"

text \<open>The matrices that decide, given what was injected: the domain's when both are absent.\<close>

definition default_service :: PermissionService where
  "default_service = \<lparr>ps_command_permissions = None, ps_topic_permissions = None\<rparr>"

lemma can_execute_active:
  "PermissionService_can_execute ps u c t \<Longrightarrow> u_is_active u"
  by (simp add: PermissionService_can_execute_def split: if_splits)

lemma can_execute_default [simp]:
  "PermissionService_can_execute default_service u c t = User_can_execute u c t"
  by (simp add: PermissionService_can_execute_def default_service_def User_can_execute_def)

text \<open>A topic matrix alone is never consulted.\<close>

lemma can_execute_topic_only:
  "ps_command_permissions ps = None \<Longrightarrow>
   PermissionService_can_execute ps u c t = User_can_execute u c t"
  by (simp add: PermissionService_can_execute_def User_can_execute_def)

text \<open>A command matrix alone can only take rights away.\<close>

lemma can_execute_command_only:
  "ps_command_permissions ps = Some cp \<Longrightarrow> ps_topic_permissions ps = None \<Longrightarrow>
   PermissionService_can_execute ps u c t \<longleftrightarrow>
     User_can_execute u c t \<and> u_role u \<in> get_roles (map_of cp c)"
  by (auto simp: PermissionService_can_execute_def User_can_execute_def split: sum.splits)

lemma can_execute_both:
  "ps_command_permissions ps = Some cp \<Longrightarrow> ps_topic_permissions ps = Some tp \<Longrightarrow>
   PermissionService_can_execute ps u c t \<longleftrightarrow>
     u_is_active u \<and> u_role u \<in> get_roles (map_of cp c) \<and>
     (\<exists>tt. t = topic_value tt \<and> u_role u \<in> get_roles (map_of tp tt))"
proof (cases "parse_topic t")
  case (Inl e)
  then have "\<And>tt. t \<noteq> topic_value tt" by auto
  with Inl show "ps_command_permissions ps = Some cp \<Longrightarrow> ps_topic_permissions ps = Some tp \<Longrightarrow> ?thesis"
    by (simp add: PermissionService_can_execute_def)
next
  case (Inr tt)
  then show "ps_command_permissions ps = Some cp \<Longrightarrow> ps_topic_permissions ps = Some tp \<Longrightarrow> ?thesis"
    by (auto simp: PermissionService_can_execute_def parse_topic_Inr)
qed

section \<open>AuditService\<close>

text \<open>
  Building the entry runs the pydantic constraints; a rejected entry never reaches the
  repository. The time stamp is the default factory's clock reading.
\<close>

definition AuditService_log_action ::
  "'s Runtime \<Rightarrow> 's IAuditRepository \<Rightarrow> string \<Rightarrow> int \<Rightarrow> string \<Rightarrow> string option \<Rightarrow> string \<Rightarrow>
   int option \<Rightarrow> string option \<Rightarrow> pydict option \<Rightarrow> ('s, unit) M" where
  "AuditService_log_action rt ar action telegram_id topic command result duration hash ctx =
     bindM (rt_now rt) (\<lambda>t.
     bindM (liftE (validated valid_AuditLog ''AuditLog''
        \<lparr>al_id = None, al_telegram_id = telegram_id, al_action = action, al_topic = topic,
         al_command = command, al_job_id = None, al_cluster_uri_hash = hash,
         al_databases = None, al_collections = None, al_result = result,
         al_duration_ms = duration, al_ip_address = None, al_user_agent = None, al_timestamp = t,
         al_details = ctx\<rparr>)) (\<lambda>entry.
     ar_log ar entry))"

definition AuditService_log_job_event ::
  "'s Runtime \<Rightarrow> 's IAuditRepository \<Rightarrow> string \<Rightarrow> string \<Rightarrow> int \<Rightarrow> pydict option \<Rightarrow> string \<Rightarrow>
   ('s, unit) M" where
  "AuditService_log_job_event rt ar job_id event requester details result =
     bindM (rt_now rt) (\<lambda>t.
     bindM (liftE (validated valid_AuditLog ''AuditLog''
        \<lparr>al_id = None, al_telegram_id = requester, al_action = event, al_topic = ''JOB_EVENTS'',
         al_command = None, al_job_id = Some job_id, al_cluster_uri_hash = None,
         al_databases = None, al_collections = None, al_result = result,
         al_duration_ms = None, al_ip_address = None, al_user_agent = None, al_timestamp = t,
         al_details = details\<rparr>)) (\<lambda>entry.
     ar_log ar entry))"

definition audit_frames :: "('s \<Rightarrow> 'v) \<Rightarrow> 's IAuditRepository \<Rightarrow> bool" where
  "audit_frames view ar \<longleftrightarrow> (\<forall>e. frames view (ar_log ar e))"

lemma log_action_frames [frame_intros]:
  "runtime_frames view rt \<Longrightarrow> audit_frames view ar \<Longrightarrow>
   frames view (AuditService_log_action rt ar a i tp c r d h ctx)"
  by (auto simp: AuditService_log_action_def audit_frames_def intro!: frame_intros)

lemma log_job_event_frames [frame_intros]:
  "runtime_frames view rt \<Longrightarrow> audit_frames view ar \<Longrightarrow>
   frames view (AuditService_log_job_event rt ar j e q d r)"
  by (auto simp: AuditService_log_job_event_def audit_frames_def intro!: frame_intros)

section \<open>Properties\<close>

fun role_rank :: "UserRole \<Rightarrow> nat" where
  "role_rank READONLY = 0"
| "role_rank OPERATOR = 1"
| "role_rank DBA = 2"
| "role_rank UserRole.ADMIN = 3"

lemma COMMAND_PERMISSIONS_up:
  "r \<in> get_roles (COMMAND_PERMISSIONS c) \<Longrightarrow> role_rank r \<le> role_rank r' \<Longrightarrow>
   r' \<in> get_roles (COMMAND_PERMISSIONS c)"
  by (cases r; cases r') (auto simp: COMMAND_PERMISSIONS_def split: if_splits)

lemma TOPIC_PERMISSIONS_up:
  "r \<in> get_roles (TOPIC_PERMISSIONS t) \<Longrightarrow> role_rank r \<le> role_rank r' \<Longrightarrow>
   r' \<in> get_roles (TOPIC_PERMISSIONS t)"
  by (cases t; cases r; cases r') auto

text \<open>The built-in access rules: they are monotone in the role, an inactive user may do nothing,
  an administrator may do every known command in every known topic, and a read-only user may only
  query sizes and list jobs, in the size topic. An unknown command or topic is refused.\<close>

lemma rbac_default:
  "(User_can_execute u c t \<longrightarrow> u_is_active u \<and>
      c \<in> {''BACKUP'', ''SIZE_QUERY'', ''CANCEL_JOB'', ''LIST_JOBS'', ''MANAGE_USERS''} \<and>
      t \<in> {''BACKUP_REQUESTS'', ''SIZE_ASK'', ''EXECUTION_ERRORS'', ''ADMIN''}) \<and>
   (User_can_execute u c t \<longrightarrow> role_rank (u_role u) \<le> role_rank r \<longrightarrow>
      User_can_execute (u\<lparr>u_role := r\<rparr>) c t) \<and>
   (u_role u = UserRole.ADMIN \<longrightarrow>
      User_can_execute u c t = (u_is_active u \<and>
        c \<in> {''BACKUP'', ''SIZE_QUERY'', ''CANCEL_JOB'', ''LIST_JOBS'', ''MANAGE_USERS''} \<and>
        t \<in> {''BACKUP_REQUESTS'', ''SIZE_ASK'', ''EXECUTION_ERRORS'', ''ADMIN''})) \<and>
   (u_role u = READONLY \<longrightarrow>
      User_can_execute u c t =
        (u_is_active u \<and> c \<in> {''SIZE_QUERY'', ''LIST_JOBS''} \<and> t = ''SIZE_ASK''))"
proof (intro conjI impI)
  assume e: "User_can_execute u c t"
  then obtain tt where tt: "t = topic_value tt" by (auto simp: User_can_execute_iff)
  show "u_is_active u" using e by (simp add: User_can_execute_iff)
  show "c \<in> {''BACKUP'', ''SIZE_QUERY'', ''CANCEL_JOB'', ''LIST_JOBS'', ''MANAGE_USERS''}"
    using e COMMAND_PERMISSIONS_Some [of c] by (cases "COMMAND_PERMISSIONS c") (auto simp: User_can_execute_iff)
  show "t \<in> {''BACKUP_REQUESTS'', ''SIZE_ASK'', ''EXECUTION_ERRORS'', ''ADMIN''}"
    using tt by (cases tt) simp_all
  show "User_can_execute (u\<lparr>u_role := r\<rparr>) c t" if "role_rank (u_role u) \<le> role_rank r"
    using e that COMMAND_PERMISSIONS_up TOPIC_PERMISSIONS_up unfolding User_can_execute_iff by fastforce
next
  assume r: "u_role u = UserRole.ADMIN"
  have "(\<exists>tt. t = topic_value tt \<and> UserRole.ADMIN \<in> get_roles (TOPIC_PERMISSIONS tt)) \<longleftrightarrow>
      t \<in> {''BACKUP_REQUESTS'', ''SIZE_ASK'', ''EXECUTION_ERRORS'', ''ADMIN''}" (is "?l \<longleftrightarrow> ?r")
  proof
    assume ?l
    then obtain tt where "t = topic_value tt" by blast
    then show ?r by (cases tt) simp_all
  next
    assume ?r
    then show ?l
      using topic_value.simps TOPIC_PERMISSIONS.simps get_roles_simps(2)
      by (metis empty_iff insert_iff)
  qed
  moreover have "UserRole.ADMIN \<in> get_roles (COMMAND_PERMISSIONS c) \<longleftrightarrow>
      c \<in> {''BACKUP'', ''SIZE_QUERY'', ''CANCEL_JOB'', ''LIST_JOBS'', ''MANAGE_USERS''}"
    by (auto simp: COMMAND_PERMISSIONS_def)
  ultimately show "User_can_execute u c t = (u_is_active u \<and>
        c \<in> {''BACKUP'', ''SIZE_QUERY'', ''CANCEL_JOB'', ''LIST_JOBS'', ''MANAGE_USERS''} \<and>
        t \<in> {''BACKUP_REQUESTS'', ''SIZE_ASK'', ''EXECUTION_ERRORS'', ''ADMIN''})"
    using r by (simp add: User_can_execute_iff)
next
  assume r: "u_role u = READONLY"
  have "(\<exists>tt. t = topic_value tt \<and> READONLY \<in> get_roles (TOPIC_PERMISSIONS tt)) \<longleftrightarrow> t = ''SIZE_ASK''"
    (is "?l \<longleftrightarrow> ?r")
  proof
    assume ?l
    then obtain tt where "t = topic_value tt" "READONLY \<in> get_roles (TOPIC_PERMISSIONS tt)" by blast
    then show ?r by (cases tt) simp_all
  next
    assume ?r
    then show ?l by (intro exI [of _ SIZE_ASK]) simp
  qed
  moreover have "READONLY \<in> get_roles (COMMAND_PERMISSIONS c) \<longleftrightarrow> c \<in> {''SIZE_QUERY'', ''LIST_JOBS''}"
    by (auto simp: COMMAND_PERMISSIONS_def)
  ultimately show "User_can_execute u c t =
        (u_is_active u \<and> c \<in> {''SIZE_QUERY'', ''LIST_JOBS''} \<and> t = ''SIZE_ASK'')"
    using r by (simp add: User_can_execute_iff)
qed

text \<open>Injected access matrices: with no command matrix the built-in rules decide, whatever topic
  matrix was injected; a command matrix alone can only take rights away from the built-in rules;
  and only both matrices together replace them.\<close>

theorem rbac_injected:
  "PermissionService_can_execute ps u c t =
     (case ps_command_permissions ps of
        None \<Rightarrow> User_can_execute u c t
      | Some cp \<Rightarrow>
         (case ps_topic_permissions ps of
            None \<Rightarrow> User_can_execute u c t \<and> u_role u \<in> get_roles (map_of cp c)
          | Some tp \<Rightarrow> u_is_active u \<and> u_role u \<in> get_roles (map_of cp c) \<and>
              (\<exists>tt. t = topic_value tt \<and> u_role u \<in> get_roles (map_of tp tt))))"
  using can_execute_topic_only [of ps u c t] can_execute_command_only [of ps _ u c t]
    can_execute_both [of ps _ _ u c t]
  by (auto split: option.split)

end
