(* ===== verification/JobService.thy ===== *)
theory JobService
  imports Permissions JobStore
begin

text \<open>
  \<^verbatim>\<open>app/infrastructure/queue/rq_job_queue.py\<close>, the adapter of the job queue over RQ, and
  \<^verbatim>\<open>app/application/services/job_manager.py\<close>, which creates, enqueues and cancels jobs; with the
  use case \<^verbatim>\<open>use_cases/cancel_job.py\<close>. RQ is a parameter: the record \<open>rq_client\<close> of what the
  adapter asks of it.
\<close>

section \<open>RQJobQueue\<close>

text \<open>\<open>rq_fetch\<close> is \<open>RQJob.fetch\<close>, which raises \<open>NoSuchJobError\<close>; the others act on the
  job fetched.\<close>

record 's rq_client =
  rq_enqueue_in :: "int \<Rightarrow> string \<Rightarrow> string \<Rightarrow> pydict \<Rightarrow> bool \<Rightarrow> ('s, string) M"
    \<comment> \<open>seconds, job\_id, job\_type, payload, at\_front\<close>
  rq_fetch :: "string \<Rightarrow> ('s, unit) M"
  rq_get_status :: "string \<Rightarrow> ('s, string) M"
  rq_cancel :: "string \<Rightarrow> ('s, unit) M"
  rq_retry_count :: "string \<Rightarrow> ('s, int) M" \<comment> \<open>\<open>meta.get("retry_count", 0)\<close>\<close>
  rq_save_retry_count :: "string \<Rightarrow> int \<Rightarrow> ('s, unit) M"
  rq_requeue :: "string \<Rightarrow> ('s, string) M"

definition is_NoSuchJobError :: "exn \<Rightarrow> bool" where
  "is_NoSuchJobError e = (case e of OtherException c _ \<Rightarrow> c = ''NoSuchJobError'' | _ \<Rightarrow> False)"

definition RQ_TO_DOMAIN_STATUS :: "string \<Rightarrow> JobStatus option" where
  "RQ_TO_DOMAIN_STATUS = map_of
     [(''created'', JobStatus.PENDING), (''queued'', QUEUED), (''deferred'', QUEUED),
      (''scheduled'', QUEUED), (''started'', JobStatus.RUNNING), (''finished'', JobStatus.SUCCESS),
      (''failed'', JobStatus.FAILED), (''stopped'', CANCELLED), (''canceled'', CANCELLED)]"

definition RQJobQueue_enqueue ::
  "'s rq_client \<Rightarrow> string \<Rightarrow> string \<Rightarrow> pydict \<Rightarrow> string \<Rightarrow> ('s, string) M" where
  "RQJobQueue_enqueue rq job_id job_type payload priority =
     rq_enqueue_in rq 2 job_id job_type payload (priority = ''high'')"

definition RQJobQueue_get_status :: "'s rq_client \<Rightarrow> string \<Rightarrow> ('s, string option) M" where
  "RQJobQueue_get_status rq queue_job_id =
     tryM (thenM (rq_fetch rq queue_job_id)
            (bindM (rq_get_status rq queue_job_id) (\<lambda>rq_status.
             returnM (Some (case RQ_TO_DOMAIN_STATUS rq_status of
                        None \<Rightarrow> rq_status | Some st \<Rightarrow> status_value st)))))
          (\<lambda>e. if is_NoSuchJobError e then returnM None else raiseM e)"

definition RQJobQueue_cancel_job :: "'s rq_client \<Rightarrow> string \<Rightarrow> ('s, bool) M" where
  "RQJobQueue_cancel_job rq queue_job_id =
     tryM (thenM (rq_fetch rq queue_job_id)
            (thenM (rq_cancel rq queue_job_id) (returnM True)))
          (\<lambda>e. if is_NoSuchJobError e then returnM False else raiseM e)"

definition RQJobQueue_retry_job :: "'s rq_client \<Rightarrow> string \<Rightarrow> ('s, string option) M" where
  "RQJobQueue_retry_job rq queue_job_id =
     tryM (thenM (rq_fetch rq queue_job_id)
            (bindM (rq_retry_count rq queue_job_id) (\<lambda>n.
             thenM (rq_save_retry_count rq queue_job_id (n + 1))
            (bindM (rq_requeue rq queue_job_id) (\<lambda>new_id. returnM (Some new_id))))))
          (\<lambda>e. if is_NoSuchJobError e then returnM None else raiseM e)"

definition RQJobQueue :: "'s rq_client \<Rightarrow> 's IJobQueue" where
  "RQJobQueue rq =
     \<lparr>jq_enqueue = RQJobQueue_enqueue rq, jq_get_status = RQJobQueue_get_status rq,
      jq_cancel_job = RQJobQueue_cancel_job rq\<rparr>"

section \<open>JobManager\<close>

record 's JobManager =
  jm_job_repository :: "'s IJobRepository"
  jm_job_queue :: "'s IJobQueue"
  jm_permission_service :: PermissionService
  jm_audit_repository :: "'s IAuditRepository" \<comment> \<open>inside the audit service\<close>
  jm_runtime :: "'s Runtime"

record CreateJobRequest =
  cjr_requester_telegram_id :: int
  cjr_chat_id :: "int option"
  cjr_topic_id :: "int option"
  cjr_status_message_id :: "int option"
  cjr_backup_type :: BackupType
  cjr_cluster_uri_hash :: string
  cjr_target_collections :: "CollectionTarget list option"

definition valid_CreateJobRequest :: "CreateJobRequest \<Rightarrow> bool" where
  "valid_CreateJobRequest r \<longleftrightarrow>
     0 < cjr_requester_telegram_id r \<and> is_sha256_hex (cjr_cluster_uri_hash r) \<and>
     (case cjr_target_collections r of None \<Rightarrow> True | Some ts \<Rightarrow> list_all valid_CollectionTarget ts)"

definition JobManager_create_job :: "'s JobManager \<Rightarrow> CreateJobRequest \<Rightarrow> ('s, BackupJob) M" where
  "JobManager_create_job jm r =
     bindM (rt_uuid_hex (jm_runtime jm)) (\<lambda>job_id.
     bindM (if cjr_backup_type r = FULL
            then bindM (rt_now (jm_runtime jm)) (\<lambda>t1. bindM (rt_now (jm_runtime jm)) (\<lambda>t2.
                   liftE (BackupJob_create_full t1 t2 job_id (cjr_requester_telegram_id r)
                     (cjr_cluster_uri_hash r) (cjr_chat_id r) (cjr_topic_id r) (cjr_status_message_id r))))
            else
              (let targets = (case cjr_target_collections r of None \<Rightarrow> [] | Some ts \<Rightarrow> ts) in
               if targets = []
               then raise_domain JobError ''Custom backup requires at least one target collection''
                      [(''backup_type'', PStr (backup_type_value (cjr_backup_type r)))]
               else bindM (rt_now (jm_runtime jm)) (\<lambda>t1. bindM (rt_now (jm_runtime jm)) (\<lambda>t2.
                   liftE (BackupJob_create_custom t1 t2 job_id (cjr_requester_telegram_id r)
                     (cjr_cluster_uri_hash r) targets (cjr_chat_id r) (cjr_topic_id r)
                     (cjr_status_message_id r)))))) (\<lambda>job.
     thenM (jr_save (jm_job_repository jm) job) (returnM job)))"

text \<open>\<open>if job is None: raise JobError(...)\<close>\<close>

definition require_job :: "string \<Rightarrow> BackupJob option \<Rightarrow> ('s, BackupJob) M" where
  "require_job job_id j = (case j of
     None \<Rightarrow> raise_domain JobError (''Job '' @ job_id @ '' not found'') [(''job_id'', PStr job_id)]
   | Some job \<Rightarrow> returnM job)"

definition enqueue_payload :: "BackupJob \<Rightarrow> pydict" where
  "enqueue_payload job =
     [(''requester_telegram_id'', PInt (bj_requester_telegram_id job)),
      (''chat_id'', opt_int (bj_chat_id job)), (''topic_id'', opt_int (bj_topic_id job)),
      (''status_message_id'', opt_int (bj_status_message_id job)),
      (''backup_type'', PStr (backup_type_value (bj_backup_type job))),
      (''cluster_uri_hash'', PStr (bj_cluster_uri_hash job))] @
     (if bj_target_collections job = [] then []
      else [(''target_collections'', PList (map (PDict \<circ> ct_dump) (bj_target_collections job)))])"

definition JobManager_enqueue_job :: "'s JobManager \<Rightarrow> string \<Rightarrow> ('s, string) M" where
  "JobManager_enqueue_job jm job_id =
     bindM (jr_get_by_id (jm_job_repository jm) job_id) (\<lambda>found.
     bindM (require_job job_id found) (\<lambda>job.
     bindM (jq_enqueue (jm_job_queue jm) job_id ''backup'' (enqueue_payload job) ''normal'') (\<lambda>queue_job_id.
     bindM (rt_now (jm_runtime jm)) (\<lambda>t.
     bindM (liftE (BackupJob_mark_queued t job)) (\<lambda>job'.
     thenM (jr_save (jm_job_repository jm) (job'\<lparr>bj_queue_job_id := Some queue_job_id\<rparr>))
    (thenM (AuditService_log_job_event (jm_runtime jm) (jm_audit_repository jm) job_id ''JOB_QUEUED''
              (bj_requester_telegram_id job) None ''SUCCESS'')
           (returnM queue_job_id)))))))"

definition JobManager_cancel_job :: "'s JobManager \<Rightarrow> string \<Rightarrow> User \<Rightarrow> ('s, BackupJob) M" where
  "JobManager_cancel_job jm job_id user =
     bindM (jr_get_by_id (jm_job_repository jm) job_id) (\<lambda>found.
     bindM (require_job job_id found) (\<lambda>job.
     thenM (whenM (\<not> PermissionService_can_cancel (jm_permission_service jm) user job)
              (raise_domain DomainPermissionError ''User is not allowed to cancel this job''
                 [(''job_id'', PStr job_id), (''user_id'', PInt (u_telegram_id user))]))
    (thenM (whenM (bj_status job = QUEUED \<and> truthy (bj_queue_job_id job))
              (thenM (jq_cancel_job (jm_job_queue jm) (the (bj_queue_job_id job))) (returnM ())))
    (bindM (rt_now (jm_runtime jm)) (\<lambda>t1.
     bindM (rt_now (jm_runtime jm)) (\<lambda>t2.
     bindM (liftE (BackupJob_mark_cancelled (u_telegram_id user) t1 t2 job)) (\<lambda>job'.
     thenM (jr_save (jm_job_repository jm) job')
    (thenM (AuditService_log_job_event (jm_runtime jm) (jm_audit_repository jm) job_id ''JOB_CANCELLED''
              (u_telegram_id user) (Some [(''cancelled_by'', PInt (u_telegram_id user))]) ''SUCCESS'')
           (returnM job')))))))))"

definition JobManager_get_job_status :: "'s JobManager \<Rightarrow> string \<Rightarrow> ('s, JobStatus) M" where
  "JobManager_get_job_status jm job_id =
     bindM (jr_get_by_id (jm_job_repository jm) job_id) (\<lambda>found.
     bindM (require_job job_id found) (\<lambda>job. returnM (bj_status job)))"

definition JobManager_list_user_jobs :: "'s JobManager \<Rightarrow> User \<Rightarrow> ('s, BackupJob list) M" where
  "JobManager_list_user_jobs jm user =
     jr_list_by_user (jm_job_repository jm) (u_telegram_id user) None 1 50"

section \<open>CancelJobUseCase\<close>

record CancelJobDto =
  cjd_user :: UserPrincipalDto
  cjd_job_id :: string
  cjd_topic :: string
  cjd_command :: "string option"

record CancelJobResult =
  cjx_job_id :: string
  cjx_status :: JobStatus
  cjx_cancelled_by :: int

text \<open>\<open>job.cancelled_by or dto.user.telegram_id\<close>; the user's identifier is positive, hence truthy.\<close>

definition or_int :: "int option \<Rightarrow> int \<Rightarrow> int" where
  "or_int x d = (case x of None \<Rightarrow> d | Some i \<Rightarrow> if i = 0 then d else i)"

definition CancelJobUseCase_execute :: "'s JobManager \<Rightarrow> CancelJobDto \<Rightarrow> ('s, CancelJobResult) M" where
  "CancelJobUseCase_execute jm dto =
     bindM (liftE (user_of_principal (cjd_user dto))) (\<lambda>user.
     bindM (JobManager_cancel_job jm (cjd_job_id dto) user) (\<lambda>job.
     thenM (AuditService_log_action (jm_runtime jm) (jm_audit_repository jm) ''CANCEL_REQUESTED''
              (up_telegram_id (cjd_user dto)) (cjd_topic dto) (cjd_command dto) ''SUCCESS'' None None
              (Some [(''job_id'', PStr (bj_id job))]))
           (returnM \<lparr>cjx_job_id = bj_id job, cjx_status = bj_status job,
                     cjx_cancelled_by = or_int (bj_cancelled_by job) (up_telegram_id (cjd_user dto))\<rparr>)))"

section \<open>Lemmas\<close>

text \<open>The other ports of a manager leave the stored jobs alone.\<close>

definition manager_frames :: "('s \<Rightarrow> 'v) \<Rightarrow> 's JobManager \<Rightarrow> bool" where
  "manager_frames view jm \<longleftrightarrow>
     runtime_frames view (jm_runtime jm) \<and> audit_frames view (jm_audit_repository jm) \<and>
     (\<forall>i ty p pr. frames view (jq_enqueue (jm_job_queue jm) i ty p pr)) \<and>
     (\<forall>q. frames view (jq_cancel_job (jm_job_queue jm) q))"

lemma manager_framesD [frame_intros]:
  assumes "manager_frames view jm"
  shows "frames view (jq_enqueue (jm_job_queue jm) i ty p pr)"
    "frames view (jq_cancel_job (jm_job_queue jm) q)"
    "frames view (rt_now (jm_runtime jm))" "frames view (rt_uuid_hex (jm_runtime jm))"
    "frames view (AuditService_log_job_event (jm_runtime jm) (jm_audit_repository jm) j ev rq d res)"
    "frames view (AuditService_log_action (jm_runtime jm) (jm_audit_repository jm) a u tp c res du h ctx)"
  using assms unfolding manager_frames_def
  by (auto intro: log_job_event_frames log_action_frames runtime_framesD)

lemma require_job_frames [frame_intros]: "frames view (require_job i j)"
  by (simp add: require_job_def frame_intros split: option.split)

lemma mark_queued_Inr:
  "BackupJob_mark_queued t j = Inr j' \<longleftrightarrow>
     bj_status j = JobStatus.PENDING \<and> j' = j\<lparr>bj_status := QUEUED, bj_updated_at := t\<rparr>"
  by (cases "bj_status j") (auto simp: BackupJob_mark_queued_def transition_Inr)

lemma wf_job_updates [simp]:
  "wf_job (j\<lparr>bj_status := st\<rparr>) = wf_job j" "wf_job (j\<lparr>bj_updated_at := t\<rparr>) = wf_job j"
  "wf_job (j\<lparr>bj_queue_job_id := q\<rparr>) = wf_job j" "wf_job (j\<lparr>bj_cancelled_by := c\<rparr>) = wf_job j"
  "wf_job (j\<lparr>bj_completed_at := d\<rparr>) = wf_job j" "wf_job (j\<lparr>bj_started_at := d\<rparr>) = wf_job j"
  "wf_job (j\<lparr>bj_error_log := el\<rparr>) = wf_job j"
  by (simp_all add: wf_job_def valid_BackupJob_def)

text \<open>The manager over a repository of the SQL shape.\<close>

locale job_manager = job_repository "jm_job_repository jm" jobs persist wf_job clean
  for jm :: "'s JobManager" and jobs persist clean +
  assumes quiet_clean: "manager_frames (\<lambda>s. (jobs s, clean s)) jm"
begin

lemma quiet: "manager_frames jobs jm"
  using quiet_clean by (simp add: manager_frames_def runtime_frames_def audit_frames_def frames_def)

lemmas quietD = manager_framesD [OF quiet]

text \<open>How a run of \<open>cancel_job\<close> may have changed the stored jobs \<open>J\<close>.\<close>

definition cancelled :: "(string \<Rightarrow> BackupJob option) \<Rightarrow> string \<Rightarrow> User \<Rightarrow> BackupJob \<Rightarrow> bool" where
  "cancelled J i u k \<longleftrightarrow>
     (\<exists>j. J i = Some j \<and> BackupJob_can_be_cancelled_by u j \<and> bj_id k = i \<and>
        bj_status k = CANCELLED \<and> bj_cancelled_by k = Some (u_telegram_id u) \<and>
        bj_requester_telegram_id k = bj_requester_telegram_id j)"

definition cancel_changes :: "(string \<Rightarrow> BackupJob option) \<Rightarrow> string \<Rightarrow> User \<Rightarrow> 's \<Rightarrow> bool" where
  "cancel_changes J i u s \<longleftrightarrow>
     stays jobs J s \<or> (\<exists>k. cancelled J i u k \<and> stays jobs (J(i \<mapsto> k)) s)"

lemma same_job_simps:
  "same_job k j \<Longrightarrow> bj_id k = bj_id j \<and> bj_status k = bj_status j \<and>
     bj_cancelled_by k = bj_cancelled_by j \<and>
     bj_requester_telegram_id k = bj_requester_telegram_id j \<and>
     bj_queue_job_id k = bj_queue_job_id j \<and> bj_output_path k = bj_output_path j \<and>
     bj_target_collections k = bj_target_collections j \<and> bj_backup_type k = bj_backup_type j \<and>
     bj_cluster_uri_hash k = bj_cluster_uri_hash j \<and> bj_error_log k = bj_error_log j \<and>
     bj_started_at k = bj_started_at j \<and> bj_completed_at k = bj_completed_at j \<and>
     bj_chat_id k = bj_chat_id j \<and> bj_topic_id k = bj_topic_id j \<and>
     bj_status_message_id k = bj_status_message_id j"
  by (auto simp: same_job_def)

lemma cancel_tail:
  assumes j: "J i = Some j" and can: "BackupJob_can_be_cancelled_by u j"
    and k: "BackupJob_mark_cancelled (u_telegram_id u) t1 t2 j = Inr k"
  shows "triple (stays jobs J)
    (thenM (jr_save (jm_job_repository jm) k)
      (thenM (AuditService_log_job_event (jm_runtime jm) (jm_audit_repository jm) i ''JOB_CANCELLED''
              (u_telegram_id u) (Some [(''cancelled_by'', PInt (u_telegram_id u))]) ''SUCCESS'')
           (returnM k)))
    (\<lambda>r s. r = k \<and> cancelled J i u k \<and> (\<exists>k'. same_job k' k \<and> stays jobs (J(i \<mapsto> k')) s))
    (\<lambda>_. cancel_changes J i u)"
proof -
  have nt: "\<not> terminal (bj_status j)" using can by (simp add: can_be_cancelled_by_iff)
  have id: "bj_id j = i" and wf: "wf_job j" if "jobs s = J" for s using jobs_wf j that by auto
  show ?thesis
  proof (cases "\<exists>s. jobs s = J")
    case False
    then show ?thesis by (simp add: triple_def stays_def)
  next
    case True
    then have id: "bj_id j = i" and wf: "wf_job j" using id wf by auto
    have kk: "bj_id k = i" "wf_job k" and c: "cancelled J i u k"
      using k id wf j can mark_cancelled_nonterminal [OF nt] by (auto simp: cancelled_def)
    have c': "same_job k' k \<Longrightarrow> cancelled J i u k'" for k'
      using c by (auto simp: cancelled_def dest: same_job_simps)
    have c'': "\<exists>k'. same_job k' k \<and> stays jobs (J(i \<mapsto> k')) s \<Longrightarrow> cancel_changes J i u s" for s
      using c' by (auto simp: cancel_changes_def)
    show ?thesis
    proof (rule triple_then)
      show "triple (stays jobs J) (jr_save (jm_job_repository jm) k)
          (\<lambda>_ s. \<exists>k'. same_job k' k \<and> stays jobs (J(i \<mapsto> k')) s) (\<lambda>_. cancel_changes J i u)"
        by (rule triple_conseq [OF save_stored_triple [OF kk(2)]])
          (use kk j c'' in \<open>auto simp: cancel_changes_def\<close>)
      show "triple (\<lambda>s. \<exists>k'. same_job k' k \<and> stays jobs (J(i \<mapsto> k')) s)
          (thenM (AuditService_log_job_event (jm_runtime jm) (jm_audit_repository jm) i ''JOB_CANCELLED''
              (u_telegram_id u) (Some [(''cancelled_by'', PInt (u_telegram_id u))]) ''SUCCESS'')
           (returnM k))
          (\<lambda>r s. r = k \<and> cancelled J i u k \<and> (\<exists>k'. same_job k' k \<and> stays jobs (J(i \<mapsto> k')) s))
          (\<lambda>_. cancel_changes J i u)"
        apply (intro triple_ex triple_pure)
        apply (rule triple_then_frame, rule quietD)
        by (use c c'' in \<open>auto intro!: triple_basic\<close>)
    qed
  qed
qed

lemma cancel_job_triple:
  "triple (stays jobs J) (JobManager_cancel_job jm i u)
     (\<lambda>k s. cancelled J i u k \<and> (\<exists>k'. same_job k' k \<and> stays jobs (J(i \<mapsto> k')) s))
     (\<lambda>_. cancel_changes J i u)"
proof -
  have J: "stays jobs J s \<Longrightarrow> cancel_changes J i u s" for s by (simp add: cancel_changes_def)
  have rest: "triple (stays jobs J)
     (bindM (require_job i (J i)) (\<lambda>job.
     thenM (whenM (\<not> PermissionService_can_cancel (jm_permission_service jm) u job)
              (raise_domain DomainPermissionError ''User is not allowed to cancel this job''
                 [(''job_id'', PStr i), (''user_id'', PInt (u_telegram_id u))]))
    (thenM (whenM (bj_status job = QUEUED \<and> truthy (bj_queue_job_id job))
              (thenM (jq_cancel_job (jm_job_queue jm) (the (bj_queue_job_id job))) (returnM ())))
    (bindM (rt_now (jm_runtime jm)) (\<lambda>t1.
     bindM (rt_now (jm_runtime jm)) (\<lambda>t2.
     bindM (liftE (BackupJob_mark_cancelled (u_telegram_id u) t1 t2 job)) (\<lambda>job'.
     thenM (jr_save (jm_job_repository jm) job')
    (thenM (AuditService_log_job_event (jm_runtime jm) (jm_audit_repository jm) i ''JOB_CANCELLED''
              (u_telegram_id u) (Some [(''cancelled_by'', PInt (u_telegram_id u))]) ''SUCCESS'')
           (returnM job')))))))))
     (\<lambda>k s. cancelled J i u k \<and> (\<exists>k'. same_job k' k \<and> stays jobs (J(i \<mapsto> k')) s))
     (\<lambda>_. cancel_changes J i u)"
  proof (cases "J i")
    case None
    then show ?thesis
      using J by (auto simp: require_job_def triple_def bindM_def)
  next
    case (Some j)
    have run: "bindM (require_job i (J i)) f = f j" for f :: "BackupJob \<Rightarrow> ('s, BackupJob) M"
      using Some by (simp add: require_job_def bindM_def fun_eq_iff)
    show ?thesis
      unfolding run
      apply (rule triple_then_when, erule J)
      apply (rule triple_then_frame, intro frame_intros quietD, erule J)
      apply (rule triple_bind_frame, rule quietD, erule J)
      apply (rule triple_bind_frame, rule quietD, erule J)
      apply (rule triple_bind_lift, erule J)
      apply (rule triple_conseq [OF cancel_tail [of J i j u, OF Some]])
      by (auto simp: PermissionService_can_cancel_def)
  qed
  have get: "triple (stays jobs J) (jr_get_by_id (jm_job_repository jm) i)
      (\<lambda>r s. r = J i \<and> stays jobs J s) (\<lambda>_. cancel_changes J i u)"
    by (rule triple_conseq [OF get_triple]) (auto simp: J)
  show ?thesis
    unfolding JobManager_cancel_job_def
    by (rule triple_bind [OF get], rule triple_pure, hypsubst, rule rest)
qed

text \<open>Enqueueing: only a pending job becomes queued, with the queue's identifier.\<close>

definition enqueued :: "BackupJob \<Rightarrow> string \<Rightarrow> BackupJob \<Rightarrow> bool" where
  "enqueued j q k \<longleftrightarrow> bj_status j = JobStatus.PENDING \<and>
     (\<exists>t. same_job k (j\<lparr>bj_status := QUEUED, bj_updated_at := t, bj_queue_job_id := Some q\<rparr>))"

definition enqueue_changes :: "(string \<Rightarrow> BackupJob option) \<Rightarrow> string \<Rightarrow> 's \<Rightarrow> bool" where
  "enqueue_changes J i s \<longleftrightarrow>
     stays jobs J s \<or> (\<exists>j q k. J i = Some j \<and> enqueued j q k \<and> stays jobs (J(i \<mapsto> k)) s)"

lemma enqueue_tail:
  assumes j: "J i = Some j" and k: "BackupJob_mark_queued t j = Inr k"
  shows "triple (stays jobs J)
    (thenM (jr_save (jm_job_repository jm) (k\<lparr>bj_queue_job_id := Some q\<rparr>))
      (thenM (AuditService_log_job_event (jm_runtime jm) (jm_audit_repository jm) i ''JOB_QUEUED''
                (bj_requester_telegram_id j) None ''SUCCESS'')
             (returnM q)))
    (\<lambda>r s. r = q \<and> (\<exists>k'. enqueued j q k' \<and> stays jobs (J(i \<mapsto> k')) s))
    (\<lambda>_. enqueue_changes J i)"
proof (cases "\<exists>s. jobs s = J")
  case False
  then show ?thesis by (simp add: triple_def stays_def)
next
  case True
  let ?k = "k\<lparr>bj_queue_job_id := Some q\<rparr>"
  have id: "bj_id ?k = i" "wf_job ?k" and e: "same_job k' ?k \<Longrightarrow> enqueued j q k'" for k'
    using True jobs_wf [of _ i j] j k by (auto simp: mark_queued_Inr enqueued_def)
  have c: "\<exists>k'. same_job k' ?k \<and> stays jobs (J(i \<mapsto> k')) s \<Longrightarrow> enqueue_changes J i s" for s
    using e j by (auto simp: enqueue_changes_def)
  show ?thesis
  proof (rule triple_then)
    show "triple (stays jobs J) (jr_save (jm_job_repository jm) ?k)
        (\<lambda>_ s. \<exists>k'. same_job k' ?k \<and> stays jobs (J(i \<mapsto> k')) s) (\<lambda>_. enqueue_changes J i)"
      by (rule triple_conseq [OF save_stored_triple [OF id(2)]])
        (use id(1) j c in \<open>auto simp: enqueue_changes_def\<close>)
    show "triple (\<lambda>s. \<exists>k'. same_job k' ?k \<and> stays jobs (J(i \<mapsto> k')) s)
        (thenM (AuditService_log_job_event (jm_runtime jm) (jm_audit_repository jm) i ''JOB_QUEUED''
                (bj_requester_telegram_id j) None ''SUCCESS'') (returnM q))
        (\<lambda>r s. r = q \<and> (\<exists>k'. enqueued j q k' \<and> stays jobs (J(i \<mapsto> k')) s)) (\<lambda>_. enqueue_changes J i)"
      apply (intro triple_ex triple_pure)
      apply (rule triple_then_frame, rule quietD)
      by (use e c in \<open>auto intro!: triple_basic\<close>)
  qed
qed

lemma enqueue_job_triple:
  "triple (stays jobs J) (JobManager_enqueue_job jm i)
     (\<lambda>q s. \<exists>j k. J i = Some j \<and> enqueued j q k \<and> stays jobs (J(i \<mapsto> k)) s)
     (\<lambda>_. enqueue_changes J i)"
proof -
  have J: "stays jobs J s \<Longrightarrow> enqueue_changes J i s" for s by (simp add: enqueue_changes_def)
  have get: "triple (stays jobs J) (jr_get_by_id (jm_job_repository jm) i)
      (\<lambda>r s. r = J i \<and> stays jobs J s) (\<lambda>_. enqueue_changes J i)"
    by (rule triple_conseq [OF get_triple]) (auto simp: J)
  show ?thesis
    unfolding JobManager_enqueue_job_def
    apply (rule triple_bind [OF get], rule triple_pure, hypsubst)
  proof (cases "J i")
    case None
    then show "triple (stays jobs J) (bindM (require_job i (J i)) f) Q (\<lambda>_. enqueue_changes J i)"
      for f and Q :: "string \<Rightarrow> 's \<Rightarrow> bool"
      using J by (auto simp: require_job_def triple_def bindM_def)
  next
    case (Some j)
    have run: "bindM (require_job i (J i)) f = f j" for f :: "BackupJob \<Rightarrow> ('s, string) M"
      using Some by (simp add: require_job_def bindM_def fun_eq_iff)
    show "triple (stays jobs J) (bindM (require_job i (J i)) (\<lambda>job.
     bindM (jq_enqueue (jm_job_queue jm) i ''backup'' (enqueue_payload job) ''normal'') (\<lambda>queue_job_id.
     bindM (rt_now (jm_runtime jm)) (\<lambda>t.
     bindM (liftE (BackupJob_mark_queued t job)) (\<lambda>job'.
     thenM (jr_save (jm_job_repository jm) (job'\<lparr>bj_queue_job_id := Some queue_job_id\<rparr>))
    (thenM (AuditService_log_job_event (jm_runtime jm) (jm_audit_repository jm) i ''JOB_QUEUED''
              (bj_requester_telegram_id job) None ''SUCCESS'')
           (returnM queue_job_id))))))) 
     (\<lambda>q s. \<exists>j k. J i = Some j \<and> enqueued j q k \<and> stays jobs (J(i \<mapsto> k)) s) (\<lambda>_. enqueue_changes J i)"
      unfolding run
      apply (rule triple_bind_frame, rule quietD, erule J)
      apply (rule triple_bind_frame, rule quietD, erule J)
      apply (rule triple_bind_lift, erule J)
      apply (rule triple_conseq [OF enqueue_tail [of J i j, OF Some]])
      by (use Some in auto)
  qed
qed

text \<open>Creating: a fresh identifier, a pending job with the fields of the request.\<close>

definition created :: "CreateJobRequest \<Rightarrow> BackupJob \<Rightarrow> bool" where
  "created r j \<longleftrightarrow>
     bj_status j = JobStatus.PENDING \<and>
     bj_requester_telegram_id j = cjr_requester_telegram_id r \<and>
     bj_chat_id j = cjr_chat_id r \<and> bj_topic_id j = cjr_topic_id r \<and>
     bj_status_message_id j = cjr_status_message_id r \<and> bj_backup_type j = cjr_backup_type r \<and>
     bj_cluster_uri_hash j = cjr_cluster_uri_hash r \<and>
     bj_target_collections j =
       (if cjr_backup_type r = FULL then [] else case cjr_target_collections r of None \<Rightarrow> [] | Some ts \<Rightarrow> ts) \<and>
     bj_queue_job_id j = None \<and> bj_progress j = None \<and> bj_output_path j = None"

lemma create_Inr:
  "BackupJob_create_full t1 t2 i rq h c tp m = Inr j \<Longrightarrow>
     wf_job j \<and> bj_id j = i \<and> bj_status j = JobStatus.PENDING \<and> bj_requester_telegram_id j = rq \<and>
     bj_chat_id j = c \<and> bj_topic_id j = tp \<and> bj_status_message_id j = m \<and> bj_backup_type j = FULL \<and>
     bj_cluster_uri_hash j = h \<and> bj_target_collections j = [] \<and> bj_queue_job_id j = None \<and>
     bj_progress j = None \<and> bj_output_path j = None"
  "BackupJob_create_custom t1 t2 i rq h ts c tp m = Inr j \<Longrightarrow>
     wf_job j \<and> bj_id j = i \<and> bj_status j = JobStatus.PENDING \<and> bj_requester_telegram_id j = rq \<and>
     bj_chat_id j = c \<and> bj_topic_id j = tp \<and> bj_status_message_id j = m \<and> bj_backup_type j = CUSTOM \<and>
     bj_cluster_uri_hash j = h \<and> bj_target_collections j = ts \<and> bj_queue_job_id j = None \<and>
     bj_progress j = None \<and> bj_output_path j = None"
  by (auto simp: BackupJob_create_full_def BackupJob_create_custom_def new_job_def wf_job_def)

abbreviation both :: "'s \<Rightarrow> (string \<Rightarrow> BackupJob option) \<times> (string \<Rightarrow> bool)" where
  "both s \<equiv> (jobs s, clean s)"

definition create_changes :: "(string \<Rightarrow> BackupJob option) \<Rightarrow> CreateJobRequest \<Rightarrow> 's \<Rightarrow> bool" where
  "create_changes J r s \<longleftrightarrow>
     stays jobs J s \<or> (\<exists>j k. created r j \<and> J (bj_id j) = None \<and> same_job k j \<and>
        stays jobs (J(bj_id j \<mapsto> k)) s)"

lemma create_job_triple:
  assumes fresh: "\<And>s i s'. stays both (J, C) s \<Longrightarrow> rt_uuid_hex (jm_runtime jm) s = (Inr i, s') \<Longrightarrow> J i = None \<and> C i"
  shows "triple (stays both (J, C)) (JobManager_create_job jm r)
    (\<lambda>j s. created r j \<and> J (bj_id j) = None \<and> (\<exists>k. same_job k j \<and> stays jobs (J(bj_id j \<mapsto> k)) s))
    (\<lambda>_. create_changes J r)"
proof -
  have J: "stays both (J, C) s \<Longrightarrow> create_changes J r s" for s
    by (simp add: create_changes_def stays_def)
  note q = manager_framesD [OF quiet_clean]
  let ?mk = "\<lambda>i. if cjr_backup_type r = FULL
            then bindM (rt_now (jm_runtime jm)) (\<lambda>t1. bindM (rt_now (jm_runtime jm)) (\<lambda>t2.
                   liftE (BackupJob_create_full t1 t2 i (cjr_requester_telegram_id r)
                     (cjr_cluster_uri_hash r) (cjr_chat_id r) (cjr_topic_id r) (cjr_status_message_id r))))
            else
              (let targets = (case cjr_target_collections r of None \<Rightarrow> [] | Some ts \<Rightarrow> ts) in
               if targets = []
               then raise_domain JobError ''Custom backup requires at least one target collection''
                      [(''backup_type'', PStr (backup_type_value (cjr_backup_type r)))]
               else bindM (rt_now (jm_runtime jm)) (\<lambda>t1. bindM (rt_now (jm_runtime jm)) (\<lambda>t2.
                   liftE (BackupJob_create_custom t1 t2 i (cjr_requester_telegram_id r)
                     (cjr_cluster_uri_hash r) targets (cjr_chat_id r) (cjr_topic_id r)
                     (cjr_status_message_id r)))))"
  have mk: "triple (stays both (J, C)) (?mk i)
      (\<lambda>j s. (wf_job j \<and> bj_id j = i \<and> created r j) \<and> stays both (J, C) s) (\<lambda>_. create_changes J r)" for i
  proof (cases "cjr_backup_type r")
    case FULL
    then show ?thesis
      by (auto intro!: triple_bind_frame q J triple_basic simp: created_def split: sum.split dest: create_Inr(1))
  next
    case CUSTOM
    then show ?thesis
      by (auto intro!: triple_bind_frame q J triple_basic simp: created_def Let_def split: sum.split
          dest: create_Inr(2))
  qed
  have sv: "triple (stays both (J, C)) (jr_save (jm_job_repository jm) j)
      (\<lambda>_ s. \<exists>k. same_job k j \<and> stays jobs (J(bj_id j \<mapsto> k)) s) (\<lambda>_. create_changes J r)"
    if "wf_job j" "created r j" "J (bj_id j) = None" "C (bj_id j)" for j
    by (rule triple_conseq [OF save_triple [OF that(1)]])
      (use that in \<open>auto simp: create_changes_def stays_def\<close>)
  have uuid: "triple (stays both (J, C)) (rt_uuid_hex (jm_runtime jm))
      (\<lambda>i s. (J i = None \<and> C i) \<and> stays both (J, C) s) (\<lambda>_. create_changes J r)"
  proof (rule tripleI)
    fix s x s' assume a: "stays both (J, C) s" "rt_uuid_hex (jm_runtime jm) s = (x, s')"
    have "stays both (J, C) s'" using framesD [OF q(4) a(2)] a(1) by (simp add: stays_def)
    then show "case x of Inl e \<Rightarrow> create_changes J r s'
        | Inr i \<Rightarrow> (J i = None \<and> C i) \<and> stays both (J, C) s'"
      using fresh a J by (auto split: sum.split)
  qed
  show ?thesis
    unfolding JobManager_create_job_def
    apply (rule triple_bind [OF uuid], rule triple_pure)
    apply (rule triple_bind [OF mk], rule triple_pure)
    apply (rule triple_then [OF sv])
    by (auto intro!: triple_basic)
qed

end

end
