(* ===== verification/LockManager.thy ===== *)
theory LockManager
  imports Redis
begin

text \<open>
  \<^verbatim>\<open>app/infrastructure/queue/redis_lock_manager.py\<close>: the distributed lock on one Redis key per
  resource. \<open>redis_server\<close> states the documented behaviour of the commands the lock uses, and
  under it \<open>RedisLockManager\<close> satisfies the lock contract of \<open>Ports\<close>. The reference server
  interprets it.
\<close>

section \<open>RedisLockManager\<close>

text \<open>\<open>_RELEASE_SCRIPT\<close>: delete the key only when it holds the caller's token.\<close>

definition RELEASE_SCRIPT :: "'s redis \<Rightarrow> string \<Rightarrow> string \<Rightarrow> ('s, int) M" where
  "RELEASE_SCRIPT rd key tok =
     bindM (rd_get rd key) (\<lambda>v. if v = Some tok then rd_del rd key else returnM 0)"

definition RedisLockManager_acquire ::
  "'s Runtime \<Rightarrow> 's redis \<Rightarrow> string \<Rightarrow> int \<Rightarrow> ('s, string option) M" where
  "RedisLockManager_acquire rt rd resource ttl =
     bindM (rt_uuid_str rt) (\<lambda>token.
     bindM (rd_set_nx_ex rd resource token ttl) (\<lambda>acquired.
     returnM (if acquired then Some token else None)))"

definition RedisLockManager_release ::
  "'s redis \<Rightarrow> string \<Rightarrow> string \<Rightarrow> ('s, bool) M" where
  "RedisLockManager_release rd resource token =
     tryM (bindM (rd_eval rd (RELEASE_SCRIPT rd resource token)) (\<lambda>n. returnM (n \<noteq> 0)))
          (\<lambda>e. if is_RedisError e then returnM False else raiseM e)"

definition RedisLockManager_is_locked :: "'s redis \<Rightarrow> string \<Rightarrow> ('s, bool) M" where
  "RedisLockManager_is_locked rd resource =
     tryM (bindM (rd_exists rd resource) (\<lambda>n. returnM (n \<noteq> 0)))
          (\<lambda>e. if is_RedisError e then returnM False else raiseM e)"

definition RedisLockManager :: "'s Runtime \<Rightarrow> 's redis \<Rightarrow> 's ILockManager" where
  "RedisLockManager rt rd =
     \<lparr>lm_acquire = RedisLockManager_acquire rt rd, lm_release = RedisLockManager_release rd,
      lm_is_locked = RedisLockManager_is_locked rd\<rparr>"

section \<open>The server's contract\<close>

locale redis_server =
  fixes rt :: "'s Runtime" and rd :: "'s redis"
    and strings :: "'s \<Rightarrow> string \<Rightarrow> string option" \<comment> \<open>the live string keys\<close>
  assumes clock_frames: "runtime_frames strings rt"
    and set_ok: "rd_set_nx_ex rd k v ttl s = (Inr True, s') \<Longrightarrow>
      strings s k = None \<and> strings s' = (strings s)(k \<mapsto> v)"
    and set_no: "rd_set_nx_ex rd k v ttl s = (Inr False, s') \<Longrightarrow>
      strings s k \<noteq> None \<and> strings s' = strings s"
    and set_err: "rd_set_nx_ex rd k v ttl s = (Inl e, s') \<Longrightarrow>
      strings s' = strings s \<or> strings s k = None \<and> strings s' = (strings s)(k \<mapsto> v)"
    and get_ok: "rd_get rd k s = (x, s') \<Longrightarrow>
      strings s' = strings s \<and> (\<forall>v. x = Inr v \<longrightarrow> v = strings s k)"
    and del_ok: "rd_del rd k s = (y, s') \<Longrightarrow>
      (strings s' = strings s \<or> strings s' = (strings s)(k := None)) \<and>
      (\<forall>n. y = Inr n \<longrightarrow> strings s' = (strings s)(k := None))"
    and exists_frame: "frames strings (rd_exists rd k)"
    and eval_ok: "rd_eval rd m s = (Inr n, s') \<Longrightarrow> m s = (Inr n, s')"
    and eval_err: "rd_eval rd m s = (Inl e, s') \<Longrightarrow> s' = s \<or> s' = snd (m s)"
begin

lemma script_any:
  "strings (snd (RELEASE_SCRIPT rd k tok s)) = strings s \<or>
   strings s k = Some tok \<and> strings (snd (RELEASE_SCRIPT rd k tok s)) = (strings s)(k := None)"
proof (cases "rd_get rd k s")
  case (Pair x s1)
  note g = get_ok [OF Pair]
  show ?thesis
  proof (cases "x = Inr (Some tok)")
    case True
    obtain y s2 where d: "rd_del rd k s1 = (y, s2)" by force
    show ?thesis
      using Pair True g d del_ok [OF d] by (auto simp: RELEASE_SCRIPT_def bindM_def)
  next
    case False
    then show ?thesis
      using Pair g by (cases x) (auto simp: RELEASE_SCRIPT_def bindM_def)
  qed
qed

lemma script_ok:
  assumes "RELEASE_SCRIPT rd k tok s = (Inr n, s')" "n \<noteq> 0"
  shows "strings s k = Some tok \<and> strings s' = (strings s)(k := None)"
proof -
  obtain v s1 where v: "rd_get rd k s = (Inr v, s1)"
    and rest: "(if v = Some tok then rd_del rd k else returnM 0) s1 = (Inr n, s')"
    using assms(1) by (auto simp: RELEASE_SCRIPT_def bindM_eq_Inr)
  show ?thesis
    using get_ok [OF v] rest assms(2) del_ok [of k s1 "Inr n" s'] by (auto split: if_splits)
qed

lemma uuid_frame: "rt_uuid_str rt s = (x, s') \<Longrightarrow> strings s' = strings s"
  using clock_frames by (blast intro: framesD frame_intros)

lemma redis_acquire_any:
  assumes "RedisLockManager_acquire rt rd r ttl s = (x, s')"
  shows "(\<exists>tok. x = Inr (Some tok) \<and> strings s r = None \<and> strings s' = (strings s)(r \<mapsto> tok)) \<or>
    x = Inr None \<and> strings s' = strings s \<and> strings s r \<noteq> None \<or>
    (\<exists>e. x = Inl e) \<and> (strings s' = strings s \<or>
       strings s r = None \<and> (\<exists>tok. strings s' = (strings s)(r \<mapsto> tok)))"
proof (cases "rt_uuid_str rt s")
  case (Pair y s1)
  note u = uuid_frame [OF Pair]
  show ?thesis
  proof (cases y)
    case (Inl e)
    then show ?thesis using assms Pair u by (auto simp: RedisLockManager_acquire_def bindM_def)
  next
    case (Inr tok)
    obtain z s2 where z: "rd_set_nx_ex rd r tok ttl s1 = (z, s2)" by force
    have run: "(x, s') = (case z of Inl e \<Rightarrow> (Inl e, s2) | Inr b \<Rightarrow> (Inr (if b then Some tok else None), s2))"
      using assms Pair Inr z by (cases z) (simp_all add: RedisLockManager_acquire_def bindM_def)
    show ?thesis
    proof (cases z)
      case (Inl e)
      then show ?thesis using run z u set_err [of r tok ttl s1 e s2] by auto
    next
      case (Inr b)
      then show ?thesis
        using run z u set_ok [of r tok ttl s1 s2] set_no [of r tok ttl s1 s2] by (cases b) auto
    qed
  qed
qed

lemma redis_release_any:
  assumes "RedisLockManager_release rd r tok s = (x, s')"
  shows "strings s' = strings s \<or> strings s r = Some tok \<and> strings s' = (strings s)(r := None)"
    and "x = Inr True \<Longrightarrow> strings s r = Some tok \<and> strings s' = (strings s)(r := None)"
proof -
  obtain y s1 where y: "rd_eval rd (RELEASE_SCRIPT rd r tok) s = (y, s1)" by force
  have s1: "s' = s1" and x: "x = Inr True \<Longrightarrow> \<exists>n. y = Inr n \<and> n \<noteq> 0"
    using assms y by (auto simp: RedisLockManager_release_def tryM_def bindM_def
        split: sum.splits if_splits)
  show "strings s' = strings s \<or> strings s r = Some tok \<and> strings s' = (strings s)(r := None)"
  proof (cases y)
    case (Inl e)
    then show ?thesis using eval_err [of _ s e s1] y s1 script_any [of r tok s] by fastforce
  next
    case (Inr n)
    then show ?thesis using eval_ok [of _ s n s1] y s1 script_any [of r tok s] by fastforce
  qed
  show "x = Inr True \<Longrightarrow> strings s r = Some tok \<and> strings s' = (strings s)(r := None)"
    using x y s1 eval_ok script_ok by blast
qed

end

sublocale redis_server \<subseteq> lock: lock_manager "RedisLockManager rt rd" strings
proof
  show "strings s r = None \<and> strings s' = (strings s)(r \<mapsto> tok)"
    if "lm_acquire (RedisLockManager rt rd) r ttl s = (Inr (Some tok), s')" for r ttl s tok s'
    using redis_acquire_any that by (fastforce simp: RedisLockManager_def)
  show "strings s' = strings s \<and> strings s r \<noteq> None"
    if "lm_acquire (RedisLockManager rt rd) r ttl s = (Inr None, s')" for r ttl s s'
    using redis_acquire_any that by (fastforce simp: RedisLockManager_def)
  show "strings s' = strings s \<or> strings s r = None \<and> (\<exists>tok. strings s' = (strings s)(r \<mapsto> tok))"
    if "lm_acquire (RedisLockManager rt rd) r ttl s = (x, s')" for r ttl s x s'
    using redis_acquire_any that by (fastforce simp: RedisLockManager_def)
  show "strings s r = Some tok \<and> strings s' = (strings s)(r := None)"
    if "lm_release (RedisLockManager rt rd) r tok s = (Inr True, s')" for r tok s s'
    using redis_release_any that by (fastforce simp: RedisLockManager_def)
  show "strings s' = strings s \<or> strings s r = Some tok \<and> strings s' = (strings s)(r := None)"
    if "lm_release (RedisLockManager rt rd) r tok s = (x, s')" for r tok s x s'
    using redis_release_any that by (fastforce simp: RedisLockManager_def)
  show "frames strings (lm_is_locked (RedisLockManager rt rd) r)" for r
    by (auto simp: RedisLockManager_def RedisLockManager_is_locked_def intro!: frame_intros exists_frame)
qed

context redis_server begin

lemmas redis_trace_held = lock.lock_trace_held

end

lemma live_string_upd:
  "live_string (s\<lparr>rs_strings := (rs_strings s)(k := x)\<rparr>) =
     (live_string s)(k := (case x of None \<Rightarrow> None
        | Some (v, e) \<Rightarrow> if rs_clock_ms s < e then Some v else None))"
  by (rule ext) (simp add: live_string_def split: option.split)

interpretation ref: redis_server ref_runtime ref_redis live_string
proof
  show "runtime_frames live_string ref_runtime"
    by (simp add: runtime_frames_def frames_def ref_runtime_def ref_uuid_def live_string_def fun_eq_iff
        split: option.split)
qed (auto simp: frames_def ref_redis_def ref_set_nx_ex_def ref_del_def fun_eq_iff
      live_string_def split: if_splits option.splits)

section \<open>Properties\<close>



end
