(* ===== verification/RequestBackup.thy ===== *)
theory RequestBackup
  imports JobService LockManager RateLimit
begin

text \<open>
  \<^verbatim>\<open>app/application/use_cases/request_backup.py\<close>: the guards of a backup request in their order,
  the creation and enqueueing of the job under the global lock, and the release of the lock on
  every way out. The use case's collaborators are the fields of \<open>RequestBackupUseCase\<close>.
\<close>

section \<open>Lock brackets\<close>

text \<open>\<open>with suppress(Exception): await lock_manager.release(...)\<close>\<close>

definition release_suppressed :: "'s ILockManager \<Rightarrow> string \<Rightarrow> string \<Rightarrow> ('s, unit) M" where
  "release_suppressed lm r tok =
     tryM (thenM (lm_release lm r tok) (returnM ())) (\<lambda>e. returnM ())"

text \<open>A lock store that answers: a failed acquisition took nothing, and a release by the holder
  succeeds.\<close>

definition lock_answers :: "'s ILockManager \<Rightarrow> ('s \<Rightarrow> string \<Rightarrow> string option) \<Rightarrow> bool" where
  "lock_answers lm held \<longleftrightarrow>
     (\<forall>r ttl s e s'. lm_acquire lm r ttl s = (Inl e, s') \<longrightarrow> held s' = held s) \<and>
     (\<forall>r tok s. held s r = Some tok \<longrightarrow> (\<exists>s'. lm_release lm r tok s = (Inr True, s')))"

context lock_manager begin

text \<open>A bracket whose \<open>finally\<close> block ends like the release when the release succeeds.\<close>

lemma bracket:
  assumes ans: "lock_answers lm held" and tok: "lm_acquire lm r ttl s = (Inr (Some tok), s1)"
    and fin: "\<And>s s'. lm_release lm r tok s = (Inr True, s') \<Longrightarrow> fin s = (Inr (), s')"
    and body: "frames held body" and run: "finallyM body fin s1 = (x, s2)"
  shows "held s2 = held s \<and> (\<exists>s'. body s1 = (x, s'))"
proof -
  obtain y s' where b: "body s1 = (y, s')" by force
  have h: "held s r = None" "held s' = (held s)(r \<mapsto> tok)"
    using acquire_ok [OF tok] framesD [OF body b] by simp_all
  have "held s' r = Some tok" using h(2) by simp
  then obtain s3 where rel: "lm_release lm r tok s' = (Inr True, s3)"
    using ans unfolding lock_answers_def by blast
  have "held s3 = held s" using release_ok [OF rel] h by auto
  moreover have "x = y" "s2 = s3" using run b fin [OF rel] by (auto simp: finallyM_def)
  ultimately show ?thesis using b by simp
qed

end

lemma release_suppressed_ok:
  "lm_release lm r tok s = (Inr True, s') \<Longrightarrow> release_suppressed lm r tok s = (Inr (), s')"
  by (simp add: release_suppressed_def run_simps)

section \<open>The use case\<close>

record 's RequestBackupUseCase =
  rb_permission_service :: PermissionService
  rb_rate_limit_repo :: "'s IRateLimitRepository"
  rb_fs_utils :: "'s IFsUtils"
  rb_job_manager :: "'s JobManager"
  rb_audit_repository :: "'s IAuditRepository"
  rb_lock_manager :: "'s ILockManager option"
  rb_backup_base_path :: path
  rb_max_backup_rate :: int
  rb_backup_rate_window :: int
  rb_min_free_disk_bytes :: int
  rb_runtime :: "'s Runtime"

definition GLOBAL_LOCK :: string where "GLOBAL_LOCK = ''backup:global''"
definition LOCK_TTL :: int where "LOCK_TTL = 3600"

record RequestBackupDto =
  rbd_user :: UserPrincipalDto
  rbd_chat_id :: "int option"
  rbd_topic_id :: "int option"
  rbd_status_message_id :: "int option"
  rbd_backup_type :: BackupType
  rbd_cluster_uri_hash :: string
  rbd_target_collections :: "CollectionTarget list option"
  rbd_topic :: string
  rbd_command :: "string option"

definition valid_RequestBackupDto :: "RequestBackupDto \<Rightarrow> bool" where
  "valid_RequestBackupDto d \<longleftrightarrow>
     valid_UserPrincipalDto (rbd_user d) \<and> is_sha256_hex (rbd_cluster_uri_hash d) \<and>
     (case rbd_target_collections d of None \<Rightarrow> True | Some ts \<Rightarrow> list_all valid_CollectionTarget ts)"

record RequestBackupResult =
  rbr_job_id :: string
  rbr_status :: JobStatus

definition request_of_dto :: "RequestBackupDto \<Rightarrow> CreateJobRequest" where
  "request_of_dto dto =
     \<lparr>cjr_requester_telegram_id = up_telegram_id (rbd_user dto), cjr_chat_id = rbd_chat_id dto,
      cjr_topic_id = rbd_topic_id dto, cjr_status_message_id = rbd_status_message_id dto,
      cjr_backup_type = rbd_backup_type dto, cjr_cluster_uri_hash = rbd_cluster_uri_hash dto,
      cjr_target_collections = rbd_target_collections dto\<rparr>"

text \<open>Steps 4 to 8, the body of the \<open>try\<close>.\<close>

definition request_body ::
  "'s RequestBackupUseCase \<Rightarrow> RequestBackupDto \<Rightarrow> ('s, RequestBackupResult) M" where
  "request_body uc dto =
     bindM (fs_get_disk_usage (rb_fs_utils uc) (rb_backup_base_path uc)) (\<lambda>(total_bytes, used_bytes, free_bytes).
     thenM (whenM (free_bytes < rb_min_free_disk_bytes uc)
              (raise_domain DiskSpaceError
                 (''Insufficient disk space: '' @ str_int free_bytes @ '' bytes free, '' @
                   str_int (rb_min_free_disk_bytes uc) @ '' bytes required'')
                 [(''free_bytes'', PInt free_bytes),
                  (''required_bytes'', PInt (rb_min_free_disk_bytes uc)),
                  (''total_bytes'', PInt total_bytes), (''used_bytes'', PInt used_bytes)]))
    (bindM (liftE (validated valid_CreateJobRequest ''CreateJobRequest'' (request_of_dto dto))) (\<lambda>create_req.
     bindM (JobManager_create_job (rb_job_manager uc) create_req) (\<lambda>job.
     thenM (AuditService_log_action (rb_runtime uc) (rb_audit_repository uc) ''BACKUP_REQUESTED''
              (up_telegram_id (rbd_user dto)) (rbd_topic dto) (rbd_command dto) ''SUCCESS'' None None None)
    (thenM (JobManager_enqueue_job (rb_job_manager uc) (bj_id job))
           (returnM \<lparr>rbr_job_id = bj_id job, rbr_status = bj_status job\<rparr>))))))"

definition RequestBackupUseCase_execute ::
  "'s RequestBackupUseCase \<Rightarrow> RequestBackupDto \<Rightarrow> ('s, RequestBackupResult) M" where
  "RequestBackupUseCase_execute uc dto =
     bindM (liftE (user_of_principal (rbd_user dto))) (\<lambda>user.
     thenM (whenM (\<not> PermissionService_can_execute (rb_permission_service uc) user ''BACKUP'' (rbd_topic dto))
              (raise_domain DomainPermissionError ''User is not authorised to request backups''
                 [(''user_id'', PInt (up_telegram_id (rbd_user dto))), (''topic'', PStr (rbd_topic dto))]))
    (bindM (rl_increment (rb_rate_limit_repo uc) (up_telegram_id (rbd_user dto)) ''BACKUP''
              (rb_backup_rate_window uc)) (\<lambda>count.
     thenM (whenM (rb_max_backup_rate uc < count)
              (raise_domain RateLimitError ''Backup rate limit exceeded. Please wait before retrying.''
                 [(''user_id'', PInt (up_telegram_id (rbd_user dto))),
                  (''window_seconds'', PInt (rb_backup_rate_window uc))]))
    (case rb_lock_manager uc of
       None \<Rightarrow> request_body uc dto
     | Some lm \<Rightarrow>
         bindM (lm_acquire lm GLOBAL_LOCK LOCK_TTL) (\<lambda>lock_token.
         case lock_token of
           None \<Rightarrow> raise_domain JobAlreadyRunningError
                     ''Another backup is currently in progress. Please wait and retry.''
                     [(''user_id'', PInt (up_telegram_id (rbd_user dto)))]
         | Some tok \<Rightarrow> finallyM (request_body uc dto) (release_suppressed lm GLOBAL_LOCK tok))))))"

section \<open>What a request may change\<close>

text \<open>The ports other than the lock leave the lock store alone.\<close>

definition repo_frames :: "('s \<Rightarrow> 'v) \<Rightarrow> 's IJobRepository \<Rightarrow> bool" where
  "repo_frames view jr \<longleftrightarrow>
     (\<forall>i. frames view (jr_get_by_id jr i)) \<and> (\<forall>j. frames view (jr_save jr j)) \<and>
     frames view (jr_clear_session_cache jr) \<and> (\<forall>st p n. frames view (jr_list_by_status jr st p n))"

definition request_frames :: "('s \<Rightarrow> 'v) \<Rightarrow> 's RequestBackupUseCase \<Rightarrow> bool" where
  "request_frames view uc \<longleftrightarrow>
     runtime_frames view (rb_runtime uc) \<and> audit_frames view (rb_audit_repository uc) \<and>
     manager_frames view (rb_job_manager uc) \<and>
     (\<forall>t a w. frames view (rl_increment (rb_rate_limit_repo uc) t a w)) \<and>
     (\<forall>p. frames view (fs_get_disk_usage (rb_fs_utils uc) p))"

lemma manager_ops_frames [frame_intros]:
  assumes "manager_frames view jm" "repo_frames view (jm_job_repository jm)"
  shows "frames view (JobManager_create_job jm r)" "frames view (JobManager_enqueue_job jm i)"
    "frames view (JobManager_cancel_job jm i u)"
proof -
  note m = manager_framesD [OF assms(1)]
  have r: "frames view (jr_get_by_id (jm_job_repository jm) i)" "frames view (jr_save (jm_job_repository jm) j)" for i j
    using assms(2) by (simp_all add: repo_frames_def)
  show "frames view (JobManager_create_job jm r)"
    unfolding JobManager_create_job_def Let_def by (intro frame_intros m r)
  show "frames view (JobManager_enqueue_job jm i)"
    unfolding JobManager_enqueue_job_def by (intro frame_intros m r)
  show "frames view (JobManager_cancel_job jm i u)"
    unfolding JobManager_cancel_job_def by (intro frame_intros m r)
qed

lemma request_body_frames:
  assumes "request_frames view uc" "repo_frames view (jm_job_repository (rb_job_manager uc))"
  shows "frames view (request_body uc dto)"
proof -
  have a: "manager_frames view (rb_job_manager uc)" "runtime_frames view (rb_runtime uc)"
    "audit_frames view (rb_audit_repository uc)"
    "frames view (fs_get_disk_usage (rb_fs_utils uc) (rb_backup_base_path uc))"
    using assms(1) by (simp_all add: request_frames_def)
  show ?thesis
    unfolding request_body_def
    by (rule frames_bindM [OF a(4)], simp only: split_paired_all prod.case)
      (intro frame_intros manager_ops_frames [OF a(1) assms(2)] log_action_frames a(2,3))
qed

lemma finally_suppressed_triple:
  "triple P m Q E \<Longrightarrow> (\<And>x. triple (Q x) (release_suppressed lm r tok) (\<lambda>_. Q x) (\<lambda>_ _. False)) \<Longrightarrow>
   (\<And>e. triple (E e) (release_suppressed lm r tok) (\<lambda>_. E e) (\<lambda>_ _. False)) \<Longrightarrow>
   triple P (finallyM m (release_suppressed lm r tok)) Q E"
  by (fastforce simp: triple_def finallyM_def split: prod.splits sum.splits)

lemma release_suppressed_never_raises: "fst (release_suppressed lm r tok s) = Inr ()"
  by (auto simp: release_suppressed_def tryM_def thenM_def bindM_def split: prod.splits sum.splits)

lemma release_suppressed_frames: "frames view (lm_release lm r tok) \<Longrightarrow> frames view (release_suppressed lm r tok)"
  unfolding release_suppressed_def by (intro frame_intros)

text \<open>A request that got past its guards: what it leaves in the job table.\<close>

locale backup_request = job_manager "rb_job_manager uc" jobs persist clean
  for uc :: "'s RequestBackupUseCase" and jobs persist clean +
  assumes request_quiet: "request_frames (\<lambda>s. (jobs s, clean s)) uc"
    and lock_quiet: "rb_lock_manager uc = Some lm \<Longrightarrow>
      (\<forall>r n. frames (\<lambda>s. (jobs s, clean s)) (lm_acquire lm r n)) \<and>
      (\<forall>r t. frames (\<lambda>s. (jobs s, clean s)) (lm_release lm r t))"
    and fresh_ids: "rt_uuid_hex (jm_runtime (rb_job_manager uc)) s = (Inr i, s') \<Longrightarrow>
      jobs s i = None \<and> clean s i"
begin

definition request_done :: "(string \<Rightarrow> BackupJob option) \<Rightarrow> RequestBackupDto \<Rightarrow> RequestBackupResult \<Rightarrow> 's \<Rightarrow> bool" where
  "request_done J dto r s \<longleftrightarrow>
     J (rbr_job_id r) = None \<and> rbr_status r = JobStatus.PENDING \<and>
     (\<exists>j k q. created (request_of_dto dto) j \<and> bj_id j = rbr_job_id r \<and> enqueued j q k \<and>
        stays jobs (J(rbr_job_id r \<mapsto> k)) s)"

definition request_changes :: "(string \<Rightarrow> BackupJob option) \<Rightarrow> RequestBackupDto \<Rightarrow> 's \<Rightarrow> bool" where
  "request_changes J dto s \<longleftrightarrow>
     stays jobs J s \<or>
     (\<exists>j k. created (request_of_dto dto) j \<and> J (bj_id j) = None \<and> stays jobs (J(bj_id j \<mapsto> k)) s \<and>
        (same_job k j \<or> (\<exists>q. enqueued j q k)))"

lemma created_status: "created r j \<Longrightarrow> bj_status j = JobStatus.PENDING"
  by (simp add: created_def)

lemma enqueued_same: "same_job k j \<Longrightarrow> enqueued k q k' \<Longrightarrow> created r j \<Longrightarrow> enqueued j q k'"
  by (auto simp: same_job_def enqueued_def created_def) blast

lemma both_stays: "stays both (J, C) s \<Longrightarrow> stays jobs J s"
  by (simp add: stays_def)

lemma request_body_triple:
  "triple (stays both (J, C)) (request_body uc dto)
     (\<lambda>r s. request_done J dto r s) (\<lambda>_. request_changes J dto)"
proof -
  let ?r = "request_of_dto dto"
  have J: "stays both (J, C) s \<Longrightarrow> request_changes J dto s" for s
    by (simp add: request_changes_def both_stays)
  have q: "frames both (fs_get_disk_usage (rb_fs_utils uc) p)" for p
    using request_quiet by (simp add: request_frames_def)
  have jq: "frames jobs (AuditService_log_action (rb_runtime uc) (rb_audit_repository uc) a i tp c res d h ctx)"
    for a i tp c res d h ctx
    using frames_comp [OF log_action_frames, of both "rb_runtime uc" "rb_audit_repository uc" fst]
      request_quiet by (simp add: request_frames_def)
  have cr: "triple (stays both (J, C)) (JobManager_create_job (rb_job_manager uc) ?r)
      (\<lambda>j s. \<exists>k. (created ?r j \<and> J (bj_id j) = None \<and> same_job k j) \<and> stays jobs (J(bj_id j \<mapsto> k)) s)
      (\<lambda>_. request_changes J dto)"
  proof (rule triple_conseq [OF create_job_triple])
    show "J i = None \<and> C i" if "stays both (J, C) s" "rt_uuid_hex (jm_runtime (rb_job_manager uc)) s = (Inr i, s')"
      for s i s' using fresh_ids [OF that(2)] that(1) by (auto simp: stays_def)
  qed (auto simp: create_changes_def request_changes_def)
  have enq: "triple (stays jobs (J(bj_id j \<mapsto> k)))
      (thenM (JobManager_enqueue_job (rb_job_manager uc) (bj_id j))
           (returnM \<lparr>rbr_job_id = bj_id j, rbr_status = bj_status j\<rparr>))
      (\<lambda>r s. request_done J dto r s) (\<lambda>_. request_changes J dto)"
    if c: "created ?r j \<and> J (bj_id j) = None \<and> same_job k j" for j k
  proof (rule triple_then)
    show "triple (stays jobs (J(bj_id j \<mapsto> k))) (JobManager_enqueue_job (rb_job_manager uc) (bj_id j))
        (\<lambda>_ s. \<exists>q k'. enqueued j q k' \<and> stays jobs (J(bj_id j \<mapsto> k')) s) (\<lambda>_. request_changes J dto)"
    proof (rule triple_conseq [OF enqueue_job_triple])
      show "request_changes J dto s" if "enqueue_changes (J(bj_id j \<mapsto> k)) (bj_id j) s" for s
      proof -
        have "\<exists>k2. stays jobs (J(bj_id j \<mapsto> k2)) s \<and> (same_job k2 j \<or> (\<exists>q. enqueued j q k2))"
          using that c enqueued_same [of k j] by (simp add: enqueue_changes_def) blast
        then show ?thesis using c unfolding request_changes_def by blast
      qed
    qed (use c enqueued_same [of k j] in \<open>simp, blast?\<close>)+
    show "triple (\<lambda>s. \<exists>q k'. enqueued j q k' \<and> stays jobs (J(bj_id j \<mapsto> k')) s)
        (returnM \<lparr>rbr_job_id = bj_id j, rbr_status = bj_status j\<rparr>) (\<lambda>r s. request_done J dto r s)
        (\<lambda>_ :: exn. request_changes J dto)"
      by (intro triple_basic) (use c created_status in \<open>fastforce simp: request_done_def\<close>)
  qed
  show ?thesis
    unfolding request_body_def
    apply (rule triple_bind_frame [OF q], erule J)
    apply (simp only: split_paired_all prod.case)
    apply (rule triple_then_when, erule J)
    apply (rule triple_bind_lift, erule J)
    apply (simp only: validated_Inr, elim conjE, hypsubst)
    apply (rule triple_bind [OF cr], rule triple_ex, rule triple_pure)
    apply (rule triple_then_frame, rule jq)
    subgoal by (auto simp: request_changes_def)
    by (rule enq)
qed

lemma frame_suppressed:
  assumes "rb_lock_manager uc = Some lm" "\<And>s. P s = P' (jobs s)"
  shows "triple P (release_suppressed lm r tok) (\<lambda>_. P) (\<lambda>_ _. False)"
proof (rule tripleI)
  fix s x s' assume "P s" and run: "release_suppressed lm r tok s = (x, s')"
  have fr: "frames jobs (release_suppressed lm r tok)"
    using frames_comp [OF release_suppressed_frames, of both lm r tok fst] lock_quiet [OF assms(1)] by simp
  have "jobs s' = jobs s" by (rule framesD [OF fr run])
  then show "case x of Inl e \<Rightarrow> False | Inr y \<Rightarrow> P s'"
    using \<open>P s\<close> release_suppressed_never_raises [of lm r tok s] run assms(2) by (auto split: sum.split)
qed

lemma execute_triple:
  "triple (stays both (J, C)) (RequestBackupUseCase_execute uc dto)
     (\<lambda>r s. request_done J dto r s) (\<lambda>_. request_changes J dto)"
proof -
  have J: "stays both (J, C) s \<Longrightarrow> request_changes J dto s" for s
    by (simp add: request_changes_def both_stays)
  have q: "frames both (rl_increment (rb_rate_limit_repo uc) t a w)" for t a w
    using request_quiet by (simp add: request_frames_def)
  show ?thesis
    unfolding RequestBackupUseCase_execute_def
    apply (rule triple_bind_lift, erule J)
    apply (rule triple_then_when, erule J)
    apply (rule triple_bind_frame [OF q], erule J)
    apply (rule triple_then_when, erule J)
  proof (cases "rb_lock_manager uc")
    case None
    then show "triple (stays both (J, C)) (case rb_lock_manager uc of None \<Rightarrow> request_body uc dto | Some lm \<Rightarrow> f lm)
        (\<lambda>r s. request_done J dto r s) (\<lambda>_. request_changes J dto)" for f
      using request_body_triple by simp
  next
    case (Some lm)
    have "triple (stays both (J, C)) (finallyM (request_body uc dto) (release_suppressed lm GLOBAL_LOCK tok))
        (\<lambda>r s. request_done J dto r s) (\<lambda>_. request_changes J dto)" for tok
      by (rule finally_suppressed_triple [OF request_body_triple]; rule frame_suppressed [OF Some])
        (simp_all add: request_done_def request_changes_def stays_def)
    then show "triple (stays both (J, C)) (case rb_lock_manager uc of None \<Rightarrow> request_body uc dto | Some lm \<Rightarrow>
         bindM (lm_acquire lm GLOBAL_LOCK LOCK_TTL) (\<lambda>lock_token.
         case lock_token of
           None \<Rightarrow> raise_domain JobAlreadyRunningError
                     ''Another backup is currently in progress. Please wait and retry.''
                     [(''user_id'', PInt (up_telegram_id (rbd_user dto)))]
         | Some tok \<Rightarrow> finallyM (request_body uc dto) (release_suppressed lm GLOBAL_LOCK tok)))
        (\<lambda>r s. request_done J dto r s) (\<lambda>_. request_changes J dto)"
      unfolding Some option.case
      by (intro triple_bind_frame J)
        (use lock_quiet [OF Some] in \<open>auto intro!: triple_basic J split: option.split\<close>)
  qed
qed

end

end
