(* ===== verification/Retention.thy ===== *)
theory Retention
  imports Files
begin

text \<open>
  \<^verbatim>\<open>app/application/services/retention_manager.py\<close>: which archives are removed by age and by total
  size, and the deletions themselves. A backup descriptor (a dictionary in the source) is a
  record; a Python \<open>set\<close> of paths is the list of its elements in the order they were added, and
  \<open>rn_set_order\<close> is the order in which the interpreter then iterates over it, which the
  language leaves open.
\<close>

section \<open>The manager\<close>

record 's RetentionManager =
  rn_fs :: "'s IFsUtils"
  rn_base_path :: path
  rn_full_weeks :: int
  rn_custom_weeks :: int
  rn_max_bytes :: int
  rn_job_repository :: "'s IJobRepository option"
  rn_runtime :: "'s Runtime"
  rn_set_order :: "path list \<Rightarrow> path list"

definition mk_RetentionManager ::
  "'s IFsUtils \<Rightarrow> path \<Rightarrow> int \<Rightarrow> int \<Rightarrow> int \<Rightarrow> 's IJobRepository option \<Rightarrow> 's Runtime \<Rightarrow>
   (path list \<Rightarrow> path list) \<Rightarrow> 's RetentionManager" where
  "mk_RetentionManager fs base full_weeks custom_weeks max_gb jr rt order =
     \<lparr>rn_fs = fs, rn_base_path = base, rn_full_weeks = full_weeks, rn_custom_weeks = custom_weeks,
      rn_max_bytes = max_gb * 1024 * 1024 * 1024, rn_job_repository = jr, rn_runtime = rt,
      rn_set_order = order\<rparr>"

definition ARCHIVE_PATTERN :: string where "ARCHIVE_PATTERN = ''backup_*.tar.gz''"

record backup_descriptor =
  bd_path :: path
  bd_type :: string
  bd_mtime :: datetime
  bd_size :: int

definition classify_type :: "path \<Rightarrow> string" where
  "classify_type p =
     (let name = lower (path_name p) in
      if starts_with name ''backup_full_'' \<and> ends_with name ''.tar.gz'' then ''full''
      else if starts_with name ''backup_custom_'' \<and> ends_with name ''.tar.gz'' then ''custom''
      else (let parent = lower (path_name (butlast p)) in
        if parent = ''full'' then ''full'' else if parent = ''custom'' then ''custom'' else ''unknown''))"

text \<open>\<open>to_delete.add(path)\<close>\<close>

definition set_add :: "path \<Rightarrow> path list \<Rightarrow> path list" where
  "set_add p ps = (if p \<in> set ps then ps else ps @ [p])"

definition prune_age_step :: "nat \<Rightarrow> datetime \<Rightarrow> nat \<Rightarrow> path list \<Rightarrow> backup_descriptor \<Rightarrow> path list" where
  "prune_age_step n cutoff minimum_keep to_delete b =
     (if bd_mtime b < cutoff \<and> int minimum_keep < int n - int (length to_delete)
      then set_add (bd_path b) to_delete else to_delete)"

definition prune_by_age :: "backup_descriptor list \<Rightarrow> datetime \<Rightarrow> nat \<Rightarrow> path list" where
  "prune_by_age sorted_backups cutoff minimum_keep =
     foldl (prune_age_step (length sorted_backups) cutoff minimum_keep) [] sorted_backups"

definition remaining :: "backup_descriptor list \<Rightarrow> path list \<Rightarrow> backup_descriptor list" where
  "remaining bs to_delete = filter (\<lambda>b. bd_path b \<notin> set to_delete) bs"

fun prune_size_loop ::
  "int \<Rightarrow> backup_descriptor list \<Rightarrow> backup_descriptor list \<Rightarrow> backup_descriptor list \<Rightarrow> int \<Rightarrow> path list \<Rightarrow>
   path list" where
  "prune_size_loop max_size full custom [] current to_delete = to_delete"
| "prune_size_loop max_size full custom (b # bs) current to_delete =
     (if current \<le> max_size then to_delete
      else if bd_type b = ''full'' \<and> length (remaining full to_delete) \<le> 1
      then prune_size_loop max_size full custom bs current to_delete
      else if bd_type b = ''custom'' \<and> length (remaining custom to_delete) \<le> 1
      then prune_size_loop max_size full custom bs current to_delete
      else prune_size_loop max_size full custom bs (current - bd_size b) (set_add (bd_path b) to_delete))"

definition prune_by_size ::
  "backup_descriptor list \<Rightarrow> int \<Rightarrow> int \<Rightarrow> backup_descriptor list \<Rightarrow> backup_descriptor list \<Rightarrow> path list" where
  "prune_by_size all_backups current max_size full custom =
     prune_size_loop max_size full custom (sort_key bd_mtime all_backups) current []"

section \<open>Deletions\<close>

text \<open>\<open>path.relative_to(output_path)\<close> raises \<open>ValueError\<close> unless the path lies under it.\<close>

definition is_path_in_use :: "path \<Rightarrow> BackupJob list \<Rightarrow> bool" where
  "is_path_in_use p running_jobs \<longleftrightarrow>
     list_ex (\<lambda>job. case bj_output_path job of None \<Rightarrow> False | Some out \<Rightarrow> prefix out p) running_jobs"

definition no_deletion :: deletion_summary where
  "no_deletion = \<lparr>dl_deleted_count = 0, dl_reclaimed_bytes = 0, dl_errors = []\<rparr>"

definition delete_one ::
  "'s RetentionManager \<Rightarrow> BackupJob list \<Rightarrow> path \<Rightarrow> deletion_summary \<Rightarrow> ('s, deletion_summary) M" where
  "delete_one rm running_jobs p acc =
     (if is_path_in_use p running_jobs
      then returnM (acc\<lparr>dl_errors := dl_errors acc @
             [''Skipped deletion of '' @ path_str p @ '': currently in use by a running backup job'']\<rparr>)
      else tryM (bindM (fs_get_folder_size (rn_fs rm) p) (\<lambda>sz.
                 thenM (fs_delete (rn_fs rm) p)
                   (returnM (acc\<lparr>dl_deleted_count := dl_deleted_count acc + 1,
                                 dl_reclaimed_bytes := dl_reclaimed_bytes acc + sz\<rparr>))))
                (\<lambda>exc. returnM (acc\<lparr>dl_errors := dl_errors acc @
                   [''Failed to delete '' @ path_str p @ '': '' @ exn_str exc]\<rparr>)))"

fun delete_loop ::
  "'s RetentionManager \<Rightarrow> BackupJob list \<Rightarrow> path list \<Rightarrow> deletion_summary \<Rightarrow> ('s, deletion_summary) M" where
  "delete_loop rm running_jobs [] acc = returnM acc"
| "delete_loop rm running_jobs (p # ps) acc =
     bindM (delete_one rm running_jobs p acc) (delete_loop rm running_jobs ps)"

definition execute_deletions :: "'s RetentionManager \<Rightarrow> path list \<Rightarrow> ('s, deletion_summary) M" where
  "execute_deletions rm to_delete =
     bindM (case rn_job_repository rm of
              None \<Rightarrow> returnM []
            | Some jr \<Rightarrow> jr_list_by_status jr (Some JobStatus.RUNNING) 1 1000) (\<lambda>running_jobs.
     delete_loop rm running_jobs (rn_set_order rm to_delete) no_deletion)"

section \<open>The policies\<close>

definition build_backup_descriptor :: "'s RetentionManager \<Rightarrow> path \<Rightarrow> ('s, backup_descriptor) M" where
  "build_backup_descriptor rm p =
     bindM (fs_get_modification_time (rn_fs rm) p) (\<lambda>mtime.
     bindM (fs_get_folder_size (rn_fs rm) p) (\<lambda>sz.
     returnM \<lparr>bd_path = p, bd_type = classify_type p, bd_mtime = mtime, bd_size = sz\<rparr>))"

definition week :: int where "week = 7 * 86400000000"

definition age_deletions :: "'s RetentionManager \<Rightarrow> datetime \<Rightarrow> backup_descriptor list \<Rightarrow> path list" where
  "age_deletions rm now backups =
     (let full = sort_key bd_mtime (filter (\<lambda>b. bd_type b = ''full'') backups);
          custom = sort_key bd_mtime (filter (\<lambda>b. bd_type b = ''custom'') backups);
          d1 = prune_by_age full (now - rn_full_weeks rm * week) 1;
          d2 = prune_by_age custom (now - rn_custom_weeks rm * week) 1
      in fold set_add d2 (fold set_add d1 []))"

definition cleanup_old_backups :: "'s RetentionManager \<Rightarrow> ('s, deletion_summary) M" where
  "cleanup_old_backups rm =
     bindM (fs_list_files_recursive (rn_fs rm) (rn_base_path rm) ARCHIVE_PATTERN) (\<lambda>files.
     if files = [] then returnM no_deletion
     else bindM (rt_now (rn_runtime rm)) (\<lambda>now.
          bindM (mapM_list (build_backup_descriptor rm) files) (\<lambda>backups.
          execute_deletions rm (age_deletions rm now backups))))"

definition size_deletions :: "'s RetentionManager \<Rightarrow> backup_descriptor list \<Rightarrow> path list" where
  "size_deletions rm backups =
     prune_by_size backups (sum_list (map bd_size backups)) (rn_max_bytes rm)
       (filter (\<lambda>b. bd_type b = ''full'') backups) (filter (\<lambda>b. bd_type b = ''custom'') backups)"

definition enforce_max_storage :: "'s RetentionManager \<Rightarrow> ('s, deletion_summary) M" where
  "enforce_max_storage rm =
     bindM (fs_list_files_recursive (rn_fs rm) (rn_base_path rm) ARCHIVE_PATTERN) (\<lambda>files.
     if files = [] then returnM no_deletion
     else bindM (mapM_list (build_backup_descriptor rm) files) (\<lambda>backups.
          if sum_list (map bd_size backups) \<le> rn_max_bytes rm then returnM no_deletion
          else execute_deletions rm (size_deletions rm backups)))"

definition RetentionManager_apply_policy :: "'s RetentionManager \<Rightarrow> ('s, deletion_summary) M" where
  "RetentionManager_apply_policy rm =
     bindM (cleanup_old_backups rm) (\<lambda>age_result.
     bindM (enforce_max_storage rm) (\<lambda>size_result.
     returnM \<lparr>dl_deleted_count = dl_deleted_count age_result + dl_deleted_count size_result,
              dl_reclaimed_bytes = dl_reclaimed_bytes age_result + dl_reclaimed_bytes size_result,
              dl_errors = dl_errors age_result @ dl_errors size_result\<rparr>))"

definition RetentionManager_get_storage_stats :: "'s RetentionManager \<Rightarrow> ('s, storage_stats) M" where
  "RetentionManager_get_storage_stats rm =
     bindM (fs_get_disk_usage (rn_fs rm) (rn_base_path rm)) (\<lambda>(total_b, used_b, free_b).
     bindM (fs_get_folder_size (rn_fs rm) (rn_base_path rm)) (\<lambda>backup_size.
     bindM (fs_list_files_recursive (rn_fs rm) (rn_base_path rm) ARCHIVE_PATTERN) (\<lambda>files.
     returnM \<lparr>ss_disk_total_bytes = total_b, ss_disk_used_bytes = used_b, ss_disk_free_bytes = free_b,
              ss_backup_size_bytes = backup_size, ss_backup_file_count = length files\<rparr>)))"

definition RetentionManager :: "'s RetentionManager \<Rightarrow> 's IRetentionManager" where
  "RetentionManager rm =
     \<lparr>rm_apply_policy = RetentionManager_apply_policy rm,
      rm_get_storage_stats = RetentionManager_get_storage_stats rm\<rparr>"

section \<open>What the policy leaves alone\<close>

definition retention_frames :: "('s \<Rightarrow> 'v) \<Rightarrow> 's RetentionManager \<Rightarrow> bool" where
  "retention_frames view rm \<longleftrightarrow>
     (\<forall>p pat. frames view (fs_list_files_recursive (rn_fs rm) p pat)) \<and>
     (\<forall>p. frames view (fs_get_modification_time (rn_fs rm) p)) \<and>
     (\<forall>p. frames view (fs_get_folder_size (rn_fs rm) p)) \<and> (\<forall>p. frames view (fs_delete (rn_fs rm) p)) \<and>
     frames view (rt_now (rn_runtime rm)) \<and>
     (\<forall>jr st a b. rn_job_repository rm = Some jr \<longrightarrow> frames view (jr_list_by_status jr st a b))"

lemma delete_loop_frames: "retention_frames view rm \<Longrightarrow> frames view (delete_loop rm jobs ps acc)"
proof (induction ps arbitrary: acc)
  case (Cons p ps)
  then have "frames view (delete_one rm jobs p acc)"
    unfolding delete_one_def by (intro frame_intros) (simp_all add: retention_frames_def)
  with Cons show ?case by (auto intro: frame_intros)
qed (simp add: frame_intros)

lemma apply_policy_frames:
  assumes "retention_frames view rm"
  shows "frames view (RetentionManager_apply_policy rm)"
proof -
  have run: "frames view (execute_deletions rm ds)" for ds
    unfolding execute_deletions_def using assms
    by (auto intro!: frame_intros delete_loop_frames simp: retention_frames_def split: option.split)
  have d: "frames view (build_backup_descriptor rm p)" for p
    unfolding build_backup_descriptor_def using assms by (intro frame_intros) (simp_all add: retention_frames_def)
  have now: "frames view (rt_now (rn_runtime rm))" and lst: "frames view (fs_list_files_recursive (rn_fs rm) p pat)" for p pat
    using assms by (simp_all add: retention_frames_def)
  show ?thesis
    unfolding RetentionManager_apply_policy_def cleanup_old_backups_def enforce_max_storage_def
    by ((rule now lst run d | rule frame_intros)+)
qed

section \<open>Which archives the rules pick\<close>

lemma set_set_add [simp]: "set (set_add p ps) = insert p (set ps)"
  by (auto simp: set_add_def)

lemma distinct_set_add [simp]: "distinct (set_add p ps) = distinct ps"
  by (simp add: set_add_def)

lemma set_fold_set_add [simp]: "set (fold set_add ps qs) = set ps \<union> set qs"
  by (induction ps arbitrary: qs) auto

text \<open>In a list sorted by time the expired archives come first.\<close>

lemma expired_prefix:
  "sorted (map f xs) \<Longrightarrow> i < length xs \<Longrightarrow>
   f (xs ! i) < c \<longleftrightarrow> i < length (filter (\<lambda>x. f x < c) xs)" for f :: "'a \<Rightarrow> int"
proof (induction xs arbitrary: i)
  case (Cons x xs)
  show ?case
  proof (cases i)
    case 0
    have "filter (\<lambda>x. f x < c) xs = []" if "\<not> f x < c"
      using Cons.prems(1) that by (fastforce simp: filter_empty_conv)
    with 0 show ?thesis by auto
  next
    case (Suc k)
    then have "f (xs ! k) < c \<longleftrightarrow> k < length (filter (\<lambda>x. f x < c) xs)" "f x \<le> f (xs ! k)"
      using Cons by auto
    with Suc show ?thesis by auto
  qed
qed simp

lemma prune_by_age_eq:
  assumes s: "sorted (map bd_mtime bs)" and d: "distinct (map bd_path bs)"
  shows "prune_by_age bs cutoff m =
    map bd_path (take (min (length (filter (\<lambda>b. bd_mtime b < cutoff) bs)) (length bs - m)) bs)"
proof -
  let ?n = "length bs" and ?e = "length (filter (\<lambda>b. bd_mtime b < cutoff) bs)"
  let ?m = "min ?e (?n - m)"
  have "i \<le> ?n \<Longrightarrow> foldl (prune_age_step ?n cutoff m) [] (take i bs) = map bd_path (take (min i ?m) bs)" for i
  proof (induction i)
    case (Suc i)
    then have i: "i < ?n" by simp
    have fresh: "bd_path (bs ! i) \<notin> bd_path ` set (take i bs)"
      using d i by (metis (no_types, lifting) id_take_nth_drop distinct_append list.set_map map_append
          list.map(2) disjoint_iff list.set_intros(1))
    have ex: "bd_mtime (bs ! i) < cutoff \<longleftrightarrow> i < ?e" by (rule expired_prefix [OF s i])
    have ih: "foldl (prune_age_step ?n cutoff m) [] (take i bs) = map bd_path (take (min i ?m) bs)"
      using Suc by simp
    have step: "foldl (prune_age_step ?n cutoff m) [] (take (Suc i) bs) =
        prune_age_step ?n cutoff m (map bd_path (take (min i ?m) bs)) (bs ! i)"
      using ih i by (simp add: take_Suc_conv_app_nth)
    show ?case
    proof (cases "i < ?m")
      case True
      then have "min i ?m = i" "min (Suc i) ?m = Suc i" "int m < int ?n - int i" by linarith+
      with True i ex fresh show ?thesis
        unfolding step by (simp add: prune_age_step_def take_Suc_conv_app_nth set_add_def)
    next
      case False
      then have "min i ?m = ?m" "min (Suc i) ?m = ?m" by linarith+
      with False i ex show ?thesis
        unfolding step by (auto simp: prune_age_step_def min_def split: if_splits)
    qed
  qed simp
  from this [of ?n] show ?thesis by (simp add: prune_by_age_def min_def)
qed

definition of_type :: "string \<Rightarrow> backup_descriptor list \<Rightarrow> path list \<Rightarrow> backup_descriptor list" where
  "of_type ty bs D = filter (\<lambda>b. bd_type b = ty \<and> bd_path b \<notin> set D) bs"

lemma remaining_of_type: "remaining (filter (\<lambda>b. bd_type b = ty) bs) D = of_type ty bs D"
  by (simp add: remaining_def of_type_def conj_commute)

lemma remove_remaining:
  assumes d: "distinct (map bd_path bs)" and b: "b \<in> set bs" "bd_path b \<notin> set D"
  shows "remaining bs (D @ [bd_path b]) = remove1 b (remaining bs D)"
    and "of_type (bd_type b) bs (D @ [bd_path b]) = remove1 b (of_type (bd_type b) bs D)"
proof -
  have inj: "x \<in> set bs \<Longrightarrow> bd_path x = bd_path b \<longleftrightarrow> x = b" for x
    using d b(1) by (auto simp: distinct_map dest: inj_onD)
  have f: "filter (\<lambda>x. P x \<and> bd_path x \<noteq> bd_path b) bs = remove1 b (filter P bs)" for P
    using d inj
    by (subst distinct_remove1_removeAll)
      (auto simp: distinct_map removeAll_filter_not_eq conj_commute intro!: filter_cong)
  show "remaining bs (D @ [bd_path b]) = remove1 b (remaining bs D)"
    using f [of "\<lambda>x. bd_path x \<notin> set D"] by (simp add: remaining_def conj_commute)
  show "of_type (bd_type b) bs (D @ [bd_path b]) = remove1 b (of_type (bd_type b) bs D)"
    using f [of "\<lambda>x. bd_type x = bd_type b \<and> bd_path x \<notin> set D"]
    by (simp add: of_type_def conj_commute conj_left_commute)
qed

text \<open>
  What the size loop has established when it has looked at \<open>pre\<close> and picked \<open>D\<close>: the archives
  passed over are the last of their type, no type has lost its last archive, and the cap was
  still exceeded before the latest pick.
\<close>

definition known_type :: "string \<Rightarrow> bool" where
  "known_type ty \<longleftrightarrow> ty = ''full'' \<or> ty = ''custom''"

definition sizes :: "backup_descriptor list \<Rightarrow> int" where
  "sizes bs = sum_list (map bd_size bs)"

definition size_inv :: "int \<Rightarrow> backup_descriptor list \<Rightarrow> backup_descriptor list \<Rightarrow> path list \<Rightarrow> bool" where
  "size_inv max_size bs pre D \<longleftrightarrow>
     distinct D \<and> set D \<subseteq> bd_path ` set pre \<and>
     (\<forall>b\<in>set pre. bd_path b \<notin> set D \<longrightarrow> known_type (bd_type b) \<and> of_type (bd_type b) bs D = [b]) \<and>
     (\<forall>ty. known_type ty \<longrightarrow> of_type ty bs [] \<noteq> [] \<longrightarrow> of_type ty bs D \<noteq> []) \<and>
     (\<forall>D0 p. D = D0 @ [p] \<longrightarrow> max_size < sizes (remaining bs D0))"

lemma of_type_other: "bd_type b \<noteq> ty \<Longrightarrow> distinct (map bd_path bs) \<Longrightarrow> b \<in> set bs \<Longrightarrow>
    of_type ty bs (D @ [bd_path b]) = of_type ty bs D"
  by (auto simp: of_type_def distinct_map intro!: filter_cong dest: inj_onD)

lemma size_inv_skip:
  assumes inv: "size_inv max_size bs pre D" and b: "b \<in> set bs" "bd_path b \<notin> set D"
    and last: "known_type (bd_type b)" "length (of_type (bd_type b) bs D) \<le> 1"
  shows "size_inv max_size bs (pre @ [b]) D"
proof -
  have "b \<in> set (of_type (bd_type b) bs D)" using b by (simp add: of_type_def)
  then have "of_type (bd_type b) bs D = [b]"
    using last(2) by (cases "of_type (bd_type b) bs D" rule: remdups_adj.cases) auto
  with inv last(1) show ?thesis by (auto simp: size_inv_def)
qed

lemma size_inv_pick:
  assumes inv: "size_inv max_size bs pre D" and d: "distinct (map bd_path bs)"
    and b: "b \<in> set bs" "bd_path b \<notin> set D" and pre: "set pre \<subseteq> set bs" "b \<notin> set pre"
    and big: "max_size < sizes (remaining bs D)"
    and more: "known_type (bd_type b) \<Longrightarrow> 1 < length (of_type (bd_type b) bs D)"
  shows "size_inv max_size bs (pre @ [b]) (D @ [bd_path b])"
proof -
  have skipped: "known_type (bd_type c) \<and> of_type (bd_type c) bs (D @ [bd_path b]) = [c]"
    if c: "c \<in> set pre" "bd_path c \<notin> set D" for c
  proof -
    have k: "known_type (bd_type c)" "of_type (bd_type c) bs D = [c]" using inv c by (auto simp: size_inv_def)
    have "bd_type b \<noteq> bd_type c" using k more by auto
    then show ?thesis using k of_type_other [OF _ d b(1)] by simp
  qed
  have survive: "of_type ty bs (D @ [bd_path b]) \<noteq> []" if "known_type ty" "of_type ty bs [] \<noteq> []" for ty
  proof (cases "bd_type b = ty")
    case True
    have "b \<in> set (of_type ty bs D)" using b True by (simp add: of_type_def)
    then have "length (of_type ty bs (D @ [bd_path b])) = length (of_type ty bs D) - 1"
      using remove_remaining(2) [OF d b] True by (simp add: length_remove1)
    then show ?thesis using more that(1) True by fastforce
  next
    case False
    then show ?thesis using inv that of_type_other [OF _ d b(1)] by (simp add: size_inv_def)
  qed
  show ?thesis
    using inv skipped survive b(2) big by (auto simp: size_inv_def)
qed

lemma prune_size_loop_inv:
  assumes d: "distinct (map bd_path bs)"
  shows "size_inv max_size bs pre D \<Longrightarrow> mset bs = mset (pre @ cs) \<Longrightarrow> cur = sizes (remaining bs D) \<Longrightarrow>
    R = prune_size_loop max_size (filter (\<lambda>b. bd_type b = ''full'') bs) (filter (\<lambda>b. bd_type b = ''custom'') bs) cs cur D \<Longrightarrow>
    \<exists>done rest. cs = done @ rest \<and> size_inv max_size bs (pre @ done) R \<and>
      (rest = [] \<or> sizes (remaining bs R) \<le> max_size)"
proof (induction cs arbitrary: pre D cur)
  case Nil
  then show ?case by simp
next
  case (Cons b cs)
  let ?full = "filter (\<lambda>b. bd_type b = ''full'') bs" and ?custom = "filter (\<lambda>b. bd_type b = ''custom'') bs"
  have sets: "set bs = set pre \<union> insert b (set cs)" using mset_eq_setD [OF Cons.prems(2)] by simp
  have "distinct (map bd_path (pre @ b # cs))"
    using d Cons.prems(2) by (metis mset_eq_imp_distinct_iff mset_map)
  then have np: "bd_path b \<notin> bd_path ` set pre" by auto
  have b: "b \<in> set bs" "b \<notin> set pre" "bd_path b \<notin> set D"
    using sets np Cons.prems(1) by (auto simp: size_inv_def)
  have pre: "set pre \<subseteq> set bs" using sets by auto
  show ?case
  proof (cases "cur \<le> max_size")
    case True
    then have "R = D" using Cons.prems(4) by simp
    then show ?thesis using Cons.prems True by (intro exI [of _ "[]"] exI [of _ "b # cs"]) simp
  next
    case big: False
    define last where "last \<longleftrightarrow> known_type (bd_type b) \<and> length (of_type (bd_type b) bs D) \<le> 1"
    have nxt: "\<exists>done rest. b # cs = done @ rest \<and> size_inv max_size bs (pre @ done) R \<and>
        (rest = [] \<or> sizes (remaining bs R) \<le> max_size)"
      if inv: "size_inv max_size bs (pre @ [b]) D'" and c: "cur' = sizes (remaining bs D')"
        and R: "R = prune_size_loop max_size ?full ?custom cs cur' D'" for D' cur'
    proof -
      from Cons.IH [OF inv _ c R] Cons.prems(2) obtain xs rest where
        "cs = xs @ rest" "size_inv max_size bs ((pre @ [b]) @ xs) R"
        "rest = [] \<or> sizes (remaining bs R) \<le> max_size" by auto
      then show ?thesis by (intro exI [of _ "b # xs"] exI [of _ rest]) simp
    qed
    show ?thesis
    proof (cases last)
      case True
      then show ?thesis
        using Cons.prems(3,4) big size_inv_skip [OF Cons.prems(1) b(1,3)]
        by (intro nxt [of D cur]) (auto simp: last_def known_type_def remaining_of_type)
    next
      case False
      have cur: "cur - bd_size b = sizes (remaining bs (D @ [bd_path b]))"
        using Cons.prems(3) remove_remaining(1) [OF d b(1,3)] b
        by (simp add: sizes_def sum_list_map_remove1 remaining_def)
      show ?thesis
        using Cons.prems(3,4) big False b(3) size_inv_pick [OF Cons.prems(1) d b(1,3) pre b(2)] cur
        by (intro nxt [of "D @ [bd_path b]" "cur - bd_size b"])
          (auto simp: last_def known_type_def remaining_of_type set_add_def)
    qed
  qed
qed

lemma prune_by_size_inv:
  assumes d: "distinct (map bd_path bs)"
  shows "\<exists>pre rest. sort_key bd_mtime bs = pre @ rest \<and> size_inv max_size bs pre (prune_by_size bs (sizes bs) max_size
      (filter (\<lambda>b. bd_type b = ''full'') bs) (filter (\<lambda>b. bd_type b = ''custom'') bs)) \<and>
    (rest = [] \<or> sizes (remaining bs (prune_by_size bs (sizes bs) max_size
      (filter (\<lambda>b. bd_type b = ''full'') bs) (filter (\<lambda>b. bd_type b = ''custom'') bs))) \<le> max_size)"
  using prune_size_loop_inv [OF d, of max_size "[]" "[]" "sort_key bd_mtime bs" "sizes bs", OF _ _ _ refl]
  unfolding prune_by_size_def by (simp add: size_inv_def remaining_def)

text \<open>Descriptors of files that exist.\<close>

definition described :: "(path \<Rightarrow> (int \<times> datetime) option) \<Rightarrow> backup_descriptor list \<Rightarrow> bool" where
  "described F bs \<longleftrightarrow> distinct (map bd_path bs) \<and>
     (\<forall>b\<in>set bs. bd_type b = classify_type (bd_path b) \<and> F (bd_path b) = Some (bd_size b, bd_mtime b))"

lemma described_inj: "described F bs \<Longrightarrow> b \<in> set bs \<Longrightarrow> c \<in> set bs \<Longrightarrow> bd_path b = bd_path c \<Longrightarrow> b = c"
  by (auto simp: described_def distinct_map dest: inj_onD)

lemma prune_by_age_typed:
  fixes ty :: string
  assumes d: "described F bs"
  defines "ts \<equiv> sort_key bd_mtime (filter (\<lambda>b. bd_type b = ty) bs)"
  shows "p \<in> set (prune_by_age ts cutoff 1) \<Longrightarrow> \<exists>b\<in>set bs. bd_path b = p \<and> bd_type b = ty \<and> bd_mtime b < cutoff"
    and "b \<in> set bs \<Longrightarrow> bd_type b = ty \<Longrightarrow>
      \<exists>c\<in>set bs. bd_type c = ty \<and> bd_path c \<notin> set (prune_by_age ts cutoff 1)"
proof -
  have sd: "sorted (map bd_mtime ts)" "distinct (map bd_path ts)"
    using d by (auto simp: ts_def described_def distinct_map inj_on_def)
  note eq = prune_by_age_eq [OF sd, of cutoff 1]
  have st: "set ts = {b \<in> set bs. bd_type b = ty}" by (auto simp: ts_def)
  show "\<exists>b\<in>set bs. bd_path b = p \<and> bd_type b = ty \<and> bd_mtime b < cutoff" if p: "p \<in> set (prune_by_age ts cutoff 1)"
  proof -
    let ?k = "min (length (filter (\<lambda>b. bd_mtime b < cutoff) ts)) (length ts - 1)"
    obtain i where "i < length (take ?k ts)" "p = bd_path (take ?k ts ! i)"
    proof -
      assume goal: "\<And>i. i < length (take ?k ts) \<Longrightarrow> p = bd_path (take ?k ts ! i) \<Longrightarrow> thesis"
      have "p \<in> bd_path ` set (take ?k ts)" using p by (simp only: eq set_map)
      then obtain c where "c \<in> set (take ?k ts)" "p = bd_path c" by blast
      then show thesis using goal unfolding in_set_conv_nth by blast
    qed
    then have i: "i < length (filter (\<lambda>b. bd_mtime b < cutoff) ts)" "i < length ts" "p = bd_path (ts ! i)"
      by auto
    then have "bd_mtime (ts ! i) < cutoff" using expired_prefix [OF sd(1) i(2)] by blast
    moreover have "ts ! i \<in> set ts" using i(2) by simp
    ultimately show ?thesis using i(3) st by auto
  qed
  show "\<exists>c\<in>set bs. bd_type c = ty \<and> bd_path c \<notin> set (prune_by_age ts cutoff 1)"
    if "b \<in> set bs" "bd_type b = ty"
  proof -
    have ne: "ts \<noteq> []" using that st by auto
    then have "bd_path (last ts) \<notin> bd_path ` set (butlast ts)"
      using sd(2) by (cases ts rule: rev_cases) auto
    moreover have "set (prune_by_age ts cutoff 1) \<subseteq> bd_path ` set (butlast ts)"
      unfolding eq set_map butlast_conv_take by (intro image_mono set_take_subset_set_take) simp
    ultimately show ?thesis using st last_in_set [OF ne] by auto
  qed
qed

lemma age_deletions_set:
  "set (age_deletions rm now bs) =
     set (prune_by_age (sort_key bd_mtime (filter (\<lambda>b. bd_type b = ''full'') bs)) (now - rn_full_weeks rm * week) 1) \<union>
     set (prune_by_age (sort_key bd_mtime (filter (\<lambda>b. bd_type b = ''custom'') bs)) (now - rn_custom_weeks rm * week) 1)"
  by (auto simp: age_deletions_def Let_def)

lemma distinct_fold_set_add: "distinct (fold set_add ps qs) = distinct qs"
  by (induction ps arbitrary: qs) auto

lemma distinct_age_deletions: "distinct (age_deletions rm now bs)"
  by (simp add: age_deletions_def Let_def distinct_fold_set_add)

lemma age_deletions_expired:
  assumes "described F bs" "p \<in> set (age_deletions rm now bs)"
  shows "\<exists>b\<in>set bs. bd_path b = p \<and>
    (bd_type b = ''full'' \<and> bd_mtime b < now - rn_full_weeks rm * week \<or>
     bd_type b = ''custom'' \<and> bd_mtime b < now - rn_custom_weeks rm * week)"
  using assms(2) prune_by_age_typed(1) [OF assms(1)] unfolding age_deletions_set by blast

text \<open>Every known type with a described archive keeps one.\<close>

definition keeps_one :: "backup_descriptor list \<Rightarrow> path list \<Rightarrow> bool" where
  "keeps_one bs D \<longleftrightarrow> (\<forall>b\<in>set bs. known_type (bd_type b) \<longrightarrow>
     (\<exists>c\<in>set bs. bd_type c = bd_type b \<and> bd_path c \<notin> set D))"

lemma age_keeps_one: "described F bs \<Longrightarrow> keeps_one bs (age_deletions rm now bs)"
  unfolding keeps_one_def
proof (intro ballI impI)
  fix b assume d: "described F bs" and b: "b \<in> set bs" "known_type (bd_type b)"
  let ?D = "\<lambda>ty cut. set (prune_by_age (sort_key bd_mtime (filter (\<lambda>b. bd_type b = ty) bs)) cut 1)"
  have other: "bd_path c \<notin> ?D ty cut" if "c \<in> set bs" "bd_type c \<noteq> ty" for c ty cut
    using prune_by_age_typed(1) [OF d] described_inj [OF d _ that(1)] that(2) by blast
  show "\<exists>c\<in>set bs. bd_type c = bd_type b \<and> bd_path c \<notin> set (age_deletions rm now bs)"
  proof -
    let ?full = "now - rn_full_weeks rm * week" and ?custom = "now - rn_custom_weeks rm * week"
    have "\<exists>c\<in>set bs. bd_type c = bd_type b \<and> bd_path c \<notin> ?D ''full'' ?full \<union> ?D ''custom'' ?custom"
    proof (cases "bd_type b = ''full''")
      case True
      obtain c where "c \<in> set bs" "bd_type c = ''full''" "bd_path c \<notin> ?D ''full'' ?full"
        using prune_by_age_typed(2) [OF d b(1) True] by blast
      then show ?thesis using other [of c "''custom''"] True by auto
    next
      case False
      then have ty: "bd_type b = ''custom''" using b(2) by (simp add: known_type_def)
      obtain c where "c \<in> set bs" "bd_type c = ''custom''" "bd_path c \<notin> ?D ''custom'' ?custom"
        using prune_by_age_typed(2) [OF d b(1) ty] by blast
      then show ?thesis using other [of c "''full''"] ty by auto
    qed
    then show ?thesis unfolding age_deletions_set .
  qed
qed

lemma size_keeps_one:
  assumes "described F bs"
  shows "keeps_one bs (size_deletions rm bs)" and "distinct (size_deletions rm bs)"
    and "set (size_deletions rm bs) \<subseteq> bd_path ` set bs"
proof -
  have "distinct (map bd_path bs)" using assms by (simp add: described_def)
  from prune_by_size_inv [OF this, of "rn_max_bytes rm"] obtain pre rest where
    pre: "sort_key bd_mtime bs = pre @ rest" and inv: "size_inv (rn_max_bytes rm) bs pre (size_deletions rm bs)"
    unfolding size_deletions_def sizes_def by blast
  have "set pre \<subseteq> set bs" using pre by (metis Un_upper1 set_append set_sort)
  moreover have "set (size_deletions rm bs) \<subseteq> bd_path ` set pre" using inv by (simp add: size_inv_def)
  ultimately show "set (size_deletions rm bs) \<subseteq> bd_path ` set bs" by blast
  show "distinct (size_deletions rm bs)" using inv by (simp add: size_inv_def)
  show "keeps_one bs (size_deletions rm bs)"
    using inv by (fastforce simp: keeps_one_def size_inv_def of_type_def filter_empty_conv)
qed

section \<open>What the deletions leave\<close>

text \<open>
  The directory of archives as the manager sees it through \<open>IFsUtils\<close>: \<open>files s\<close> maps a file to
  its size and modification time. Reading changes nothing; deleting a file removes that file or,
  when it fails, possibly nothing. The other ports leave the files alone.
\<close>

locale archive_store =
  fixes rm :: "'s RetentionManager" and files :: "'s \<Rightarrow> path \<Rightarrow> (int \<times> datetime) option"
    and ok :: "'s \<Rightarrow> bool"
  assumes list_ok: "fs_list_files_recursive (rn_fs rm) (rn_base_path rm) ARCHIVE_PATTERN s = (Inr ps, s') \<Longrightarrow>
      ok s \<Longrightarrow> distinct ps \<and> set ps \<subseteq> dom (files s)"
    and list_frame: "frames (\<lambda>s. (ok s, files s)) (fs_list_files_recursive (rn_fs rm) p pat)"
    and mtime_ok: "fs_get_modification_time (rn_fs rm) p s = (Inr t, s') \<Longrightarrow> ok s \<Longrightarrow>
      files s p = Some (n, t') \<Longrightarrow> t = t'"
    and mtime_frame: "frames (\<lambda>s. (ok s, files s)) (fs_get_modification_time (rn_fs rm) p)"
    and size_ok: "fs_get_folder_size (rn_fs rm) p s = (Inr m, s') \<Longrightarrow> ok s \<Longrightarrow> files s p = Some (n, t) \<Longrightarrow> m = n"
    and size_frame: "frames (\<lambda>s. (ok s, files s)) (fs_get_folder_size (rn_fs rm) p)"
    and delete_ok: "fs_delete (rn_fs rm) p s = (Inr u, s') \<Longrightarrow> ok s \<Longrightarrow> p \<in> dom (files s) \<Longrightarrow>
      ok s' \<and> files s' = (files s)(p := None)"
    and delete_err: "fs_delete (rn_fs rm) p s = (Inl e, s') \<Longrightarrow> ok s \<Longrightarrow> p \<in> dom (files s) \<Longrightarrow>
      ok s' \<and> (files s' = files s \<or> files s' = (files s)(p := None))"
    and clock_frame: "frames (\<lambda>s. (ok s, files s)) (rt_now (rn_runtime rm))"
    and jobs_frame: "rn_job_repository rm = Some jr \<Longrightarrow> frames (\<lambda>s. (ok s, files s)) (jr_list_by_status jr st a b)"
    and set_order: "distinct ps \<Longrightarrow> distinct (rn_set_order rm ps) \<and> set (rn_set_order rm ps) = set ps"
begin

lemma quietD: "frames (\<lambda>s. (ok s, files s)) m \<Longrightarrow> m s = (x, s') \<Longrightarrow> ok s' = ok s \<and> files s' = files s"
  by (auto dest: framesD)

text \<open>The files \<open>F\<close>, less some of those in \<open>D\<close>.\<close>

definition shrunk :: "(path \<Rightarrow> (int \<times> datetime) option) \<Rightarrow> path set \<Rightarrow> 's \<Rightarrow> bool" where
  "shrunk F D s \<longleftrightarrow> ok s \<and> (\<exists>X\<subseteq>D. files s = F |` (- X))"

lemma delete_shrinks: "p \<in> D \<Longrightarrow> p \<in> dom F \<Longrightarrow> shrunk F D s \<Longrightarrow> p \<in> dom (files s) \<Longrightarrow>
    fs_delete (rn_fs rm) p s = (x, s') \<Longrightarrow> shrunk F D s'"
proof -
  assume a: "p \<in> D" "shrunk F D s" "p \<in> dom (files s)" "fs_delete (rn_fs rm) p s = (x, s')"
  then obtain X where X: "ok s" "X \<subseteq> D" "files s = F |` (- X)" by (auto simp: shrunk_def)
  have "ok s'" using a(3,4) X(1) delete_ok delete_err by (cases x) auto
  moreover have "files s' = files s \<or> files s' = (files s)(p := None)"
    using a(3,4) X(1) delete_ok delete_err by (cases x) auto
  moreover have "(F |` (- X))(p := None) = F |` (- insert p X)"
    by (auto simp: restrict_map_def fun_eq_iff)
  ultimately show "shrunk F D s'" using X a(1) unfolding shrunk_def
    by (metis insert_subset)
qed

text \<open>A deletion of a file still there is one step; the paths are distinct, so each is.\<close>

definition left :: "(path \<Rightarrow> (int \<times> datetime) option) \<Rightarrow> path set \<Rightarrow> path list \<Rightarrow> 's \<Rightarrow> bool" where
  "left F D ps s \<longleftrightarrow> shrunk F D s \<and> (\<forall>p\<in>set ps. files s p = F p)"

definition in_use_kept :: "(path \<Rightarrow> (int \<times> datetime) option) \<Rightarrow> BackupJob list \<Rightarrow> 's \<Rightarrow> bool" where
  "in_use_kept F jobs s \<longleftrightarrow> (\<forall>p. is_path_in_use p jobs \<longrightarrow> files s p = F p)"

lemma delete_one_run:
  assumes run: "delete_one rm jobs p acc s = (x, s')" and p: "p \<in> D" "p \<in> dom F" "p \<notin> set ps"
    and s: "left F D (p # ps) s" "in_use_kept F jobs s"
  shows "left F D ps s' \<and> in_use_kept F jobs s' \<and>
    (\<exists>acc'. x = Inr acc' \<and> dl_deleted_count acc' + int (length (dl_errors acc')) =
       dl_deleted_count acc + int (length (dl_errors acc)) + 1)"
proof (cases "is_path_in_use p jobs")
  case True
  then show ?thesis using run s by (auto simp: delete_one_def left_def)
next
  case False
  obtain y s1 where sz: "fs_get_folder_size (rn_fs rm) p s = (y, s1)" by force
  have s1: "ok s1 = ok s" "files s1 = files s" using quietD [OF size_frame sz] by simp_all
  have left1: "left F D (p # ps) s1" "in_use_kept F jobs s1"
    using s s1 by (simp_all add: left_def shrunk_def in_use_kept_def)
  show ?thesis
  proof (cases y)
    case (Inl e)
    then show ?thesis
      using run sz left1 False by (auto simp: delete_one_def run_simps left_def)
  next
    case (Inr n)
    obtain z s2 where del: "fs_delete (rn_fs rm) p s1 = (z, s2)" by force
    have dom: "p \<in> dom (files s1)" using left1(1) p(2) by (auto simp: left_def)
    have fs: "files s2 = files s1 \<or> files s2 = (files s1)(p := None)"
      using delete_ok [of p s1 _ s2] delete_err [of p s1 _ s2] del dom left1(1)
      by (cases z) (auto simp: left_def shrunk_def)
    have "shrunk F D s2"
      using delete_shrinks [OF p(1,2) _ dom del] left1(1) by (simp add: left_def)
    moreover have "\<forall>q\<in>set ps. files s2 q = F q" using fs left1(1) p(3) by (auto simp: left_def)
    moreover have "in_use_kept F jobs s2"
      using fs left1(2) False by (auto simp: in_use_kept_def)
    moreover have "s' = s2 \<and> (\<exists>acc'. x = Inr acc' \<and> dl_deleted_count acc' + int (length (dl_errors acc')) =
       dl_deleted_count acc + int (length (dl_errors acc)) + 1)"
      using run sz Inr del False by (cases z) (auto simp: delete_one_def run_simps)
    ultimately show ?thesis by (simp add: left_def)
  qed
qed

lemma delete_loop_run:
  "delete_loop rm jobs ps acc s = (x, s') \<Longrightarrow> set ps \<subseteq> D \<Longrightarrow> set ps \<subseteq> dom F \<Longrightarrow> distinct ps \<Longrightarrow>
   left F D ps s \<Longrightarrow> in_use_kept F jobs s \<Longrightarrow>
   shrunk F D s' \<and> in_use_kept F jobs s' \<and>
   (\<exists>acc'. x = Inr acc' \<and> dl_deleted_count acc' + int (length (dl_errors acc')) =
      dl_deleted_count acc + int (length (dl_errors acc)) + int (length ps))"
proof (induction ps arbitrary: acc s)
  case (Cons p ps)
  obtain y s1 where one: "delete_one rm jobs p acc s = (y, s1)" by force
  from delete_one_run [OF one, of D F ps] Cons.prems obtain acc1 where
    y: "y = Inr acc1" "dl_deleted_count acc1 + int (length (dl_errors acc1)) =
       dl_deleted_count acc + int (length (dl_errors acc)) + 1"
    and s1: "left F D ps s1" "in_use_kept F jobs s1" by auto
  have "delete_loop rm jobs ps acc1 s1 = (x, s')" using Cons.prems(1) one y(1) by (simp add: run_simps)
  from Cons.IH [OF this _ _ _ s1] Cons.prems y(2) show ?case by auto
qed (auto simp: left_def)

lemma execute_deletions_run:
  assumes run: "execute_deletions rm D s = (x, s')" and D: "distinct D" "set D \<subseteq> dom (files s)" "ok s"
  shows "shrunk (files s) (set D) s'"
    and "rn_job_repository rm = Some jr \<Longrightarrow> jr_list_by_status jr (Some JobStatus.RUNNING) 1 1000 s = (Inr jobs, s1) \<Longrightarrow>
      in_use_kept (files s) jobs s'"
    and "x = Inr r \<Longrightarrow> dl_deleted_count r + int (length (dl_errors r)) = int (length D)"
proof -
  have o: "distinct (rn_set_order rm D)" "set (rn_set_order rm D) = set D" using set_order [OF D(1)] by auto
  have len: "length (rn_set_order rm D) = length D" using o D(1) distinct_card by metis
  define lister where "lister = (case rn_job_repository rm of None \<Rightarrow> returnM []
            | Some jr \<Rightarrow> jr_list_by_status jr (Some JobStatus.RUNNING) 1 1000)"
  obtain y t where l: "lister s = (y, t)" by force
  have fr: "frames (\<lambda>s. (ok s, files s)) lister"
    using jobs_frame by (auto simp: lister_def frame_intros split: option.split)
  have t: "ok t" "files t = files s" using quietD [OF fr l] D(3) by simp_all
  have rest: "shrunk (files s) (set D) s' \<and> in_use_kept (files s) js s' \<and>
      (\<exists>acc'. x = Inr acc' \<and> dl_deleted_count acc' + int (length (dl_errors acc')) = int (length D))" if "y = Inr js" for js
  proof -
    have "delete_loop rm js (rn_set_order rm D) no_deletion t = (x, s')"
      using run l that by (simp add: execute_deletions_def lister_def [symmetric] run_simps)
    moreover have "left (files s) (set D) (rn_set_order rm D) t" "in_use_kept (files s) js t"
      using t by (auto simp: left_def shrunk_def in_use_kept_def intro!: exI [of _ "{}"])
    ultimately show ?thesis using delete_loop_run [of js "rn_set_order rm D"] o D(2) len
      by (fastforce simp: no_deletion_def)
  qed
  show "shrunk (files s) (set D) s'"
  proof (cases y)
    case (Inl e)
    then have "s' = t" using run l by (simp add: execute_deletions_def lister_def [symmetric] run_simps)
    then show ?thesis using t by (auto simp: shrunk_def intro!: exI [of _ "{}"])
  qed (use rest in blast)
  show "in_use_kept (files s) jobs s'"
    if "rn_job_repository rm = Some jr" "jr_list_by_status jr (Some JobStatus.RUNNING) 1 1000 s = (Inr jobs, s1)"
    using rest l that by (simp add: lister_def)
  show "dl_deleted_count r + int (length (dl_errors r)) = int (length D)" if "x = Inr r"
    using that rest run l by (cases y) (auto simp: execute_deletions_def lister_def [symmetric] run_simps)
qed

lemma descriptors_run:
  "mapM_list (build_backup_descriptor rm) ps s = (x, s') \<Longrightarrow> distinct ps \<Longrightarrow> set ps \<subseteq> dom (files s) \<Longrightarrow> ok s \<Longrightarrow>
   ok s' \<and> files s' = files s \<and> (\<forall>bs. x = Inr bs \<longrightarrow> map bd_path bs = ps \<and> described (files s) bs)"
proof (induction ps arbitrary: s x s')
  case Nil
  then show ?case by (auto simp: described_def)
next
  case (Cons p ps)
  obtain n t where F: "files s p = Some (n, t)" using Cons.prems(3) by auto
  have fr: "frames (\<lambda>s. (ok s, files s)) (build_backup_descriptor rm p)"
    unfolding build_backup_descriptor_def by (intro frame_intros mtime_frame size_frame)
  obtain y s1 where one: "build_backup_descriptor rm p s = (y, s1)" by force
  have s1: "ok s1" "files s1 = files s" using quietD [OF fr one] Cons.prems(4) by simp_all
  have b: "bd_path b = p \<and> bd_type b = classify_type p \<and> bd_size b = n \<and> bd_mtime b = t" if "y = Inr b" for b
    using one that mtime_ok [of p s _ _ n t] size_ok [of p _ _ _ n t] quietD [OF mtime_frame [of p]] F Cons.prems(4)
    by (auto simp: build_backup_descriptor_def bindM_eq_Inr)
  show ?case
  proof (cases y)
    case (Inl e)
    then show ?thesis using Cons.prems(1) one s1 by (auto simp: bindM_run)
  next
    case (Inr b0)
    obtain z s2 where rest: "mapM_list (build_backup_descriptor rm) ps s1 = (z, s2)" by force
    have IH: "ok s2 \<and> files s2 = files s \<and> (\<forall>bs. z = Inr bs \<longrightarrow> map bd_path bs = ps \<and> described (files s) bs)"
      using Cons.IH [OF rest] Cons.prems s1 by simp
    have "s' = s2 \<and> (\<forall>bs. x = Inr bs \<longrightarrow> (\<exists>bs'. z = Inr bs' \<and> bs = b0 # bs'))"
      using Cons.prems(1) one Inr rest by (cases z) (auto simp: bindM_run)
    then show ?thesis using IH b [OF Inr] F Cons.prems(2) by (auto simp: described_def)
  qed
qed

text \<open>What either policy does to the files.\<close>

definition pruned :: "(path \<Rightarrow> (int \<times> datetime) option) \<Rightarrow> (backup_descriptor list \<Rightarrow> path list \<Rightarrow> bool) \<Rightarrow> 's \<Rightarrow> bool" where
  "pruned F R s \<longleftrightarrow> ok s \<and> files s = F \<or> (\<exists>bs D. described F bs \<and> R bs D \<and> keeps_one bs D \<and>
     set D \<subseteq> bd_path ` set bs \<and> shrunk F (set D) s)"

lemma cleanup_run:
  assumes run: "cleanup_old_backups rm s = (x, s')" and s: "ok s"
  shows "pruned (files s) (\<lambda>bs D. \<exists>now t t'. rt_now (rn_runtime rm) t = (Inr now, t') \<and> D = age_deletions rm now bs) s'"
proof -
  obtain y s1 where l: "fs_list_files_recursive (rn_fs rm) (rn_base_path rm) ARCHIVE_PATTERN s = (y, s1)" by force
  have s1: "ok s1" "files s1 = files s" using quietD [OF list_frame l] s by simp_all
  show ?thesis
  proof (cases "\<exists>ps. y = Inr ps \<and> ps \<noteq> []")
    case False
    then have "s' = s1" using run l by (auto simp: cleanup_old_backups_def run_simps split: sum.splits)
    then show ?thesis using s1 by (simp add: pruned_def)
  next
    case True
    then obtain ps where ps: "y = Inr ps" "ps \<noteq> []" by blast
    have lst: "distinct ps" "set ps \<subseteq> dom (files s)" using list_ok l ps s by blast+
    obtain n s2 where now: "rt_now (rn_runtime rm) s1 = (n, s2)" by force
    have s2: "ok s2" "files s2 = files s" using quietD [OF clock_frame now] s1 by simp_all
    obtain z s3 where bs: "mapM_list (build_backup_descriptor rm) ps s2 = (z, s3)" by force
    have s3: "ok s3 \<and> files s3 = files s" "\<And>bs. z = Inr bs \<Longrightarrow> described (files s) bs"
      using descriptors_run [OF bs] lst s2 by simp_all
    show ?thesis
    proof (cases "\<exists>t bs. n = Inr t \<and> z = Inr bs")
      case False
      then have "ok s' \<and> files s' = files s"
        using run l ps now bs s2 s3(1) by (auto simp: cleanup_old_backups_def run_simps split: sum.splits)
      then show ?thesis by (simp add: pruned_def)
    next
      case True
      then obtain t bs' where tb: "n = Inr t" "z = Inr bs'" by blast
      have d: "described (files s) bs'" using s3(2) tb(2) .
      let ?D = "age_deletions rm t bs'"
      have ex: "execute_deletions rm ?D s3 = (x, s')"
        using run l ps now bs tb by (simp add: cleanup_old_backups_def run_simps)
      have sub: "set ?D \<subseteq> bd_path ` set bs'" using age_deletions_expired [OF d] by blast
      have "set ?D \<subseteq> dom (files s3)" using sub d s3(1) by (force simp: described_def)
      then have "shrunk (files s) (set ?D) s'"
        using execute_deletions_run(1) [OF ex distinct_age_deletions] s3(1) by simp
      then show ?thesis unfolding pruned_def using d age_keeps_one [OF d] sub now tb(1) by blast
    qed
  qed
qed

lemma enforce_run:
  assumes run: "enforce_max_storage rm s = (x, s')" and s: "ok s"
  shows "pruned (files s) (\<lambda>bs D. D = size_deletions rm bs) s'"
proof -
  obtain y s1 where l: "fs_list_files_recursive (rn_fs rm) (rn_base_path rm) ARCHIVE_PATTERN s = (y, s1)" by force
  have s1: "ok s1" "files s1 = files s" using quietD [OF list_frame l] s by simp_all
  show ?thesis
  proof (cases "\<exists>ps. y = Inr ps \<and> ps \<noteq> []")
    case False
    then have "s' = s1" using run l by (auto simp: enforce_max_storage_def run_simps split: sum.splits)
    then show ?thesis using s1 by (simp add: pruned_def)
  next
    case True
    then obtain ps where ps: "y = Inr ps" "ps \<noteq> []" by blast
    have lst: "distinct ps" "set ps \<subseteq> dom (files s)" using list_ok l ps s by blast+
    obtain z s3 where bs: "mapM_list (build_backup_descriptor rm) ps s1 = (z, s3)" by force
    have s3: "ok s3 \<and> files s3 = files s" "\<And>bs. z = Inr bs \<Longrightarrow> described (files s) bs"
      using descriptors_run [OF bs] lst s1 by simp_all
    show ?thesis
    proof (cases "\<exists>bs. z = Inr bs \<and> \<not> sum_list (map bd_size bs) \<le> rn_max_bytes rm")
      case False
      then have "ok s' \<and> files s' = files s"
        using run l ps bs s3(1) by (auto simp: enforce_max_storage_def run_simps split: sum.splits)
      then show ?thesis by (simp add: pruned_def)
    next
      case True
      then obtain bs' where tb: "z = Inr bs'" "\<not> sum_list (map bd_size bs') \<le> rn_max_bytes rm" by blast
      have d: "described (files s) bs'" using s3(2) tb(1) .
      let ?D = "size_deletions rm bs'"
      have ex: "execute_deletions rm ?D s3 = (x, s')"
        using run l ps bs tb by (simp add: enforce_max_storage_def run_simps)
      have "set ?D \<subseteq> dom (files s3)" using size_keeps_one(3) [OF d] d s3(1) by (force simp: described_def)
      then have "shrunk (files s) (set ?D) s'"
        using execute_deletions_run(1) [OF ex size_keeps_one(2) [OF d]] s3(1) by simp
      then show ?thesis unfolding pruned_def using d size_keeps_one [OF d] by blast
    qed
  qed
qed

text \<open>A pruned directory has an archive of every known type it had one of.\<close>

lemma pruned_survives:
  assumes "pruned F R s" "known_type ty" "F p \<noteq> None" "classify_type p = ty"
  shows "\<exists>q. files s q \<noteq> None \<and> classify_type q = ty"
proof (cases "ok s \<and> files s = F")
  case True
  then show ?thesis using assms by auto
next
  case False
  then obtain bs D X where d: "described F bs" "keeps_one bs D" "set D \<subseteq> bd_path ` set bs"
    and X: "X \<subseteq> set D" "files s = F |` (- X)"
    using assms(1) by (auto simp: pruned_def shrunk_def)
  show ?thesis
  proof (cases "p \<in> set D")
    case True
    then obtain b where b: "b \<in> set bs" "bd_path b = p" using d(3) by auto
    then have "bd_type b = ty" using d(1) assms(4) by (simp add: described_def)
    then obtain c where c: "c \<in> set bs" "bd_type c = ty" "bd_path c \<notin> set D"
      using d(2) b(1) assms(2) by (auto simp: keeps_one_def)
    then have "files s (bd_path c) \<noteq> None" "classify_type (bd_path c) = ty"
      using d(1) X by (auto simp: described_def restrict_map_def)
    then show ?thesis by blast
  next
    case False
    then have "files s p \<noteq> None" using X assms(3) by (auto simp: restrict_map_def)
    then show ?thesis using assms(4) by blast
  qed
qed

lemma policy_survives:
  assumes run: "RetentionManager_apply_policy rm s = (x, s')" and s: "ok s"
    and p: "known_type ty" "files s p \<noteq> None" "classify_type p = ty"
  shows "\<exists>q. files s' q \<noteq> None \<and> classify_type q = ty"
proof -
  obtain y s1 where c: "cleanup_old_backups rm s = (y, s1)" by force
  obtain q where q: "files s1 q \<noteq> None" "classify_type q = ty"
    using pruned_survives [OF cleanup_run [OF c s] p] by blast
  have ok1: "ok s1" using cleanup_run [OF c s] by (auto simp: pruned_def shrunk_def)
  obtain z s2 where e: "enforce_max_storage rm s1 = (z, s2)" by force
  have "s' = s1 \<or> s' = s2"
    using run c e by (auto simp: RetentionManager_apply_policy_def run_simps split: sum.splits)
  then show ?thesis using q pruned_survives [OF enforce_run [OF e ok1] p(1) q] by blast
qed

end

section \<open>The contract holds for the file-system adapter\<close>

text \<open>A manager over \<open>AioFsUtils\<close> on a file system alone, without a job repository.\<close>

definition file_runtime :: "file_system Runtime" where
  "file_runtime =
     \<lparr>rt_now = (\<lambda>fs. (Inr (vf_clock fs), fs)), rt_monotonic = (\<lambda>fs. (Inr (vf_clock fs), fs)),
      rt_uuid_hex = returnM [], rt_uuid_str = returnM [], rt_sleep_ms = (\<lambda>n. returnM ())\<rparr>"

definition file_manager :: "path \<Rightarrow> int \<Rightarrow> int \<Rightarrow> int \<Rightarrow> file_system RetentionManager" where
  "file_manager base full_weeks custom_weeks max_gb =
     mk_RetentionManager (AioFsUtils \<lparr>au_base_path = Some base, au_gzip_size = (\<lambda>n. n)\<rparr>) base
       full_weeks custom_weeks max_gb None file_runtime (\<lambda>ps. ps)"

lemma AioFsUtils_reads:
  "snd (AioFsUtils_list_files_recursive au p pat fs) = fs" "snd (AioFsUtils_get_modification_time au p fs) = fs"
  "snd (AioFsUtils_get_folder_size au p fs) = fs"
proof -
  obtain v fs1 where v: "AioFsUtils_validate_path au p fs = (v, fs1)" by force
  then have "fs1 = fs" by (rule validate_path_run(1))
  then show "snd (AioFsUtils_list_files_recursive au p pat fs) = fs"
    "snd (AioFsUtils_get_modification_time au p fs) = fs" "snd (AioFsUtils_get_folder_size au p fs) = fs"
    using v by (auto simp: AioFsUtils_list_files_recursive_def AioFsUtils_get_modification_time_def
        AioFsUtils_get_folder_size_def run_simps split: sum.split prod.split)
qed

lemma read_archive_plain:
  assumes "plain fs" "au_base_path au = Some b" "canonical b" "p \<in> dom (archives b fs)"
  shows "AioFsUtils_get_folder_size au p fs = (Inr (fst (the (archives b fs p))), fs)"
    and "AioFsUtils_get_modification_time au p fs = (Inr (snd (the (archives b fs p))), fs)"
proof -
  obtain nd where e: "p \<noteq> [''/'']" "p \<noteq> []" "butlast p = b" "entry fs p = Some nd"
    using assms(4) by (auto simp: archives_dom)
  then have c: "canonical p" using plain_entry [OF assms(1)] by blast
  have "prefix b p" using e(3) prefixeq_butlast by metis
  note v = validate_plain [OF assms(1) c assms(2,3) this]
  show "AioFsUtils_get_folder_size au p fs = (Inr (fst (the (archives b fs p))), fs)"
    "AioFsUtils_get_modification_time au p fs = (Inr (snd (the (archives b fs p))), fs)"
    using e v stat_plain [OF assms(1) c]
    by (simp_all add: AioFsUtils_get_folder_size_def AioFsUtils_get_modification_time_def run_simps archives_def)
qed

lemma pattern_flat: "\<not> starts_with ARCHIVE_PATTERN ''**/''"
  by code_simp

interpretation files: archive_store "file_manager base fw cw gb" "archives base"
  "\<lambda>fs. plain fs \<and> canonical base" for base fw cw gb
proof
  note defs = file_manager_def mk_RetentionManager_def AioFsUtils_def file_runtime_def
  let ?au = "\<lparr>au_base_path = Some base, au_gzip_size = (\<lambda>n. n)\<rparr> :: AioFsUtils"
  note au = AioFsUtils.select_convs(1) [of "Some base" "\<lambda>n. n"]
  note reads = AioFsUtils_reads [of ?au]
  have fr: "frames view m" if "\<And>s. snd (m s) = s" for view :: "file_system \<Rightarrow> 'v" and m :: "(file_system, 'b) M"
    using that by (simp add: frames_def)
  show "distinct ps \<and> set ps \<subseteq> dom (archives base fs)"
    if "fs_list_files_recursive (rn_fs (file_manager base fw cw gb)) (rn_base_path (file_manager base fw cw gb)) ARCHIVE_PATTERN fs = (Inr ps, fs')"
      "plain fs \<and> canonical base" for fs fs' ps
    using that glob_plain [of fs base, OF _ _ pattern_flat] validate_plain [of fs base ?au base]
    by (auto simp: defs AioFsUtils_list_files_recursive_def run_simps split: if_splits)
  show "frames (\<lambda>s. (plain s \<and> canonical base, archives base s)) (fs_list_files_recursive (rn_fs (file_manager base fw cw gb)) p pat)" for p pat
    by (simp add: defs frames_def reads)
  show "t = t'" if "fs_get_modification_time (rn_fs (file_manager base fw cw gb)) p fs = (Inr t, fs')"
      "plain fs \<and> canonical base" "archives base fs p = Some (n, t')" for p fs t fs' n t'
    using that read_archive_plain(2) [of fs ?au base p] by (auto simp: defs)
  show "m = n" if "fs_get_folder_size (rn_fs (file_manager base fw cw gb)) p fs = (Inr m, fs')"
      "plain fs \<and> canonical base" "archives base fs p = Some (n, t)" for p fs m fs' n t
    using that read_archive_plain(1) [of fs ?au base p] by (auto simp: defs)
  show "frames (\<lambda>s. (plain s \<and> canonical base, archives base s)) (fs_get_modification_time (rn_fs (file_manager base fw cw gb)) p)" for p
    by (simp add: defs frames_def reads)
  show "frames (\<lambda>s. (plain s \<and> canonical base, archives base s)) (fs_get_folder_size (rn_fs (file_manager base fw cw gb)) p)" for p
    by (simp add: defs frames_def reads)
  show "(plain fs' \<and> canonical base) \<and> archives base fs' = (archives base fs)(p := None)"
    if "fs_delete (rn_fs (file_manager base fw cw gb)) p fs = (Inr u, fs')" "plain fs \<and> canonical base"
      "p \<in> dom (archives base fs)" for p fs u fs'
    using that delete_plain [of fs ?au base p] remove_tree_plain [of fs p] by (auto simp: defs)
  show "(plain fs' \<and> canonical base) \<and> (archives base fs' = archives base fs \<or> archives base fs' = (archives base fs)(p := None))"
    if "fs_delete (rn_fs (file_manager base fw cw gb)) p fs = (Inl e, fs')" "plain fs \<and> canonical base"
      "p \<in> dom (archives base fs)" for p fs e fs'
    using that delete_plain [of fs ?au base p] by (auto simp: defs)
qed (simp_all add: file_manager_def mk_RetentionManager_def file_runtime_def frames_def)

section \<open>Properties\<close>

text \<open>The age rule, exactly: of a list sorted by age with distinct paths it picks the oldest
  archives, as many as are older than the cutoff but never so many that fewer than
  \<open>minimum_keep\<close> are left.\<close>

lemma prune_by_age_exact:
  assumes "sorted (map bd_mtime bs)" "distinct (map bd_path bs)"
  shows "prune_by_age bs cutoff minimum_keep =
    map bd_path (take (min (length (filter (\<lambda>b. bd_mtime b < cutoff) bs)) (length bs - minimum_keep)) bs)"
  using assms by (rule prune_by_age_eq)

definition sample_backups :: "backup_descriptor list" where
  "sample_backups = map (\<lambda>(n, ty, t, sz). \<lparr>bd_path = [''/'', ''b'', n], bd_type = ty, bd_mtime = t, bd_size = sz\<rparr>)
     [(''x1'', ''full'', 10, 5), (''x2'', ''custom'', 20, 5), (''x3'', ''full'', 30, 5), (''x4'', ''unknown'', 40, 5)]"

lemma prune_by_age_exact_witness:
  "prune_by_age sample_backups 35 2 = [[''/'', ''b'', ''x1''], [''/'', ''b'', ''x2'']]"
  by (subst prune_by_age_exact) (code_simp, code_simp, code_simp)

text \<open>The size rule. The archives are taken from the oldest on: there is a point \<open>pre\<close> in the order
  of age such that nothing after it is picked and what is kept before it is the last archive of its
  type; the rule stops there because the list is finished or the rest fits the cap. Every type
  (\<open>full\<close>, \<open>custom\<close>) that had an archive keeps one, and the cap was still exceeded when the last
  pick was made.\<close>

lemma prune_by_size_oldest_first:
  assumes "distinct (map bd_path bs)"
    and "D = prune_by_size bs (sum_list (map bd_size bs)) max_size
      (filter (\<lambda>b. bd_type b = ''full'') bs) (filter (\<lambda>b. bd_type b = ''custom'') bs)"
  shows "\<exists>pre rest. sort_key bd_mtime bs = pre @ rest \<and> distinct D \<and> set D \<subseteq> bd_path ` set pre \<and>
    (\<forall>b\<in>set pre. bd_path b \<notin> set D \<longrightarrow> bd_type b \<in> {''full'', ''custom''} \<and>
       filter (\<lambda>c. bd_type c = bd_type b \<and> bd_path c \<notin> set D) bs = [b]) \<and>
    (rest = [] \<or> sum_list (map bd_size (filter (\<lambda>b. bd_path b \<notin> set D) bs)) \<le> max_size) \<and>
    (\<forall>b\<in>set bs. bd_type b \<in> {''full'', ''custom''} \<longrightarrow>
       (\<exists>c\<in>set bs. bd_type c = bd_type b \<and> bd_path c \<notin> set D)) \<and>
    (\<forall>D0 p. D = D0 @ [p] \<longrightarrow>
       max_size < sum_list (map bd_size (filter (\<lambda>b. bd_path b \<notin> set D0) bs)))"
proof -
  obtain pre rest where s: "sort_key bd_mtime bs = pre @ rest" and inv: "size_inv max_size bs pre D"
    and r: "rest = [] \<or> sizes (remaining bs D) \<le> max_size"
    using prune_by_size_inv [OF assms(1), of max_size] assms(2) unfolding sizes_def by blast
  have keep: "\<exists>c\<in>set bs. bd_type c = bd_type b \<and> bd_path c \<notin> set D"
    if "b \<in> set bs" "bd_type b \<in> {''full'', ''custom''}" for b
  proof -
    have "of_type (bd_type b) bs [] \<noteq> []" using that(1) by (auto simp: of_type_def filter_empty_conv)
    then have "of_type (bd_type b) bs D \<noteq> []" using inv that(2) by (auto simp: size_inv_def known_type_def)
    then show ?thesis by (auto simp: of_type_def filter_empty_conv)
  qed
  show ?thesis
    using s inv r keep
    by (intro exI [of _ pre] exI [of _ rest]) (simp add: size_inv_def known_type_def of_type_def remaining_def sizes_def)
qed

lemma prune_by_size_oldest_first_witness:
  "\<exists>pre rest. sort_key bd_mtime sample_backups = pre @ rest \<and>
     prune_by_size sample_backups 20 12 (filter (\<lambda>b. bd_type b = ''full'') sample_backups)
       (filter (\<lambda>b. bd_type b = ''custom'') sample_backups) = [[''/'', ''b'', ''x1''], [''/'', ''b'', ''x4'']] \<and>
     set [[''/'', ''b'', ''x1''], [''/'', ''b'', ''x4'']] \<subseteq> bd_path ` set pre"
proof -
  have d: "distinct (map bd_path sample_backups)" by code_simp
  have D: "[[''/'', ''b'', ''x1''], [''/'', ''b'', ''x4'']] = prune_by_size sample_backups (sum_list (map bd_size sample_backups)) 12
      (filter (\<lambda>b. bd_type b = ''full'') sample_backups) (filter (\<lambda>b. bd_type b = ''custom'') sample_backups)"
    by code_simp
  have s: "sum_list (map bd_size sample_backups) = 20" by code_simp
  show ?thesis using prune_by_size_oldest_first [OF d D] D s by metis
qed

text \<open>C23. Retention never takes the last backup: if the directory held a full (or custom) archive,
  then it holds one after \<open>apply_policy\<close>, however old the archives were, however small the cap, and
  whether the run finished or raised in the middle.\<close>

theorem retention_keeps_one:
  assumes "archive_store rm files ok" "ok s"
    and "RetentionManager_apply_policy rm s = (x, s')"
    and "ty \<in> {''full'', ''custom''}" "files s p \<noteq> None" "classify_type p = ty"
  shows "\<exists>q. files s' q \<noteq> None \<and> classify_type q = ty"
  using archive_store.policy_survives [OF assms(1,3,2)] assms(4-6) by (auto simp: known_type_def)

text \<open>Two expired full archives, one custom one and an archive out of reach in a sub-directory.\<close>

definition archive_fs :: file_system where
  "archive_fs = \<lparr>vf_nodes = [([''/'', ''b''], Directory 0),
      ([''/'', ''b'', ''backup_full_1.tar.gz''], File 10 100), ([''/'', ''b'', ''backup_full_2.tar.gz''], File 10 200),
      ([''/'', ''b'', ''backup_custom_1.tar.gz''], File 10 50), ([''/'', ''b'', ''full''], Directory 0),
      ([''/'', ''b'', ''full'', ''backup_x.tar.gz''], File 10 1)],
    vf_cwd = [''/''], vf_volume = (100, 50, 50), vf_clock = 10000000000000\<rparr>"

definition archive_manager :: "file_system RetentionManager" where
  "archive_manager = file_manager [''/'', ''b''] 4 4 1"

lemma archive_fs_ok: "plain archive_fs \<and> canonical [''/'', ''b'']"
  by (simp add: archive_fs_def plain_def canonical_def is_absolute_def)

lemma archive_manager_store:
  "archive_store archive_manager (archives [''/'', ''b'']) (\<lambda>fs. plain fs \<and> canonical [''/'', ''b''])"
  unfolding archive_manager_def by (rule files.archive_store_axioms)

lemma archive_run:
  "fst (RetentionManager_apply_policy archive_manager archive_fs) =
     Inr \<lparr>dl_deleted_count = 1, dl_reclaimed_bytes = 10, dl_errors = []\<rparr>"
  by code_simp

lemma retention_keeps_one_witness:
  "\<exists>s' q. RetentionManager_apply_policy archive_manager archive_fs =
       (Inr \<lparr>dl_deleted_count = 1, dl_reclaimed_bytes = 10, dl_errors = []\<rparr>, s') \<and>
     archives [''/'', ''b''] s' q \<noteq> None \<and> classify_type q = ''full''"
proof -
  obtain s' where run: "RetentionManager_apply_policy archive_manager archive_fs =
      (Inr \<lparr>dl_deleted_count = 1, dl_reclaimed_bytes = 10, dl_errors = []\<rparr>, s')"
    using archive_run by (metis prod.collapse)
  have f: "archives [''/'', ''b''] archive_fs [''/'', ''b'', ''backup_full_1.tar.gz''] \<noteq> None"
    and c: "classify_type [''/'', ''b'', ''backup_full_1.tar.gz''] = ''full''" by code_simp+
  note keep = retention_keeps_one [OF archive_manager_store]
  show ?thesis using keep [OF archive_fs_ok run _ f c] run by blast
qed

end
