(* ===== verification/Engine.thy ===== *)
theory Engine
  imports Files
begin

text \<open>
  \<^verbatim>\<open>app/infrastructure/backup/mongodump_engine.py\<close>, the adapter of \<open>IBackupEngine\<close> that runs the
  \<^verbatim>\<open>mongodump\<close> program, and \<^verbatim>\<open>app/infrastructure/backup/compressor.py\<close>. What they ask of the
  operating system (temporary files, processes, \<open>PATH\<close>), of \<open>pymongo\<close> and of \<open>tarfile\<close> are the
  records \<open>dump_host\<close> and \<open>tar_host\<close>: parameters, with the locale \<open>temp_files\<close> for the promise
  about temporary files the adapter relies on.
\<close>

section \<open>The host\<close>

record 's dump_host =
  mh_which :: "string \<Rightarrow> ('s, string option) M" \<comment> \<open>\<open>shutil.which\<close>\<close>
  mh_is_file :: "string \<Rightarrow> ('s, bool) M" \<comment> \<open>exists and is a regular file\<close>
  mh_resolve :: "string \<Rightarrow> ('s, string) M"
  mh_create_temp :: "('s, string) M" \<comment> \<open>opens a fresh file and returns its name\<close>
  mh_write_temp :: "string \<Rightarrow> string \<Rightarrow> ('s, unit) M"
  mh_close_temp :: "string \<Rightarrow> ('s, unit) M"
  mh_unlink :: "string \<Rightarrow> ('s, unit) M"
  mh_spawn :: "string list \<Rightarrow> ('s, int) M" \<comment> \<open>the process started\<close>
  mh_drain :: "int \<Rightarrow> int \<Rightarrow> ('s, string \<times> string) M"
    \<comment> \<open>process, seconds: both streams to their end and the exit, or \<open>TimeoutError\<close>\<close>
  mh_communicate :: "int \<Rightarrow> ('s, string \<times> string) M"
  mh_kill :: "int \<Rightarrow> ('s, unit) M"
  mh_wait :: "int \<Rightarrow> ('s, unit) M"
  mh_returncode :: "int \<Rightarrow> ('s, int) M"
  mh_exists :: "path \<Rightarrow> ('s, bool) M"
  mh_size :: "path \<Rightarrow> ('s, int) M"
  mh_mongo_connect :: "string \<Rightarrow> ('s, unit) M" \<comment> \<open>\<open>pymongo.MongoClient(uri)\<close>\<close>
  mh_mongo_ping :: "('s, unit) M"
  mh_mongo_close :: "('s, unit) M"

record MongodumpBackupEngine =
  me_uri :: string
  me_dump_timeout :: int \<comment> \<open>whole seconds\<close>
  me_mongodump_path :: "string option"

definition resolve_binary :: "'s dump_host \<Rightarrow> MongodumpBackupEngine \<Rightarrow> ('s, string option) M" where
  "resolve_binary h eng =
     (case me_mongodump_path eng of
        Some configured \<Rightarrow>
          bindM (mh_is_file h configured) (\<lambda>ok.
          if ok then bindM (mh_resolve h configured) (\<lambda>p. returnM (Some p)) else returnM None)
      | None \<Rightarrow> mh_which h ''mongodump'')"

section \<open>Names\<close>

definition FORBIDDEN_CHARS :: string where
  "FORBIDDEN_CHARS = [CHR 0x2F, CHR 0x5C, CHR 0x2E, CHR 0x22, CHR 0x2A, CHR 0x3C, CHR 0x3E, CHR 0x3A,
     CHR 0x7C, CHR 0x3F, CHR 0x24, CHR 0x00]"

definition MAX_DB_NAME_LENGTH :: nat where "MAX_DB_NAME_LENGTH = 64"
definition MAX_COLLECTION_NAME_LENGTH :: nat where "MAX_COLLECTION_NAME_LENGTH = 255"

definition validate_name :: "string \<Rightarrow> string \<Rightarrow> ('s, unit) M" where
  "validate_name name kind =
     (if name = [] then raise_domain BackupEngineError (kind @ '' name cannot be empty'')
          [(''kind'', PStr kind), (''name'', PStr name)]
      else if (if kind = ''database'' then MAX_DB_NAME_LENGTH else MAX_COLLECTION_NAME_LENGTH) < utf8_length name
      then raise_domain BackupEngineError (kind @ '' name exceeds maximum length'')
          [(''kind'', PStr kind), (''name'', PStr name), (''max_bytes'', PInt (int MAX_DB_NAME_LENGTH))]
      else (case find (\<lambda>c. c \<in> set name) FORBIDDEN_CHARS of
        Some c \<Rightarrow> raise_domain BackupEngineError (kind @ '' name contains forbidden character'')
          [(''kind'', PStr kind), (''name'', PStr name), (''forbidden_char'', PStr [c])]
      | None \<Rightarrow>
          if starts_with (lower name) ''system.''
          then raise_domain BackupEngineError (kind @ '' name cannot start with '' @ [CHR 0x27] @ ''system.'' @ [CHR 0x27])
            [(''kind'', PStr kind), (''name'', PStr name)]
          else returnM ()))"

section \<open>One dump\<close>

definition dump_command :: "MongodumpBackupEngine \<Rightarrow> string \<Rightarrow> string \<Rightarrow> string \<Rightarrow> string \<Rightarrow> path \<Rightarrow> string list" where
  "dump_command eng binary config_path database collection output_path =
     [binary, ''--config='' @ config_path, ''--db='' @ database, ''--collection='' @ collection,
      ''--out='' @ path_str output_path] @
     (if starts_with (me_uri eng) ''mongodb+srv://'' \<or> has_substring (me_uri eng) ''tls=true'' \<or>
         has_substring (me_uri eng) ''ssl=true'' then [''--ssl''] else [])"

definition MIN_VALID_DUMP_SIZE :: int where "MIN_VALID_DUMP_SIZE = 0"

definition validate_dump_file :: "'s dump_host \<Rightarrow> path \<Rightarrow> string \<Rightarrow> string \<Rightarrow> ('s, int) M" where
  "validate_dump_file h dump_file database collection =
     bindM (mh_exists h dump_file) (\<lambda>ex.
     if \<not> ex then raise_domain BackupEngineError (''Dump file missing for '' @ database @ ''.'' @ collection)
         [(''database'', PStr database), (''collection'', PStr collection),
          (''expected_path'', PStr (path_str dump_file))]
     else bindM (mh_size h dump_file) (\<lambda>size_bytes.
       if size_bytes < MIN_VALID_DUMP_SIZE
       then raise_domain BackupEngineError (''Dump file empty for '' @ database @ ''.'' @ collection)
         [(''database'', PStr database), (''collection'', PStr collection),
          (''path'', PStr (path_str dump_file)), (''size_bytes'', PInt size_bytes)]
       else returnM size_bytes))"

definition is_TimeoutError :: "exn \<Rightarrow> bool" where
  "is_TimeoutError e = (case e of TimeoutError _ \<Rightarrow> True | _ \<Rightarrow> False)"

text \<open>The part of the \<open>try\<close> block after the configuration file was closed.\<close>

definition run_dump ::
  "'s dump_host \<Rightarrow> MongodumpBackupEngine \<Rightarrow> string \<Rightarrow> string \<Rightarrow> string \<Rightarrow> string \<Rightarrow> path \<Rightarrow>
   ('s, CollectionTarget) M" where
  "run_dump h eng binary config_path database collection output_path =
     bindM (mh_spawn h (dump_command eng binary config_path database collection output_path)) (\<lambda>proc.
     bindM (tryM (mh_drain h proc (me_dump_timeout eng))
              (\<lambda>e. if is_TimeoutError e
                 then thenM (mh_kill h proc) (thenM (mh_wait h proc)
                   (raise_domain BackupEngineError
                      (''mongodump timed out after '' @ str_int (me_dump_timeout eng) @ ''.0s for '' @
                        database @ ''.'' @ collection)
                      [(''database'', PStr database), (''collection'', PStr collection),
                       (''timeout_seconds'', PInt (me_dump_timeout eng))]))
                 else raiseM e)) (\<lambda>(stdout_data, stderr_data).
     bindM (mh_returncode h proc) (\<lambda>returncode.
     thenM (whenM (returncode \<noteq> 0)
              (raise_domain BackupEngineError (''mongodump failed for '' @ database @ ''.'' @ collection)
                 [(''database'', PStr database), (''collection'', PStr collection),
                  (''returncode'', PInt returncode), (''stderr'', PStr (py_strip stderr_data))]))
    (bindM (validate_dump_file h (path_div (path_div output_path database) (collection @ ''.bson''))
              database collection) (\<lambda>size_bytes.
     liftE (mk_CollectionTarget database collection CollectionBackupStatus.SUCCESS (Some size_bytes) None))))))"

text \<open>\<open>with suppress(OSError): os.unlink(config_path)\<close>\<close>

definition unlink_suppressed :: "'s dump_host \<Rightarrow> string \<Rightarrow> ('s, unit) M" where
  "unlink_suppressed h name =
     tryM (mh_unlink h name) (\<lambda>e. if is_OSError e then returnM () else raiseM e)"

text \<open>
  \<open>config_path\<close> is set after the text was written, so a failing write leaves the \<open>finally\<close>
  block nothing to remove; leaving the \<open>with\<close> block closes the file in any case.
\<close>

definition MongodumpBackupEngine_backup_collection ::
  "'s dump_host \<Rightarrow> MongodumpBackupEngine \<Rightarrow> string \<Rightarrow> string \<Rightarrow> path \<Rightarrow> ('s, CollectionTarget) M" where
  "MongodumpBackupEngine_backup_collection h eng database collection output_path =
     bindM (resolve_binary h eng) (\<lambda>resolved.
     case resolved of
       None \<Rightarrow> raise_domain BackupEngineError ''mongodump binary not found''
                 [(''configured_path'', opt_str (me_mongodump_path eng))]
     | Some binary \<Rightarrow>
         thenM (validate_name database ''database'')
        (thenM (validate_name collection ''collection'')
        (bindM (mh_create_temp h) (\<lambda>name.
         thenM (tryM (mh_write_temp h name (''uri: '' @ py_repr (me_uri eng) @ newline))
                  (\<lambda>e. thenM (mh_close_temp h name) (raiseM e)))
               (finallyM (thenM (mh_close_temp h name)
                            (run_dump h eng binary name database collection output_path))
                         (unlink_suppressed h name))))))"

section \<open>Version and connection\<close>

definition MongodumpBackupEngine_get_version :: "'s dump_host \<Rightarrow> ('s, string) M" where
  "MongodumpBackupEngine_get_version h =
     bindM (mh_which h ''mongodump'') (\<lambda>found.
     if \<not> truthy found then returnM ''unknown''
     else bindM (mh_spawn h [''mongodump'', ''--version'']) (\<lambda>proc.
          bindM (mh_communicate h proc) (\<lambda>(stdout, _).
          bindM (mh_returncode h proc) (\<lambda>returncode.
          if returncode \<noteq> 0 then returnM ''unknown''
          else if stdout = [] then raiseM (OtherException ''IndexError'' ''list index out of range'')
          else returnM (py_strip (takeWhile (\<lambda>c. \<not> is_line_break c) stdout))))))"

definition is_PyMongoError :: "exn \<Rightarrow> bool" where
  "is_PyMongoError e = (case e of OtherException c _ \<Rightarrow> c = ''PyMongoError'' | _ \<Rightarrow> False)"

definition MongodumpBackupEngine_validate_connection ::
  "'s dump_host \<Rightarrow> MongodumpBackupEngine \<Rightarrow> string \<Rightarrow> ('s, bool) M" where
  "MongodumpBackupEngine_validate_connection h eng cluster_uri_hash =
     bindM (tryM (thenM (mh_mongo_connect h (me_uri eng)) (returnM True))
              (\<lambda>e. if is_PyMongoError e then returnM False else raiseM e)) (\<lambda>opened.
     if \<not> opened then returnM False
     else finallyM (tryM (thenM (mh_mongo_ping h) (returnM True))
                      (\<lambda>e. if is_PyMongoError e then returnM False else raiseM e))
                   (mh_mongo_close h))"

definition MongodumpBackupEngine :: "'s dump_host \<Rightarrow> MongodumpBackupEngine \<Rightarrow> 's IBackupEngine" where
  "MongodumpBackupEngine h eng =
     \<lparr>be_backup_collection = MongodumpBackupEngine_backup_collection h eng,
      be_get_version = MongodumpBackupEngine_get_version h,
      be_validate_connection = MongodumpBackupEngine_validate_connection h eng\<rparr>"

section \<open>BackupCompressor\<close>

record 's tar_host =
  th_exists :: "path \<Rightarrow> ('s, bool) M"
  th_create :: "path \<Rightarrow> path \<Rightarrow> string \<Rightarrow> ('s, unit) M" \<comment> \<open>destination, source, \<open>arcname\<close>\<close>
  th_is_tarfile :: "path \<Rightarrow> ('s, bool) M"
  th_members :: "path \<Rightarrow> ('s, string list) M" \<comment> \<open>the names in the archive\<close>

definition has_path_traversal :: "string list \<Rightarrow> bool" where
  "has_path_traversal members \<longleftrightarrow>
     list_ex (\<lambda>n. starts_with n ''/'' \<or> ''..'' \<in> set (split_on slash n)) members"

definition BackupCompressor_compress_directory :: "'s tar_host \<Rightarrow> path \<Rightarrow> path \<Rightarrow> ('s, unit) M" where
  "BackupCompressor_compress_directory h src dest =
     bindM (th_exists h src) (\<lambda>ex.
     if \<not> ex then raiseM (FileNotFoundError (''Source directory not found: '' @ path_str src))
     else th_create h dest src (path_name src))"

definition is_TarError :: "exn \<Rightarrow> bool" where
  "is_TarError e = (case e of OtherException c _ \<Rightarrow> c = ''TarError'' | _ \<Rightarrow> False)"

definition BackupCompressor_verify_archive :: "'s tar_host \<Rightarrow> path \<Rightarrow> ('s, bool) M" where
  "BackupCompressor_verify_archive h p =
     tryM (bindM (th_is_tarfile h p) (\<lambda>tar.
           if \<not> tar then returnM False
           else tryM (bindM (th_members h p) (\<lambda>members. returnM (\<not> has_path_traversal members)))
                     (\<lambda>e. if is_TarError e \<or> is_OSError e then returnM False else raiseM e)))
          (\<lambda>exc. returnM False)"

section \<open>Names and paths\<close>

text \<open>What \<open>_validate_name\<close> lets through. A name with the prefix \<open>system.\<close> contains a dot, so
  the last guard never decides.\<close>

definition dumpable_name :: "nat \<Rightarrow> string \<Rightarrow> bool" where
  "dumpable_name n w \<longleftrightarrow> w \<noteq> [] \<and> utf8_length w \<le> n \<and> list_all (\<lambda>c. c \<notin> set FORBIDDEN_CHARS) w"

definition dumpable :: "string \<Rightarrow> string \<Rightarrow> bool" where
  "dumpable db coll \<longleftrightarrow> dumpable_name 64 db \<and> dumpable_name 255 coll"

lemma lower_char_dot: "lower_char c = CHR ''.'' \<longleftrightarrow> c = CHR ''.''"
proof
  assume a: "lower_char c = CHR ''.''"
  let ?n = "of_char c :: nat"
  show "c = CHR ''.''"
  proof (cases "65 \<le> ?n \<and> ?n \<le> 90")
    case True
    then have "(of_char (char_of (?n + 32) :: char) :: nat) = of_char (CHR ''.'')"
      using a by (simp add: lower_char_def)
    then have "?n + 32 = 46" using True by (simp add: of_char_of)
    with True show ?thesis by simp
  next
    case False
    then show ?thesis using a by (auto simp: lower_char_def Let_def split: if_splits)
  qed
qed (simp add: lower_char_def)

lemma system_has_dot:
  assumes "starts_with (lower w) ''system.''"
  shows "CHR ''.'' \<in> set w"
proof -
  have "CHR ''.'' \<in> set (lower w)"
    using assms set_mono_prefix [of "''system.''" "lower w"] by (auto simp: starts_with_def)
  then obtain x where "x \<in> set w" "lower_char x = CHR ''.''" by (auto simp: lower_def)
  then show ?thesis by (simp add: lower_char_dot)
qed

definition name_limit :: "string \<Rightarrow> nat" where
  "name_limit kind = (if kind = ''database'' then 64 else 255)"

lemma forbidden_none: "find (\<lambda>c. c \<in> set w) FORBIDDEN_CHARS = None \<longleftrightarrow> list_all (\<lambda>c. c \<notin> set FORBIDDEN_CHARS) w"
  by (auto simp: find_None_iff list_all_iff)

lemma forbidden_system: "find (\<lambda>c. c \<in> set w) FORBIDDEN_CHARS = None \<Longrightarrow> \<not> starts_with (lower w) ''system.''"
proof -
  have "CHR ''.'' \<in> set FORBIDDEN_CHARS" by (simp add: FORBIDDEN_CHARS_def)
  then show "find (\<lambda>c. c \<in> set w) FORBIDDEN_CHARS = None \<Longrightarrow> \<not> starts_with (lower w) ''system.''"
    using system_has_dot [of w] by (auto simp: find_None_iff)
qed

lemma validate_name_ok: "dumpable_name (name_limit kind) name \<Longrightarrow> validate_name name kind s = (Inr (), s)"
  using forbidden_none [of name] forbidden_system [of name]
  by (auto simp: validate_name_def dumpable_name_def MAX_DB_NAME_LENGTH_def MAX_COLLECTION_NAME_LENGTH_def
      name_limit_def split: option.split)

lemma validate_name_bad:
  assumes "\<not> dumpable_name (name_limit kind) name"
  shows "\<exists>m d. validate_name name kind s = (Inl (DomainExn BackupEngineError m d), s)"
proof -
  have "name = [] \<or> name_limit kind < utf8_length name \<or> find (\<lambda>c. c \<in> set name) FORBIDDEN_CHARS \<noteq> None"
    using assms forbidden_none [of name] by (auto simp: dumpable_name_def)
  then show ?thesis
    by (cases "find (\<lambda>c. c \<in> set name) FORBIDDEN_CHARS")
      (auto simp: validate_name_def name_limit_def MAX_DB_NAME_LENGTH_def MAX_COLLECTION_NAME_LENGTH_def)
qed

text \<open>A dumpable name is one path component that is not \<open>..\<close>.\<close>

lemma dumpable_part:
  assumes "dumpable_name n w"
  shows "path_of_str w = [w]" "path_of_str (w @ ''.bson'') = [w @ ''.bson'']" "slash \<notin> set w" "w \<noteq> ''..''"
proof -
  have f: "CHR ''.'' \<in> set FORBIDDEN_CHARS" "slash \<in> set FORBIDDEN_CHARS"
    by (simp_all add: FORBIDDEN_CHARS_def slash_def)
  with assms show sl: "slash \<notin> set w" by (auto simp: dumpable_name_def list_all_iff)
  have dot: "CHR ''.'' \<notin> set w" using assms f by (auto simp: dumpable_name_def list_all_iff)
  then show "w \<noteq> ''..''" by auto
  have w: "w \<noteq> []" "hd w \<noteq> slash" using assms sl by (auto simp: dumpable_name_def dest: hd_in_set)
  have sl': "slash \<notin> set (w @ ''.bson'')" using sl by (simp add: slash_def)
  have "w \<noteq> ''.''" using dot by auto
  then show "path_of_str w = [w]" using w by (simp add: path_of_str_def split_on_nosep [OF sl])
  have "w @ ''.bson'' \<noteq> ''.''" by (cases w) auto
  then show "path_of_str (w @ ''.bson'') = [w @ ''.bson'']"
    using w by (simp add: path_of_str_def split_on_nosep [OF sl'])
qed

lemma dump_path:
  assumes "dumpable db coll"
  shows "path_div (path_div out db) (coll @ ''.bson'') = out @ [db, coll @ ''.bson'']"
proof -
  have d: "dumpable_name 64 db" "dumpable_name 255 coll" using assms by (simp_all add: dumpable_def)
  have h: "hd db \<noteq> slash" "hd (coll @ ''.bson'') \<noteq> slash" "db \<noteq> []"
    using d dumpable_part(3) [OF d(1)] dumpable_part(3) [OF d(2)]
    by (auto simp: dumpable_name_def hd_append dest: hd_in_set)
  show ?thesis
    using h dumpable_part(1) [OF d(1)] dumpable_part(2) [OF d(2)] by (simp add: path_div_def)
qed

section \<open>What a dump certifies\<close>

lemma validate_names_Inr:
  "validate_name name kind s = (Inr u, s') \<longleftrightarrow> dumpable_name (name_limit kind) name \<and> s' = s"
  using validate_name_ok [of kind name s] validate_name_bad [of kind name s]
  by (cases "dumpable_name (name_limit kind) name") auto

definition dump_certified ::
  "'s dump_host \<Rightarrow> MongodumpBackupEngine \<Rightarrow> string \<Rightarrow> string \<Rightarrow> path \<Rightarrow> CollectionTarget \<Rightarrow> bool" where
  "dump_certified h eng db coll out t \<longleftrightarrow>
     dumpable db coll \<and> valid_CollectionTarget t \<and>
     (\<exists>n. t = \<lparr>ct_database = db, ct_collection = coll, ct_status = CollectionBackupStatus.SUCCESS,
                ct_size_bytes = Some n, ct_error_message = None\<rparr> \<and> 0 \<le> n \<and>
        (\<exists>s1 s2. mh_size h (out @ [db, coll @ ''.bson'']) s1 = (Inr n, s2)) \<and>
        (\<exists>b cfg s3 proc s4 s5 s6. mh_spawn h (dump_command eng b cfg db coll out) s3 = (Inr proc, s4) \<and>
           mh_returncode h proc s5 = (Inr 0, s6)))"

lemma run_dump_certified:
  assumes "dumpable db coll" "run_dump h eng b cfg db coll out s = (Inr t, s')"
  shows "dump_certified h eng db coll out t"
proof -
  have cert: "dump_certified h eng db coll out t"
    if "mh_spawn h (dump_command eng b cfg db coll out) s = (Inr proc, s1)" "mh_returncode h proc s2 = (Inr 0, s3)"
      "mh_size h (out @ [db, coll @ ''.bson'']) s6 = (Inr n, s5)" "0 \<le> n"
      "mk_CollectionTarget db coll CollectionBackupStatus.SUCCESS (Some n) None = Inr t" for proc s1 s2 s3 s5 s6 n
    using that assms(1) by (auto simp: dump_certified_def mk_CollectionTarget_def) blast
  show ?thesis
    using assms(2) unfolding run_dump_def dump_path [OF assms(1)]
    apply (elim bindM_InrE)
    apply (split prod.split_asm)
    apply (elim bindM_InrE thenM_InrE)
    apply (simp add: whenM_run validate_dump_file_def MIN_VALID_DUMP_SIZE_def split: if_splits)
    apply (elim bindM_InrE)
    apply (simp split: if_splits)
    apply (elim bindM_InrE)
    apply (simp split: if_splits)
    using cert by (simp add: MIN_VALID_DUMP_SIZE_def not_less)
qed

lemma finallyM_Inr: "finallyM m f s = (Inr x, s') \<Longrightarrow> \<exists>s1. m s = (Inr x, s1)"
  by (auto simp: finallyM_run split: prod.splits sum.splits)

lemma backup_collection_certified:
  assumes run: "MongodumpBackupEngine_backup_collection h eng db coll out s = (Inr t, s')"
  shows "dump_certified h eng db coll out t"
proof -
  obtain b s1 name s2 s3 s4 where d: "dumpable_name 64 db" "dumpable_name 255 coll"
    and fin: "finallyM (thenM (mh_close_temp h name) (run_dump h eng b name db coll out)) (unlink_suppressed h name) s3 = (Inr t, s4)"
    using run unfolding MongodumpBackupEngine_backup_collection_def
    by (auto simp: bindM_eq_Inr thenM_eq_Inr validate_names_Inr name_limit_def split: option.splits)
  obtain s5 s6 where "run_dump h eng b name db coll out s5 = (Inr t, s6)"
    using finallyM_Inr [OF fin] by (auto simp: thenM_eq_Inr)
  then show ?thesis using d by (intro run_dump_certified) (simp_all add: dumpable_def)
qed

section \<open>The configuration file with the connection string\<close>

text \<open>\<open>temps s\<close> are the temporary files that exist. Creating one that fails creates none; removing
  one that fails removes none; nothing else the engine calls touches them.\<close>

locale temp_files =
  fixes h :: "'s dump_host" and temps :: "'s \<Rightarrow> string set"
  assumes create_ok: "mh_create_temp h s = (Inr n, s') \<Longrightarrow> n \<notin> temps s \<and> temps s' = insert n (temps s)"
    and create_err: "mh_create_temp h s = (Inl e, s') \<Longrightarrow> temps s' = temps s"
    and unlink_ok: "mh_unlink h n s = (Inr u, s') \<Longrightarrow> temps s' = temps s - {n}"
    and unlink_err: "mh_unlink h n s = (Inl e, s') \<Longrightarrow> temps s' = temps s"
    and find_frames: "frames temps (mh_which h c)" "frames temps (mh_is_file h c)" "frames temps (mh_resolve h c)"
    and file_frames: "frames temps (mh_write_temp h n c)" "frames temps (mh_close_temp h n)"
    and process_frames: "frames temps (mh_spawn h cmd)" "frames temps (mh_drain h p k)"
      "frames temps (mh_kill h p)" "frames temps (mh_wait h p)" "frames temps (mh_returncode h p)"
    and dump_frames: "frames temps (mh_exists h q)" "frames temps (mh_size h q)"
begin

lemma resolve_binary_frame: "frames temps (resolve_binary h eng)"
  unfolding resolve_binary_def by (intro frame_intros find_frames)

lemma validate_name_frame: "frames temps (validate_name w k)"
  by (simp add: frames_def validate_name_def split: option.split)

lemma run_dump_frame: "frames temps (run_dump h eng b cfg db coll out)"
  unfolding run_dump_def validate_dump_file_def
  by (intro frame_intros process_frames dump_frames)+

lemma backup_collection_temps:
  assumes run: "MongodumpBackupEngine_backup_collection h eng db coll out s = (x, s')"
  shows "temps s' = temps s \<or>
    (\<exists>n. n \<notin> temps s \<and> temps s' = insert n (temps s) \<and>
       ((\<exists>content s1 e s2. mh_write_temp h n content s1 = (Inl e, s2)) \<or> (\<exists>s1 e s2. mh_unlink h n s1 = (Inl e, s2))))"
proof -
  have tail: "temps s3 = temps s0 \<or> (\<exists>n. n \<notin> temps s0 \<and> temps s3 = insert n (temps s0) \<and>
       ((\<exists>content s1 e s2. mh_write_temp h n content s1 = (Inl e, s2)) \<or> (\<exists>s1 e s2. mh_unlink h n s1 = (Inl e, s2))))"
    if create: "mh_create_temp h s0 = (Inr n, s1)"
      and body: "thenM (tryM (mh_write_temp h n content) (\<lambda>e. thenM (mh_close_temp h n) (raiseM e)))
           (finallyM (thenM (mh_close_temp h n) (run_dump h eng b n db coll out)) (unlink_suppressed h n)) s1 = (z, s3)"
    for s0 n s1 content b z s3
  proof -
    note c = create_ok [OF create]
    obtain w s2 where w: "mh_write_temp h n content s1 = (w, s2)" by force
    have s2: "temps s2 = temps s1" using framesD [OF file_frames(1) w] .
    show ?thesis
    proof (cases w)
      case (Inl e)
      have "frames temps (thenM (mh_close_temp h n) (raiseM e :: ('s, unit) M))"
        by (intro frame_intros file_frames)
      then have "temps s3 = temps s2"
        using body w Inl by (auto simp: thenM_run tryM_run frames_def split: prod.splits sum.splits)
      then show ?thesis using c s2 w Inl by blast
    next
      case (Inr u)
      obtain z s4 where b: "thenM (mh_close_temp h n) (run_dump h eng b n db coll out) s2 = (z, s4)" by force
      have "temps s4 = temps s2"
        using b by (rule framesD [rotated]) (intro frame_intros file_frames run_dump_frame)
      moreover obtain v where v: "mh_unlink h n s4 = (v, s3)"
        using body w Inr b by (auto simp: thenM_run tryM_run finallyM_run unlink_suppressed_def split: prod.splits sum.splits if_splits)
      ultimately show ?thesis
        using c s2 unlink_ok [of n s4 _ s3] unlink_err [of n s4 _ s3] by (cases v) auto
    qed
  qed
  obtain r s1 where r: "resolve_binary h eng s = (r, s1)" by force
  have s1: "temps s1 = temps s" using framesD [OF resolve_binary_frame r] .
  show ?thesis
  proof (cases r)
    case (Inr found)
    then show ?thesis
    proof (cases found)
      case (Some b)
      have rest: "thenM (validate_name db ''database'') (thenM (validate_name coll ''collection'')
          (bindM (mh_create_temp h) (\<lambda>n.
             thenM (tryM (mh_write_temp h n (''uri: '' @ py_repr (me_uri eng) @ newline))
                     (\<lambda>e. thenM (mh_close_temp h n) (raiseM e)))
               (finallyM (thenM (mh_close_temp h n) (run_dump h eng b n db coll out)) (unlink_suppressed h n))))) s1 = (x, s')"
        using run r Inr Some by (simp add: MongodumpBackupEngine_backup_collection_def bindM_Inr)
      obtain c s2 where c: "mh_create_temp h s1 = (c, s2)" by force
      consider "s' = s1" | "bindM (mh_create_temp h) (\<lambda>n.
             thenM (tryM (mh_write_temp h n (''uri: '' @ py_repr (me_uri eng) @ newline))
                     (\<lambda>e. thenM (mh_close_temp h n) (raiseM e)))
               (finallyM (thenM (mh_close_temp h n) (run_dump h eng b n db coll out)) (unlink_suppressed h n))) s1 = (x, s')"
        using rest validate_name_ok [of "''database''" db s1] validate_name_bad [of "''database''" db s1]
          validate_name_ok [of "''collection''" coll s1] validate_name_bad [of "''collection''" coll s1]
        by (cases "dumpable_name (name_limit ''database'') db"; cases "dumpable_name (name_limit ''collection'') coll")
          (auto simp: thenM_run)
      then show ?thesis
      proof cases
        case 2
        show ?thesis
        proof (cases c)
          case (Inl e)
          with 2 c have "s' = s2" by (simp add: bindM_Inl)
          then show ?thesis using create_err c Inl s1 by simp
        next
          case (Inr n)
          with 2 c show ?thesis using tail [of s1 n s2 _ b x s'] s1 by (simp add: bindM_Inr)
        qed
      qed (simp add: s1)
    qed (use run r s1 in \<open>auto simp: MongodumpBackupEngine_backup_collection_def bindM_run\<close>)
  qed (use run r s1 in \<open>auto simp: MongodumpBackupEngine_backup_collection_def bindM_run\<close>)
qed

end

section \<open>A host\<close>

text \<open>
  A host with a MongoDB server: \<open>ds_source\<close> says what dumping a collection does, a collection it
  does not name makes \<^verbatim>\<open>mongodump\<close> fail. A process is the position of its outcome in \<open>ds_procs\<close>.
\<close>

datatype dump_effect = Dumps int | Hangs | Breaks string

record dump_state =
  ds_fs :: file_system
  ds_temps :: "(string \<times> string) list"
  ds_source :: "((string \<times> string) \<times> dump_effect) list"
  ds_procs :: "dump_effect list"

definition arg_of :: "string \<Rightarrow> string list \<Rightarrow> string" where
  "arg_of p cmd = (case filter (\<lambda>a. starts_with a p) cmd of [] \<Rightarrow> [] | a # _ \<Rightarrow> drop (length p) a)"

definition dump_into :: "path \<Rightarrow> int \<Rightarrow> file_system \<Rightarrow> file_system" where
  "dump_into p n fs =
     (case bind_sum (mkdir (butlast p) fs) (write_file p n) of Inl _ \<Rightarrow> fs | Inr fs' \<Rightarrow> fs')"

definition spawn_dump :: "string list \<Rightarrow> dump_state \<Rightarrow> (exn + int) \<times> dump_state" where
  "spawn_dump cmd s =
     (let db = arg_of ''--db='' cmd; coll = arg_of ''--collection='' cmd;
          eff = (case map_of (ds_source s) (db, coll) of None \<Rightarrow> Breaks ''no such collection'' | Some e \<Rightarrow> e);
          out = path_of_str (arg_of ''--out='' cmd) @ [db, coll @ ''.bson'']
      in (Inr (int (length (ds_procs s))),
          s\<lparr>ds_procs := ds_procs s @ [eff],
            ds_fs := (case eff of Dumps n \<Rightarrow> dump_into out n (ds_fs s) | _ \<Rightarrow> ds_fs s)\<rparr>))"

definition outcome_of :: "int \<Rightarrow> dump_state \<Rightarrow> dump_effect" where
  "outcome_of p s = (if 0 \<le> p \<and> nat p < length (ds_procs s) then ds_procs s ! nat p else Breaks [])"

definition ref_dump_host :: "dump_state dump_host" where
  "ref_dump_host =
     \<lparr>mh_which = (\<lambda>c. returnM (Some (''/usr/bin/'' @ c))), mh_is_file = (\<lambda>p s. (Inr (is_file (ds_fs s) (path_of_str p)), s)),
      mh_resolve = returnM,
      mh_create_temp = (\<lambda>s. let n = CHR ''t'' # concat (map fst (ds_temps s)) in (Inr n, s\<lparr>ds_temps := (n, []) # ds_temps s\<rparr>)),
      mh_write_temp = (\<lambda>n c s. (Inr (), s\<lparr>ds_temps := map (\<lambda>(m, d). (m, if m = n then d @ c else d)) (ds_temps s)\<rparr>)),
      mh_close_temp = (\<lambda>n. returnM ()),
      mh_unlink = (\<lambda>n s. (Inr (), s\<lparr>ds_temps := filter (\<lambda>(m, _). m \<noteq> n) (ds_temps s)\<rparr>)),
      mh_spawn = spawn_dump,
      mh_drain = (\<lambda>p t s. (case outcome_of p s of Hangs \<Rightarrow> Inl (TimeoutError []) | Breaks e \<Rightarrow> Inr ([], e) | Dumps n \<Rightarrow> Inr ([], []), s)),
      mh_communicate = (\<lambda>p. returnM ([], [])), mh_kill = (\<lambda>p. returnM ()), mh_wait = (\<lambda>p. returnM ()),
      mh_returncode = (\<lambda>p s. (Inr (case outcome_of p s of Dumps _ \<Rightarrow> 0 | Breaks _ \<Rightarrow> 1 | Hangs \<Rightarrow> -9), s)),
      mh_exists = (\<lambda>p s. (Inr (exists_path (ds_fs s) p), s)),
      mh_size = (\<lambda>p s. (case stat (ds_fs s) p of Inl e \<Rightarrow> Inl e | Inr (File n _) \<Rightarrow> Inr n | Inr _ \<Rightarrow> Inr 0, s)),
      mh_mongo_connect = (\<lambda>u. returnM ()), mh_mongo_ping = returnM (), mh_mongo_close = returnM ()\<rparr>"

definition temp_names :: "dump_state \<Rightarrow> string set" where
  "temp_names s = fst ` set (ds_temps s)"

lemma fresh_temp: "CHR ''t'' # concat (map fst xs) \<notin> fst ` set xs" for xs :: "(string \<times> 'b) list"
proof -
  have "length (fst x) \<le> length (concat (map fst xs))" if "x \<in> set xs" for x
    using that member_le_sum_list [of "length (fst x)" "map (length \<circ> fst) xs"]
    by (force simp: length_concat comp_def)
  then show ?thesis by fastforce
qed

interpretation ref_host: temp_files ref_dump_host temp_names
proof
  show "n \<notin> temp_names s \<and> temp_names s' = insert n (temp_names s)"
    if "mh_create_temp ref_dump_host s = (Inr n, s')" for s n s'
    using that fresh_temp [of "ds_temps s"] by (auto simp: ref_dump_host_def Let_def temp_names_def)
  show "temp_names s' = temp_names s - {n}" if "mh_unlink ref_dump_host n s = (Inr u, s')" for n s u s'
    using that by (auto simp: ref_dump_host_def temp_names_def)
qed (auto simp: ref_dump_host_def temp_names_def frames_def spawn_dump_def Let_def image_image split_def)

section \<open>Properties\<close>

text \<open>The names a dump accepts, exactly. With a binary at hand, a database or collection name
  that is empty, too long (64 and 255 bytes) or contains one of the twelve forbidden characters
  (so any dotted collection such as \<open>fs.files\<close>) raises \<open>BackupEngineError\<close> before anything is
  created or started; and with the names accepted the dump file lies directly in the directory of
  its database under the output directory, whatever the names are.\<close>

lemma dump_names_guarded:
  assumes "resolve_binary h eng s = (Inr (Some b), s1)"
  shows "(\<not> (dumpable_name 64 db \<and> dumpable_name 255 coll) \<longrightarrow>
      (\<exists>m d. MongodumpBackupEngine_backup_collection h eng db coll out s =
        (Inl (DomainExn BackupEngineError m d), s1))) \<and>
    (dumpable_name 64 db \<and> dumpable_name 255 coll \<longrightarrow>
      path_div (path_div out db) (coll @ ''.bson'') = out @ [db, coll @ ''.bson''] \<and>
      db \<noteq> ''..'' \<and> slash \<notin> set db \<and> slash \<notin> set coll)"
proof (intro conjI impI)
  show "\<exists>m d. MongodumpBackupEngine_backup_collection h eng db coll out s =
        (Inl (DomainExn BackupEngineError m d), s1)"
    if "\<not> (dumpable_name 64 db \<and> dumpable_name 255 coll)"
    using that assms validate_name_ok [of "''database''" db s1] validate_name_bad [of "''database''" db s1]
      validate_name_bad [of "''collection''" coll s1]
    by (cases "dumpable_name 64 db")
      (auto simp: MongodumpBackupEngine_backup_collection_def bindM_run thenM_run name_limit_def)
qed (auto simp: dump_path dumpable_def dumpable_part dest: dumpable_part(4))

definition sample_dumps :: dump_state where
  "sample_dumps =
     \<lparr>ds_fs = \<lparr>vf_nodes = [([''/'', ''b''], Directory 0)], vf_cwd = [''/''], vf_volume = (100, 50, 50), vf_clock = 7\<rparr>,
      ds_temps = [(''t'', ''other'')],
      ds_source = [((''shop'', ''orders''), Dumps 120), ((''shop'', ''logs''), Hangs)], ds_procs = []\<rparr>"

definition sample_engine :: MongodumpBackupEngine where
  "sample_engine = \<lparr>me_uri = ''mongodb://u:p@h'', me_dump_timeout = 300, me_mongodump_path = None\<rparr>"

lemma sample_binary:
  "resolve_binary ref_dump_host sample_engine sample_dumps = (Inr (Some ''/usr/bin/mongodump''), sample_dumps)"
  by (simp add: resolve_binary_def sample_engine_def ref_dump_host_def)

lemma dump_names_guarded_witness:
  "\<exists>m d. MongodumpBackupEngine_backup_collection ref_dump_host sample_engine ''shop'' ''fs.files'' [''/'', ''b''] sample_dumps =
     (Inl (DomainExn BackupEngineError m d), sample_dumps)"
proof -
  have "\<not> dumpable_name 255 ''fs.files''" by code_simp
  then show ?thesis using dump_names_guarded [OF sample_binary, of "''shop''" "''fs.files''"] by blast
qed


lemma sample_dump_run:
  "MongodumpBackupEngine_backup_collection ref_dump_host sample_engine ''shop'' ''orders'' [''/'', ''b''] sample_dumps =
     (Inr \<lparr>ct_database = ''shop'', ct_collection = ''orders'', ct_status = CollectionBackupStatus.SUCCESS,
        ct_size_bytes = Some 120, ct_error_message = None\<rparr>,
      sample_dumps\<lparr>ds_procs := [Dumps 120],
        ds_fs := \<lparr>vf_nodes = [([''/'', ''b'', ''shop'', ''orders.bson''], File 120 7), ([''/'', ''b'', ''shop''], Directory 7),
          ([''/'', ''b''], Directory 7)], vf_cwd = [''/''], vf_volume = (100, 50, 50), vf_clock = 7\<rparr>\<rparr>)"
  by code_simp


text \<open>The configuration file, which holds the connection string with its password, is removed
  however the dump ends: the temporary files afterwards are those before. The only ways to leave it
  behind are a removal that fails and a failing write, after which the code has not recorded the
  file's name yet.\<close>

lemma dump_config_removed:
  assumes "temp_files h temps"
    and "MongodumpBackupEngine_backup_collection h eng db coll out s = (x, s')"
  shows "temps s' = temps s \<or>
    (\<exists>n. n \<notin> temps s \<and> temps s' = insert n (temps s) \<and>
       ((\<exists>c s1 e s2. mh_write_temp h n c s1 = (Inl e, s2)) \<or> (\<exists>s1 e s2. mh_unlink h n s1 = (Inl e, s2))))"
  using temp_files.backup_collection_temps [OF assms] .

lemma dump_config_removed_witness:
  "\<exists>m d s'. MongodumpBackupEngine_backup_collection ref_dump_host sample_engine ''shop'' ''logs'' [''/'', ''b''] sample_dumps =
     (Inl (DomainExn BackupEngineError m d), s') \<and> temp_names s' = {''t''}"
proof -
  have "case fst (MongodumpBackupEngine_backup_collection ref_dump_host sample_engine ''shop'' ''logs'' [''/'', ''b''] sample_dumps) of
      Inl (DomainExn c m d) \<Rightarrow> c = BackupEngineError | _ \<Rightarrow> False" by code_simp
  then obtain m d s' where run: "MongodumpBackupEngine_backup_collection ref_dump_host sample_engine ''shop'' ''logs''
      [''/'', ''b''] sample_dumps = (Inl (DomainExn BackupEngineError m d), s')"
    by (auto split: sum.splits exn.splits) (metis prod.collapse)
  have "temp_names s' = temp_names sample_dumps"
    using dump_config_removed [OF ref_host.temp_files_axioms run] by (auto simp: ref_dump_host_def)
  then show ?thesis using run by (auto simp: temp_names_def sample_dumps_def)
qed

lemma verify_archive_run:
  "\<exists>ok s'. BackupCompressor_verify_archive h p s = (Inr ok, s') \<and>
     (ok \<longrightarrow> (\<exists>s1 members. th_members h p s1 = (Inr members, s') \<and>
        (\<forall>m\<in>set members. \<not> is_absolute (path_of_str m) \<and> ''..'' \<notin> set (path_of_str m))))"
proof -
  have safe: "\<not> is_absolute (path_of_str m) \<and> ''..'' \<notin> set (path_of_str m)"
    if "\<not> has_path_traversal ms" "m \<in> set ms" for m ms
  proof -
    have m: "\<not> starts_with m ''/''" "''..'' \<notin> set (split_on slash m)"
      using that by (auto simp: has_path_traversal_def list_ex_iff)
    have "\<not> (m \<noteq> [] \<and> hd m = slash)" using m(1) by (cases m) (auto simp: starts_with_def slash_def)
    moreover have "''/'' \<notin> set (split_on slash m)" using split_on_parts [of "''/''" slash m] by (auto simp: slash_def)
    ultimately show ?thesis
      using m(2) by (auto simp: path_of_str_def is_absolute_def Let_def dest!: hd_in_set)
  qed
  show ?thesis
    using safe
    by (auto simp: BackupCompressor_verify_archive_def run_simps split: prod.split sum.split)
qed

text \<open>Verifying an archive never raises, and an archive it accepts unpacks inside its directory:
  every member is a relative path without \<open>..\<close>.\<close>

lemma verified_archive_contained:
  assumes "BackupCompressor_verify_archive h p s = (x, s')"
  shows "\<exists>ok. x = Inr ok \<and>
    (ok \<longrightarrow> (\<exists>s1 members. th_members h p s1 = (Inr members, s') \<and>
       (\<forall>m\<in>set members. \<not> is_absolute (path_of_str m) \<and> ''..'' \<notin> set (path_of_str m))))"
proof -
  obtain ok s2 where run: "BackupCompressor_verify_archive h p s = (Inr ok, s2)"
    and ok: "ok \<longrightarrow> (\<exists>s1 members. th_members h p s1 = (Inr members, s2) \<and>
      (\<forall>m\<in>set members. \<not> is_absolute (path_of_str m) \<and> ''..'' \<notin> set (path_of_str m)))"
    using verify_archive_run [of h p s] by blast
  from run assms have "x = Inr ok" "s' = s2" by (simp_all only: prod.inject)
  with ok show ?thesis by blast
qed

definition sample_tar :: "string list \<Rightarrow> unit tar_host" where
  "sample_tar members =
     \<lparr>th_exists = (\<lambda>p. returnM True), th_create = (\<lambda>d s n. returnM ()), th_is_tarfile = (\<lambda>p. returnM True),
      th_members = (\<lambda>p. returnM members)\<rparr>"

lemma verified_archive_contained_witness:
  "BackupCompressor_verify_archive (sample_tar [''j'', ''j/shop/..x.bson'']) [''a.tar.gz''] () = (Inr True, ()) \<and>
   ''..'' \<notin> set (path_of_str ''j/shop/..x.bson'')"
proof -
  have run: "BackupCompressor_verify_archive (sample_tar [''j'', ''j/shop/..x.bson'']) [''a.tar.gz''] () = (Inr True, ())"
    by code_simp
  have members: "th_members (sample_tar [''j'', ''j/shop/..x.bson'']) p s = (Inr [''j'', ''j/shop/..x.bson''], s)" for p s
    by (simp only: sample_tar_def tar_host.simps returnM_run)
  obtain ms where "[''j'', ''j/shop/..x.bson''] = ms" "\<forall>m\<in>set ms. ''..'' \<notin> set (path_of_str m)"
    using verified_archive_contained [OF run] by (simp only: members prod.inject sum.inject simp_thms) metis
  then have "''..'' \<notin> set (path_of_str ''j/shop/..x.bson'')" by (metis list.set_intros)
  with run show ?thesis by (rule conjI)
qed

end
