(* ===== verification/Notifier.thy ===== *)
theory Notifier
  imports Redis JobStore
begin

text \<open>
  \<^verbatim>\<open>app/infrastructure/notifier/telegram_notifier.py\<close>: the two rate limiters, the retries and the
  three methods of \<open>INotifier\<close>; \<^verbatim>\<open>app/infrastructure/telegram/aiogram_bot.py\<close>, the handle of the bot;
  and \<^verbatim>\<open>logging_notifier.py\<close>, which sends nothing. The event loop's clock and the Telegram API are
  parameters. Times of the loop are microseconds, those of the Redis limiter milliseconds.
\<close>

section \<open>The event loop\<close>

record 's event_loop =
  lp_time :: "('s, int) M" \<comment> \<open>\<open>loop.time()\<close>\<close>
  lp_sleep :: "int \<Rightarrow> ('s, unit) M"
  lp_wall_ms :: "('s, int) M" \<comment> \<open>\<open>int(time.time() * 1000)\<close>\<close>
  lp_uuid8 :: "('s, string) M" \<comment> \<open>\<open>uuid.uuid4().hex[:8]\<close>\<close>

section \<open>The limiter in memory\<close>

text \<open>The deque is a cell of the state; the lock makes a call atomic.\<close>

record 's InMemoryRateLimiter =
  im_limit :: nat
  im_window :: int
  im_timestamps :: "'s \<Rightarrow> int list"
  im_set_timestamps :: "int list \<Rightarrow> 's \<Rightarrow> 's"

definition discard_old :: "int \<Rightarrow> int \<Rightarrow> int list \<Rightarrow> int list" where
  "discard_old window now ts = dropWhile (\<lambda>t. window \<le> now - t) ts"

definition trim_timestamps :: "'s InMemoryRateLimiter \<Rightarrow> int \<Rightarrow> ('s, int list) M" where
  "trim_timestamps rl now = (\<lambda>s.
     let ts = discard_old (im_window rl) now (im_timestamps rl s) in (Inr ts, im_set_timestamps rl ts s))"

definition append_timestamp :: "'s InMemoryRateLimiter \<Rightarrow> int \<Rightarrow> ('s, unit) M" where
  "append_timestamp rl now = (\<lambda>s. (Inr (), im_set_timestamps rl (im_timestamps rl s @ [now]) s))"

definition InMemoryRateLimiter_acquire :: "'s event_loop \<Rightarrow> 's InMemoryRateLimiter \<Rightarrow> ('s, unit) M" where
  "InMemoryRateLimiter_acquire lp rl =
     bindM (lp_time lp) (\<lambda>now.
     bindM (trim_timestamps rl now) (\<lambda>ts.
     if im_limit rl \<le> length ts
     then (case ts of
         [] \<Rightarrow> raiseM (OtherException ''IndexError'' ''deque index out of range'')
       | oldest # _ \<Rightarrow>
           (let sleep_time = im_window rl - (now - oldest) in
            if 0 < sleep_time
            then thenM (lp_sleep lp sleep_time)
                (bindM (lp_time lp) (\<lambda>now2.
                 bindM (trim_timestamps rl now2) (\<lambda>_. append_timestamp rl now2)))
            else append_timestamp rl now))
     else append_timestamp rl now))"

section \<open>The limiter in Redis\<close>

record 's RedisGlobalRateLimiter =
  rg_redis :: "'s redis"
  rg_zrange_first :: "string \<Rightarrow> ('s, int list) M" \<comment> \<open>\<open>ZRANGE key 0 0 WITHSCORES\<close>, the score\<close>
  rg_limit :: int
  rg_window_ms :: int \<comment> \<open>\<open>int(window * 1000)\<close>\<close>
  rg_window_s :: int \<comment> \<open>\<open>int(window)\<close>\<close>
  rg_key :: string

definition RedisGlobalRateLimiter_acquire :: "'s event_loop \<Rightarrow> 's RedisGlobalRateLimiter \<Rightarrow> ('s, unit) M" where
  "RedisGlobalRateLimiter_acquire lp rl =
     bindM (lp_wall_ms lp) (\<lambda>now_ms.
     thenM (rd_zremrangebyscore (rg_redis rl) (rg_key rl) 0 (now_ms - rg_window_ms rl))
    (bindM (rd_zcard (rg_redis rl) (rg_key rl)) (\<lambda>current.
     bindM (if rg_limit rl \<le> current
            then bindM (rg_zrange_first rl (rg_key rl)) (\<lambda>oldest.
              case oldest of
                [] \<Rightarrow> returnM now_ms
              | oldest_ms # _ \<Rightarrow>
                  (let sleep_ms = oldest_ms + rg_window_ms rl - now_ms in
                   if 0 < sleep_ms
                   then thenM (lp_sleep lp (sleep_ms * 1000))
                       (bindM (lp_wall_ms lp) (\<lambda>now2.
                        thenM (rd_zremrangebyscore (rg_redis rl) (rg_key rl) 0 (now2 - rg_window_ms rl))
                          (returnM now2)))
                   else returnM now_ms))
            else returnM now_ms) (\<lambda>stamp_ms.
     bindM (lp_uuid8 lp) (\<lambda>u.
     thenM (rd_zadd (rg_redis rl) (rg_key rl) stamp_ms (str_int stamp_ms @ '':'' @ u))
    (thenM (rd_expire (rg_redis rl) (rg_key rl) (rg_window_s rl + 1)) (returnM ())))))))"

section \<open>AiogramBot\<close>

text \<open>The Telegram API, and the cell that says whether \<open>start()\<close> has made a bot.\<close>

record 's telegram_api =
  tg_send_message :: "int \<Rightarrow> string \<Rightarrow> int option \<Rightarrow> ('s, unit) M"
  tg_edit_message_text :: "int \<Rightarrow> int \<Rightarrow> string \<Rightarrow> ('s, unit) M"
  tg_send_document :: "int \<Rightarrow> path \<Rightarrow> string option \<Rightarrow> int option \<Rightarrow> ('s, unit) M"
  tg_close_session :: "('s, unit) M"

record 's AiogramBot =
  ab_api :: "'s telegram_api"
  ab_is_started :: "'s \<Rightarrow> bool"
  ab_set_started :: "bool \<Rightarrow> 's \<Rightarrow> 's"

definition AiogramBot_start :: "'s AiogramBot \<Rightarrow> ('s, unit) M" where
  "AiogramBot_start ab = (\<lambda>s. (Inr (), ab_set_started ab True s))"

definition AiogramBot_shutdown :: "'s AiogramBot \<Rightarrow> ('s, unit) M" where
  "AiogramBot_shutdown ab = (\<lambda>s.
     if ab_is_started ab s
     then thenM (tg_close_session (ab_api ab)) (\<lambda>s. (Inr (), ab_set_started ab False s)) s
     else (Inr (), s))"

definition AiogramBot_bot :: "'s AiogramBot \<Rightarrow> ('s, 's telegram_api) M" where
  "AiogramBot_bot ab = (\<lambda>s.
     if ab_is_started ab s then (Inr (ab_api ab), s)
     else (Inl (RuntimeError ''AiogramBot not started; call start() first''), s))"

section \<open>TelegramNotifier\<close>

text \<open>\<open>html.escape(text)\<close>\<close>

definition escape_char :: "char \<Rightarrow> string" where
  "escape_char c =
     (if c = CHR ''&'' then ''&amp;'' else if c = CHR ''<'' then ''&lt;'' else if c = CHR ''>'' then ''&gt;''
      else if c = CHR 0x22 then ''&quot;'' else if c = CHR 0x27 then ''&#x27;'' else [c])"

definition html_escape :: "string \<Rightarrow> string" where
  "html_escape s = concat (map escape_char s)"

definition MAX_RETRIES :: nat where "MAX_RETRIES = 3"
definition BACKOFF_BASE :: int where "BACKOFF_BASE = 1000000"

text \<open>\<open>n\<close> attempts are left. The slot is acquired outside the \<open>try\<close>.\<close>

fun retry_loop ::
  "'s event_loop \<Rightarrow> ('s, unit) M \<Rightarrow> ('s, 'a) M \<Rightarrow> nat \<Rightarrow> nat \<Rightarrow> ('s, 'a option) M" where
  "retry_loop lp acquire fn attempt 0 = returnM None"
| "retry_loop lp acquire fn attempt (Suc n) =
     thenM acquire
       (tryM (bindM fn (\<lambda>x. returnM (Some x)))
          (\<lambda>exc. thenM (whenM (attempt < MAX_RETRIES) (lp_sleep lp (BACKOFF_BASE * 2 ^ (attempt - 1))))
                   (retry_loop lp acquire fn (attempt + 1) n)))"

definition execute_with_retry :: "'s event_loop \<Rightarrow> ('s, unit) M \<Rightarrow> ('s, 'a) M \<Rightarrow> ('s, 'a option) M" where
  "execute_with_retry lp acquire fn = retry_loop lp acquire fn 1 MAX_RETRIES"

record 's TelegramNotifier =
  tn_bot :: "'s AiogramBot"
  tn_base_path :: "path option"
  tn_acquire :: "('s, unit) M" \<comment> \<open>the rate limiter\<close>
  tn_loop :: "'s event_loop"
  tn_resolve :: "path \<Rightarrow> ('s, path) M" \<comment> \<open>\<open>Path.resolve()\<close>\<close>
  tn_render :: "text_line list \<Rightarrow> string" \<comment> \<open>the text the lines stand for\<close>

definition TelegramNotifier_send_message ::
  "'s TelegramNotifier \<Rightarrow> int \<Rightarrow> text_line list \<Rightarrow> int option \<Rightarrow> ('s, unit) M" where
  "TelegramNotifier_send_message tn chat_id lines topic_id =
     (let safe_text = html_escape (tn_render tn lines) in
      thenM (execute_with_retry (tn_loop tn) (tn_acquire tn)
               (bindM (AiogramBot_bot (tn_bot tn)) (\<lambda>bot. tg_send_message bot chat_id safe_text topic_id)))
            (returnM ()))"

definition TelegramNotifier_edit_message ::
  "'s TelegramNotifier \<Rightarrow> int \<Rightarrow> int \<Rightarrow> text_line list \<Rightarrow> ('s, unit) M" where
  "TelegramNotifier_edit_message tn chat_id message_id lines =
     (let safe_text = html_escape (tn_render tn lines) in
      thenM (execute_with_retry (tn_loop tn) (tn_acquire tn)
               (bindM (AiogramBot_bot (tn_bot tn)) (\<lambda>bot. tg_edit_message_text bot chat_id message_id safe_text)))
            (returnM ()))"

definition TelegramNotifier_send_document ::
  "'s TelegramNotifier \<Rightarrow> int \<Rightarrow> path \<Rightarrow> text_line list option \<Rightarrow> int option \<Rightarrow> ('s, unit) M" where
  "TelegramNotifier_send_document tn chat_id file_path caption topic_id =
     bindM (tn_resolve tn file_path) (\<lambda>resolved.
     bindM (case tn_base_path tn of
              None \<Rightarrow> returnM ()
            | Some base \<Rightarrow> bindM (tn_resolve tn base) (\<lambda>rbase.
                if \<not> prefix rbase resolved
                then raiseM (ValueError (''File path '' @ path_str resolved @ '' is outside the authorized base path''))
                else returnM ())) (\<lambda>_.
     let safe_caption = map_option (\<lambda>c. html_escape (tn_render tn c)) caption in
     thenM (execute_with_retry (tn_loop tn) (tn_acquire tn)
              (bindM (AiogramBot_bot (tn_bot tn)) (\<lambda>bot. tg_send_document bot chat_id resolved safe_caption topic_id)))
           (returnM ())))"

definition TelegramNotifier :: "'s TelegramNotifier \<Rightarrow> 's INotifier" where
  "TelegramNotifier tn =
     \<lparr>no_send_message = TelegramNotifier_send_message tn, no_edit_message = TelegramNotifier_edit_message tn,
      no_send_document = TelegramNotifier_send_document tn\<rparr>"

text \<open>\<open>LoggingNotifier\<close> only logs.\<close>

definition LoggingNotifier :: "'s INotifier" where
  "LoggingNotifier =
     \<lparr>no_send_message = (\<lambda>chat_id text topic_id. returnM ()), no_edit_message = (\<lambda>chat_id message_id text. returnM ()),
      no_send_document = (\<lambda>chat_id file_path caption topic_id. returnM ())\<rparr>"

section \<open>The limiter's window\<close>

text \<open>
  The calls of one limiter and the times of the slots it granted: time passes between calls, a call
  that raises grants nothing.
\<close>

inductive slots :: "'s event_loop \<Rightarrow> 's InMemoryRateLimiter \<Rightarrow> ('s \<Rightarrow> int) \<Rightarrow> 's \<Rightarrow> int list \<Rightarrow> bool"
  for lp rl clock where
  start: "im_timestamps rl s = [] \<Longrightarrow> slots lp rl clock s []"
| pass: "slots lp rl clock s H \<Longrightarrow> clock s \<le> clock s' \<Longrightarrow> im_timestamps rl s' = im_timestamps rl s \<Longrightarrow>
    slots lp rl clock s' H"
| slot: "slots lp rl clock s H \<Longrightarrow> InMemoryRateLimiter_acquire lp rl s = (Inr u, s') \<Longrightarrow>
    slots lp rl clock s' (H @ [last (im_timestamps rl s')])"
| none: "slots lp rl clock s H \<Longrightarrow> InMemoryRateLimiter_acquire lp rl s = (Inl e, s') \<Longrightarrow>
    slots lp rl clock s' H"

text \<open>The clock does not run backwards, and a sleep lasts at least as long as asked for.\<close>

locale event_clock =
  fixes lp :: "'s event_loop" and rl :: "'s InMemoryRateLimiter" and clock :: "'s \<Rightarrow> int"
  assumes time_ok: "lp_time lp s = (Inr t, s') \<Longrightarrow> clock s \<le> t \<and> t \<le> clock s'"
    and time_err: "lp_time lp s = (Inl e, s') \<Longrightarrow> clock s \<le> clock s'"
    and time_frame: "frames (im_timestamps rl) (lp_time lp)"
    and sleep_ok: "lp_sleep lp d s = (Inr u, s') \<Longrightarrow> clock s + d \<le> clock s'"
    and sleep_err: "lp_sleep lp d s = (Inl e, s') \<Longrightarrow> clock s \<le> clock s'"
    and sleep_frame: "frames (im_timestamps rl) (lp_sleep lp d)"
    and cell: "im_timestamps rl (im_set_timestamps rl ts s) = ts" "clock (im_set_timestamps rl ts s) = clock s"
    and limits: "0 < im_limit rl" "0 < im_window rl"
begin

text \<open>\<open>H\<close> are the slots granted, \<open>D\<close> those that have left the deque.\<close>

definition windowed :: "int list \<Rightarrow> bool" where
  "windowed H \<longleftrightarrow> (\<forall>k. k + im_limit rl < length H \<longrightarrow> H ! k + im_window rl \<le> H ! (k + im_limit rl))"

definition slot_inv :: "int list \<Rightarrow> int list \<Rightarrow> int \<Rightarrow> bool" where
  "slot_inv H ts now \<longleftrightarrow> windowed H \<and> length ts \<le> im_limit rl \<and> (\<forall>x\<in>set H. x \<le> now) \<and> sorted ts \<and>
     (\<exists>D. H = D @ ts \<and> (\<forall>x\<in>set D. x + im_window rl \<le> now))"

lemma slot_inv_later: "slot_inv H ts now \<Longrightarrow> now \<le> now' \<Longrightarrow> slot_inv H ts now'"
  by (fastforce simp: slot_inv_def)

lemma slot_inv_trim:
  assumes "slot_inv H ts now"
  shows "slot_inv H (discard_old (im_window rl) now ts) now"
proof -
  obtain D where D: "H = D @ ts" "\<forall>x\<in>set D. x + im_window rl \<le> now" using assms by (auto simp: slot_inv_def)
  let ?d = "takeWhile (\<lambda>t. im_window rl \<le> now - t) ts"
  have "\<forall>x\<in>set ?d. x + im_window rl \<le> now" by (auto dest!: set_takeWhileD)
  moreover have "H = (D @ ?d) @ discard_old (im_window rl) now ts" by (simp add: D(1) discard_old_def)
  moreover have "length (discard_old (im_window rl) now ts) \<le> length ts"
    by (simp add: discard_old_def length_dropWhile_le)
  moreover have "sorted (discard_old (im_window rl) now ts)"
    using assms by (simp add: discard_old_def slot_inv_def sorted_wrt_dropWhile)
  moreover have "\<forall>x\<in>set D \<union> set ?d. x + im_window rl \<le> now" using D(2) calculation(1) by blast
  ultimately show ?thesis using assms unfolding slot_inv_def
    by (metis (no_types, lifting) le_trans set_append)
qed

lemma slot_inv_append:
  assumes inv: "slot_inv H ts now" and room: "length ts < im_limit rl"
  shows "slot_inv (H @ [now]) (ts @ [now]) now"
proof -
  obtain D where D: "H = D @ ts" "\<forall>x\<in>set D. x + im_window rl \<le> now" using inv by (auto simp: slot_inv_def)
  have "windowed (H @ [now])"
    unfolding windowed_def
  proof (intro allI impI)
    fix k assume k: "k + im_limit rl < length (H @ [now])"
    show "(H @ [now]) ! k + im_window rl \<le> (H @ [now]) ! (k + im_limit rl)"
    proof (cases "k + im_limit rl < length H")
      case True
      then show ?thesis using inv by (simp add: slot_inv_def windowed_def nth_append)
    next
      case False
      then have e: "k + im_limit rl = length H" using k by simp
      then have "k < length D" using room D(1) by simp
      then have "(H @ [now]) ! k \<in> set D" by (simp add: D(1) nth_append)
      then show ?thesis using D(2) e by (simp add: nth_append)
    qed
  qed
  moreover have "\<forall>x\<in>set ts. x \<le> now" using inv D(1) by (auto simp: slot_inv_def)
  ultimately show ?thesis using inv room D by (auto simp: slot_inv_def sorted_append)
qed

text \<open>A deque that is full still is a window's worth of slots away from its oldest one.\<close>

lemma discarded_head:
  "sorted ts \<Longrightarrow> ts \<noteq> [] \<Longrightarrow> hd ts + im_window rl \<le> now \<Longrightarrow>
   length (discard_old (im_window rl) now ts) < length ts"
  by (cases ts) (auto simp: discard_old_def le_imp_less_Suc length_dropWhile_le)

lemma trim_run:
  "trim_timestamps rl now s = (Inr (discard_old (im_window rl) now (im_timestamps rl s)),
     im_set_timestamps rl (discard_old (im_window rl) now (im_timestamps rl s)) s)"
  by (simp add: trim_timestamps_def Let_def)

lemma acquire_slot:
  assumes inv: "slot_inv H (im_timestamps rl s) (clock s)" and run: "InMemoryRateLimiter_acquire lp rl s = (x, s')"
  shows "case x of
      Inl e \<Rightarrow> slot_inv H (im_timestamps rl s') (clock s')
    | Inr u \<Rightarrow> slot_inv (H @ [last (im_timestamps rl s')]) (im_timestamps rl s') (clock s')"
proof -
  obtain r1 s1 where t1: "lp_time lp s = (r1, s1)" by force
  have ts1: "im_timestamps rl s1 = im_timestamps rl s" using framesD [OF time_frame t1] .
  show ?thesis
  proof (cases r1)
    case (Inl e)
    then show ?thesis
      using run t1 ts1 slot_inv_later [OF inv] time_err [of s e s1]
      by (auto simp: InMemoryRateLimiter_acquire_def bindM_Inl)
  next
    case (Inr now)
    note t = time_ok [OF t1 [unfolded Inr]]
    define ts where "ts = discard_old (im_window rl) now (im_timestamps rl s)"
    define s2 where "s2 = im_set_timestamps rl ts s1"
    have i2: "slot_inv H ts now" unfolding ts_def by (rule slot_inv_trim [OF slot_inv_later [OF inv]]) (use t in simp)
    have c2: "im_timestamps rl s2 = ts" "clock s2 = clock s1" by (simp_all add: s2_def cell)
    have tr: "trim_timestamps rl now s1 = (Inr ts, s2)" by (simp add: trim_run ts1 ts_def s2_def)
    have rest: "(if im_limit rl \<le> length ts
       then (case ts of
           [] \<Rightarrow> raiseM (OtherException ''IndexError'' ''deque index out of range'')
         | oldest # _ \<Rightarrow>
             (let sleep_time = im_window rl - (now - oldest) in
              if 0 < sleep_time
              then thenM (lp_sleep lp sleep_time)
                  (bindM (lp_time lp) (\<lambda>now2.
                   bindM (trim_timestamps rl now2) (\<lambda>_. append_timestamp rl now2)))
              else append_timestamp rl now))
       else append_timestamp rl now) s2 = (x, s')"
      using run t1 Inr tr by (simp add: InMemoryRateLimiter_acquire_def bindM_run)
    show ?thesis
    proof (cases "im_limit rl \<le> length ts")
      case False
      have s': "x = Inr ()" "s' = im_set_timestamps rl (ts @ [now]) s2"
        using False rest c2 by (simp_all add: append_timestamp_def)
      have "im_timestamps rl s' = ts @ [now]" "clock s' = clock s1" by (simp_all add: s' cell c2)
      then show ?thesis using slot_inv_later [OF slot_inv_append [OF i2]] False s' t by simp
    next
      case True
      then obtain oldest ts' where o: "ts = oldest # ts'" using limits(1) by (cases ts) auto
      have young: "\<not> im_window rl \<le> now - oldest"
        using o hd_dropWhile [of "\<lambda>t. im_window rl \<le> now - t" "im_timestamps rl s"]
        by (simp add: ts_def discard_old_def)
      define d where "d = im_window rl - (now - oldest)"
      have d: "0 < d" using young by (simp add: d_def)
      obtain r3 s3 where sl: "lp_sleep lp d s2 = (r3, s3)" by force
      have ts3: "im_timestamps rl s3 = ts" using framesD [OF sleep_frame sl] c2(1) by simp
      show ?thesis
      proof (cases r3)
        case (Inl e)
        then have "x = Inl e" "s' = s3" using rest True o d sl by (simp_all add: Let_def d_def [symmetric] thenM_run)
        then show ?thesis
          using slot_inv_later [OF i2] ts3 sleep_err [OF sl [unfolded Inl]] c2 t by simp
      next
        case (Inr u)
        obtain r4 s4 where t4: "lp_time lp s3 = (r4, s4)" by force
        have ts4: "im_timestamps rl s4 = ts" using framesD [OF time_frame t4] ts3 by simp
        have late: "now + d \<le> clock s3" using sleep_ok [OF sl [unfolded Inr]] c2(2) t by simp
        have go: "bindM (lp_time lp) (\<lambda>now2. bindM (trim_timestamps rl now2) (\<lambda>_. append_timestamp rl now2)) s3 = (x, s')"
          using rest True o d sl Inr by (simp add: Let_def d_def [symmetric] thenM_run)
        show ?thesis
        proof (cases r4)
          case (Inl e)
          then have "x = Inl e" "s' = s4" using go t4 by (simp_all add: bindM_Inl)
          moreover have "now \<le> clock s4" using time_err [OF t4 [unfolded Inl]] late d by simp
          ultimately show ?thesis using slot_inv_later [OF i2] ts4 by simp
        next
          case (Inr now2)
          note t2 = time_ok [OF t4 [unfolded Inr]]
          have "now \<le> now2" using t2 late d by simp
          note i4 = slot_inv_trim [OF slot_inv_later [OF i2 this]]
          have "hd ts + im_window rl \<le> now2" using t2 late by (simp add: o d_def)
          then have room: "length (discard_old (im_window rl) now2 ts) < im_limit rl"
            using discarded_head [of ts now2] i2 o by (simp add: slot_inv_def)
          have s': "x = Inr ()" "im_timestamps rl s' = discard_old (im_window rl) now2 ts @ [now2]" "clock s' = clock s4"
            using go t4 Inr by (auto simp: bindM_run trim_run append_timestamp_def cell ts4)
          then show ?thesis using slot_inv_later [OF slot_inv_append [OF i4 room]] t2 by simp
        qed
      qed
    qed
  qed
qed

lemma slots_inv: "slots lp rl clock s H \<Longrightarrow> slot_inv H (im_timestamps rl s) (clock s)"
proof (induction rule: slots.induct)
  case (start s)
  then show ?case by (simp add: slot_inv_def windowed_def)
next
  case (pass s H s')
  then show ?case using slot_inv_later by simp
next
  case (slot s H u s')
  then show ?case using acquire_slot [OF slot.IH slot.hyps(2)] by simp
next
  case (none s H e s')
  then show ?case using acquire_slot [OF none.IH none.hyps(2)] by simp
qed

end

section \<open>A Telegram server\<close>

text \<open>The next \<open>tl_failures\<close> calls of the API fail; the loop's clock moves by sleeping only.\<close>

record telegram_state =
  tl_clock :: int
  tl_timestamps :: "int list"
  tl_started :: bool
  tl_failures :: nat
  tl_calls :: nat
  tl_messages :: "(int \<times> string) list"

definition tl_loop :: "telegram_state event_loop" where
  "tl_loop =
     \<lparr>lp_time = (\<lambda>s. (Inr (tl_clock s), s)), lp_sleep = (\<lambda>d s. (Inr (), s\<lparr>tl_clock := tl_clock s + max 0 d\<rparr>)),
      lp_wall_ms = (\<lambda>s. (Inr (tl_clock s div 1000), s)), lp_uuid8 = returnM ''00000000''\<rparr>"

definition tl_limiter :: "nat \<Rightarrow> int \<Rightarrow> telegram_state InMemoryRateLimiter" where
  "tl_limiter n w =
     \<lparr>im_limit = Suc n, im_window = max 1 w, im_timestamps = tl_timestamps,
      im_set_timestamps = (\<lambda>ts. tl_timestamps_update (\<lambda>_. ts))\<rparr>"

definition tl_call :: "int \<Rightarrow> string \<Rightarrow> (telegram_state, unit) M" where
  "tl_call chat text = (\<lambda>s.
     if 0 < tl_failures s
     then (Inl (OtherException ''TelegramAPIError'' []), s\<lparr>tl_failures := tl_failures s - 1, tl_calls := tl_calls s + 1\<rparr>)
     else (Inr (), s\<lparr>tl_messages := tl_messages s @ [(chat, text)], tl_calls := tl_calls s + 1\<rparr>))"

definition tl_bot :: "telegram_state AiogramBot" where
  "tl_bot =
     \<lparr>ab_api = \<lparr>tg_send_message = (\<lambda>c t z. tl_call c t), tg_edit_message_text = (\<lambda>c m t. tl_call c t),
        tg_send_document = (\<lambda>c p t z. tl_call c (path_str p)), tg_close_session = returnM ()\<rparr>,
      ab_is_started = tl_started, ab_set_started = (\<lambda>b. tl_started_update (\<lambda>_. b))\<rparr>"

definition tl_notifier :: "nat \<Rightarrow> int \<Rightarrow> telegram_state TelegramNotifier" where
  "tl_notifier n w =
     \<lparr>tn_bot = tl_bot, tn_base_path = Some [''/'', ''b''],
      tn_acquire = InMemoryRateLimiter_acquire tl_loop (tl_limiter n w), tn_loop = tl_loop,
      tn_resolve = returnM, tn_render = (\<lambda>ls. concat (map (\<lambda>l. case l of TxtOther t \<Rightarrow> t | _ \<Rightarrow> ''<i>'') ls))\<rparr>"

interpretation tl: event_clock tl_loop "tl_limiter n w" tl_clock for n w
  by unfold_locales (auto simp: tl_loop_def tl_limiter_def frames_def)

definition sample_telegram :: telegram_state where
  "sample_telegram = \<lparr>tl_clock = 100, tl_timestamps = [], tl_started = True, tl_failures = 2, tl_calls = 0, tl_messages = []\<rparr>"

section \<open>Properties\<close>

text \<open>C38. The in-memory limiter admits at most \<open>limit\<close> messages in any window: over any sequence of
  calls, with any passage of time between them, a slot and the one \<open>limit\<close> places later are at
  least a window apart.\<close>

theorem notifier_rate_bound:
  assumes "event_clock lp rl clock" "slots lp rl clock s H" "k + im_limit rl < length H"
  shows "H ! k + im_window rl \<le> H ! (k + im_limit rl)"
  using event_clock.slots_inv [OF assms(1,2)] assms(3)
  by (simp add: event_clock.slot_inv_def [OF assms(1)] event_clock.windowed_def [OF assms(1)])

lemma sample_slots: "\<exists>s. slots tl_loop (tl_limiter 1 50) tl_clock s [100, 100, 150]"
proof -
  let ?rl = "tl_limiter 1 50"
  have step: "slots tl_loop ?rl tl_clock t (H @ [last (tl_timestamps t)])"
    if "slots tl_loop ?rl tl_clock s H" "InMemoryRateLimiter_acquire tl_loop ?rl s = (Inr (), t)" for s H t
    using slots.slot [OF that] by (simp add: tl_limiter_def)
  note defs = InMemoryRateLimiter_acquire_def tl_loop_def tl_limiter_def trim_timestamps_def
    append_timestamp_def discard_old_def run_simps
  have "slots tl_loop ?rl tl_clock sample_telegram []"
    by (rule slots.start) (simp add: tl_limiter_def sample_telegram_def)
  from step [OF this, of "sample_telegram\<lparr>tl_timestamps := [100]\<rparr>"]
  have "slots tl_loop ?rl tl_clock (sample_telegram\<lparr>tl_timestamps := [100]\<rparr>) [100]"
    by (simp add: sample_telegram_def defs Let_def)
  from step [OF this, of "sample_telegram\<lparr>tl_timestamps := [100, 100]\<rparr>"]
  have "slots tl_loop ?rl tl_clock (sample_telegram\<lparr>tl_timestamps := [100, 100]\<rparr>) [100, 100]"
    by (simp add: sample_telegram_def defs Let_def)
  from step [OF this, of "sample_telegram\<lparr>tl_timestamps := [150], tl_clock := 150\<rparr>"]
  show ?thesis by (intro exI) (simp add: sample_telegram_def defs Let_def)
qed

lemma notifier_rate_bound_witness:
  "\<exists>s. slots tl_loop (tl_limiter 1 50) tl_clock s [100, 100, 150] \<and> [100, 100, 150 :: int] ! 0 + 50 \<le> [100, 100, 150] ! 2"
proof -
  obtain s where s: "slots tl_loop (tl_limiter 1 50) tl_clock s [100, 100, 150]" using sample_slots by blast
  from notifier_rate_bound [OF tl.event_clock_axioms s, of 0] s show ?thesis
    by (auto simp: tl_limiter_def)
qed

text \<open>C39. Sending degrades and ends: when the limiter and the loop work, an operation of the Telegram
  API is tried at least once and at most three times, whatever it raises; no exception reaches the
  caller; the answer is that of the attempt that succeeded, and \<open>None\<close> only after three failures.\<close>

theorem retry_bounded:
  assumes acq: "\<And>s. \<exists>s'. acquire s = (Inr (), s') \<and> calls s' = calls s"
    and sleep: "\<And>d s. \<exists>s'. lp_sleep lp d s = (Inr (), s') \<and> calls s' = calls s"
    and fn: "\<And>s r s'. fn s = (r, s') \<Longrightarrow> calls s' = Suc (calls s)"
  shows "\<exists>r s'. execute_with_retry lp acquire fn s = (Inr r, s') \<and>
    calls s < calls s' \<and> calls s' \<le> calls s + 3 \<and>
    (r = None \<longrightarrow> calls s' = calls s + 3) \<and> (\<forall>x. r = Some x \<longrightarrow> (\<exists>s1. fn s1 = (Inr x, s')))"
proof -
  have loop: "\<exists>r s'. retry_loop lp acquire fn k n s = (Inr r, s') \<and> calls s' \<le> calls s + n \<and>
      (0 < n \<longrightarrow> calls s < calls s') \<and> (r = None \<longrightarrow> calls s' = calls s + n) \<and>
      (\<forall>x. r = Some x \<longrightarrow> (\<exists>s1. fn s1 = (Inr x, s')))" for k n s
  proof (induction n arbitrary: k s)
    case (Suc n)
    obtain s1 where s1: "acquire s = (Inr (), s1)" "calls s1 = calls s" using acq by blast
    obtain y s2 where y: "fn s1 = (y, s2)" by force
    note c2 = fn [OF y]
    show ?case
    proof (cases y)
      case (Inr x)
      then show ?thesis using s1 y c2 by (auto simp: run_simps)
    next
      case (Inl e)
      obtain s3 where s3: "whenM (k < MAX_RETRIES) (lp_sleep lp (BACKOFF_BASE * 2 ^ (k - 1))) s2 = (Inr (), s3)"
          "calls s3 = calls s2"
        using sleep [of "BACKOFF_BASE * 2 ^ (k - 1)" s2] by (cases "k < MAX_RETRIES") (auto simp: whenM_run)
      show ?thesis
        using s1 y c2 Inl s3 Suc.IH [of "k + 1" s3] by (auto simp: run_simps)
    qed
  qed simp
  show ?thesis using loop [of 1 3 s] by (auto simp: execute_with_retry_def MAX_RETRIES_def)
qed

lemma tl_acquire_ok:
  "\<exists>s'. InMemoryRateLimiter_acquire tl_loop (tl_limiter n w) s = (Inr (), s') \<and> tl_calls s' = tl_calls s"
  by (auto simp: InMemoryRateLimiter_acquire_def tl_loop_def tl_limiter_def trim_timestamps_def
      append_timestamp_def run_simps Let_def split: list.split)

lemma retry_bounded_witness:
  "\<exists>r s'. execute_with_retry tl_loop (InMemoryRateLimiter_acquire tl_loop (tl_limiter 29 1000000)) (tl_call 5 ''hi'') sample_telegram = (Inr r, s') \<and>
     tl_calls s' \<le> 3 \<and> r = Some ()"
proof -
  have fn: "tl_calls s' = Suc (tl_calls s)" if "tl_call 5 ''hi'' s = (r, s')" for s r s'
    using that by (auto simp: tl_call_def split: if_splits)
  have run: "fst (execute_with_retry tl_loop (InMemoryRateLimiter_acquire tl_loop (tl_limiter 29 1000000))
      (tl_call 5 ''hi'') sample_telegram) = Inr (Some ())" by code_simp
  let ?run = "execute_with_retry tl_loop (InMemoryRateLimiter_acquire tl_loop (tl_limiter 29 1000000)) (tl_call 5 ''hi'') sample_telegram"
  have sl: "\<exists>s'. lp_sleep tl_loop d s = (Inr (), s') \<and> tl_calls s' = tl_calls s" for d s
    by (simp add: tl_loop_def)
  have "\<exists>r s'. ?run = (Inr r, s') \<and> tl_calls sample_telegram < tl_calls s' \<and> tl_calls s' \<le> tl_calls sample_telegram + 3 \<and>
      (r = None \<longrightarrow> tl_calls s' = tl_calls sample_telegram + 3) \<and>
      (\<forall>x. r = Some x \<longrightarrow> (\<exists>s1. tl_call 5 ''hi'' s1 = (Inr x, s')))"
    by (rule retry_bounded) (fact tl_acquire_ok, fact sl, fact fn)
  then show ?thesis using run by (auto simp: sample_telegram_def)
qed

end
