(* ===== verification/MongoMeta.thy ===== *)
theory MongoMeta
  imports JobStore
begin

text \<open>
  \<^verbatim>\<open>app/infrastructure/mongo/mongo_metadata_adapter.py\<close>: the databases, collections and sizes of a
  cluster. The Motor client is the parameter \<open>mongo_client\<close>; a command under \<open>asyncio.wait_for\<close>
  gets its timeout and may raise \<open>TimeoutError\<close>.
\<close>

record 's mongo_client =
  mc_list_database_names :: "('s, string list) M"
  mc_list_collection_names :: "string \<Rightarrow> ('s, string list) M"
  mc_list_collection_names_within :: "int \<Rightarrow> string \<Rightarrow> ('s, string list) M" \<comment> \<open>timeout in milliseconds\<close>
  mc_db_stats :: "int \<Rightarrow> string \<Rightarrow> ('s, (string \<times> int) list) M"
  mc_coll_stats :: "int \<Rightarrow> string \<Rightarrow> string \<Rightarrow> ('s, (string \<times> int) list) M"

record 's MongoMetadataAdapter =
  ma_client :: "('s, 's mongo_client) M" \<comment> \<open>the property \<open>client\<close> of the connection\<close>
  ma_stat_timeout :: int
  ma_runtime :: "'s Runtime"

definition SYSTEM_DATABASES :: "string set" where
  "SYSTEM_DATABASES = {''admin'', ''local'', ''config''}"

definition get_int :: "string \<Rightarrow> (string \<times> int) list \<Rightarrow> int" where
  "get_int k stats = (case map_of stats k of None \<Rightarrow> 0 | Some n \<Rightarrow> n)"

definition MongoMetadataAdapter_list_databases :: "'s MongoMetadataAdapter \<Rightarrow> string \<Rightarrow> ('s, string list) M" where
  "MongoMetadataAdapter_list_databases ma cluster_uri_hash =
     bindM (ma_client ma) (\<lambda>client.
     bindM (mc_list_database_names client) (\<lambda>names.
     returnM (sort (filter (\<lambda>n. n \<notin> SYSTEM_DATABASES) names))))"

definition MongoMetadataAdapter_list_collections ::
  "'s MongoMetadataAdapter \<Rightarrow> string \<Rightarrow> string \<Rightarrow> ('s, string list) M" where
  "MongoMetadataAdapter_list_collections ma cluster_uri_hash database =
     bindM (ma_client ma) (\<lambda>client.
     bindM (mc_list_collection_names client database) (\<lambda>names. returnM (sort names)))"

definition db_stats :: "'s MongoMetadataAdapter \<Rightarrow> 's mongo_client \<Rightarrow> string \<Rightarrow> ('s, DatabaseSize) M" where
  "db_stats ma client database =
     bindM (mc_db_stats client (ma_stat_timeout ma) database) (\<lambda>stats.
     liftE (validated valid_DatabaseSize ''DatabaseSize''
       \<lparr>ds_database = database, ds_size_bytes = get_int ''dataSize'' stats,
        ds_collection_count = get_int ''collections'' stats\<rparr>))"

definition list_collections_safe :: "'s MongoMetadataAdapter \<Rightarrow> 's mongo_client \<Rightarrow> string \<Rightarrow> ('s, string list) M" where
  "list_collections_safe ma client database =
     mc_list_collection_names_within client (ma_stat_timeout ma) database"

definition collection_stats ::
  "'s MongoMetadataAdapter \<Rightarrow> 's mongo_client \<Rightarrow> string \<Rightarrow> string \<Rightarrow> ('s, CollectionSize) M" where
  "collection_stats ma client database collection =
     bindM (mc_coll_stats client (ma_stat_timeout ma) database collection) (\<lambda>stats.
     liftE (validated valid_CollectionSize ''CollectionSize''
       \<lparr>cs_database = database, cs_collection = collection, cs_size_bytes = get_int ''size'' stats,
        cs_document_count = get_int ''count'' stats\<rparr>))"

text \<open>\<open>asyncio.gather\<close> of two calls: both run, an error of either is raised.\<close>

definition gather2 :: "('s, 'a) M \<Rightarrow> ('s, 'b) M \<Rightarrow> ('s, 'a \<times> 'b) M" where
  "gather2 m n = (\<lambda>s. case m s of (x, s1) \<Rightarrow> case n s1 of (y, s2) \<Rightarrow>
     (case x of Inl e \<Rightarrow> Inl e | Inr a \<Rightarrow> (case y of Inl e \<Rightarrow> Inl e | Inr b \<Rightarrow> Inr (a, b)), s2))"

text \<open>The two loops; every error is logged and the entry skipped.\<close>

fun collect_collections ::
  "'s MongoMetadataAdapter \<Rightarrow> 's mongo_client \<Rightarrow> string \<Rightarrow> string list \<Rightarrow> CollectionSize list \<Rightarrow>
   ('s, CollectionSize list) M" where
  "collect_collections ma client db_name [] collections = returnM collections"
| "collect_collections ma client db_name (c # cs) collections =
     bindM (tryM (bindM (collection_stats ma client db_name c) (\<lambda>col_size. returnM (collections @ [col_size])))
                 (\<lambda>exc. returnM collections))
           (collect_collections ma client db_name cs)"

fun collect_databases ::
  "'s MongoMetadataAdapter \<Rightarrow> 's mongo_client \<Rightarrow> string list \<Rightarrow> DatabaseSize list \<Rightarrow> CollectionSize list \<Rightarrow>
   ('s, DatabaseSize list \<times> CollectionSize list) M" where
  "collect_databases ma client [] databases collections = returnM (databases, collections)"
| "collect_databases ma client (d # ds) databases collections =
     bindM (tryM (bindM (gather2 (db_stats ma client d) (list_collections_safe ma client d)) (\<lambda>r. returnM (Some r)))
                 (\<lambda>exc. returnM None)) (\<lambda>found.
     case found of
       None \<Rightarrow> collect_databases ma client ds databases collections
     | Some (db_size, col_names) \<Rightarrow>
         bindM (collect_collections ma client d col_names collections)
               (collect_databases ma client ds (databases @ [db_size])))"

definition MongoMetadataAdapter_get_size_stats :: "'s MongoMetadataAdapter \<Rightarrow> string \<Rightarrow> ('s, SizeReport) M" where
  "MongoMetadataAdapter_get_size_stats ma cluster_uri_hash =
     bindM (ma_client ma) (\<lambda>client.
     bindM (MongoMetadataAdapter_list_databases ma cluster_uri_hash) (\<lambda>db_names.
     bindM (collect_databases ma client db_names [] []) (\<lambda>(databases, collections).
     bindM (rt_now (ma_runtime ma)) (\<lambda>now.
     liftE (validated valid_SizeReport ''SizeReport''
       \<lparr>sr_cluster_uri_hash = cluster_uri_hash, sr_timestamp = now, sr_databases = databases,
        sr_collections = collections\<rparr>)))))"

definition MongoMetadataAdapter :: "'s MongoMetadataAdapter \<Rightarrow> 's IMongoMetadata" where
  "MongoMetadataAdapter ma =
     \<lparr>mm_list_databases = MongoMetadataAdapter_list_databases ma,
      mm_list_collections = MongoMetadataAdapter_list_collections ma,
      mm_get_size_stats = MongoMetadataAdapter_get_size_stats ma\<rparr>"

section \<open>Lemmas\<close>

text \<open>What one entry of the report is, if the commands for it answer: the reference the loops are
  compared with.\<close>

definition ok_list :: "'e + 'a \<Rightarrow> 'a list" where
  "ok_list x = (case x of Inl _ \<Rightarrow> [] | Inr y \<Rightarrow> [y])"

definition database_entry :: "string \<Rightarrow> (string \<times> int) list \<Rightarrow> DatabaseSize" where
  "database_entry d stats =
     \<lparr>ds_database = d, ds_size_bytes = get_int ''dataSize'' stats, ds_collection_count = get_int ''collections'' stats\<rparr>"

definition collection_entry :: "string \<Rightarrow> string \<Rightarrow> (string \<times> int) list \<Rightarrow> CollectionSize" where
  "collection_entry d c stats =
     \<lparr>cs_database = d, cs_collection = c, cs_size_bytes = get_int ''size'' stats,
      cs_document_count = get_int ''count'' stats\<rparr>"

definition readable_databases :: "(string \<Rightarrow> exn + (string \<times> int) list) \<Rightarrow> (string \<Rightarrow> exn + string list) \<Rightarrow>
    string list \<Rightarrow> (string \<times> (string \<times> int) list \<times> string list) list" where
  "readable_databases dbst names ds =
     [(d, st, cs). d \<leftarrow> ds, st \<leftarrow> ok_list (dbst d), cs \<leftarrow> ok_list (names d),
        valid_DatabaseSize (database_entry d st)]"

definition readable_collections :: "(string \<Rightarrow> string \<Rightarrow> exn + (string \<times> int) list) \<Rightarrow> string \<Rightarrow> string list \<Rightarrow>
    CollectionSize list" where
  "readable_collections cst d cs =
     [collection_entry d c st. c \<leftarrow> cs, st \<leftarrow> ok_list (cst d c), valid_CollectionSize (collection_entry d c st)]"

locale answering_client =
  fixes ma :: "'s MongoMetadataAdapter" and client :: "'s mongo_client"
    and dbst :: "string \<Rightarrow> exn + (string \<times> int) list" and names :: "string \<Rightarrow> exn + string list"
    and cst :: "string \<Rightarrow> string \<Rightarrow> exn + (string \<times> int) list"
  assumes db_answer: "mc_db_stats client (ma_stat_timeout ma) d s = (dbst d, s)"
    and names_answer: "mc_list_collection_names_within client (ma_stat_timeout ma) d s = (names d, s)"
    and coll_answer: "mc_coll_stats client (ma_stat_timeout ma) d c s = (cst d c, s)"
begin

lemma collect_collections_run:
  "collect_collections ma client d cs acc s = (Inr (acc @ readable_collections cst d cs), s)"
proof (induction cs arbitrary: acc)
  case (Cons c cs)
  show ?case
  proof (cases "cst d c")
    case (Inr st)
    then show ?thesis
      by (simp add: Cons.IH bindM_run tryM_run collection_stats_def coll_answer validated_def readable_collections_def
          ok_list_def collection_entry_def [symmetric])
  qed (simp add: Cons.IH bindM_run tryM_run collection_stats_def coll_answer readable_collections_def ok_list_def)
qed (simp add: readable_collections_def)

lemma collect_databases_run:
  "collect_databases ma client ds dbs cs s =
     (Inr (dbs @ map (\<lambda>(d, st, ns). database_entry d st) (readable_databases dbst names ds),
           cs @ concat (map (\<lambda>(d, st, ns). readable_collections cst d ns) (readable_databases dbst names ds))), s)"
proof (induction ds arbitrary: dbs cs)
  case (Cons d ds)
  show ?case
    by (cases "dbst d"; cases "names d")
      (simp_all add: Cons.IH bindM_run tryM_run gather2_def db_stats_def list_collections_safe_def db_answer names_answer
        validated_def readable_databases_def ok_list_def database_entry_def [symmetric] collect_collections_run)
qed (simp add: readable_databases_def)

lemma readable_valid:
  "list_all valid_DatabaseSize (map (\<lambda>(d, st, ns). database_entry d st) (readable_databases dbst names ds))"
  "list_all valid_CollectionSize (readable_collections cst d cs)"
  by (auto simp: readable_databases_def readable_collections_def list_all_iff)

end

section \<open>A cluster\<close>

text \<open>A cluster as a table: per database its statistics, its collections and theirs; an entry that is
  missing makes the command fail.\<close>

type_synonym catalog =
  "(string \<times> (string \<times> int) list option \<times> (string \<times> (string \<times> int) list option) list) list"

definition absent :: "exn" where "absent = TimeoutError ''no answer''"

definition catalog_dbst :: "catalog \<Rightarrow> string \<Rightarrow> exn + (string \<times> int) list" where
  "catalog_dbst cat d = (case map_of cat d of Some (Some st, _) \<Rightarrow> Inr st | _ \<Rightarrow> Inl absent)"

definition catalog_names :: "catalog \<Rightarrow> string \<Rightarrow> exn + string list" where
  "catalog_names cat d = (case map_of cat d of Some (_, cs) \<Rightarrow> Inr (filter (\<lambda>c. c \<noteq> []) (map fst cs)) | None \<Rightarrow> Inr [])"

definition catalog_cst :: "catalog \<Rightarrow> string \<Rightarrow> string \<Rightarrow> exn + (string \<times> int) list" where
  "catalog_cst cat d c = (case map_of cat d of
     Some (_, cs) \<Rightarrow> (case map_of cs c of Some (Some st) \<Rightarrow> Inr st | _ \<Rightarrow> Inl absent) | None \<Rightarrow> Inl absent)"

definition catalog_client :: "catalog \<Rightarrow> 's mongo_client" where
  "catalog_client cat =
     \<lparr>mc_list_database_names = returnM (filter (\<lambda>d. d \<noteq> []) (map fst cat)), mc_list_collection_names = (\<lambda>d. liftE (catalog_names cat d)),
      mc_list_collection_names_within = (\<lambda>t d. liftE (catalog_names cat d)),
      mc_db_stats = (\<lambda>t d. liftE (catalog_dbst cat d)), mc_coll_stats = (\<lambda>t d c. liftE (catalog_cst cat d c))\<rparr>"

definition catalog_adapter :: "catalog \<Rightarrow> 's Runtime \<Rightarrow> 's MongoMetadataAdapter" where
  "catalog_adapter cat rt = \<lparr>ma_client = returnM (catalog_client cat), ma_stat_timeout = 15000, ma_runtime = rt\<rparr>"

interpretation catalog: answering_client "catalog_adapter cat rt" "catalog_client cat"
  "catalog_dbst cat" "catalog_names cat" "catalog_cst cat" for cat rt
  by unfold_locales (simp_all add: catalog_client_def)

section \<open>Properties\<close>

text \<open>C40. A size report is complete up to what does not answer: over a cluster that answers each command
  in one way, the report has, in order, exactly the databases (system ones excluded, sorted) whose
  statistics and collection names could be read, and for each of them exactly the collections whose
  statistics could be read. A command that fails or times out, or an answer that is no valid entry,
  costs its own entry and never the report.\<close>

theorem size_report_complete:
  assumes client: "answering_client ma client dbst names cst" "ma_client ma s = (Inr client, s)"
    and dbs: "mc_list_database_names client s = (Inr ds, s)"
    and now: "rt_now (ma_runtime ma) s = (Inr t, s')" and h: "is_sha256_hex h"
  shows "let readable = [(d, st, cs). d \<leftarrow> sort (filter (\<lambda>n. n \<notin> {''admin'', ''local'', ''config''}) ds),
             st \<leftarrow> ok_list (dbst d), cs \<leftarrow> ok_list (names d), valid_DatabaseSize (database_entry d st)] in
    MongoMetadataAdapter_get_size_stats ma h s =
      (Inr \<lparr>sr_cluster_uri_hash = h, sr_timestamp = t, sr_databases = [database_entry d st. (d, st, cs) \<leftarrow> readable],
            sr_collections = [collection_entry d c cst'. (d, st, cs) \<leftarrow> readable, c \<leftarrow> cs,
               cst' \<leftarrow> ok_list (cst d c), valid_CollectionSize (collection_entry d c cst')]\<rparr>, s')"
proof -
  let ?r = "readable_databases dbst names (sort (filter (\<lambda>n. n \<notin> {''admin'', ''local'', ''config''}) ds))"
  have "list_all valid_CollectionSize (concat (map (\<lambda>(d, st, ns). readable_collections cst d ns) ?r))"
    using answering_client.readable_valid(2) [OF client(1)] by (fastforce simp: list_all_iff)
  then show ?thesis
    using client(2) dbs now h answering_client.readable_valid(1) [OF client(1)]
    by (simp add: MongoMetadataAdapter_get_size_stats_def MongoMetadataAdapter_list_databases_def bindM_run Let_def
        SYSTEM_DATABASES_def answering_client.collect_databases_run [OF client(1)] valid_SizeReport_def validated_def
        readable_databases_def [symmetric] readable_collections_def [symmetric] map_concat [symmetric] split_def)
qed

definition still_runtime :: "datetime \<Rightarrow> unit Runtime" where
  "still_runtime t = \<lparr>rt_now = returnM t, rt_monotonic = returnM t, rt_uuid_hex = returnM ''0'',
     rt_uuid_str = returnM ''0'', rt_sleep_ms = (\<lambda>n. returnM ())\<rparr>"

definition sample_catalog :: catalog where
  "sample_catalog =
     [(''shop'', Some [(''dataSize'', 30), (''collections'', 2)],
        [(''orders'', Some [(''size'', 20), (''count'', 4)]), (''logs'', None), (''carts'', Some [(''size'', -1)])]),
      (''admin'', Some [], []), (''broken'', None, [(''x'', Some [])])]"

lemma size_report_complete_witness:
  "\<exists>r. MongoMetadataAdapter_get_size_stats (catalog_adapter sample_catalog (still_runtime 9)) (replicate 64 CHR ''a'') () = (Inr r, ()) \<and>
     sr_databases r = [\<lparr>ds_database = ''shop'', ds_size_bytes = 30, ds_collection_count = 2\<rparr>] \<and>
     sr_collections r = [\<lparr>cs_database = ''shop'', cs_collection = ''orders'', cs_size_bytes = 20, cs_document_count = 4\<rparr>]"
proof -
  let ?ma = "catalog_adapter sample_catalog (still_runtime 9)"
  let ?readable = "[(d, st, cs). d \<leftarrow> sort (filter (\<lambda>n. n \<notin> {''admin'', ''local'', ''config''}) (map fst sample_catalog)),
      st \<leftarrow> ok_list (catalog_dbst sample_catalog d), cs \<leftarrow> ok_list (catalog_names sample_catalog d),
      valid_DatabaseSize (database_entry d st)]"
  note k = size_report_complete [OF catalog.answering_client_axioms]
  have c: "ma_client ?ma () = (Inr (catalog_client sample_catalog), ())" by (simp add: catalog_adapter_def)
  have n: "mc_list_database_names (catalog_client sample_catalog) () = (Inr (map fst sample_catalog), ())"
    by (simp add: catalog_client_def sample_catalog_def)
  have t: "rt_now (ma_runtime ?ma) () = (Inr 9, ())" by (simp add: catalog_adapter_def still_runtime_def)
  have h: "is_sha256_hex (replicate 64 CHR ''a'')" by code_simp
  have r: "?readable = [(''shop'', [(''dataSize'', 30), (''collections'', 2)], [''orders'', ''logs'', ''carts''])]" by code_simp
  have ds: "[database_entry d st. (d, st, cs) \<leftarrow> ?readable] = [\<lparr>ds_database = ''shop'', ds_size_bytes = 30, ds_collection_count = 2\<rparr>]"
    unfolding r by code_simp
  have cs: "[collection_entry d c cst'. (d, st, cs) \<leftarrow> ?readable, c \<leftarrow> cs, cst' \<leftarrow> ok_list (catalog_cst sample_catalog d c),
      valid_CollectionSize (collection_entry d c cst')] =
      [\<lparr>cs_database = ''shop'', cs_collection = ''orders'', cs_size_bytes = 20, cs_document_count = 4\<rparr>]"
    unfolding r by code_simp
  show ?thesis
    using k [OF c n t h] unfolding Let_def ds cs by (intro exI conjI) (assumption, simp_all)
qed

end
