(* ===== verification/World.thy ===== *)
theory World
  imports RequestBackup UserStore Retention Engine Notifier MongoMeta
begin

text \<open>
  A closed world in which the services run: one state with the job, audit, user and rate-limit
  tables, a Redis server, the RQ queue, a directory of backup files and the messages sent. The
  repositories, locks and limiters are the program's own adapters (\<open>SQLJobRepository\<close>,
  \<open>RedisLockManager\<close>, \<dots>) over the reference sessions and server, carried to the world by
  \<open>zoom\<close>. The contracts of the services are interpreted here, and the witnesses run here.
\<close>

section \<open>Carrying a component's state to the world\<close>

definition zoom :: "('w \<Rightarrow> 's) \<Rightarrow> ('s \<Rightarrow> 'w \<Rightarrow> 'w) \<Rightarrow> ('s, 'e, 'a) em \<Rightarrow> ('w, 'e, 'a) em" where
  "zoom get put m = (\<lambda>w. case m (get w) of (x, t) \<Rightarrow> (x, put t w))"

definition zoom_session :: "('w \<Rightarrow> 's) \<Rightarrow> ('s \<Rightarrow> 'w \<Rightarrow> 'w) \<Rightarrow> ('s, 'r) session \<Rightarrow> ('w, 'r) session" where
  "zoom_session get put ses =
     \<lparr>ss_select = (\<lambda>q. zoom get put (ss_select ses q)),
      ss_count = (\<lambda>P. zoom get put (ss_count ses P)),
      ss_commit = (\<lambda>c. zoom get put (ss_commit ses c)),
      ss_rollback = zoom get put (ss_rollback ses)\<rparr>"

text \<open>A script runs over the carried commands, so \<open>EVAL\<close> only has to run it.\<close>

definition zoom_redis :: "('w \<Rightarrow> 's) \<Rightarrow> ('s \<Rightarrow> 'w \<Rightarrow> 'w) \<Rightarrow> 's redis \<Rightarrow> 'w redis" where
  "zoom_redis get put rd =
     \<lparr>rd_set_nx_ex = (\<lambda>k v n. zoom get put (rd_set_nx_ex rd k v n)),
      rd_get = (\<lambda>k. zoom get put (rd_get rd k)), rd_del = (\<lambda>k. zoom get put (rd_del rd k)),
      rd_exists = (\<lambda>k. zoom get put (rd_exists rd k)),
      rd_zremrangebyscore = (\<lambda>k a b. zoom get put (rd_zremrangebyscore rd k a b)),
      rd_zadd = (\<lambda>k a b. zoom get put (rd_zadd rd k a b)),
      rd_expire = (\<lambda>k a. zoom get put (rd_expire rd k a)),
      rd_zcard = (\<lambda>k. zoom get put (rd_zcard rd k)), rd_eval = (\<lambda>m. m)\<rparr>"

lemma zoom_run: "zoom get put m w = (x, w') \<longleftrightarrow> (\<exists>t. m (get w) = (x, t) \<and> w' = put t w)"
  by (auto simp: zoom_def split: prod.split)

lemma zoom_frames:
  "frames view m \<Longrightarrow> (\<And>t w. get (put t w) = t) \<Longrightarrow> frames (\<lambda>w. view (get w)) (zoom get put m)"
  by (auto simp: frames_def zoom_def split: prod.split) (metis snd_conv)

text \<open>What the component does not hold, it leaves alone.\<close>

lemma zoom_frames_other:
  "(\<And>t w. other (put t w) = other w) \<Longrightarrow> frames other (zoom get put m)"
  by (simp add: frames_def zoom_def split: prod.split)

lemma zoom_sql_session:
  assumes "sql_session ses rows" and gp: "\<And>t w. get (put t w) = t"
  shows "sql_session (zoom_session get put ses) (\<lambda>w. rows (get w))"
proof -
  note s = sql_session.select_frame [OF assms(1)] sql_session.count_frame [OF assms(1)]
    sql_session.rollback_frame [OF assms(1)]
  show ?thesis
    using sql_session.select_ok [OF assms(1)] sql_session.count_ok [OF assms(1)]
      sql_session.commit_ok [OF assms(1)] sql_session.commit_err [OF assms(1)]
    by unfold_locales
      (auto simp: zoom_session_def zoom_run gp intro!: zoom_frames s gp, blast+)
qed

section \<open>The world\<close>

record world =
  w_jobs :: "JobORM ref_table"
  w_audit :: "AuditLogORM ref_table"
  w_users :: "UserORM ref_table"
  w_rates :: "RateLimitORM ref_table"
  w_redis :: ref_store
  w_queue :: "(string \<times> string) list" \<comment> \<open>RQ jobs and their status\<close>
  w_dump :: dump_state \<comment> \<open>the file system and the \<^verbatim>\<open>mongodump\<close> processes\<close>
  w_clock :: datetime
  w_cluster :: catalog \<comment> \<open>the MongoDB cluster\<close>
  w_telegram :: telegram_state
  w_last_ui :: int
  w_sigterm_after :: "nat option" \<comment> \<open>shutdown is requested once that many dumps were started\<close>
  w_open :: "string list" \<comment> \<open>the connections that are open\<close>

definition start_dump :: dump_state where
  "start_dump =
     \<lparr>ds_fs = \<lparr>vf_nodes = [([''/'', ''backups''], Directory 0)], vf_cwd = [''/''],
                vf_volume = (10000000000, 5000000000, 5000000000), vf_clock = 7\<rparr>,
      ds_temps = [], ds_source = [], ds_procs = []\<rparr>"

definition start_telegram :: telegram_state where
  "start_telegram = \<lparr>tl_clock = 0, tl_timestamps = [], tl_started = True, tl_failures = 0, tl_calls = 0, tl_messages = []\<rparr>"

definition start_world :: world where
  "start_world =
     \<lparr>w_jobs = \<lparr>rf_rows = [], rf_next = 0\<rparr>, w_audit = \<lparr>rf_rows = [], rf_next = 0\<rparr>,
      w_users = \<lparr>rf_rows = [], rf_next = 0\<rparr>, w_rates = \<lparr>rf_rows = [], rf_next = 0\<rparr>,
      w_redis = empty_store, w_queue = [], w_dump = start_dump, w_clock = 1000000, w_cluster = [],
      w_telegram = start_telegram, w_last_ui = 0, w_sigterm_after = None, w_open = []\<rparr>"

text \<open>An identifier longer than every identifier in the job table.\<close>

definition world_uuid :: "(world, string) M" where
  "world_uuid = (\<lambda>w. (Inr (CHR ''j'' # concat (map jo_id (rf_rows (w_jobs w)))), w))"

definition world_runtime :: "world Runtime" where
  "world_runtime =
     \<lparr>rt_now = (\<lambda>w. (Inr (w_clock w), w\<lparr>w_clock := w_clock w + 1\<rparr>)),
      rt_monotonic = (\<lambda>w. (Inr (w_clock w), w\<lparr>w_clock := w_clock w + 1\<rparr>)),
      rt_uuid_hex = world_uuid, rt_uuid_str = zoom w_redis (\<lambda>t. w_redis_update (\<lambda>_. t)) ref_uuid,
      rt_sleep_ms = (\<lambda>n w. (Inr (), w\<lparr>w_clock := w_clock w + n * 1000\<rparr>))\<rparr>"

definition job_session :: "(world, JobORM) session" where
  "job_session = zoom_session w_jobs (\<lambda>t. w_jobs_update (\<lambda>_. t)) ref_session"

definition audit_session :: "(world, AuditLogORM) session" where
  "audit_session = zoom_session w_audit (\<lambda>t. w_audit_update (\<lambda>_. t)) ref_session"

definition user_session :: "(world, UserORM) session" where
  "user_session = zoom_session w_users (\<lambda>t. w_users_update (\<lambda>_. t)) ref_session"

definition rate_session :: "(world, RateLimitORM) session" where
  "rate_session = zoom_session w_rates (\<lambda>t. w_rates_update (\<lambda>_. t)) ref_session"

definition world_redis :: "world redis" where
  "world_redis = zoom_redis w_redis (\<lambda>t. w_redis_update (\<lambda>_. t)) ref_redis"

definition world_rq :: "world rq_client" where
  "world_rq =
     \<lparr>rq_enqueue_in = (\<lambda>secs i ty p front w. (Inr i, w\<lparr>w_queue := w_queue w @ [(i, ''scheduled'')]\<rparr>)),
      rq_fetch = (\<lambda>i w. (if map_of (w_queue w) i = None then Inl (OtherException ''NoSuchJobError'' i) else Inr (), w)),
      rq_get_status = (\<lambda>i w. (Inr (case map_of (w_queue w) i of None \<Rightarrow> [] | Some s \<Rightarrow> s), w)),
      rq_cancel = (\<lambda>i w. (Inr (), w\<lparr>w_queue := AList.update i ''canceled'' (w_queue w)\<rparr>)),
      rq_retry_count = (\<lambda>i w. (Inr 0, w)), rq_save_retry_count = (\<lambda>i n w. (Inr (), w)),
      rq_requeue = (\<lambda>i w. (Inr i, w\<lparr>w_queue := AList.update i ''queued'' (w_queue w)\<rparr>))\<rparr>"

definition world_jobs :: "world IJobRepository" where
  "world_jobs = SQLJobRepository world_runtime job_session"

definition world_audit :: "world IAuditRepository" where
  "world_audit = SQLAuditRepository audit_session"

definition world_locks :: "world ILockManager" where
  "world_locks = RedisLockManager world_runtime world_redis"

definition world_manager :: "world JobManager" where
  "world_manager =
     \<lparr>jm_job_repository = world_jobs, jm_job_queue = RQJobQueue world_rq,
      jm_permission_service = default_service, jm_audit_repository = world_audit,
      jm_runtime = world_runtime\<rparr>"

definition zoom_fs :: "('w \<Rightarrow> 's) \<Rightarrow> ('s \<Rightarrow> 'w \<Rightarrow> 'w) \<Rightarrow> 's IFsUtils \<Rightarrow> 'w IFsUtils" where
  "zoom_fs get put fs =
     \<lparr>fs_ensure_dir = (\<lambda>p. zoom get put (fs_ensure_dir fs p)),
      fs_write_text = (\<lambda>p t. zoom get put (fs_write_text fs p t)),
      fs_get_folder_size = (\<lambda>p. zoom get put (fs_get_folder_size fs p)),
      fs_get_disk_usage = (\<lambda>p. zoom get put (fs_get_disk_usage fs p)),
      fs_compress = (\<lambda>p q. zoom get put (fs_compress fs p q)), fs_delete = (\<lambda>p. zoom get put (fs_delete fs p)),
      fs_list_files = (\<lambda>p pat. zoom get put (fs_list_files fs p pat)),
      fs_list_files_recursive = (\<lambda>p pat. zoom get put (fs_list_files_recursive fs p pat)),
      fs_get_modification_time = (\<lambda>p. zoom get put (fs_get_modification_time fs p))\<rparr>"

definition world_fs :: "world IFsUtils" where
  "world_fs = zoom_fs (ds_fs \<circ> w_dump) (\<lambda>t. w_dump_update (ds_fs_update (\<lambda>_. t)))
     (AioFsUtils \<lparr>au_base_path = Some [''/'', ''backups''], au_gzip_size = (\<lambda>n. n)\<rparr>)"

definition world_request :: "world RequestBackupUseCase" where
  "world_request =
     \<lparr>rb_permission_service = default_service,
      rb_rate_limit_repo = SQLRateLimitRepository world_runtime rate_session,
      rb_fs_utils = world_fs, rb_job_manager = world_manager, rb_audit_repository = world_audit,
      rb_lock_manager = Some world_locks, rb_backup_base_path = [''/'', ''backups''],
      rb_max_backup_rate = 1, rb_backup_rate_window = 60, rb_min_free_disk_bytes = 1073741824,
      rb_runtime = world_runtime\<rparr>"

section \<open>The contracts hold in the world\<close>

abbreviation job_rows :: "world \<Rightarrow> JobORM list" where
  "job_rows w \<equiv> rf_rows (w_jobs w)"

abbreviation stored_jobs :: "world \<Rightarrow> string \<Rightarrow> BackupJob option" where
  "stored_jobs w \<equiv> job_of_rows (job_rows w)"

abbreviation held_locks :: "world \<Rightarrow> string \<Rightarrow> string option" where
  "held_locks w \<equiv> live_string (w_redis w)"

lemma job_session_sql: "sql_session job_session job_rows"
  unfolding job_session_def by (rule zoom_sql_session [OF ref_sql.sql_session_axioms]) simp

interpretation wjobs: sql_job_session job_session job_rows
  unfolding sql_job_session_def by (rule job_session_sql)

lemma audit_frames_world:
  "(\<And>t w. view (w_audit_update (\<lambda>_. t) w) = view w) \<Longrightarrow> audit_frames view world_audit"
  unfolding audit_frames_def world_audit_def SQLAuditRepository_def SQLAuditRepository_log_def
    audit_session_def zoom_session_def
  by (simp add: zoom_frames_other)

lemma runtime_frames_world:
  "(\<And>t w. view (w_clock_update (\<lambda>_. t) w) = view w) \<Longrightarrow>
   frames view (zoom w_redis (\<lambda>t. w_redis_update (\<lambda>_. t)) ref_uuid) \<Longrightarrow> runtime_frames view world_runtime"
  unfolding runtime_frames_def world_runtime_def world_uuid_def
  by (simp add: frames_def)

lemma rq_frames_world:
  "(\<And>t w. view (w_queue_update (\<lambda>_. t) w) = view w) \<Longrightarrow>
   frames view (jq_enqueue (RQJobQueue world_rq) i ty p pr) \<and> frames view (jq_cancel_job (RQJobQueue world_rq) q)"
  unfolding RQJobQueue_def RQJobQueue_enqueue_def RQJobQueue_cancel_job_def world_rq_def
  by (auto simp: frames_def tryM_def thenM_def bindM_def split: sum.splits)

lemma manager_frames_world:
  assumes "\<And>t w. view (w_audit_update (\<lambda>_. t) w) = view w"
    and "\<And>t w. view (w_clock_update (\<lambda>_. t) w) = view w"
    and "\<And>t w. view (w_queue_update (\<lambda>_. t) w) = view w"
    and "frames view (zoom w_redis (\<lambda>t. w_redis_update (\<lambda>_. t)) ref_uuid)"
  shows "manager_frames view world_manager"
  unfolding manager_frames_def world_manager_def JobManager.simps
  by (intro conjI allI runtime_frames_world audit_frames_world assms
      rq_frames_world [THEN conjunct1] rq_frames_world [THEN conjunct2])

lemma uuid_keeps_locks: "frames held_locks (zoom w_redis (\<lambda>t. w_redis_update (\<lambda>_. t)) ref_uuid)"
  by (rule zoom_frames) (simp_all add: frames_def ref_uuid_def live_string_def fun_eq_iff split: option.split)

lemma world_fresh:
  "rt_uuid_hex world_runtime w = (Inr i, w') \<Longrightarrow> rows_of i (job_rows w) = []"
proof -
  assume "rt_uuid_hex world_runtime w = (Inr i, w')"
  then have i: "i = CHR ''j'' # concat (map jo_id (job_rows w))"
    by (auto simp: world_runtime_def world_uuid_def)
  have "length (jo_id r) < length i" if "r \<in> set (job_rows w)" for r
    using that member_le_sum_list [of "length (jo_id r)" "map (length \<circ> jo_id) (job_rows w)"]
    by (force simp: i length_concat comp_def)
  then show ?thesis by (fastforce simp: rows_of_def filter_empty_conv)
qed

interpretation wmanager: job_manager world_manager stored_jobs
  "\<lambda>w. persisted (job_rows w)" "\<lambda>w. clean_rows (job_rows w)"
proof (intro job_manager.intro job_manager_axioms.intro)
  show "job_repository (jm_job_repository world_manager) stored_jobs (\<lambda>w. persisted (job_rows w))
      wf_job (\<lambda>w. clean_rows (job_rows w))"
    using wjobs.repo.job_repository_axioms [of world_runtime]
    by (simp add: world_manager_def world_jobs_def)
  show "manager_frames (\<lambda>s. (stored_jobs s, clean_rows (job_rows s))) world_manager"
    by (rule manager_frames_world) (simp_all add: zoom_frames_other)
qed

lemma rate_frames_world:
  assumes "\<And>t w. view (w_rates_update (\<lambda>_. t) w) = view w"
    and "\<And>t w. view (w_clock_update (\<lambda>_. t) w) = view w"
  shows "frames view (SQLRateLimitRepository_increment world_runtime rate_session tid act win)"
proof -
  have c: "frames view (rt_now world_runtime)" "frames view (ss_select rate_session q)"
    "frames view (ss_commit rate_session c)" for q c
    using assms(2)
    by (simp_all add: world_runtime_def frames_def [of view "\<lambda>w. (Inr (w_clock w), w\<lparr>w_clock := w_clock w + 1\<rparr>)"]
        rate_session_def zoom_session_def zoom_frames_other assms(1))
  show ?thesis
    unfolding SQLRateLimitRepository_increment_def by ((rule c | rule frame_intros)+)
qed

lemma put_same_fs: "w_dump_update (ds_fs_update (\<lambda>_. ds_fs (w_dump w))) w = w"
proof -
  have "ds_fs_update (\<lambda>_. ds_fs d) d = d" for d :: dump_state by (rule dump_state.equality) simp_all
  then show ?thesis by (intro world.equality) simp_all
qed

text \<open>The disk usage is only read.\<close>

lemma world_fs_frames: "frames view (fs_get_disk_usage world_fs p)"
  by (simp add: world_fs_def zoom_fs_def zoom_def AioFsUtils_def AioFsUtils_get_disk_usage_def frames_def
      run_simps comp_def put_same_fs split: sum.split)

lemma request_frames_world:
  assumes "\<And>t w. view (w_audit_update (\<lambda>_. t) w) = view w"
    and "\<And>t w. view (w_clock_update (\<lambda>_. t) w) = view w"
    and "\<And>t w. view (w_queue_update (\<lambda>_. t) w) = view w"
    and "\<And>t w. view (w_rates_update (\<lambda>_. t) w) = view w"
    and "frames view (zoom w_redis (\<lambda>t. w_redis_update (\<lambda>_. t)) ref_uuid)"
  shows "request_frames view world_request"
proof -
  have "frames view (fs_get_disk_usage world_fs p)" for p by (rule world_fs_frames)
  moreover have "frames view (rl_increment (SQLRateLimitRepository world_runtime rate_session) t a w)" for t a w
    using rate_frames_world [OF assms(4,2)] by (simp add: SQLRateLimitRepository_def)
  ultimately show ?thesis
    unfolding request_frames_def world_request_def RequestBackupUseCase.simps
    by (intro conjI allI runtime_frames_world [OF assms(2,5)] audit_frames_world [OF assms(1)]
        manager_frames_world [OF assms(1,2,3,5)])
qed

lemma redis_frames_world:
  assumes "\<And>t w. view (w_redis_update (\<lambda>_. t) w) = view w"
  shows "frames view (lm_acquire world_locks r n)" "frames view (lm_release world_locks r tok)"
proof -
  have c: "frames view (rd_set_nx_ex world_redis k v ttl)" "frames view (rd_get world_redis k)"
    "frames view (rd_del world_redis k)" "frames view (rt_uuid_str world_runtime)" for k v ttl
    by (simp_all add: world_redis_def zoom_redis_def world_runtime_def zoom_frames_other assms)
  have e: "rd_eval world_redis m = m" for m by (simp add: world_redis_def zoom_redis_def)
  show "frames view (lm_acquire world_locks r n)"
    unfolding world_locks_def RedisLockManager_def ILockManager.simps RedisLockManager_acquire_def
    by ((rule c | rule frame_intros)+)
  show "frames view (lm_release world_locks r tok)"
    unfolding world_locks_def RedisLockManager_def ILockManager.simps RedisLockManager_release_def
      RELEASE_SCRIPT_def e
    by ((rule c | rule frame_intros)+)
qed

interpretation wrequest: backup_request world_request stored_jobs
  "\<lambda>w. persisted (job_rows w)" "\<lambda>w. clean_rows (job_rows w)"
proof (intro backup_request.intro backup_request_axioms.intro)
  show "job_manager (rb_job_manager world_request) stored_jobs (\<lambda>w. persisted (job_rows w))
      (\<lambda>w. clean_rows (job_rows w))"
    using wmanager.job_manager_axioms by (simp add: world_request_def)
  show "request_frames (\<lambda>s. (stored_jobs s, clean_rows (job_rows s))) world_request"
    by (rule request_frames_world) (simp_all add: zoom_frames_other)
  show "(\<forall>r n. frames (\<lambda>s. (stored_jobs s, clean_rows (job_rows s))) (lm_acquire lm r n)) \<and>
      (\<forall>r t. frames (\<lambda>s. (stored_jobs s, clean_rows (job_rows s))) (lm_release lm r t))"
    if "rb_lock_manager world_request = Some lm" for lm
    using that by (auto simp: world_request_def intro!: redis_frames_world)
  show "stored_jobs s i = None \<and> clean_rows (job_rows s) i"
    if "rt_uuid_hex (jm_runtime (rb_job_manager world_request)) s = (Inr i, s')" for s i s'
  proof -
    have "rows_of i (job_rows s) = []"
      using world_fresh that by (simp add: world_request_def world_manager_def)
    then show ?thesis by (simp add: job_of_rows_def clean_rows_def)
  qed
qed

text \<open>The world's locks are the Redis locks on its server.\<close>

lemma held_zoom:
  "held_locks (w_redis_update (\<lambda>_. t) w) = live_string t" by simp

interpretation wredis: redis_server world_runtime world_redis held_locks
proof
  show "runtime_frames held_locks world_runtime"
    by (rule runtime_frames_world) (simp_all add: uuid_keeps_locks)
  show "frames held_locks (rd_exists world_redis k)" for k
    unfolding world_redis_def zoom_redis_def redis.simps
    by (rule zoom_frames [OF ref.exists_frame]) simp
qed (auto simp: world_redis_def zoom_redis_def zoom_run
    dest: ref.set_ok ref.set_no ref.set_err ref.get_ok ref.del_ok)

lemma world_lock_manager: "lock_manager world_locks held_locks"
  unfolding world_locks_def by (rule wredis.lock.lock_manager_axioms)

lemma world_locks_answer: "lock_answers world_locks held_locks"
proof -
  have "held_locks s' = held_locks s" if "lm_acquire world_locks r ttl s = (Inl e, s')" for r ttl s e s'
  proof -
    obtain u s1 where u: "rt_uuid_str world_runtime s = (Inr u, s1)"
      by (auto simp: world_runtime_def zoom_def ref_uuid_def)
    have "rd_set_nx_ex world_redis r u ttl s1 = (Inl e, s')"
      using that u by (auto simp: world_locks_def RedisLockManager_def RedisLockManager_acquire_def
          bindM_def split: prod.splits sum.splits)
    then have "s' = s1"
      by (auto simp: world_redis_def zoom_redis_def zoom_run ref_redis_def ref_set_nx_ex_def split: if_splits)
    then show ?thesis using wredis.uuid_frame [OF u] by simp
  qed
  moreover have "\<exists>s'. lm_release world_locks r tok s = (Inr True, s')" if "held_locks s r = Some tok" for r tok s
    using that
    by (auto simp: world_locks_def RedisLockManager_def RedisLockManager_release_def RELEASE_SCRIPT_def
        world_redis_def zoom_redis_def zoom_def ref_redis_def ref_del_def bindM_def tryM_def)
  ultimately show ?thesis unfolding lock_answers_def by blast
qed

section \<open>Running the program in the world\<close>

text \<open>
  A run in the world is evaluated by the simplifier, one call after the other: \<open>exec_cong\<close> keeps it
  out of the code still to come, \<open>exec_defs\<close> unfolds the call at hand.
\<close>

lemma exec_cong:
  "m = m' \<Longrightarrow> bindM m f = bindM m' f" "m = m' \<Longrightarrow> thenM m n = thenM m' n"
  "m = m' \<Longrightarrow> tryM m h = tryM m' h" "m = m' \<Longrightarrow> finallyM m n = finallyM m' n"
  by simp_all

lemma exec_parse:
  "parse_topic ''BACKUP_REQUESTS'' = Inr BACKUP_REQUESTS"
  "parse_coll_status ''PENDING'' = Inr CollectionBackupStatus.PENDING"
  "parse_coll_status ''SUCCESS'' = Inr CollectionBackupStatus.SUCCESS"
  "parse_coll_status ''FAILED'' = Inr CollectionBackupStatus.FAILED"
  "parse_backup_type ''CUSTOM'' = Inr CUSTOM" "parse_backup_type ''FULL'' = Inr FULL"
  "parse_status ''PENDING'' = Inr JobStatus.PENDING" "parse_status ''QUEUED'' = Inr QUEUED"
  "parse_status ''RUNNING'' = Inr JobStatus.RUNNING" "parse_status ''SUCCESS'' = Inr JobStatus.SUCCESS"
  "parse_status ''FAILED'' = Inr JobStatus.FAILED" "parse_status ''CANCELLED'' = Inr CANCELLED"
  "parse_status ''PARTIAL_SUCCESS'' = Inr PARTIAL_SUCCESS"
  by code_simp+

lemmas exec_services =
  bindM_run thenM_run tryM_run finallyM_run whenM_run Let_def
  request_of_dto_def valid_CreateJobRequest_def validated_def valid_CollectionTarget_def
  RequestBackupUseCase_execute_def request_body_def JobManager_create_job_def
  JobManager_enqueue_job_def JobManager_cancel_job_def require_job_def enqueue_payload_def
  release_suppressed_def AuditService_log_action_def AuditService_log_job_event_def
  valid_AuditLog_def user_of_principal_def mk_User_def User_can_execute_def COMMAND_PERMISSIONS_def
  PermissionService_can_cancel_def BackupJob_can_be_cancelled_by_def User_has_role_def
  BackupJob_create_custom_def BackupJob_create_full_def new_job_def valid_BackupJob_def mark_defs
  BackupJob_transition_def truthy_def opt_int_def opt_str_def or_int_def mk_CollectionTarget_def
  exec_parse

lemmas exec_adapters =
  RedisLockManager_def RedisLockManager_acquire_def RedisLockManager_release_def RELEASE_SCRIPT_def
  SQLJobRepository_def SQLJobRepository_get_by_id_def SQLJobRepository_save_def to_entity_def
  to_orm_def update_orm_def progress_of_row_def set_progress_def dump_targets_def
  target_databases_def bind_sum_def ct_dump_def ct_load_def load_str_def load_opt_int_def
  load_opt_str_def load_status_def SQLAuditRepository_def SQLAuditRepository_log_def
  audit_to_orm_def dumps_json_dict_def dumps_json_list_def SQLRateLimitRepository_def
  SQLRateLimitRepository_increment_def live_row_def RQJobQueue_def RQJobQueue_enqueue_def
  RQJobQueue_cancel_job_def

lemmas exec_world =
  zoom_def zoom_session_def world_redis_def zoom_redis_def ref_session_def where_only_def
  run_query_def windowed_def job_session_def audit_session_def rate_session_def world_locks_def
  ref_redis_defs world_runtime_def world_uuid_def start_world_def GLOBAL_LOCK_def LOCK_TTL_def
  str_int_0 world_request_def world_manager_def world_jobs_def world_audit_def world_rq_def
  world_fs_def zoom_fs_def AioFsUtils_def AioFsUtils_get_disk_usage_def start_dump_def fileM_run comp_def
  stat_def resolve_def is_absolute_def entry_def MAX_LINKS_def

lemmas exec_defs = exec_services exec_adapters exec_world

lemma fst_run: "fst (m s) = x \<Longrightarrow> m s = (x, snd (m s))"
  by (metis prod.collapse)

end
