(* ===== verification/Logging.thy ===== *)
theory Logging
  imports Config "HOL-Library.AList"
begin

text \<open>
  \<^verbatim>\<open>app/infrastructure/logging\<close>: the redaction of secrets in texts that leave the program, the processors of
  \<^verbatim>\<open>structlog\<close> every entry passes, and which handlers \<open>configure_logging\<close> gives to which logger. Code points
  are below 256. The rendering of an entry (JSON or console) is \<^verbatim>\<open>structlog\<close>'s, which renderer a handler has is
  modelled; what the handlers do to the disk when they are made is a parameter.
\<close>

section \<open>Regular expressions\<close>

text \<open>
  A pattern gives the length of its match at the beginning of a string; \<open>re_sub\<close> replaces the leftmost
  matches, as \<open>re.sub\<close> does for a pattern without empty matches.
\<close>

type_synonym pattern = "string \<Rightarrow> nat option"

function re_sub :: "pattern \<Rightarrow> string \<Rightarrow> string \<Rightarrow> string" where
  "re_sub m rep [] = []"
| "re_sub m rep (c # cs) =
     (case m (c # cs) of
        Some (Suc n) \<Rightarrow> rep @ re_sub m rep (drop n cs)
      | _ \<Rightarrow> c # re_sub m rep cs)"
  by pat_completeness auto
termination by (relation "measure (\<lambda>(m, rep, s). length s)") auto

fun occurs :: "pattern \<Rightarrow> string \<Rightarrow> bool" where
  "occurs m [] \<longleftrightarrow> False"
| "occurs m (c # cs) \<longleftrightarrow> m (c # cs) \<noteq> None \<or> occurs m cs"

text \<open>A fixed beginning followed by as many characters of a class as there are, at least \<open>n\<close>.\<close>

definition run_after :: "string \<Rightarrow> (char \<Rightarrow> bool) \<Rightarrow> nat \<Rightarrow> pattern" where
  "run_after p P n s =
     (if prefix p s \<and> n \<le> length (takeWhile P (drop (length p) s))
      then Some (length p + length (takeWhile P (drop (length p) s))) else None)"

definition uri_char :: "char \<Rightarrow> bool" where
  "uri_char c \<longleftrightarrow> \<not> is_space c \<and> c \<notin> {CHR 0x27, CHR 0x22, CHR ''<'', CHR ''>''}"

definition token_char :: "char \<Rightarrow> bool" where
  "token_char c \<longleftrightarrow>
     (let n = of_char c :: nat in (65 \<le> n \<and> n \<le> 90) \<or> (97 \<le> n \<and> n \<le> 122)) \<or> is_digit c \<or> c \<in> {CHR ''_'', CHR ''-''}"

definition MONGODB_URI_RE :: pattern where
  "MONGODB_URI_RE s = (case run_after ''mongodb+srv://'' uri_char 1 s of
     Some n \<Rightarrow> Some n | None \<Rightarrow> run_after ''mongodb://'' uri_char 1 s)"

definition REDIS_URL_RE :: pattern where
  "REDIS_URL_RE s = (case run_after ''rediss://'' uri_char 1 s of
     Some n \<Rightarrow> Some n | None \<Rightarrow> run_after ''redis://'' uri_char 1 s)"

definition TELEGRAM_TOKEN_RE :: pattern where
  "TELEGRAM_TOKEN_RE s =
     (let ds = takeWhile is_digit s in
      if 5 \<le> length ds then run_after (ds @ '':'') token_char 20 s else None)"

definition sanitize_traceback :: "string \<Rightarrow> string" where
  "sanitize_traceback text =
     (let text1 = re_sub MONGODB_URI_RE ''[REDACTED_MONGODB_URI]'' text;
          text2 = re_sub REDIS_URL_RE ''[REDACTED_REDIS_URL]'' text1 in
      re_sub TELEGRAM_TOKEN_RE ''[REDACTED_TELEGRAM_TOKEN]'' text2)"

section \<open>Processors\<close>

definition dict_get :: "pydict \<Rightarrow> string \<Rightarrow> pyval option" where
  "dict_get d k = map_of d k"

definition truth :: "pyval \<Rightarrow> bool" where
  "truth v = (case v of PNone \<Rightarrow> False | PBool b \<Rightarrow> b | PInt i \<Rightarrow> i \<noteq> 0 | PStr s \<Rightarrow> s \<noteq> []
     | PList xs \<Rightarrow> xs \<noteq> [] | PDict kvs \<Rightarrow> kvs \<noteq> [])"

text \<open>\<open>str(v)\<close>; of lists and dictionaries it is the parameter \<open>other\<close>.\<close>

definition str_value :: "(pyval \<Rightarrow> string) \<Rightarrow> pyval \<Rightarrow> string" where
  "str_value other v = (case v of PNone \<Rightarrow> ''None'' | PBool b \<Rightarrow> if b then ''True'' else ''False'' | PInt i \<Rightarrow> str_int i
     | PStr s \<Rightarrow> s | _ \<Rightarrow> other v)"

definition add_correlation_id :: "string option \<Rightarrow> pydict \<Rightarrow> pydict" where
  "add_correlation_id cid d = (case cid of None \<Rightarrow> d | Some c \<Rightarrow> AList.update ''correlation_id'' (PStr c) d)"

definition anonymize_ip :: "string \<Rightarrow> string" where
  "anonymize_ip ip =
     (let v4 = split_on (CHR ''.'') ip; v6 = split_on (CHR '':'') ip in
      if CHR ''.'' \<in> set ip \<and> length v4 = 4 then join ''.'' (take 3 v4) @ ''.0''
      else if CHR '':'' \<in> set ip \<and> 4 \<le> length v6 then join '':'' (take 4 v6) @ '':0:0:0:0''
      else ''REDACTED'')"

definition shorten_agent :: "string \<Rightarrow> string" where
  "shorten_agent ua = (if length ua \<le> 50 then take 50 ua else take 50 ua @ ''...'')"

definition mask_id :: "string \<Rightarrow> string" where
  "mask_id tid = (if 6 < length tid then ''tg_'' @ take 3 tid @ ''***'' @ drop (length tid - 3) tid else ''***'')"

text \<open>One field: rewritten when it is there and the test holds.\<close>

definition rewrite :: "string \<Rightarrow> (pyval \<Rightarrow> bool) \<Rightarrow> (pyval \<Rightarrow> pyval) \<Rightarrow> pydict \<Rightarrow> pydict" where
  "rewrite k test f d = (case dict_get d k of
     None \<Rightarrow> d | Some v \<Rightarrow> if test v then AList.update k (f v) d else d)"

definition sanitize_pii :: "(pyval \<Rightarrow> string) \<Rightarrow> pydict \<Rightarrow> pydict" where
  "sanitize_pii other d =
     rewrite ''telegram_id'' (\<lambda>v. v \<noteq> PNone) (\<lambda>v. PStr (mask_id (str_value other v)))
       (rewrite ''user_agent'' truth (\<lambda>v. PStr (shorten_agent (str_value other v)))
          (rewrite ''ip_address'' truth (\<lambda>v. PStr (anonymize_ip (str_value other v))) d))"

definition escape_control :: "char \<Rightarrow> string" where
  "escape_control c =
     (let bs = CHR 0x5C in
      if c = CHR 0x0A then [bs, CHR ''n''] else if c = CHR 0x0D then [bs, CHR ''r'']
      else if c = CHR 0x09 then [bs, CHR ''t''] else if c = CHR 0x00 then bs # ''x00'' else [c])"

definition is_str :: "pyval \<Rightarrow> bool" where
  "is_str v = (case v of PStr _ \<Rightarrow> True | _ \<Rightarrow> False)"

definition sanitize_log_injection :: "pydict \<Rightarrow> pydict" where
  "sanitize_log_injection d =
     rewrite ''event'' is_str (\<lambda>v. PStr (concat (map escape_control (case v of PStr s \<Rightarrow> s | _ \<Rightarrow> [])))) d"

text \<open>The processors of this file in the order \<open>configure_logging\<close> puts them.\<close>

definition log_entry :: "(pyval \<Rightarrow> string) \<Rightarrow> string option \<Rightarrow> pydict \<Rightarrow> pydict" where
  "log_entry other cid d = sanitize_log_injection (sanitize_pii other (add_correlation_id cid d))"

text \<open>
  An entry of a logger of the standard library, which does not come through \<^verbatim>\<open>structlog\<close>: \<open>foreign_pre_chain\<close> has no
  sanitizer.
\<close>

definition foreign_entry :: "string option \<Rightarrow> pydict \<Rightarrow> pydict" where
  "foreign_entry cid d = add_correlation_id cid d"

text \<open>The context variable of the correlation id.\<close>

record 's context_var =
  cv_get :: "'s \<Rightarrow> string option"
  cv_set :: "string option \<Rightarrow> 's \<Rightarrow> 's"

definition set_correlation_id :: "'s context_var \<Rightarrow> string \<Rightarrow> ('s, unit) M" where
  "set_correlation_id cv c = (\<lambda>s. (Inr (), cv_set cv (Some c) s))"

definition clear_correlation_id :: "'s context_var \<Rightarrow> ('s, unit) M" where
  "clear_correlation_id cv = (\<lambda>s. (Inr (), cv_set cv None s))"

section \<open>Handlers\<close>

datatype log_handler = FileHandler path bool int | ConsoleHandler bool \<comment> \<open>path, JSON, level; JSON\<close>

record logger =
  lg_level :: int
  lg_handlers :: "log_handler list"
  lg_propagate :: bool

definition level_number :: "string \<Rightarrow> int option" where
  "level_number = map_of [(''CRITICAL'', 50), (''FATAL'', 50), (''ERROR'', 40), (''WARNING'', 30), (''WARN'', 30),
     (''INFO'', 20), (''DEBUG'', 10), (''NOTSET'', 0)]"

datatype renderer = JSONRenderer | ConsoleRenderer bool \<comment> \<open>colors\<close>

definition handler_renderer :: "log_handler \<Rightarrow> renderer" where
  "handler_renderer lh = (case lh of
     FileHandler _ json _ \<Rightarrow> if json then JSONRenderer else ConsoleRenderer False
   | ConsoleHandler json \<Rightarrow> if json then JSONRenderer else ConsoleRenderer True)"

definition timestamp_fmt :: "bool \<Rightarrow> string" where
  "timestamp_fmt json = (if json then ''iso'' else ''%Y-%m-%d %H:%M:%S'')"

text \<open>\<open>lh_open\<close> opens the file for a rotation each midnight with 30 files kept; \<open>lh_denied\<close> recognises \<open>PermissionError\<close>.\<close>

record 's log_host =
  lh_mkdir :: "path \<Rightarrow> int \<Rightarrow> ('s, unit) M"
  lh_open :: "path \<Rightarrow> ('s, unit) M"
  lh_exists :: "path \<Rightarrow> ('s, bool) M"
  lh_write_text :: "path \<Rightarrow> string \<Rightarrow> ('s, unit) M"
  lh_chmod :: "path \<Rightarrow> int \<Rightarrow> ('s, unit) M"
  lh_denied :: "exn \<Rightarrow> bool"

definition make_file_handler :: "'s log_host \<Rightarrow> path \<Rightarrow> bool \<Rightarrow> int \<Rightarrow> ('s, log_handler) M" where
  "make_file_handler lh file json level =
     thenM (lh_mkdir lh (butlast file) 448)
    (thenM (lh_open lh file)
    (bindM (lh_exists lh file) (\<lambda>there.
     thenM (whenM (\<not> there) (lh_write_text lh file []))
    (thenM (tryM (lh_chmod lh file 384) (\<lambda>e. if lh_denied lh e then returnM () else raiseM e))
           (returnM (FileHandler file json level))))))"

definition make_console_handler :: "bool \<Rightarrow> log_handler" where
  "make_console_handler json = ConsoleHandler json"

text \<open>
  \<open>env\<close> is the variable \<open>ENV\<close>, \<open>base\<close> (the root) and \<open>audit\<close> the two loggers as they are afterwards; the level is a name.
\<close>

definition configure_logging ::
  "'s log_host \<Rightarrow> string option \<Rightarrow> path option \<Rightarrow> bool option \<Rightarrow> string \<Rightarrow> logger \<Rightarrow> logger \<Rightarrow> ('s, logger \<times> logger) M" where
  "configure_logging lh env log_dir json_format level base audit =
     (let json = (case json_format of
            Some b \<Rightarrow> b
          | None \<Rightarrow> lower (case env of None \<Rightarrow> ''development'' | Some e \<Rightarrow> e) \<in> {''production'', ''prod'', ''staging''});
          dir = (case log_dir of None \<Rightarrow> [''logs''] | Some d \<Rightarrow> d);
          lvl = (case level_number (upper level) of None \<Rightarrow> 20 | Some n \<Rightarrow> n);
          console = make_console_handler json in
      bindM (make_file_handler lh (dir @ [''ops.log'']) json 20) (\<lambda>ops.
      bindM (make_file_handler lh (dir @ [''errors.log'']) json 40) (\<lambda>errors.
      bindM (make_file_handler lh (dir @ [''audit.log'']) json 10) (\<lambda>audits.
      returnM
        (base\<lparr>lg_level := lvl, lg_handlers := [ops, errors, console]\<rparr>,
         audit\<lparr>lg_level := lvl, lg_propagate := False, lg_handlers := [audits, console]\<rparr>)))))"

definition handler_level :: "log_handler \<Rightarrow> int" where
  "handler_level lh = (case lh of FileHandler _ _ n \<Rightarrow> n | ConsoleHandler _ \<Rightarrow> 10)"

text \<open>Where an entry of a level goes that is logged to the audit logger, or to another child of the root.\<close>

definition handled :: "logger \<Rightarrow> logger \<Rightarrow> bool \<Rightarrow> int \<Rightarrow> log_handler list" where
  "handled base audit to_audit n =
     (let lg = (if to_audit then audit else base);
          hs = (if to_audit then lg_handlers audit @ (if lg_propagate audit then lg_handlers base else []) else lg_handlers base) in
      if n < lg_level lg then [] else filter (\<lambda>lh. handler_level lh \<le> n) hs)"

section \<open>What is left after a substitution\<close>

text \<open>
  The scanner finds every match, the placeholder starts with a character that no match may contain, and
  nothing of it begins a match; so a substitution leaves no match of its pattern and makes none of another.
\<close>

lemma re_sub_step:
  "m (c # cs) = None \<Longrightarrow> re_sub m rep (c # cs) = c # re_sub m rep cs"
  by simp

lemma re_sub_prefix:
  assumes "prefix p (re_sub m (b # bs) s)" "b \<notin> set p"
  shows "prefix p s \<and> re_sub m (b # bs) s = p @ re_sub m (b # bs) (drop (length p) s)"
  using assms
proof (induction p arbitrary: s)
  case (Cons a p)
  then obtain c cs where s: "s = c # cs" by (cases s) auto
  show ?case
  proof (cases "m s")
    case None
    with Cons.prems s Cons.IH [of cs] show ?thesis by auto
  next
    case (Some n)
    with Cons.prems s Cons.IH [of cs] show ?thesis by (cases n) auto
  qed
qed simp

text \<open>A pattern of the first kind: one of some beginnings and then a character of the class.\<close>

definition begins :: "string list \<Rightarrow> (char \<Rightarrow> bool) \<Rightarrow> pattern \<Rightarrow> bool" where
  "begins ps P m \<longleftrightarrow>
     (\<forall>s. m s \<noteq> None \<longleftrightarrow> (\<exists>p c cs. p \<in> set ps \<and> s = p @ c # cs \<and> P c)) \<and>
     list_all (\<lambda>p. p \<noteq> [] \<and> CHR ''['' \<notin> set p) ps"

lemma run_after_some: "run_after p P 1 s \<noteq> None \<longleftrightarrow> (\<exists>c cs. s = p @ c # cs \<and> P c)"
proof
  assume "run_after p P 1 s \<noteq> None"
  then obtain t where "s = p @ t" "takeWhile P t \<noteq> []" by (fastforce simp: run_after_def prefix_def Suc_le_eq split: if_splits)
  then show "\<exists>c cs. s = p @ c # cs \<and> P c" by (cases t) (auto split: if_splits)
qed (auto simp: run_after_def)

lemma begins_two:
  assumes "p \<noteq> []" "q \<noteq> []" "CHR ''['' \<notin> set p" "CHR ''['' \<notin> set q"
    and m: "\<And>s. m s = (case run_after p P 1 s of Some n \<Rightarrow> Some n | None \<Rightarrow> run_after q P 1 s)"
  shows "begins [p, q] P m"
proof -
  have "m s \<noteq> None \<longleftrightarrow> run_after p P 1 s \<noteq> None \<or> run_after q P 1 s \<noteq> None" for s
    unfolding m by (cases "run_after p P 1 s") simp_all
  then have "m s \<noteq> None \<longleftrightarrow> (\<exists>r c cs. r \<in> set [p, q] \<and> s = r @ c # cs \<and> P c)" for s
    unfolding run_after_some by (simp only: list.set) blast
  moreover have "list_all (\<lambda>p. p \<noteq> [] \<and> CHR ''['' \<notin> set p) [p, q]" using assms(1-4) by simp
  ultimately show ?thesis unfolding begins_def by blast
qed

lemma uri_patterns:
  "begins [''mongodb+srv://'', ''mongodb://''] uri_char MONGODB_URI_RE"
  "begins [''rediss://'', ''redis://''] uri_char REDIS_URL_RE"
  by (rule begins_two; simp add: MONGODB_URI_RE_def REDIS_URL_RE_def)+

text \<open>The beginnings of the matches that are replaced are characters of the class.\<close>

lemma begins_kept:
  assumes m: "begins ps P m" and P: "\<And>c cs n. m2 (c # cs) = Some (Suc n) \<Longrightarrow> P c" "P (CHR ''['')"
    and out: "m (re_sub m2 (CHR ''['' # rep) s) \<noteq> None"
  shows "m s \<noteq> None"
proof -
  let ?sub = "re_sub m2 (CHR ''['' # rep)"
  obtain p c cs where p: "p \<in> set ps" "?sub s = p @ c # cs" "P c" using m out unfolding begins_def by blast
  have "CHR ''['' \<notin> set p" using m p(1) by (auto simp: begins_def list_all_iff)
  from re_sub_prefix [OF _ this, of m2 rep s] p(2)
  obtain t where t: "s = p @ t" "?sub t = c # cs" by (auto simp: prefix_def)
  then obtain d ds where d: "t = d # ds" by (cases t) auto
  have "P d"
  proof (cases "m2 (d # ds)")
    case None with t d p(3) show ?thesis by simp
  next
    case (Some n)
    with t d p(3) P(1) show ?thesis by (cases n) auto
  qed
  then show ?thesis using m p(1) t(1) d unfolding begins_def by blast
qed

lemma occurs_append: "list_all (\<lambda>c. \<forall>cs. m (c # cs) = None) xs \<Longrightarrow> occurs m (xs @ ys) = occurs m ys"
  by (induction xs) auto

lemma occurs_drop: "occurs m (drop n s) \<Longrightarrow> occurs m s"
proof (induction s arbitrary: n)
  case (Cons c cs) then show ?case by (cases n) auto
qed simp

lemma re_sub_keeps:
  assumes head: "\<And>s. m1 (re_sub m2 rep s) \<noteq> None \<Longrightarrow> m1 s \<noteq> None"
    and rep: "list_all (\<lambda>c. \<forall>cs. m1 (c # cs) = None) rep"
  shows "\<not> occurs m1 s \<Longrightarrow> \<not> occurs m1 (re_sub m2 rep s)"
proof (induction "length s" arbitrary: s rule: less_induct)
  case less
  show ?case
  proof (cases s)
    case (Cons c cs)
    have "m1 s = None" using less.prems Cons by simp
    then have "m1 (re_sub m2 rep s) = None" using head [of s] by blast
    then have skip: "m2 (c # cs) \<in> {None, Some 0} \<Longrightarrow> ?thesis"
      using less(1) [of cs] less.prems Cons by auto
    show ?thesis
    proof (cases "m2 (c # cs)")
      case (Some n)
      show ?thesis
      proof (cases n)
        case (Suc k)
        have "\<not> occurs m1 (drop k cs)" using less.prems Cons occurs_drop by fastforce
        then show ?thesis using less(1) [of "drop k cs"] Cons Some Suc occurs_append [OF rep] by simp
      qed (use Some skip in simp)
    qed (use skip in simp)
  qed simp
qed

lemma re_sub_clears:
  assumes head: "\<And>s. m (re_sub m rep s) \<noteq> None \<Longrightarrow> m s \<noteq> None"
    and rep: "list_all (\<lambda>c. \<forall>cs. m (c # cs) = None) rep" and pos: "\<And>s. m s \<noteq> Some 0"
  shows "\<not> occurs m (re_sub m rep s)"
proof (induction "length s" arbitrary: s rule: less_induct)
  case less
  show ?case
  proof (cases s)
    case (Cons c cs)
    show ?thesis
    proof (cases "m (c # cs)")
      case None
      have "m (re_sub m rep (c # cs)) = None" using head None by blast
      then show ?thesis using less [of cs] Cons None by simp
    next
      case (Some n)
      then obtain k where "n = Suc k" using pos by (cases n) auto
      then show ?thesis using less [of "drop k cs"] Cons Some occurs_append [OF rep] by simp
    qed
  qed simp
qed

lemma begins_rep:
  assumes "begins ps P m" "list_all (\<lambda>p. hd p \<notin> set rep) ps"
  shows "list_all (\<lambda>c. \<forall>cs. m (c # cs) = None) rep"
proof (unfold list_all_iff, intro ballI allI, rule ccontr)
  fix c cs assume c: "c \<in> set rep" and "m (c # cs) \<noteq> None"
  then obtain p d ds where p: "p \<in> set ps" "c # cs = p @ d # ds" using assms(1) unfolding begins_def by blast
  have "p \<noteq> []" using assms(1) p(1) by (auto simp: begins_def list_all_iff)
  with p(2) have "hd p = c" by (cases p) auto
  with assms(2) p(1) c show False by (auto simp: list_all_iff)
qed

lemma token_some:
  "TELEGRAM_TOKEN_RE s \<noteq> None \<longleftrightarrow>
     (\<exists>ds t rest. s = ds @ CHR '':'' # t @ rest \<and> list_all is_digit ds \<and> 5 \<le> length ds \<and> list_all token_char t \<and> length t = 20)"
proof
  let ?ds = "takeWhile is_digit s"
  assume "TELEGRAM_TOKEN_RE s \<noteq> None"
  then have five: "5 \<le> length ?ds" and run: "run_after (?ds @ '':'') token_char 20 s \<noteq> None"
    by (simp_all only: TELEGRAM_TOKEN_RE_def Let_def split: if_splits) simp_all
  from run have "prefix (?ds @ '':'') s" "20 \<le> length (takeWhile token_char (drop (length (?ds @ '':'')) s))"
    unfolding run_after_def by (metis (full_types))+
  with five obtain u where u: "s = (?ds @ '':'') @ u" "5 \<le> length ?ds" "20 \<le> length (takeWhile token_char u)"
    by (metis append_eq_conv_conj prefix_def)
  let ?t = "take 20 (takeWhile token_char u)"
  have "u = ?t @ drop 20 u" using u(3) by (metis append_take_drop_id takeWhile_eq_take take_take min.absorb1)
  moreover have "list_all token_char ?t" by (auto simp: list_all_iff dest!: in_set_takeD set_takeWhileD)
  moreover have "list_all is_digit ?ds" by (auto simp: list_all_iff dest: set_takeWhileD)
  ultimately show "\<exists>ds t rest. s = ds @ CHR '':'' # t @ rest \<and> list_all is_digit ds \<and> 5 \<le> length ds \<and> list_all token_char t \<and> length t = 20"
    using u by (intro exI [of _ ?ds] exI [of _ ?t] exI [of _ "drop 20 u"]) simp
next
  assume "\<exists>ds t rest. s = ds @ CHR '':'' # t @ rest \<and> list_all is_digit ds \<and> 5 \<le> length ds \<and> list_all token_char t \<and> length t = 20"
  then obtain ds t rest where s: "s = ds @ CHR '':'' # t @ rest" "list_all is_digit ds" "5 \<le> length ds" "list_all token_char t" "length t = 20"
    by blast
  have "\<not> is_digit (CHR '':'')" by code_simp
  then have "takeWhile is_digit s = ds" using s(1,2) by (simp add: takeWhile_append list_all_iff)
  moreover have "20 \<le> length (takeWhile token_char (t @ rest))" using s(4,5) by (simp add: takeWhile_append list_all_iff)
  ultimately show "TELEGRAM_TOKEN_RE s \<noteq> None" using s(1,3) by (simp add: TELEGRAM_TOKEN_RE_def run_after_def)
qed

lemma token_kept:
  assumes "TELEGRAM_TOKEN_RE (re_sub TELEGRAM_TOKEN_RE (CHR ''['' # rep) s) \<noteq> None"
  shows "TELEGRAM_TOKEN_RE s \<noteq> None"
proof -
  let ?sub = "re_sub TELEGRAM_TOKEN_RE (CHR ''['' # rep)"
  obtain ds t rest where d: "?sub s = ds @ CHR '':'' # t @ rest" "list_all is_digit ds" "5 \<le> length ds"
      "list_all token_char t" "length t = 20" using assms unfolding token_some by blast
  have b: "\<not> is_digit (CHR ''['')" "\<not> token_char (CHR ''['')" by code_simp+
  have "CHR ''['' \<notin> set (ds @ CHR '':'' # t)" using d(2,4) b by (auto simp: list_all_iff)
  from re_sub_prefix [OF _ this, of TELEGRAM_TOKEN_RE rep s] d(1)
  obtain u where "s = (ds @ CHR '':'' # t) @ u" by (auto simp: prefix_def)
  then have "s = ds @ CHR '':'' # t @ u" by simp
  with d(2-5) show ?thesis unfolding token_some by blast
qed

lemma begins_hd: "begins ps P m \<Longrightarrow> m (c # cs) \<noteq> None \<Longrightarrow> c \<in> set (map hd ps)"
proof -
  assume m: "begins ps P m" "m (c # cs) \<noteq> None"
  then obtain p d ds where p: "p \<in> set ps" "c # cs = p @ d # ds" unfolding begins_def by blast
  have "p \<noteq> []" using m(1) p(1) by (auto simp: begins_def list_all_iff)
  then have "c = hd p" using p(2) by (metis append_Cons list.exhaust_sel list.inject)
  then show ?thesis using p(1) by simp
qed

lemma token_hd: "TELEGRAM_TOKEN_RE (c # cs) \<noteq> None \<Longrightarrow> is_digit c"
proof -
  assume "TELEGRAM_TOKEN_RE (c # cs) \<noteq> None"
  then obtain ds t rest where "c # cs = ds @ CHR '':'' # t @ rest" "list_all is_digit ds" "5 \<le> length ds"
    unfolding token_some by blast
  then show ?thesis by (cases ds) auto
qed

lemma digit_uri_char: "is_digit c \<Longrightarrow> uri_char c"
  using digit_not_space [of c] by (auto simp: uri_char_def is_digit_def)

lemma not_empty_match: "MONGODB_URI_RE s \<noteq> Some 0" "REDIS_URL_RE s \<noteq> Some 0" "TELEGRAM_TOKEN_RE s \<noteq> Some 0"
  by (auto simp: MONGODB_URI_RE_def REDIS_URL_RE_def TELEGRAM_TOKEN_RE_def run_after_def Let_def split: option.splits if_splits)

lemma re_sub_unmatched: "\<not> occurs m s \<Longrightarrow> re_sub m rep s = s"
  by (induction s) auto

lemma uri_starts: "uri_char (CHR ''m'')" "uri_char (CHR ''r'')" "uri_char (CHR ''['')"
  by code_simp+

section \<open>Entries\<close>

text \<open>An event that is a string reaches the renderer on one line.\<close>

lemma rewrite_get: "dict_get (rewrite k test f d) j =
    (if j = k then map_option (\<lambda>v. if test v then f v else v) (dict_get d k) else dict_get d j)"
  by (auto simp: rewrite_def dict_get_def update_conv' split: option.split)

lemma entry_on_one_line:
  assumes "dict_get (log_entry other cid d) ''event'' = Some (PStr s)"
  shows "set s \<inter> {CHR 0x0A, CHR 0x0D, CHR 0x09, CHR 0x00} = {}"
proof -
  have e: "set (escape_control c) \<inter> {CHR 0x0A, CHR 0x0D, CHR 0x09, CHR 0x00} = {}" for c
    by (auto simp: escape_control_def Let_def split: if_splits)
  have "\<exists>t. s = concat (map escape_control t)"
    using assms by (auto simp: log_entry_def sanitize_log_injection_def rewrite_get is_str_def split: pyval.splits if_splits)
  then show ?thesis using e by fastforce
qed

text \<open>An entry of the audit logger goes to \<^verbatim>\<open>audit.log\<close> and the console only; an error of another logger to both other files.\<close>

lemma make_file_handler_Inr: "make_file_handler lh file json n s = (Inr x, s') \<Longrightarrow> x = FileHandler file json n"
  by (auto simp: make_file_handler_def bindM_eq_Inr thenM_eq_Inr returnM_def)

lemma audit_entries_apart:
  assumes "configure_logging lh env (Some dir) json_format level base audit s = (Inr (base', audit'), s')"
  shows "FileHandler p j n \<in> set (handled base' audit' True m) \<Longrightarrow> p = dir @ [''audit.log'']"
    "lg_level base' \<le> 40 \<Longrightarrow> \<exists>j k. {FileHandler (dir @ [''ops.log'']) j 20, FileHandler (dir @ [''errors.log'']) k 40} \<subseteq> set (handled base' audit' False 40)"
proof -
  obtain json lvl where "base' = base\<lparr>lg_level := lvl, lg_handlers := [FileHandler (dir @ [''ops.log'']) json 20,
        FileHandler (dir @ [''errors.log'']) json 40, ConsoleHandler json]\<rparr>"
    "audit' = audit\<lparr>lg_level := lvl, lg_propagate := False,
        lg_handlers := [FileHandler (dir @ [''audit.log'']) json 10, ConsoleHandler json]\<rparr>"
    using assms
    by (auto simp: configure_logging_def make_console_handler_def Let_def bindM_eq_Inr returnM_def dest!: make_file_handler_Inr)
  then show "FileHandler p j n \<in> set (handled base' audit' True m) \<Longrightarrow> p = dir @ [''audit.log'']"
    "lg_level base' \<le> 40 \<Longrightarrow> \<exists>j k. {FileHandler (dir @ [''ops.log'']) j 20, FileHandler (dir @ [''errors.log'']) k 40} \<subseteq> set (handled base' audit' False 40)"
    by (auto simp: handled_def handler_level_def Let_def split: if_splits)
qed

text \<open>A log file that cannot be restricted to its owner is used all the same.\<close>

lemma unrestricted_log_file:
  assumes "lh_mkdir lh (butlast file) 448 s = (Inr (), s1)" "lh_open lh file s1 = (Inr (), s2)"
    "lh_exists lh file s2 = (Inr True, s3)" "lh_chmod lh file 384 s3 = (Inl e, s4)" "lh_denied lh e"
  shows "make_file_handler lh file json n s = (Inr (FileHandler file json n), s4)"
  using assms by (simp add: make_file_handler_def run_simps)

text \<open>Of a logger of the standard library the line breaks reach the handlers.\<close>

lemma foreign_event_kept: "dict_get (foreign_entry cid d) ''event'' = dict_get d ''event''"
  by (auto simp: foreign_entry_def add_correlation_id_def dict_get_def update_conv' split: option.split)

section \<open>Properties\<close>

text \<open>C10. What \<open>sanitize_traceback\<close> lets out contains no MongoDB URI, no Redis URL and no Telegram token any more,
  for any text whatever; sanitizing again changes nothing.\<close>

theorem sanitized_clean:
  "\<not> occurs MONGODB_URI_RE (sanitize_traceback text) \<and> \<not> occurs REDIS_URL_RE (sanitize_traceback text) \<and>
   \<not> occurs TELEGRAM_TOKEN_RE (sanitize_traceback text) \<and>
   sanitize_traceback (sanitize_traceback text) = sanitize_traceback text"
proof -
  let ?t1 = "re_sub MONGODB_URI_RE ''[REDACTED_MONGODB_URI]'' text"
  let ?t2 = "re_sub REDIS_URL_RE ''[REDACTED_REDIS_URL]'' ?t1"
  note k1 = begins_kept [OF uri_patterns(1) _ uri_starts(3)] and k2 = begins_kept [OF uri_patterns(2) _ uri_starts(3)]
  have hd: "MONGODB_URI_RE (c # cs) = Some (Suc n) \<Longrightarrow> uri_char c" "REDIS_URL_RE (c # cs) = Some (Suc n) \<Longrightarrow> uri_char c"
    "TELEGRAM_TOKEN_RE (c # cs) = Some (Suc n) \<Longrightarrow> uri_char c" for c cs n
    using begins_hd [OF uri_patterns(1), of c cs] begins_hd [OF uri_patterns(2), of c cs] token_hd [of c cs] uri_starts digit_uri_char
    by auto
  have r: "list_all (\<lambda>c. \<forall>cs. MONGODB_URI_RE (c # cs) = None) rep" "list_all (\<lambda>c. \<forall>cs. REDIS_URL_RE (c # cs) = None) rep"
    if "CHR ''m'' \<notin> set rep" "CHR ''r'' \<notin> set rep" for rep
    using that by (auto intro!: begins_rep [OF uri_patterns(1)] begins_rep [OF uri_patterns(2)])
  have "list_all (\<lambda>c. \<not> is_digit c) ''[REDACTED_TELEGRAM_TOKEN]''" by code_simp
  then have rt: "list_all (\<lambda>c. \<forall>cs. TELEGRAM_TOKEN_RE (c # cs) = None) ''[REDACTED_TELEGRAM_TOKEN]''"
    unfolding list_all_iff using token_hd by blast
  have m1: "\<not> occurs MONGODB_URI_RE ?t1" by (rule re_sub_clears [OF k1 r(1) not_empty_match(1)]) (erule hd, assumption, simp_all)
  have m2: "\<not> occurs MONGODB_URI_RE ?t2" by (rule re_sub_keeps [OF k1 r(1) m1]) (erule hd, assumption, simp_all)
  have m3: "\<not> occurs MONGODB_URI_RE (sanitize_traceback text)"
    unfolding sanitize_traceback_def Let_def by (rule re_sub_keeps [OF k1 r(1) m2]) (erule hd, assumption, simp_all)
  have r2: "\<not> occurs REDIS_URL_RE ?t2" by (rule re_sub_clears [OF k2 r(2) not_empty_match(2)]) (erule hd, assumption, simp_all)
  have r3: "\<not> occurs REDIS_URL_RE (sanitize_traceback text)"
    unfolding sanitize_traceback_def Let_def by (rule re_sub_keeps [OF k2 r(2) r2]) (erule hd, assumption, simp_all)
  have t3: "\<not> occurs TELEGRAM_TOKEN_RE (sanitize_traceback text)"
    unfolding sanitize_traceback_def Let_def by (rule re_sub_clears [OF token_kept rt not_empty_match(3)])
  show ?thesis
    using m3 r3 t3 by (simp add: sanitize_traceback_def [of "sanitize_traceback text"] re_sub_unmatched)
qed

end
