(* ===== verification/Middleware.thy ===== *)
theory Middleware
  imports Telegram World Logging
begin

text \<open>
  \<^verbatim>\<open>app/telegram/middlewares\<close>: the seven outer middlewares of the dispatcher, each a function from the
  handler it wraps to a handler, \<open>get_global_middlewares\<close>, which builds them from the dependencies, and
  their composition; \<^verbatim>\<open>app/infrastructure/telegram/telegram_role_validator.py\<close>, which asks Telegram for
  administrators and caches the answer. The log lines are left out.
\<close>

text \<open>\<open>None\<close> is the \<open>None\<close> a middleware returns when it drops an update.\<close>

type_synonym ('s, 'r) handler = "event \<Rightarrow> 's middleware_data \<Rightarrow> ('s, 'r option) M"

type_synonym ('s, 'r) middleware = "('s, 'r) handler \<Rightarrow> ('s, 'r) handler"

section \<open>TelegramRoleValidator\<close>

text \<open>The cache is a \<open>TTLCache\<close>: a parameter that may forget what it was told.\<close>

record 's TelegramRoleValidator =
  rv_bot :: "'s Bot"
  rv_chat_id :: string
  rv_cache_get :: "int \<Rightarrow> ('s, bool option) M"
  rv_cache_set :: "int \<Rightarrow> bool \<Rightarrow> ('s, unit) M"
  rv_is_api_error :: "exn \<Rightarrow> bool" \<comment> \<open>\<open>isinstance(exc, TelegramAPIError)\<close>\<close>

definition TelegramRoleValidator_is_admin :: "'s TelegramRoleValidator \<Rightarrow> int \<Rightarrow> ('s, bool) M" where
  "TelegramRoleValidator_is_admin rv user_id =
     bindM (rv_cache_get rv user_id) (\<lambda>cached.
     case cached of
       Some b \<Rightarrow> returnM b
     | None \<Rightarrow>
         bindM (tryM (bindM (bot_get_chat_member (rv_bot rv) (rv_chat_id rv) user_id)
                        (\<lambda>status. returnM (Some (status \<in> {CREATOR, ADMINISTRATOR}))))
                     (\<lambda>exc. if rv_is_api_error rv exc then returnM None else raiseM exc)) (\<lambda>answer.
         case answer of
           None \<Rightarrow> returnM False
         | Some b \<Rightarrow> thenM (rv_cache_set rv user_id b) (returnM b)))"

section \<open>Logging and errors\<close>

definition LoggingMiddleware_call :: "('s, 'r) middleware" where
  "LoggingMiddleware_call handler ev data = handler ev data"

text \<open>
  \<open>eh_settings\<close> is the module's own \<open>settings\<close>, \<open>eh_format\<close> the formatted traceback of an exception.
\<close>

record ErrorHandlerMiddleware =
  eh_settings :: AppConfig
  eh_format :: "exn \<Rightarrow> string"

text \<open>The message \<open>_notify_user\<close> edits.\<close>

definition notified_message :: "event \<Rightarrow> Message option" where
  "notified_message ev = (case ev of
     UpdateEvent u \<Rightarrow>
       (case upd_callback_query u of
          Some cb \<Rightarrow> or_else (cq_message cb) (upd_message u) | None \<Rightarrow> upd_message u)
   | CallbackEvent cb \<Rightarrow> cq_message cb
   | MessageEvent m \<Rightarrow> Some m
   | OtherEvent \<Rightarrow> None)"

definition notify_user :: "'s Bot \<Rightarrow> event \<Rightarrow> 's middleware_data \<Rightarrow> ('s, unit) M" where
  "notify_user b ev data =
     (case notified_message ev of
        None \<Rightarrow> returnM ()
      | Some m \<Rightarrow>
          tryM (bot_edit_text b m ''CANCELADA por un error de sistema'' None)
            (\<lambda>exc. safe_send_message data (msg_chat_id m) ''CANCELADA por un error de sistema'' (msg_thread_id m)))"

definition or_na :: "int option \<Rightarrow> string" where
  "or_na x = (case x of None \<Rightarrow> ''N/A'' | Some i \<Rightarrow> str_int i)"

definition error_caption :: "UpdateContext \<Rightarrow> exn \<Rightarrow> string" where
  "error_caption ctx exc =
     ''<b>ERROR FATAL</b>'' @ newline @ ''Origen: Chat <code>'' @ or_na (uc_chat_id ctx) @ ''</code> | Topic <code>'' @
     or_na (uc_topic_id ctx) @ ''</code>'' @ newline @ ''Tipo: <code>'' @ exn_type_name exc @ ''</code>''"

text \<open>A message edits itself through the bot \<open>b\<close> that received it; the report goes through \<open>data["bot"]\<close>.\<close>

definition ErrorHandlerMiddleware_call :: "ErrorHandlerMiddleware \<Rightarrow> 's Bot \<Rightarrow> ('s, 'r) middleware" where
  "ErrorHandlerMiddleware_call eh b handler ev data =
     tryM (handler ev data) (\<lambda>exc.
       let ctx = extract_context ev in
       thenM (notify_user b ev data)
      (bindM (liftE (py_int (ac_telegram_chat_id (eh_settings eh)))) (\<lambda>target_chat.
       let target_topic = ac_topic_execution_errors (eh_settings eh) in
       thenM (case md_bot data of
                Some b' \<Rightarrow>
                  if uc_topic_id ctx \<noteq> Some target_topic
                  then tryM (bot_send_document b' target_chat (sanitize_traceback (eh_format eh exc)) (error_caption ctx exc) (Some target_topic))
                         (\<lambda>inner_e. returnM ())
                  else returnM ()
              | None \<Rightarrow> returnM ())
             (returnM None))))"

section \<open>Topics\<close>

definition allowed_topics :: "AppConfig \<Rightarrow> int set" where
  "allowed_topics c =
     {ac_topic_backup_requests c, ac_topic_size_ask c, ac_topic_execution_errors c, ac_topic_admin c}"

definition TopicFilterMiddleware_call :: "AppConfig option \<Rightarrow> ('s, 'r) middleware" where
  "TopicFilterMiddleware_call config handler ev data = (case config of
     None \<Rightarrow> returnM None
   | Some c \<Rightarrow>
       let ctx = extract_context ev in
       if \<exists>i. uc_chat_id ctx = Some i \<and> str_int i \<noteq> ac_telegram_chat_id c then returnM None
       else case uc_topic_id ctx of
         None \<Rightarrow>
           thenM (case uc_chat_id ctx of None \<Rightarrow> returnM ()
                  | Some i \<Rightarrow> safe_send_message data i ''Usar topics designados'' None) (returnM None)
       | Some t \<Rightarrow>
           if t \<notin> allowed_topics c
           then thenM (case uc_chat_id ctx of None \<Rightarrow> returnM ()
                       | Some i \<Rightarrow> safe_send_message data i ''Usar topics designados'' (Some t)) (returnM None)
           else handler ev data)"

section \<open>Rate limits\<close>

text \<open>\<open>rm_redis\<close> and \<open>rm_sql\<close> are the repositories over the Redis client and over a new session, if given.\<close>

record 's RateLimitMiddleware =
  rlm_config :: "AppConfig option"
  rlm_redis :: "'s IRateLimitRepository option"
  rlm_sql :: "'s IRateLimitRepository option"

definition reply_throttled :: "AppConfig \<Rightarrow> UpdateContext \<Rightarrow> 's middleware_data \<Rightarrow> ('s, unit) M" where
  "reply_throttled c ctx data = (case uc_chat_id ctx of
     None \<Rightarrow> returnM ()
   | Some i \<Rightarrow> safe_send_message data i
       (''Rate limit excedido, espere '' @ str_int (ac_rate_limit_window_seconds c) @ '' segundos'') (uc_topic_id ctx))"

definition rate_limited :: "'s IRateLimitRepository \<Rightarrow> AppConfig \<Rightarrow> int \<Rightarrow> string \<Rightarrow> UpdateContext \<Rightarrow>
    's middleware_data \<Rightarrow> ('s, 'r option) M \<Rightarrow> ('s, 'r option) M" where
  "rate_limited repo c user_id action ctx data inner =
     bindM (rl_check_limit repo user_id action (ac_rate_limit_max_requests c) (ac_rate_limit_window_seconds c)) (\<lambda>allowed.
     if \<not> allowed then thenM (reply_throttled c ctx data) (returnM None)
     else bindM (rl_increment repo user_id action (ac_rate_limit_window_seconds c)) (\<lambda>_. inner))"

definition RateLimitMiddleware_call :: "'s RateLimitMiddleware \<Rightarrow> ('s, 'r) middleware" where
  "RateLimitMiddleware_call rm handler ev data = (case rlm_config rm of
     None \<Rightarrow> handler ev data
   | Some c \<Rightarrow>
       let ctx = extract_context ev in
       (case or_else (md_event_from_user data) (uc_user_id ctx) of
          None \<Rightarrow> handler ev data
        | Some user_id \<Rightarrow>
            let action = (case extract_command ev of None \<Rightarrow> ''GENERIC'' | Some cmd \<Rightarrow> cmd) in
            (case or_else (rlm_redis rm) (rlm_sql rm) of
               None \<Rightarrow> handler ev data
             | Some repo \<Rightarrow> rate_limited repo c user_id action ctx data (handler ev data))))"

section \<open>Authentication\<close>

text \<open>\<open>am_store\<close>: the user repository of a new session and the audit log, when there is a session factory.\<close>

record 's AuthMiddleware =
  am_store :: "('s IUserRepository \<times> 's IAuditRepository) option"
  am_config :: "AppConfig option"
  am_validator :: "'s TelegramRoleValidator option"
  am_runtime :: "'s Runtime"

definition topic_of :: "AppConfig option \<Rightarrow> UpdateContext \<Rightarrow> string" where
  "topic_of config ctx = (case config of None \<Rightarrow> ''GENERAL'' | Some c \<Rightarrow> resolve_topic (uc_topic_id ctx) c)"

definition reply_unauthorized :: "UpdateContext \<Rightarrow> 's middleware_data \<Rightarrow> ('s, unit) M" where
  "reply_unauthorized ctx data = (case uc_chat_id ctx of
     None \<Rightarrow> returnM () | Some i \<Rightarrow> safe_send_message data i ''No autorizado'' (uc_topic_id ctx))"

definition auth_log_denied :: "'s AuthMiddleware \<Rightarrow> 's IAuditRepository \<Rightarrow> UpdateContext \<Rightarrow> int \<Rightarrow> ('s, unit) M" where
  "auth_log_denied am audit ctx user_id =
     bindM (rt_now (am_runtime am)) (\<lambda>t.
     bindM (liftE (mk_User user_id (Some ''unknown'') READONLY False t)) (\<lambda>anonymous.
     AuditService_log_action (am_runtime am) audit ''AUTH_DENIED'' (u_telegram_id anonymous)
       (topic_of (am_config am) ctx) None ''DENIED'' None None None))"

text \<open>Nothing calls this one.\<close>

definition auth_log_denied_from_ctx :: "'s AuthMiddleware \<Rightarrow> UpdateContext \<Rightarrow> ('s, unit) M" where
  "auth_log_denied_from_ctx am ctx = (case am_store am of
     None \<Rightarrow> returnM ()
   | Some (users, audit) \<Rightarrow>
       (case uc_user_id ctx of
          None \<Rightarrow> raiseM (ValidationError ''User'')
        | Some user_id \<Rightarrow> auth_log_denied am audit ctx user_id))"

definition AuthMiddleware_call :: "'s AuthMiddleware \<Rightarrow> ('s, 'r) middleware" where
  "AuthMiddleware_call am handler ev data =
     (let ctx = extract_context ev in
      case uc_user_id ctx of
        None \<Rightarrow> returnM None
      | Some user_id \<Rightarrow>
          bindM (case am_validator am of None \<Rightarrow> returnM False | Some rv \<Rightarrow> TelegramRoleValidator_is_admin rv user_id) (\<lambda>is_admin.
          if is_admin
          then bindM (rt_now (am_runtime am)) (\<lambda>t.
               bindM (liftE (mk_User user_id None UserRole.ADMIN True t)) (\<lambda>user.
               handler ev (data\<lparr>md_user := Some user\<rparr>)))
          else (case am_store am of
            None \<Rightarrow> handler ev data
          | Some (users, audit) \<Rightarrow>
              bindM (ur_get_by_telegram_id users user_id) (\<lambda>found.
              case found of
                Some user \<Rightarrow>
                  if u_is_active user then handler ev (data\<lparr>md_user := Some user\<rparr>)
                  else thenM (reply_unauthorized ctx data) (thenM (auth_log_denied am audit ctx user_id) (returnM None))
              | None \<Rightarrow> thenM (reply_unauthorized ctx data) (thenM (auth_log_denied am audit ctx user_id) (returnM None))))))"

section \<open>Roles\<close>

record 's RoleMiddleware =
  ro_audit :: "'s IAuditRepository option" \<comment> \<open>of a new session, when there is a factory\<close>
  ro_permission_service :: PermissionService
  ro_config :: "AppConfig option"
  ro_runtime :: "'s Runtime"

definition reply_forbidden :: "UpdateContext \<Rightarrow> 's middleware_data \<Rightarrow> ('s, unit) M" where
  "reply_forbidden ctx data = (case uc_chat_id ctx of
     None \<Rightarrow> returnM () | Some i \<Rightarrow> safe_send_message data i ''Permisos insuficientes'' (uc_topic_id ctx))"

definition role_log_denied :: "'s RoleMiddleware \<Rightarrow> 's IAuditRepository \<Rightarrow> User \<Rightarrow> string \<Rightarrow> string \<Rightarrow> ('s, unit) M" where
  "role_log_denied ro audit user command topic =
     AuditService_log_action (ro_runtime ro) audit ''PERMISSION_DENIED'' (u_telegram_id user) topic (Some command) ''DENIED''
       None None None"

definition RoleMiddleware_call :: "'s RoleMiddleware \<Rightarrow> ('s, 'r) middleware" where
  "RoleMiddleware_call ro handler ev data = (case ro_audit ro of
     None \<Rightarrow> handler ev data
   | Some audit \<Rightarrow>
       (case md_user data of
          None \<Rightarrow> handler ev data
        | Some user \<Rightarrow>
            let ctx = extract_context ev; topic = topic_of (ro_config ro) ctx in
            (case extract_command ev of
               None \<Rightarrow> handler ev data
             | Some command \<Rightarrow>
                 if \<not> PermissionService_can_execute (ro_permission_service ro) user command topic
                 then thenM (reply_forbidden ctx data)
                     (thenM (role_log_denied ro audit user command topic) (returnM None))
                 else handler ev data)))"

section \<open>Audit\<close>

record 's AuditMiddleware =
  aum_audit :: "'s IAuditRepository option" \<comment> \<open>of a new session, when there is a factory\<close>
  aum_config :: "AppConfig option"
  aum_runtime :: "'s Runtime"

definition audit_persist :: "'s Runtime \<Rightarrow> 's IAuditRepository \<Rightarrow> User \<Rightarrow> string \<Rightarrow> string option \<Rightarrow> string \<Rightarrow> int \<Rightarrow>
    exn option \<Rightarrow> int option \<Rightarrow> ('s, unit) M" where
  "audit_persist rt audit user topic command result elapsed error topic_id =
     tryM (AuditService_log_action rt audit ''TELEGRAM_INTERACTION'' (u_telegram_id user) topic command result
             (Some elapsed) None
             (Some [(''error_message'', opt_str (map_option exn_str error)), (''topic_id'', opt_int topic_id)]))
          (\<lambda>audit_exc. returnM ())"

text \<open>The \<open>finally\<close> block, given how the handler ended. The monotonic clock counts microseconds.\<close>

definition audit_finally :: "'s Runtime \<Rightarrow> 's IAuditRepository \<Rightarrow> User \<Rightarrow> string \<Rightarrow> string option \<Rightarrow> int option \<Rightarrow> int \<Rightarrow>
    exn option \<Rightarrow> ('s, unit) M" where
  "audit_finally rt audit user topic command topic_id start error =
     bindM (rt_monotonic rt) (\<lambda>now.
     audit_persist rt audit user topic command
       (case error of None \<Rightarrow> ''SUCCESS'' | Some exc \<Rightarrow> ''ERROR: '' @ exn_type_name exc)
       (duration_ms (now - start)) error topic_id)"

definition AuditMiddleware_call :: "'s AuditMiddleware \<Rightarrow> ('s, 'r) middleware" where
  "AuditMiddleware_call am handler ev data = (case (aum_audit am, md_user data) of
     (Some audit, Some user) \<Rightarrow>
       let ctx = extract_context ev; topic = topic_of (aum_config am) ctx; command = extract_command ev in
       bindM (rt_monotonic (aum_runtime am)) (\<lambda>start s.
         case handler ev data s of
           (Inr r, s') \<Rightarrow> thenM (audit_finally (aum_runtime am) audit user topic command (uc_topic_id ctx) start None)
                            (returnM r) s'
         | (Inl exc, s') \<Rightarrow> thenM (audit_finally (aum_runtime am) audit user topic command (uc_topic_id ctx) start (Some exc))
                            (raiseM exc) s')
   | _ \<Rightarrow> handler ev data)"

section \<open>The stack\<close>

text \<open>
  \<open>md_users\<close>, \<open>md_audit\<close> and \<open>md_rates\<close> are what the session factory gives: the repositories over a new session.
  An injected audit service takes the place of the one over the session.
\<close>

record 's MiddlewareDependencies =
  mdp_config :: AppConfig
  mdp_users :: "('s, UserORM) session"
  mdp_audit_logs :: "('s, AuditLogORM) session"
  mdp_rates :: "('s, RateLimitORM) session"
  mdp_permission_service :: "PermissionService option"
  mdp_audit_service :: "'s IAuditRepository option"
  mdp_redis_async_client :: "'s redis option"
  mdp_bot :: "'s Bot option"

text \<open>What the middlewares use that is not injected: the clock, the module's settings, the cache.\<close>

record 's surroundings =
  su_runtime :: "'s Runtime"
  su_errors :: ErrorHandlerMiddleware
  su_receiving_bot :: "'s Bot"
  su_cache_get :: "int \<Rightarrow> ('s, bool option) M"
  su_cache_set :: "int \<Rightarrow> bool \<Rightarrow> ('s, unit) M"
  su_is_api_error :: "exn \<Rightarrow> bool"

definition role_validator :: "'s surroundings \<Rightarrow> 's MiddlewareDependencies option \<Rightarrow> 's TelegramRoleValidator option" where
  "role_validator su deps = (case deps of
     None \<Rightarrow> None
   | Some d \<Rightarrow> map_option (\<lambda>b. \<lparr>rv_bot = b, rv_chat_id = ac_telegram_chat_id (mdp_config d),
                 rv_cache_get = su_cache_get su, rv_cache_set = su_cache_set su, rv_is_api_error = su_is_api_error su\<rparr>)
                 (mdp_bot d))"

definition session_audit :: "'s MiddlewareDependencies \<Rightarrow> 's IAuditRepository" where
  "session_audit d = (case mdp_audit_service d of Some a \<Rightarrow> a | None \<Rightarrow> SQLAuditRepository (mdp_audit_logs d))"

definition get_global_middlewares :: "'s surroundings \<Rightarrow> 's MiddlewareDependencies option \<Rightarrow> ('s, 'r) middleware list" where
  "get_global_middlewares su deps =
     (let rt = su_runtime su; config = map_option mdp_config deps; audit = map_option session_audit deps in
      [LoggingMiddleware_call,
       ErrorHandlerMiddleware_call (su_errors su) (su_receiving_bot su),
       TopicFilterMiddleware_call config,
       RateLimitMiddleware_call
         \<lparr>rlm_config = config,
          rlm_redis = Option.bind deps (\<lambda>d. map_option (RedisRateLimitRepository rt) (mdp_redis_async_client d)),
          rlm_sql = map_option (\<lambda>d. SQLRateLimitRepository rt (mdp_rates d)) deps\<rparr>,
       AuthMiddleware_call
         \<lparr>am_store = map_option (\<lambda>d. (SQLUserRepository (mdp_users d), session_audit d)) deps, am_config = config,
          am_validator = role_validator su deps, am_runtime = rt\<rparr>,
       RoleMiddleware_call
         \<lparr>ro_audit = audit,
          ro_permission_service = (case Option.bind deps mdp_permission_service of None \<Rightarrow> default_service | Some p \<Rightarrow> p),
          ro_config = config, ro_runtime = rt\<rparr>,
       AuditMiddleware_call \<lparr>aum_audit = audit, aum_config = None, aum_runtime = rt\<rparr>])"

text \<open>The dispatcher wraps the handler in the middlewares, the first one outermost.\<close>

definition dispatch :: "('s, 'r) middleware list \<Rightarrow> ('s, 'r) handler \<Rightarrow> ('s, 'r) handler" where
  "dispatch ms handler = foldr (\<lambda>m h. m h) ms handler"

section \<open>Lemmas\<close>

lemma digits_no_space: "list_all is_digit s \<Longrightarrow> dropWhile is_space (rev s) = rev s \<and> dropWhile is_space s = s"
proof
  show "list_all is_digit s \<Longrightarrow> dropWhile is_space s = s"
    using digit_not_space by (cases s) auto
  show "list_all is_digit s \<Longrightarrow> dropWhile is_space (rev s) = rev s"
    using digit_not_space by (cases s rule: rev_cases) auto
qed

lemma chat_id_int:
  assumes "is_chat_id s"
  shows "\<exists>i. py_int s = Inr i"
proof -
  obtain ds where ds: "ds \<noteq> []" "list_all is_digit ds" "s = ds \<or> s = CHR ''-'' # ds"
    using assms that [of "tl s"] that [of s] by (cases s; cases "hd s = CHR ''-''") (auto simp: is_chat_id_def Let_def)
  have m: "\<not> is_space (CHR ''-'')" "\<not> is_digit (CHR ''-'')" "\<not> is_digit (CHR ''+'')" by code_simp+
  have nsp: "\<not> (\<forall>x\<in>set ds. is_space x)"
    using ds(1,2) digit_not_space by (cases ds) auto
  have st: "py_strip s = s"
    using nsp ds(3) digits_no_space [OF ds(2)] m(1) by (auto simp: py_strip_def dropWhile_append3 dropWhile_append)
  obtain n where n: "parse_digits False 0 ds = Some n" using parse_digits_all [OF ds(2)] ds(1) by blast
  have "hd ds \<noteq> CHR ''-''" "hd ds \<noteq> CHR ''+''" using ds(1,2) m by (cases ds; auto)+
  then show ?thesis using ds(1,3) n st by (cases ds) (auto simp: py_int_def Let_def simp del: parse_digits.simps)
qed

text \<open>Outside the error handler only the log line can come between.\<close>

lemma notify_user_never_raises: "\<exists>s'. notify_user b ev data s = (Inr (), s')"
  using safe_send_never_raises [of data]
  by (auto simp: notify_user_def run_simps split: option.split sum.split prod.split) (metis prod.collapse)+

lemma error_handler_never_raises:
  assumes "is_chat_id (ac_telegram_chat_id (eh_settings eh))"
  shows "\<exists>r s'. ErrorHandlerMiddleware_call eh b h ev data s = (Inr r, s')"
proof (cases "h ev data s")
  case (Pair x s1)
  obtain i where i: "py_int (ac_telegram_chat_id (eh_settings eh)) = Inr i" using chat_id_int [OF assms] by blast
  obtain s2 where "notify_user b ev data s1 = (Inr (), s2)" using notify_user_never_raises [of b ev data s1] by (elim exE)
  then show ?thesis
    using Pair i by (cases x) (auto simp: ErrorHandlerMiddleware_call_def run_simps Let_def split: option.split sum.split prod.split)
qed

text \<open>What the stack lets through to the handler.\<close>

definition authorised :: "'s MiddlewareDependencies \<Rightarrow> event \<Rightarrow> 's middleware_data \<Rightarrow> bool" where
  "authorised d ev data \<longleftrightarrow>
     (let ctx = extract_context ev; c = mdp_config d in
      (\<exists>u. md_user data = Some u \<and> u_is_active u \<and> uc_user_id ctx = Some (u_telegram_id u) \<and>
        (\<forall>cmd. extract_command ev = Some cmd \<longrightarrow> PermissionService_can_execute
           (case mdp_permission_service d of None \<Rightarrow> default_service | Some p \<Rightarrow> p) u cmd (resolve_topic (uc_topic_id ctx) c))) \<and>
      (\<exists>t \<in> allowed_topics c. uc_topic_id ctx = Some t) \<and>
      (\<forall>i. uc_chat_id ctx = Some i \<longrightarrow> str_int i = ac_telegram_chat_id c))"

lemma bindM_cong_run:
  "(\<And>x s'. m s = (Inr x, s') \<Longrightarrow> f x s' = g x s') \<Longrightarrow> bindM m f s = bindM m g s"
  by (auto simp: bindM_def split: prod.split sum.split)

lemma audit_cong: "h1 ev data = h2 ev data \<Longrightarrow> AuditMiddleware_call am h1 ev data = AuditMiddleware_call am h2 ev data"
  by (simp add: AuditMiddleware_call_def split: option.split)

lemma role_cong:
  assumes "ro_audit ro \<noteq> None"
    and "(case md_user data of None \<Rightarrow> True | Some u \<Rightarrow> \<forall>cmd. extract_command ev = Some cmd \<longrightarrow>
        PermissionService_can_execute (ro_permission_service ro) u cmd (topic_of (ro_config ro) (extract_context ev))) \<Longrightarrow>
      h1 ev data = h2 ev data"
  shows "RoleMiddleware_call ro h1 ev data = RoleMiddleware_call ro h2 ev data"
  using assms by (auto simp: RoleMiddleware_call_def Let_def split: option.split)

lemma auth_cong:
  assumes ses: "sql_session ses rows" and st: "am_store am = Some (SQLUserRepository ses, audit)"
    and h: "\<And>data u. md_user data = Some u \<Longrightarrow> u_is_active u \<Longrightarrow> uc_user_id (extract_context ev) = Some (u_telegram_id u) \<Longrightarrow>
      h1 ev data = h2 ev data"
  shows "AuthMiddleware_call am h1 ev data = AuthMiddleware_call am h2 ev data"
proof (cases "uc_user_id (extract_context ev)")
  case (Some i)
  have adm: "h1 ev (data\<lparr>md_user := Some u\<rparr>) = h2 ev (data\<lparr>md_user := Some u\<rparr>)" if "mk_User i n r True t = Inr u" for n r t u
    using that h [of "data\<lparr>md_user := Some u\<rparr>" u] Some by (auto simp: mk_User_Inr)
  have loc: "sql_user_session ses rows" using ses by (simp add: sql_user_session_def)
  have usr: "h1 ev (data\<lparr>md_user := Some u\<rparr>) = h2 ev (data\<lparr>md_user := Some u\<rparr>)"
    if "SQLUserRepository_get_by_telegram_id ses i s = (Inr (Some u), s')" "u_is_active u" for s u s'
    using that h [of "data\<lparr>md_user := Some u\<rparr>" u] Some sql_user_session.get_user_id [OF loc that(1)] by simp
  show ?thesis
    using Some st
    by (auto simp: AuthMiddleware_call_def SQLUserRepository_def Let_def adm usr intro!: ext bindM_cong_run split: option.split)
qed (simp add: AuthMiddleware_call_def)

lemma rate_cong: "h1 ev data = h2 ev data \<Longrightarrow> RateLimitMiddleware_call rm h1 ev data = RateLimitMiddleware_call rm h2 ev data"
  by (simp add: RateLimitMiddleware_call_def Let_def split: option.split)

lemma topic_cong:
  assumes "config = Some c"
    and "\<And>t. uc_topic_id (extract_context ev) = Some t \<Longrightarrow> t \<in> allowed_topics c \<Longrightarrow>
      (\<forall>i. uc_chat_id (extract_context ev) = Some i \<longrightarrow> str_int i = ac_telegram_chat_id c) \<Longrightarrow> h1 ev data = h2 ev data"
  shows "TopicFilterMiddleware_call config h1 ev data = TopicFilterMiddleware_call config h2 ev data"
  using assms by (auto simp: TopicFilterMiddleware_call_def Let_def split: option.split)

lemma error_cong: "h1 ev data = h2 ev data \<Longrightarrow> ErrorHandlerMiddleware_call eh b h1 ev data = ErrorHandlerMiddleware_call eh b h2 ev data"
  by (simp add: ErrorHandlerMiddleware_call_def)

section \<open>Properties\<close>

definition sample_config :: AppConfig where
  "sample_config =
     \<lparr>ac_telegram_bot_token = ''t'', ac_telegram_chat_id = ''-100'', ac_topic_backup_requests = 1, ac_topic_size_ask = 2,
      ac_topic_execution_errors = 3, ac_topic_admin = 4, ac_mongodb_uri = ''mongodb://db'', ac_mongodump_path = None,
      ac_redis_url = ''redis://localhost:6379/0'', ac_database_url = ''sqlite+aiosqlite:///./mongo_ops.db'',
      ac_backup_base_path = [''/'', ''backups''], ac_retention_full_weeks = 4, ac_retention_custom_weeks = 2,
      ac_retention_max_gb = 50, ac_log_level = ''INFO'', ac_sqlalchemy_echo = False, ac_rate_limit_max_requests = 10,
      ac_rate_limit_window_seconds = 60, ac_max_concurrent_backups = 3\<rparr>"

definition silent_bot :: "'s Bot" where
  "silent_bot =
     \<lparr>bot_send_message = (\<lambda>c t z k. returnM ()), bot_edit_text = (\<lambda>m t k. returnM ()),
      bot_answer_callback = (\<lambda>c t a. returnM ()), bot_send_document = (\<lambda>c d t z. returnM ()),
      bot_get_chat_member = (\<lambda>c u. returnM MEMBER), bot_get_me = returnM True\<rparr>"

definition world_middlewares :: "world MiddlewareDependencies" where
  "world_middlewares =
     \<lparr>mdp_config = sample_config, mdp_users = user_session, mdp_audit_logs = audit_session, mdp_rates = rate_session,
      mdp_permission_service = None, mdp_audit_service = None, mdp_redis_async_client = None, mdp_bot = None\<rparr>"

definition world_surroundings :: "world surroundings" where
  "world_surroundings =
     \<lparr>su_runtime = world_runtime, su_errors = \<lparr>eh_settings = sample_config, eh_format = exn_str\<rparr>,
      su_receiving_bot = silent_bot, su_cache_get = (\<lambda>i. returnM None), su_cache_set = (\<lambda>i b. returnM ()),
      su_is_api_error = (\<lambda>e. exn_type_name e = ''TelegramAPIError'')\<rparr>"

definition users_world :: world where
  "users_world = start_world\<lparr>w_users := \<lparr>rf_rows = [user_to_orm sample_user], rf_next = 0\<rparr>\<rparr>"

definition backup_command :: event where
  "backup_command = UpdateEvent
     \<lparr>upd_id = 1, upd_message = Some \<lparr>msg_id = 5, msg_chat_id = - 100, msg_thread_id = Some 1, msg_from_id = Some 7,
        msg_text = Some ''/backup''\<rparr>, upd_edited_message = None, upd_callback_query = None, upd_channel_post = None,
      upd_edited_channel_post = None\<rparr>"

definition no_data :: "'s middleware_data" where
  "no_data = \<lparr>md_user = None, md_event_from_user = None, md_bot = None\<rparr>"

lemma backup_command_context:
  "extract_context backup_command = \<lparr>uc_update_id = Some 1, uc_user_id = Some 7, uc_chat_id = Some (- 100), uc_topic_id = Some 1\<rparr>"
  "extract_command backup_command = Some ''BACKUP''" "resolve_topic (Some 1) sample_config = ''BACKUP_REQUESTS''"
  "str_int (- 100) = ''-100''" "allowed_topics sample_config = {1, 2, 3, 4}"
  "is_chat_id ''-100''" "ac_telegram_chat_id sample_config = ''-100''"
  "ac_rate_limit_max_requests sample_config = 10" "ac_rate_limit_window_seconds sample_config = 60"
  by code_simp+

lemmas dispatch_defs = get_global_middlewares_def dispatch_def LoggingMiddleware_call_def ErrorHandlerMiddleware_call_def
  TopicFilterMiddleware_call_def RateLimitMiddleware_call_def rate_limited_def or_else_def AuthMiddleware_call_def
  RoleMiddleware_call_def AuditMiddleware_call_def audit_finally_def audit_persist_def topic_of_def role_validator_def session_audit_def
  SQLUserRepository_def SQLUserRepository_get_by_telegram_id_def user_row_def user_session_def
  SQLRateLimitRepository_check_limit_def world_middlewares_def world_surroundings_def users_world_def

lemma sample_may_backup: "PermissionService_can_execute default_service sample_user ''BACKUP'' ''BACKUP_REQUESTS''"
  by code_simp

lemma sample_user_row: "user_to_entity (user_to_orm sample_user) = Inr sample_user" "uo_telegram_id (user_to_orm sample_user) = 7"
  "u_is_active sample_user" "u_telegram_id sample_user = 7" "u_role sample_user = OPERATOR"
  by code_simp+

lemma backup_dispatched:
  assumes "\<And>data s. h backup_command data s = (Inr r, s)"
  shows "fst (dispatch (get_global_middlewares world_surroundings (Some world_middlewares)) h backup_command no_data users_world) = Inr r"
  by (simp add: exec_defs dispatch_defs backup_command_context sample_may_backup sample_user_row no_data_def assms cong: exec_cong)

text \<open>C22. Nothing reaches a handler that is not authorised. With a database whose session behaves, two handlers
  that agree on authorised calls make the same dispatcher: whatever the handler would do for anybody
  else never happens. Authorised is a call for an active user with the sender's identifier, in one of the
  configured topics and the configured chat, whose command, if the update has one, the access rules
  grant him in that topic. Without dependencies the dispatcher drops every update.\<close>

theorem dispatch_authorised:
  assumes ses: "sql_session (mdp_users d) rows"
    and agree: "\<And>data. authorised d ev data \<Longrightarrow> h1 ev data = h2 ev data"
  shows "dispatch (get_global_middlewares su (Some d)) h1 ev data s = dispatch (get_global_middlewares su (Some d)) h2 ev data s \<and>
    dispatch (get_global_middlewares su None) h1 ev data s = (Inr None, s)"
proof
  let ?ps = "case mdp_permission_service d of None \<Rightarrow> default_service | Some p \<Rightarrow> p"
  let ?ro = "\<lparr>ro_audit = Some (session_audit d), ro_permission_service = ?ps, ro_config = Some (mdp_config d),
    ro_runtime = su_runtime su\<rparr>"
  let ?am = "\<lparr>aum_audit = Some (session_audit d), aum_config = None, aum_runtime = su_runtime su\<rparr>"
  have inner: "RoleMiddleware_call ?ro (AuditMiddleware_call ?am h1) ev data = RoleMiddleware_call ?ro (AuditMiddleware_call ?am h2) ev data"
    if "uc_topic_id (extract_context ev) = Some t" "t \<in> allowed_topics (mdp_config d)"
      "\<forall>i. uc_chat_id (extract_context ev) = Some i \<longrightarrow> str_int i = ac_telegram_chat_id (mdp_config d)"
      "md_user data = Some u" "u_is_active u" "uc_user_id (extract_context ev) = Some (u_telegram_id u)" for t data u
    using that by (intro role_cong audit_cong agree) (auto simp: authorised_def topic_of_def Let_def)
  have "dispatch (get_global_middlewares su (Some d)) h1 ev data = dispatch (get_global_middlewares su (Some d)) h2 ev data"
    unfolding get_global_middlewares_def dispatch_def Let_def foldr.simps o_def id_def LoggingMiddleware_call_def
      option.map bind.bind_lunit
    by (intro error_cong topic_cong [OF refl] rate_cong auth_cong [OF ses]) (simp_all add: inner)
  then show "dispatch (get_global_middlewares su (Some d)) h1 ev data s = dispatch (get_global_middlewares su (Some d)) h2 ev data s"
    by simp
  show "dispatch (get_global_middlewares su None) h1 ev data s = (Inr None, s)"
    by (simp add: get_global_middlewares_def dispatch_def Let_def LoggingMiddleware_call_def ErrorHandlerMiddleware_call_def
        TopicFilterMiddleware_call_def run_simps)
qed

lemma dispatch_authorised_witness:
  "let go = dispatch (get_global_middlewares world_surroundings (Some world_middlewares)) in
   fst (go (\<lambda>ev data. if authorised world_middlewares ev data then returnM (Some True) else raiseM (RuntimeError ''boom''))
     backup_command no_data users_world) = Inr (Some True)"
proof -
  let ?h = "\<lambda>ev data. returnM (Some True)"
  let ?g = "\<lambda>ev data. if authorised world_middlewares ev data then returnM (Some True) else raiseM (RuntimeError ''boom'')"
  have "sql_session user_session (\<lambda>w. rf_rows (w_users w))"
    unfolding user_session_def by (rule zoom_sql_session [OF ref_sql.sql_session_axioms]) simp
  then have "sql_session (mdp_users world_middlewares) (\<lambda>w. rf_rows (w_users w))" by (simp add: world_middlewares_def)
  from dispatch_authorised [OF this, of backup_command ?h ?g world_surroundings no_data users_world]
  show ?thesis using backup_dispatched [of ?h "Some True"] by simp
qed

text \<open>C31. The dispatcher survives every handler: whatever raises inside the stack or the handler, the call
  returns, and polling goes on.\<close>

theorem dispatch_never_raises:
  assumes "is_chat_id (ac_telegram_chat_id (eh_settings (su_errors su)))"
  shows "\<exists>r s'. dispatch (get_global_middlewares su deps) h ev data s = (Inr r, s')"
  using error_handler_never_raises [OF assms]
  by (simp add: get_global_middlewares_def dispatch_def Let_def LoggingMiddleware_call_def)

lemma dispatch_never_raises_witness:
  "\<exists>r s'. dispatch (get_global_middlewares world_surroundings (Some world_middlewares))
     (\<lambda>ev data. raiseM (RuntimeError ''boom'')) backup_command no_data users_world = (Inr r, s')"
  by (rule dispatch_never_raises) (simp add: world_surroundings_def backup_command_context)

end
