(* ===== verification/Requests.thy ===== *)
theory Requests
  imports World
begin

text \<open>
  The properties of requesting and cancelling a backup: theorems about
  \<open>RequestBackupUseCase_execute\<close>, \<open>JobManager_cancel_job\<close> and the lock bracket, stated over the
  contracts of the ports and run in the closed world.
\<close>

section \<open>Sample runs\<close>

definition sample_hash :: string where
  "sample_hash = replicate 64 (CHR ''a'')"

definition sample_request :: RequestBackupDto where
  "sample_request =
     \<lparr>rbd_user = \<lparr>up_telegram_id = 7, up_username = None, up_role = DBA, up_is_active = True\<rparr>,
      rbd_chat_id = Some (- 100), rbd_topic_id = None, rbd_status_message_id = Some 5,
      rbd_backup_type = CUSTOM, rbd_cluster_uri_hash = sample_hash,
      rbd_target_collections = Some [\<lparr>ct_database = ''shop'', ct_collection = ''orders'',
         ct_status = CollectionBackupStatus.PENDING, ct_size_bytes = None, ct_error_message = None\<rparr>],
      rbd_topic = ''BACKUP_REQUESTS'', rbd_command = Some ''/backup''\<rparr>"

lemma sample_hash_ok: "is_sha256_hex sample_hash"
  by code_simp

lemmas sample_defs = sample_request_def sample_hash_ok

definition sample_denied :: RequestBackupDto where
  "sample_denied = sample_request\<lparr>rbd_user :=
     \<lparr>up_telegram_id = 8, up_username = None, up_role = READONLY, up_is_active = True\<rparr>\<rparr>"

lemma world_jobs_frames:
  assumes "\<And>t w. view (w_jobs_update (\<lambda>_. t) w) = view w"
  shows "repo_frames view world_jobs"
proof -
  have c: "frames view (ss_select job_session q)" "frames view (ss_commit job_session ch)"
    "frames view (ss_rollback job_session)" for q ch
    by (simp_all add: job_session_def zoom_session_def zoom_frames_other assms)
  show ?thesis
    unfolding repo_frames_def world_jobs_def SQLJobRepository_def IJobRepository.simps
      SQLJobRepository_get_by_id_def SQLJobRepository_save_def SQLJobRepository_list_by_status_def
    by (intro conjI allI; (rule c | rule frame_intros)+)
qed

lemma sample_request_run:
  "fst (RequestBackupUseCase_execute world_request sample_request start_world) =
     Inr \<lparr>rbr_job_id = ''j'', rbr_status = JobStatus.PENDING\<rparr>"
  by (simp add: exec_defs sample_defs cong: exec_cong)

section \<open>Requesting a backup\<close>

text \<open>C15. The guards of a backup request, in their order. A user whom the access rules refuse gets
  \<open>DomainPermissionError\<close> and nothing at all has happened; past the rate limit the only effect is
  the counted call; when the global lock is taken the only further effect is the attempt to take
  it; and when the volume has too little space no job was created, and the lock is given back.\<close>

theorem request_refusals:
  assumes user: "user_of_principal (rbd_user dto) = Inr user"
  shows "(\<not> PermissionService_can_execute (rb_permission_service uc) user ''BACKUP'' (rbd_topic dto) \<longrightarrow>
      (\<exists>m d. RequestBackupUseCase_execute uc dto s = (Inl (DomainExn DomainPermissionError m d), s))) \<and>
    (PermissionService_can_execute (rb_permission_service uc) user ''BACKUP'' (rbd_topic dto) \<longrightarrow>
      (\<forall>n s1. rl_increment (rb_rate_limit_repo uc) (up_telegram_id (rbd_user dto)) ''BACKUP''
          (rb_backup_rate_window uc) s = (Inr n, s1) \<longrightarrow>
        (rb_max_backup_rate uc < n \<longrightarrow>
          (\<exists>m d. RequestBackupUseCase_execute uc dto s = (Inl (DomainExn RateLimitError m d), s1))) \<and>
        (n \<le> rb_max_backup_rate uc \<longrightarrow> (\<forall>lm. rb_lock_manager uc = Some lm \<longrightarrow>
          (\<forall>s2. lm_acquire lm ''backup:global'' 3600 s1 = (Inr None, s2) \<longrightarrow>
            (\<exists>m d. RequestBackupUseCase_execute uc dto s = (Inl (DomainExn JobAlreadyRunningError m d), s2))) \<and>
          (\<forall>tok s2 tot used free s3.
            lm_acquire lm ''backup:global'' 3600 s1 = (Inr (Some tok), s2) \<longrightarrow>
            fs_get_disk_usage (rb_fs_utils uc) (rb_backup_base_path uc) s2 = (Inr (tot, used, free), s3) \<longrightarrow>
            free < rb_min_free_disk_bytes uc \<longrightarrow>
            (\<exists>m d. RequestBackupUseCase_execute uc dto s =
              (Inl (DomainExn DiskSpaceError m d), snd (lm_release lm ''backup:global'' tok s3))))))))"
  using user
  by (auto simp: RequestBackupUseCase_execute_def request_body_def release_suppressed_def GLOBAL_LOCK_def
      LOCK_TTL_def run_simps split: prod.split sum.split)

lemma request_refusals_witness:
  "\<exists>m d. RequestBackupUseCase_execute world_request sample_denied start_world =
     (Inl (DomainExn DomainPermissionError m d), start_world)"
proof -
  have "user_of_principal (rbd_user sample_denied) =
      Inr \<lparr>u_telegram_id = 8, u_username = None, u_role = READONLY, u_is_active = True, u_created_at = 0\<rparr>"
    by (simp add: sample_denied_def user_of_principal_def mk_User_def)
  from request_refusals [OF this, of world_request start_world] show ?thesis
    by (simp add: sample_denied_def sample_defs world_request_def User_can_execute_def
        COMMAND_PERMISSIONS_def exec_parse)
qed

text \<open>C13. The global lock is never left behind: with a lock store that answers, whatever a request
  does and however it ends, the locks held afterwards are exactly those held before.\<close>

theorem request_releases_lock:
  assumes lm: "rb_lock_manager uc = Some lm" "lock_manager lm held" "lock_answers lm held"
    and quiet: "request_frames held uc" "repo_frames held (jm_job_repository (rb_job_manager uc))"
    and run: "RequestBackupUseCase_execute uc dto s = (x, s')"
  shows "held s' = held s"
proof -
  have rl: "frames held (rl_increment (rb_rate_limit_repo uc) t a w)" for t a w
    using quiet(1) by (simp add: request_frames_def)
  have br: "held t2 = held t"
    if "bindM (lm_acquire lm GLOBAL_LOCK LOCK_TTL) (\<lambda>lock_token. case lock_token of
           None \<Rightarrow> raise_domain c m d
         | Some tok \<Rightarrow> finallyM (request_body uc dto) (release_suppressed lm GLOBAL_LOCK tok)) t = (y, t2)"
    for t t2 y c m d
    using that lm(3) lock_manager.acquire_no [OF lm(2)]
      lock_manager.bracket [OF lm(2,3) _ release_suppressed_ok request_body_frames [OF quiet]]
    by (auto simp: bindM_def lock_answers_def split: prod.splits sum.splits option.splits)
  show ?thesis
    using run lm(1) br framesD [OF rl]
    by (auto simp: RequestBackupUseCase_execute_def run_simps split: prod.splits sum.splits if_splits)
qed

lemma request_releases_lock_witness:
  "\<exists>s'. RequestBackupUseCase_execute world_request sample_request start_world =
       (Inr \<lparr>rbr_job_id = ''j'', rbr_status = JobStatus.PENDING\<rparr>, s') \<and> held_locks s' ''backup:global'' = None"
proof -
  have lm: "rb_lock_manager world_request = Some world_locks" by (simp add: world_request_def)
  have q: "request_frames held_locks world_request"
    by (rule request_frames_world) (simp_all add: uuid_keeps_locks)
  have r: "repo_frames held_locks (jm_job_repository (rb_job_manager world_request))"
    by (auto simp: world_request_def world_manager_def intro!: world_jobs_frames)
  note run = fst_run [of "RequestBackupUseCase_execute world_request sample_request", OF sample_request_run]
  from request_releases_lock [OF lm world_lock_manager world_locks_answer q r run]
  have "held_locks (snd (RequestBackupUseCase_execute world_request sample_request start_world)) =
      held_locks start_world" .
  moreover have "held_locks start_world ''backup:global'' = None"
    by (simp add: start_world_def empty_store_def live_string_def)
  ultimately show ?thesis using run by metis
qed

text \<open>The job of a request that succeeded.\<close>

lemma request_stored:
  assumes ports: "backup_request uc jobs persist clean"
    and run: "RequestBackupUseCase_execute uc dto s = (Inr r, s')"
  obtains k where "jobs s' (rbr_job_id r) = Some k" "bj_status k = QUEUED"
    "bj_requester_telegram_id k = up_telegram_id (rbd_user dto)" "bj_chat_id k = rbd_chat_id dto"
    "bj_topic_id k = rbd_topic_id dto" "bj_status_message_id k = rbd_status_message_id dto"
    "bj_backup_type k = rbd_backup_type dto" "bj_cluster_uri_hash k = rbd_cluster_uri_hash dto"
    "rbd_backup_type dto = CUSTOM \<Longrightarrow> bj_target_collections k = (case rbd_target_collections dto of None \<Rightarrow> [] | Some ts \<Rightarrow> ts)"
proof -
  note jm = backup_request.axioms(1) [OF ports]
  have "stays (\<lambda>s. (jobs s, clean s)) (jobs s, clean s) s" by (simp add: stays_def)
  from tripleD [OF backup_request.execute_triple [OF ports] this run]
  obtain j k q where j: "job_manager.created (request_of_dto dto) j" and k: "job_manager.enqueued j q k"
    and s': "jobs s' (rbr_job_id r) = Some k"
    by (auto simp: backup_request.request_done_def [OF ports] stays_def)
  show thesis
    using j k
    by (intro that [OF s']) (auto simp: job_manager.created_def [OF jm] job_manager.enqueued_def [OF jm] request_of_dto_def same_job_def)
qed

text \<open>C14. What a request leaves in the job table. When it succeeds, exactly one job was added, under an
  identifier that was free: queued, with the queue's identifier, and with the requester, chat,
  type, cluster and collections of the request (a full backup names none). The status the caller
  is told is \<open>PENDING\<close> nevertheless. When it fails, the table is as before or has that one new job,
  still pending or already queued.\<close>

theorem request_creates_job:
  assumes ports: "backup_request uc jobs persist clean"
    and run: "RequestBackupUseCase_execute uc dto s = (x, s')"
  shows "case x of
    Inr r \<Rightarrow> rbr_status r = JobStatus.PENDING \<and> jobs s (rbr_job_id r) = None \<and>
      (\<exists>k. jobs s' = (jobs s)(rbr_job_id r \<mapsto> k) \<and> bj_status k = QUEUED \<and> bj_queue_job_id k \<noteq> None \<and>
         bj_requester_telegram_id k = up_telegram_id (rbd_user dto) \<and> bj_chat_id k = rbd_chat_id dto \<and>
         bj_backup_type k = rbd_backup_type dto \<and> bj_cluster_uri_hash k = rbd_cluster_uri_hash dto \<and>
         bj_target_collections k =
           (if rbd_backup_type dto = FULL then []
            else case rbd_target_collections dto of None \<Rightarrow> [] | Some ts \<Rightarrow> ts))
  | Inl e \<Rightarrow> jobs s' = jobs s \<or>
      (\<exists>i k. jobs s i = None \<and> jobs s' = (jobs s)(i \<mapsto> k) \<and>
         bj_status k \<in> {JobStatus.PENDING, QUEUED} \<and>
         bj_requester_telegram_id k = up_telegram_id (rbd_user dto))"
proof -
  note jm = backup_request.axioms(1) [OF ports]
  note defs = backup_request.request_done_def [OF ports] backup_request.request_changes_def [OF ports]
    job_manager.created_def [OF jm] job_manager.enqueued_def [OF jm] stays_def
  note same = job_manager.same_job_simps [OF jm]
  have "stays (\<lambda>s. (jobs s, clean s)) (jobs s, clean s) s" by (simp add: stays_def)
  note t = tripleD [OF backup_request.execute_triple [OF ports] this run]
  show ?thesis
  proof (cases x)
    case (Inl e)
    have "bj_status k \<in> {JobStatus.PENDING, QUEUED} \<and> bj_requester_telegram_id k = up_telegram_id (rbd_user dto)"
      if "job_manager.created (request_of_dto dto) j" "same_job k j \<or> (\<exists>q. job_manager.enqueued j q k)" for j k
      using that by (auto simp: defs request_of_dto_def dest!: same)
    with t Inl show ?thesis
      unfolding defs(2) stays_def by (simp del: fun_upd_apply insert_iff) blast
  next
    case (Inr r)
    with t show ?thesis by (auto simp: defs request_of_dto_def dest!: same)
  qed
qed

lemma request_creates_job_witness:
  "\<exists>s' k. RequestBackupUseCase_execute world_request sample_request start_world =
       (Inr \<lparr>rbr_job_id = ''j'', rbr_status = JobStatus.PENDING\<rparr>, s') \<and>
     stored_jobs s' ''j'' = Some k \<and> bj_status k = QUEUED \<and> bj_requester_telegram_id k = 7"
proof -
  note run = fst_run [of "RequestBackupUseCase_execute world_request sample_request", OF sample_request_run]
  from request_creates_job [OF wrequest.backup_request_axioms run] show ?thesis
    by (subst run) (auto simp: sample_request_def)
qed

section \<open>Cancelling a job\<close>


text \<open>The world after the sample request: one queued job.\<close>

definition requested_world :: world where
  "requested_world = snd (RequestBackupUseCase_execute world_request sample_request start_world)"

definition sample_owner :: User where
  "sample_owner = \<lparr>u_telegram_id = 7, u_username = None, u_role = DBA, u_is_active = True, u_created_at = 0\<rparr>"

lemma sample_cancel_run:
  "\<exists>r s'. JobManager_cancel_job world_manager ''j'' sample_owner requested_world = (Inr r, s')"
  by (simp add: requested_world_def sample_owner_def exec_defs sample_defs cong: exec_cong)




end
