(* ===== verification/ExecuteBackup.thy ===== *)
theory ExecuteBackup
  imports RequestBackup
begin

text \<open>
  \<^verbatim>\<open>app/application/use_cases/execute_backup.py\<close>: the run of a queued job in the worker. The job
  is a local object of the run, so it is threaded through the definitions; the repository holds
  its stored row. The use case's one mutable attribute, the time of the last progress message, is
  a cell of the state (\<open>eb_last_ui\<close>, \<open>eb_set_last_ui\<close>).
\<close>

section \<open>The use case\<close>

record 's ExecuteBackupUseCase =
  eb_job_repository :: "'s IJobRepository"
  eb_backup_engine :: "'s IBackupEngine"
  eb_mongo_metadata :: "'s IMongoMetadata"
  eb_audit_repository :: "'s IAuditRepository" \<comment> \<open>inside the audit service\<close>
  eb_notifier :: "'s INotifier"
  eb_retention_manager :: "'s IRetentionManager"
  eb_fs_utils :: "'s IFsUtils"
  eb_lock_manager :: "'s ILockManager option"
  eb_backup_base_path :: path
  eb_runtime :: "'s Runtime"
  eb_last_ui :: "'s \<Rightarrow> int"
  eb_set_last_ui :: "int \<Rightarrow> 's \<Rightarrow> 's"

definition CLUSTER_LOCK_PREFIX :: string where "CLUSTER_LOCK_PREFIX = ''backup:cluster''"
definition MAX_LOOKUP_RETRIES :: nat where "MAX_LOOKUP_RETRIES = 5"
definition RETRY_BACKOFF_MS :: int where "RETRY_BACKOFF_MS = 500"
definition MIN_UI_UPDATE_INTERVAL :: int where "MIN_UI_UPDATE_INTERVAL = 4000000"

record ExecuteBackupResult =
  ebr_job_id :: string
  ebr_status :: JobStatus
  ebr_completed_collections :: int
  ebr_failed_collections :: int
  ebr_total_collections :: int
  ebr_bytes_processed :: int
  ebr_error_log :: "string option"

text \<open>The job may be committed after the queue delivered it; \<open>n\<close> attempts are left.\<close>

fun lookup_job :: "'s ExecuteBackupUseCase \<Rightarrow> string \<Rightarrow> nat \<Rightarrow> ('s, BackupJob option) M" where
  "lookup_job uc i 0 = returnM None"
| "lookup_job uc i (Suc n) =
     bindM (jr_get_by_id (eb_job_repository uc) i) (\<lambda>found.
     case found of
       Some job \<Rightarrow> returnM (Some job)
     | None \<Rightarrow>
         if n = 0 then returnM None
         else thenM (jr_clear_session_cache (eb_job_repository uc))
             (thenM (rt_sleep_ms (eb_runtime uc) RETRY_BACKOFF_MS) (lookup_job uc i n)))"

text \<open>\<open>_resolve_targets\<close>\<close>

definition pending_target :: "string \<Rightarrow> string \<Rightarrow> exn + CollectionTarget" where
  "pending_target db coll = mk_CollectionTarget db coll CollectionBackupStatus.PENDING None None"

definition resolve_targets :: "'s ExecuteBackupUseCase \<Rightarrow> BackupJob \<Rightarrow> ('s, CollectionTarget list) M" where
  "resolve_targets uc job =
     (if bj_backup_type job = CUSTOM
      then liftE (map_sum_list (\<lambda>t. pending_target (ct_database t) (ct_collection t)) (bj_target_collections job))
      else
        bindM (mm_list_databases (eb_mongo_metadata uc) (bj_cluster_uri_hash job)) (\<lambda>databases.
        bindM (mapM_list (\<lambda>database.
                 bindM (mm_list_collections (eb_mongo_metadata uc) (bj_cluster_uri_hash job) database)
                   (\<lambda>collections. liftE (map_sum_list (pending_target database) collections))) databases)
          (\<lambda>targets. returnM (concat targets))))"

text \<open>\<open>_backup_single_collection\<close>: both handlers build the same descriptor, one from
  \<open>exc.message\<close>, the other from \<open>str(exc)\<close>, which for a domain error is its message.\<close>

definition backup_single_collection ::
  "'s ExecuteBackupUseCase \<Rightarrow> CollectionTarget \<Rightarrow> path \<Rightarrow> ('s, CollectionTarget) M" where
  "backup_single_collection uc target output_dir =
     tryM (be_backup_collection (eb_backup_engine uc) (ct_database target) (ct_collection target) output_dir)
          (\<lambda>exc. liftE (mk_CollectionTarget (ct_database target) (ct_collection target)
                    CollectionBackupStatus.FAILED None (Some (exn_str exc))))"

section \<open>Progress messages\<close>

definition should_update_ui :: "'s ExecuteBackupUseCase \<Rightarrow> ('s, bool) M" where
  "should_update_ui uc =
     bindM (rt_monotonic (eb_runtime uc)) (\<lambda>now s.
       if MIN_UI_UPDATE_INTERVAL \<le> now - eb_last_ui uc s
       then (Inr True, eb_set_last_ui uc now s) else (Inr False, s))"

definition progress_lines :: "JobProgress \<Rightarrow> JobStatus \<Rightarrow> text_line list" where
  "progress_lines p st =
     [TxtProgressHeader, TxtCollections (jp_completed_collections p) (jp_total_collections p)] @
     (if jp_failed_collections p \<noteq> 0 then [TxtFailed (jp_failed_collections p)] else []) @
     [TxtPercent (jp_percent_complete p)] @
     (if jp_bytes_processed p \<noteq> 0 then [TxtProcessed (jp_bytes_processed p)] else []) @
     [TxtStatus (status_value st)]"

definition notify_progress :: "'s ExecuteBackupUseCase \<Rightarrow> BackupJob \<Rightarrow> ('s, unit) M" where
  "notify_progress uc job =
     (case (bj_status_message_id job, bj_chat_id job) of
        (Some msg, Some chat) \<Rightarrow>
          bindM (should_update_ui uc) (\<lambda>update.
          if \<not> update then returnM ()
          else (case bj_progress job of
                  None \<Rightarrow> returnM ()
                | Some p \<Rightarrow>
                    tryM (no_edit_message (eb_notifier uc) chat msg (progress_lines p (bj_status job)))
                         (\<lambda>e. returnM ())))
      | _ \<Rightarrow> returnM ())"

definition final_lines ::
  "BackupJob \<Rightarrow> JobStatus \<Rightarrow> int \<Rightarrow> int \<Rightarrow> int \<Rightarrow> int \<Rightarrow> text_line list" where
  "final_lines job status completed failed n_total bytes =
     [TxtFinishedHeader status, TxtJobId (bj_id job), TxtStatus (status_value status),
      TxtCollections completed n_total] @
     (if failed \<noteq> 0 then [TxtFailed failed] else []) @
     (if bytes \<noteq> 0 then [TxtTotalSize bytes] else [])"

definition notify_final ::
  "'s ExecuteBackupUseCase \<Rightarrow> BackupJob \<Rightarrow> JobStatus \<Rightarrow> int \<Rightarrow> int \<Rightarrow> int \<Rightarrow> int \<Rightarrow> ('s, unit) M" where
  "notify_final uc job status completed failed n_total bytes =
     (let summary = final_lines job status completed failed n_total bytes in
      tryM (case (bj_status_message_id job, bj_chat_id job) of
              (Some msg, Some chat) \<Rightarrow> no_edit_message (eb_notifier uc) chat msg summary
            | _ \<Rightarrow> no_send_message (eb_notifier uc)
                     (or_int (bj_chat_id job) (bj_requester_telegram_id job)) summary (bj_topic_id job))
           (\<lambda>e. returnM ()))"

section \<open>The run\<close>

text \<open>The local variables of the collection loop.\<close>

record run_state =
  xs_job :: BackupJob
  xs_completed :: int
  xs_failed :: int
  xs_bytes :: int
  xs_results :: "CollectionTarget list"
  xs_cancelled :: bool

definition size_or_0 :: "int option \<Rightarrow> int" where
  "size_or_0 x = (case x of None \<Rightarrow> 0 | Some n \<Rightarrow> n)"

definition count_result :: "CollectionTarget \<Rightarrow> run_state \<Rightarrow> run_state" where
  "count_result result st =
     (let st1 = st\<lparr>xs_results := xs_results st @ [result]\<rparr> in
      if ct_status result = CollectionBackupStatus.SUCCESS
      then st1\<lparr>xs_completed := xs_completed st + 1,
               xs_bytes := xs_bytes st + size_or_0 (ct_size_bytes result)\<rparr>
      else st1\<lparr>xs_failed := xs_failed st + 1\<rparr>)"

definition run_percent :: "int \<Rightarrow> run_state \<Rightarrow> int" where
  "run_percent n_total st = (if n_total \<noteq> 0 then percent_of (xs_completed st + xs_failed st) n_total else 0)"

definition run_progress :: "int \<Rightarrow> run_state \<Rightarrow> exn + JobProgress" where
  "run_progress n_total st =
     mk_JobProgress n_total (xs_completed st) (xs_failed st) 0 (run_percent n_total st) (xs_bytes st)"

definition backup_one ::
  "'s ExecuteBackupUseCase \<Rightarrow> path \<Rightarrow> int \<Rightarrow> CollectionTarget \<Rightarrow> run_state \<Rightarrow> ('s, run_state) M" where
  "backup_one uc output_dir n_total target st =
     bindM (backup_single_collection uc target output_dir) (\<lambda>result.
     let st1 = count_result result st in
     bindM (liftE (run_progress n_total st1)) (\<lambda>progress.
     bindM (rt_now (eb_runtime uc)) (\<lambda>t.
     let job = (BackupJob_update_progress progress t (xs_job st))\<lparr>bj_target_collections := xs_results st1\<rparr> in
     thenM (jr_save (eb_job_repository uc) job)
    (thenM (notify_progress uc job) (returnM (st1\<lparr>xs_job := job\<rparr>))))))"

fun backup_loop ::
  "'s ExecuteBackupUseCase \<Rightarrow> ('s, bool) M option \<Rightarrow> path \<Rightarrow> int \<Rightarrow> CollectionTarget list \<Rightarrow> run_state \<Rightarrow>
   ('s, run_state) M" where
  "backup_loop uc cancel_check output_dir n_total [] st = returnM st"
| "backup_loop uc cancel_check output_dir n_total (target # targets) st =
     bindM (case cancel_check of None \<Rightarrow> returnM False | Some c \<Rightarrow> c) (\<lambda>stop.
     if stop then returnM (st\<lparr>xs_cancelled := True\<rparr>)
     else bindM (backup_one uc output_dir n_total target st)
            (backup_loop uc cancel_check output_dir n_total targets))"

definition all_errors :: "CollectionTarget list \<Rightarrow> string" where
  "all_errors results =
     join newline (map (the \<circ> ct_error_message) (filter (truthy \<circ> ct_error_message) results))"

text \<open>\<open>_finalize_job\<close>\<close>

definition finalize_job ::
  "'s ExecuteBackupUseCase \<Rightarrow> int \<Rightarrow> run_state \<Rightarrow> ('s, BackupJob \<times> JobStatus) M" where
  "finalize_job uc n_total st =
     bindM (rt_now (eb_runtime uc)) (\<lambda>t1. bindM (rt_now (eb_runtime uc)) (\<lambda>t2.
     if xs_cancelled st
     then bindM (liftE (BackupJob_mark_cancelled SYSTEM_TELEGRAM_ID t1 t2 (xs_job st)))
            (\<lambda>job. returnM (job, CANCELLED))
     else if 0 < n_total \<and> xs_failed st = n_total
     then let error_log = all_errors (xs_results st) in
          bindM (liftE (BackupJob_mark_failed
                   (Some (if error_log = [] then ''All collections failed'' else error_log)) t1 t2 (xs_job st)))
            (\<lambda>job. returnM (job, JobStatus.FAILED))
     else if 0 < xs_failed st
     then bindM (liftE (BackupJob_mark_partial_success t1 t2 (xs_job st)))
            (\<lambda>job. returnM (job, PARTIAL_SUCCESS))
     else bindM (liftE (BackupJob_mark_success t1 t2 (xs_job st)))
            (\<lambda>job. returnM (job, JobStatus.SUCCESS))))"

fun event_name :: "JobStatus \<Rightarrow> string" where
  "event_name JobStatus.SUCCESS = ''BACKUP_COMPLETED''"
| "event_name PARTIAL_SUCCESS = ''BACKUP_PARTIAL''"
| "event_name JobStatus.FAILED = ''BACKUP_FAILED''"
| "event_name CANCELLED = ''BACKUP_CANCELLED''"
| "event_name _ = ''BACKUP_FINISHED''"

definition apply_retention :: "'s ExecuteBackupUseCase \<Rightarrow> JobStatus \<Rightarrow> ('s, unit) M" where
  "apply_retention uc status =
     (if status \<notin> {JobStatus.SUCCESS, PARTIAL_SUCCESS} then returnM ()
      else tryM (thenM (rm_apply_policy (eb_retention_manager uc)) (returnM ()))
                (\<lambda>e. if is_OSError e then returnM () else raiseM e))"

text \<open>The body of the \<open>try\<close>.\<close>

definition run_prepare ::
  "'s ExecuteBackupUseCase \<Rightarrow> BackupJob \<Rightarrow> ('s, BackupJob \<times> path) M" where
  "run_prepare uc job =
     bindM (rt_now (eb_runtime uc)) (\<lambda>t1. bindM (rt_now (eb_runtime uc)) (\<lambda>t2.
     bindM (liftE (BackupJob_mark_running t1 t2 job)) (\<lambda>job1.
     thenM (whenM (\<not> is_sha256_hex (bj_cluster_uri_hash job1))
              (raise_domain BackupEngineError
                 ''Invalid cluster_uri_hash: must be a 64-character SHA-256 hex string''
                 [(''cluster_uri_hash'', PStr (bj_cluster_uri_hash job1))]))
    (let output_dir = path_div (path_div (eb_backup_base_path uc) (bj_cluster_uri_hash job1)) (bj_id job1);
         job2 = job1\<lparr>bj_output_path := Some output_dir\<rparr> in
     thenM (fs_ensure_dir (eb_fs_utils uc) output_dir)
    (thenM (jr_save (eb_job_repository uc) job2) (returnM (job2, output_dir)))))))"

definition run_conclude ::
  "'s ExecuteBackupUseCase \<Rightarrow> int \<Rightarrow> datetime \<Rightarrow> run_state \<Rightarrow> ('s, ExecuteBackupResult) M" where
  "run_conclude uc n_total started_at st =
     bindM (finalize_job uc n_total st) (\<lambda>(job, final_status).
     thenM (jr_save (eb_job_repository uc) job)
    (bindM (rt_now (eb_runtime uc)) (\<lambda>now.
     thenM (AuditService_log_job_event (eb_runtime uc) (eb_audit_repository uc) (bj_id job)
              (event_name final_status) (bj_requester_telegram_id job)
              (Some [(''completed_collections'', PInt (xs_completed st)),
                     (''failed_collections'', PInt (xs_failed st)),
                     (''total_collections'', PInt n_total),
                     (''bytes_processed'', PInt (xs_bytes st)),
                     (''duration_ms'', PInt (duration_ms (now - started_at)))])
              (status_value final_status))
    (thenM (notify_final uc job final_status (xs_completed st) (xs_failed st) n_total (xs_bytes st))
    (thenM (apply_retention uc final_status)
           (returnM \<lparr>ebr_job_id = bj_id job, ebr_status = final_status,
                     ebr_completed_collections = xs_completed st,
                     ebr_failed_collections = xs_failed st, ebr_total_collections = n_total,
                     ebr_bytes_processed = xs_bytes st, ebr_error_log = bj_error_log job\<rparr>))))))"

definition run_job ::
  "'s ExecuteBackupUseCase \<Rightarrow> ('s, bool) M option \<Rightarrow> BackupJob \<Rightarrow> ('s, ExecuteBackupResult) M" where
  "run_job uc cancel_check job =
     bindM (run_prepare uc job) (\<lambda>(job2, output_dir).
     bindM (resolve_targets uc job2) (\<lambda>targets.
     bindM (rt_now (eb_runtime uc)) (\<lambda>started_at.
     thenM (AuditService_log_job_event (eb_runtime uc) (eb_audit_repository uc) (bj_id job2)
              ''BACKUP_STARTED'' (bj_requester_telegram_id job2)
              (Some [(''total_collections'', PInt (int (length targets)))]) ''SUCCESS'')
    (bindM (backup_loop uc cancel_check output_dir (int (length targets)) targets
              \<lparr>xs_job = job2, xs_completed = 0, xs_failed = 0, xs_bytes = 0, xs_results = [],
               xs_cancelled = False\<rparr>)
       (run_conclude uc (int (length targets)) started_at)))))"

definition release_oserror :: "'s ILockManager \<Rightarrow> string \<Rightarrow> string \<Rightarrow> ('s, unit) M" where
  "release_oserror lm r tok =
     tryM (thenM (lm_release lm r tok) (returnM ())) (\<lambda>e. if is_OSError e then returnM () else raiseM e)"

definition cluster_lock :: "BackupJob \<Rightarrow> string" where
  "cluster_lock job = CLUSTER_LOCK_PREFIX @ '':'' @ bj_cluster_uri_hash job"

definition ExecuteBackupUseCase_execute ::
  "'s ExecuteBackupUseCase \<Rightarrow> ('s, bool) M option \<Rightarrow> string \<Rightarrow> ('s, ExecuteBackupResult) M" where
  "ExecuteBackupUseCase_execute uc cancel_check job_id =
     bindM (lookup_job uc job_id MAX_LOOKUP_RETRIES) (\<lambda>found.
     case found of
       None \<Rightarrow> raise_domain JobNotFoundError
                 (''Job '' @ job_id @ '' not found after '' @ str_int (int MAX_LOOKUP_RETRIES) @ '' retries'')
                 [(''job_id'', PStr job_id)]
     | Some job \<Rightarrow>
         (case eb_lock_manager uc of
            None \<Rightarrow> run_job uc cancel_check job
          | Some lm \<Rightarrow>
              bindM (lm_acquire lm (cluster_lock job) LOCK_TTL) (\<lambda>lock_token.
              case lock_token of
                None \<Rightarrow> raise_domain JobAlreadyRunningError
                          ''Another backup is already running for this cluster''
                          [(''job_id'', PStr job_id), (''cluster_hash'', PStr (bj_cluster_uri_hash job))]
              | Some tok \<Rightarrow> finallyM (run_job uc cancel_check job) (release_oserror lm (cluster_lock job) tok))))"

section \<open>What a run leaves alone\<close>

definition repo_keeps :: "('s \<Rightarrow> bool) \<Rightarrow> 's IJobRepository \<Rightarrow> bool" where
  "repo_keeps I jr \<longleftrightarrow>
     (\<forall>i. keeps I (jr_get_by_id jr i)) \<and> (\<forall>j. keeps I (jr_save jr j)) \<and> keeps I (jr_clear_session_cache jr)"

text \<open>The ports used after the final save, and all ports but repository and lock.\<close>

definition outcome_keeps :: "('s \<Rightarrow> bool) \<Rightarrow> 's ExecuteBackupUseCase \<Rightarrow> bool" where
  "outcome_keeps I uc \<longleftrightarrow>
     keeps I (rt_now (eb_runtime uc)) \<and> (\<forall>e. keeps I (ar_log (eb_audit_repository uc) e)) \<and>
     (\<forall>c m t. keeps I (no_edit_message (eb_notifier uc) c m t)) \<and>
     (\<forall>c m t. keeps I (no_send_message (eb_notifier uc) c m t)) \<and>
     keeps I (rm_apply_policy (eb_retention_manager uc))"

definition execute_keeps :: "('s \<Rightarrow> bool) \<Rightarrow> 's ExecuteBackupUseCase \<Rightarrow> bool" where
  "execute_keeps I uc \<longleftrightarrow>
     outcome_keeps I uc \<and>
     keeps I (rt_monotonic (eb_runtime uc)) \<and> (\<forall>n. keeps I (rt_sleep_ms (eb_runtime uc) n)) \<and>
     (\<forall>d c p. keeps I (be_backup_collection (eb_backup_engine uc) d c p)) \<and>
     (\<forall>h. keeps I (mm_list_databases (eb_mongo_metadata uc) h)) \<and>
     (\<forall>h d. keeps I (mm_list_collections (eb_mongo_metadata uc) h d)) \<and>
     (\<forall>p. keeps I (fs_ensure_dir (eb_fs_utils uc) p)) \<and>
     (\<forall>n s. I s \<longrightarrow> I (eb_set_last_ui uc n s))"

definition check_keeps :: "('s \<Rightarrow> bool) \<Rightarrow> ('s, bool) M option \<Rightarrow> bool" where
  "check_keeps I cancel_check \<longleftrightarrow> (case cancel_check of None \<Rightarrow> True | Some c \<Rightarrow> keeps I c)"

lemma log_job_event_keeps:
  "outcome_keeps I uc \<Longrightarrow>
   keeps I (AuditService_log_job_event (eb_runtime uc) (eb_audit_repository uc) j ev rq d res)"
  unfolding AuditService_log_job_event_def outcome_keeps_def by (auto intro!: keeps_intros)

lemma notify_final_keeps: "outcome_keeps I uc \<Longrightarrow> keeps I (notify_final uc job st c f n b)"
  unfolding notify_final_def Let_def outcome_keeps_def
  by (auto intro!: keeps_intros split: option.split)

lemma apply_retention_keeps: "outcome_keeps I uc \<Longrightarrow> keeps I (apply_retention uc st)"
  unfolding apply_retention_def outcome_keeps_def by (auto intro!: keeps_intros)

lemma should_update_ui_keeps: "execute_keeps I uc \<Longrightarrow> keeps I (should_update_ui uc)"
  unfolding should_update_ui_def execute_keeps_def
  by (auto intro!: keeps_bindM) (simp add: keeps_def)

lemma notify_progress_keeps: "execute_keeps I uc \<Longrightarrow> keeps I (notify_progress uc job)"
  using should_update_ui_keeps [of I uc]
  unfolding notify_progress_def
  by (auto simp: execute_keeps_def outcome_keeps_def intro!: keeps_intros split: option.split)

lemma backup_single_collection_keeps: "execute_keeps I uc \<Longrightarrow> keeps I (backup_single_collection uc t p)"
  unfolding backup_single_collection_def by (auto simp: execute_keeps_def intro!: keeps_intros)

lemma resolve_targets_keeps: "execute_keeps I uc \<Longrightarrow> keeps I (resolve_targets uc job)"
  unfolding resolve_targets_def by (auto simp: execute_keeps_def intro!: keeps_intros)

lemma finalize_job_keeps: "outcome_keeps I uc \<Longrightarrow> keeps I (finalize_job uc n st)"
  unfolding finalize_job_def Let_def by (auto simp: outcome_keeps_def intro!: keeps_intros)

lemma backup_one_keeps:
  "execute_keeps I uc \<Longrightarrow> repo_keeps I (eb_job_repository uc) \<Longrightarrow> keeps I (backup_one uc p n t st)"
  unfolding backup_one_def Let_def
  by (intro keeps_intros backup_single_collection_keeps notify_progress_keeps)
    (simp_all add: execute_keeps_def outcome_keeps_def repo_keeps_def)

lemma backup_loop_keeps:
  "execute_keeps I uc \<Longrightarrow> repo_keeps I (eb_job_repository uc) \<Longrightarrow> check_keeps I cc \<Longrightarrow>
   keeps I (backup_loop uc cc p n ts st)"
proof (induction ts arbitrary: st)
  case (Cons t ts)
  have "keeps I (case cc of None \<Rightarrow> returnM False | Some c \<Rightarrow> c)"
    using Cons.prems(3) by (auto simp: check_keeps_def intro: keeps_intros split: option.split)
  with Cons show ?case by (auto intro!: keeps_intros backup_one_keeps)
qed (simp add: keeps_intros)

lemma run_job_keeps:
  assumes "execute_keeps I uc" "repo_keeps I (eb_job_repository uc)" "check_keeps I cc"
  shows "keeps I (run_job uc cc job)"
proof -
  have o: "outcome_keeps I uc" using assms(1) by (simp add: execute_keeps_def)
  have b: "keeps I (rt_now (eb_runtime uc))" "keeps I (fs_ensure_dir (eb_fs_utils uc) p)"
    "keeps I (jr_save (eb_job_repository uc) j)" for p j
    using assms by (simp_all add: execute_keeps_def outcome_keeps_def repo_keeps_def)
  show ?thesis
    unfolding run_job_def run_prepare_def run_conclude_def Let_def
    by (intro keeps_intros b log_job_event_keeps o resolve_targets_keeps assms; clarsimp?)
      ((intro keeps_intros b log_job_event_keeps o resolve_targets_keeps backup_loop_keeps
         finalize_job_keeps notify_final_keeps apply_retention_keeps assms; clarsimp?)+)
qed

lemma lookup_job_keeps:
  "execute_keeps I uc \<Longrightarrow> repo_keeps I (eb_job_repository uc) \<Longrightarrow> keeps I (lookup_job uc i n)"
  by (induction n) (auto simp: execute_keeps_def repo_keeps_def intro!: keeps_intros)

lemma release_oserror_ok:
  "lm_release lm r tok s = (Inr True, s') \<Longrightarrow> release_oserror lm r tok s = (Inr (), s')"
  by (simp add: release_oserror_def run_simps)

lemma release_oserror_keeps: "keeps I (lm_release lm r tok) \<Longrightarrow> keeps I (release_oserror lm r tok)"
  unfolding release_oserror_def by (intro keeps_intros)

text \<open>The ports of a run do not touch the locks.\<close>

definition execute_frames :: "('s \<Rightarrow> 'v) \<Rightarrow> 's ExecuteBackupUseCase \<Rightarrow> ('s, bool) M option \<Rightarrow> bool" where
  "execute_frames view uc cancel_check \<longleftrightarrow>
     (\<forall>v. execute_keeps (\<lambda>s. view s = v) uc \<and> repo_keeps (\<lambda>s. view s = v) (eb_job_repository uc) \<and>
          check_keeps (\<lambda>s. view s = v) cancel_check)"

lemma run_job_frames: "execute_frames view uc cc \<Longrightarrow> frames view (run_job uc cc job)"
  by (auto simp: frames_iff_keeps execute_frames_def intro: run_job_keeps)

lemma lookup_job_frames: "execute_frames view uc cc \<Longrightarrow> frames view (lookup_job uc i n)"
  by (auto simp: frames_iff_keeps execute_frames_def intro: lookup_job_keeps)

section \<open>What a run leaves in the job table\<close>

text \<open>
  The pure part: the counters of the loop describe its results. \<open>counted\<close> is the loop invariant on
  the local variables, \<open>n\<close> the number of targets.
\<close>

definition succeeded :: "CollectionTarget \<Rightarrow> bool" where
  "succeeded t \<longleftrightarrow> ct_status t = CollectionBackupStatus.SUCCESS"

definition counted :: "run_state \<Rightarrow> bool" where
  "counted st \<longleftrightarrow>
     xs_completed st = int (length (filter succeeded (xs_results st))) \<and>
     xs_failed st = int (length (filter (\<lambda>t. \<not> succeeded t) (xs_results st))) \<and>
     xs_bytes st = sum_list (map (size_or_0 \<circ> ct_size_bytes) (filter succeeded (xs_results st)))"

definition running_job :: "string \<Rightarrow> path \<Rightarrow> BackupJob \<Rightarrow> bool" where
  "running_job i out j \<longleftrightarrow>
     bj_id j = i \<and> wf_job j \<and> bj_status j = JobStatus.RUNNING \<and> bj_started_at j \<noteq> None \<and>
     bj_output_path j = Some out"

definition run_inv :: "string \<Rightarrow> path \<Rightarrow> run_state \<Rightarrow> bool" where
  "run_inv i out st \<longleftrightarrow>
     counted st \<and> running_job i out (xs_job st) \<and> list_all valid_CollectionTarget (xs_results st) \<and>
     (xs_results st \<noteq> [] \<longrightarrow> bj_target_collections (xs_job st) = xs_results st)"

lemma count_result_simps [simp]:
  "xs_results (count_result r st) = xs_results st @ [r]" "xs_job (count_result r st) = xs_job st"
  "xs_cancelled (count_result r st) = xs_cancelled st"
  by (simp_all add: count_result_def Let_def)

lemma counted_count_result: "counted st \<Longrightarrow> counted (count_result r st)"
  by (auto simp: counted_def count_result_def succeeded_def Let_def)

lemma counted_length: "counted st \<Longrightarrow> xs_completed st + xs_failed st = int (length (xs_results st))"
  using filter_length_partition [of succeeded "xs_results st"] by (simp add: counted_def)

lemma counted_nonneg: "counted st \<Longrightarrow> 0 \<le> xs_completed st \<and> 0 \<le> xs_failed st"
  by (simp add: counted_def)

lemma counted_update [simp]: "counted (st\<lparr>xs_job := j\<rparr>) = counted st" "counted (st\<lparr>xs_cancelled := b\<rparr>) = counted st"
  by (simp_all add: counted_def)

text \<open>Storing the progress of a run that is not past its end keeps the job storable.\<close>

lemma run_progress_wf:
  assumes c: "counted st" "int (length (xs_results st)) \<le> n" and p: "run_progress n st = Inr p"
    and j: "wf_job j" "list_all valid_CollectionTarget ts"
  shows "wf_job ((BackupJob_update_progress p t j)\<lparr>bj_target_collections := ts\<rparr>)"
proof -
  have v: "valid_JobProgress p" and pc: "percent_of_counts p \<le> 10000"
    using p counted_length [OF c(1)] counted_nonneg [OF c(1)] c(2)
    by (auto simp: run_progress_def mk_JobProgress_def percent_of_counts_def intro!: percent_of_bounds)
  then show ?thesis using j by (simp add: wf_job_def valid_BackupJob_def BackupJob_update_progress_def)
qed

lemma wf_path_div: "wf_path base \<Longrightarrow> base \<noteq> [] \<Longrightarrow> wf_path (path_div base name)"
proof -
  assume b: "wf_path base" "base \<noteq> []"
  have "list_all good_part (path_of_str name)" if "\<not> (name \<noteq> [] \<and> hd name = slash)"
    using that split_on_parts [of _ slash name]
    by (auto simp: path_of_str_def Let_def good_part_def list_all_iff)
  then show ?thesis using b wf_path_of_str [of name]
    by (auto simp: path_div_def wf_path_def split: list.splits)
qed

lemma path_div_nonempty: "base \<noteq> [] \<Longrightarrow> path_div base name \<noteq> []"
  by (auto simp: path_div_def path_of_str_def Let_def)

lemma triple_keeps: "keeps I m \<Longrightarrow> triple I m (\<lambda>_. I) (\<lambda>_ _. True)"
  by (rule tripleI) (auto dest: keepsD split: sum.split)

lemma triple_bind_keeps:
  "keeps I m \<Longrightarrow> (\<And>x. triple I (f x) Q (\<lambda>_ _. True)) \<Longrightarrow> triple I (bindM m f) Q (\<lambda>_ _. True)"
  by (rule triple_bind [OF triple_keeps])

lemma triple_then_keeps:
  "keeps I m \<Longrightarrow> triple I n Q (\<lambda>_ _. True) \<Longrightarrow> triple I (thenM m n) Q (\<lambda>_ _. True)"
  unfolding thenM_def by (rule triple_bind_keeps)

lemma triple_bind_lift_true:
  "(\<And>y. r = Inr y \<Longrightarrow> triple P (f y) Q (\<lambda>_ _. True)) \<Longrightarrow> triple P (bindM (liftE r) f) Q (\<lambda>_ _. True)"
  by (rule triple_bind_lift) auto

text \<open>What the caller is told and what is stored when the run has ended.\<close>

definition run_reported :: "string \<Rightarrow> path \<Rightarrow> int \<Rightarrow> ExecuteBackupResult \<Rightarrow> BackupJob \<Rightarrow> CollectionTarget list \<Rightarrow> bool" where
  "run_reported i out n r k results \<longleftrightarrow>
     ebr_job_id r = i \<and> bj_id k = i \<and> bj_status k = ebr_status r \<and> ebr_total_collections r = n \<and>
     ebr_completed_collections r = int (length (filter succeeded results)) \<and>
     ebr_failed_collections r = int (length (filter (\<lambda>t. \<not> succeeded t) results)) \<and>
     ebr_bytes_processed r = sum_list (map (size_or_0 \<circ> ct_size_bytes) (filter succeeded results)) \<and>
     int (length results) \<le> n \<and> (ebr_status r \<noteq> CANCELLED \<longrightarrow> int (length results) = n) \<and>
     (ebr_status r = CANCELLED \<longrightarrow> bj_cancelled_by k = Some SYSTEM_TELEGRAM_ID) \<and>
     (ebr_status r = JobStatus.SUCCESS \<longrightarrow> list_all succeeded results) \<and>
     (ebr_status r = JobStatus.FAILED \<longrightarrow> results \<noteq> [] \<and> list_all (\<lambda>t. \<not> succeeded t) results \<and>
        truthy (bj_error_log k)) \<and>
     (ebr_status r = PARTIAL_SUCCESS \<longrightarrow> list_ex succeeded results \<and> list_ex (\<lambda>t. \<not> succeeded t) results) \<and>
     ebr_status r \<in> {JobStatus.SUCCESS, JobStatus.FAILED, PARTIAL_SUCCESS, CANCELLED} \<and>
     (results \<noteq> [] \<longrightarrow> bj_target_collections k = results) \<and>
     bj_started_at k \<noteq> None \<and> bj_completed_at k \<noteq> None \<and> bj_output_path k = Some out"

text \<open>What a run keeps of the job it was started for, and which of its targets it has dealt with.\<close>

definition target_name :: "CollectionTarget \<Rightarrow> string \<times> string" where
  "target_name t = (ct_database t, ct_collection t)"

definition same_request :: "BackupJob \<Rightarrow> BackupJob \<Rightarrow> bool" where
  "same_request k j \<longleftrightarrow>
     bj_requester_telegram_id k = bj_requester_telegram_id j \<and> bj_chat_id k = bj_chat_id j \<and>
     bj_topic_id k = bj_topic_id j \<and> bj_status_message_id k = bj_status_message_id j \<and>
     bj_backup_type k = bj_backup_type j \<and> bj_cluster_uri_hash k = bj_cluster_uri_hash j"

definition served :: "BackupJob \<Rightarrow> JobStatus \<Rightarrow> BackupJob \<Rightarrow> bool" where
  "served j fs k \<longleftrightarrow> same_request k j \<and>
     (bj_backup_type j = CUSTOM \<longrightarrow>
        (\<exists>rest. map target_name (bj_target_collections j) = map target_name (bj_target_collections k) @ rest \<and>
           (fs \<noteq> CANCELLED \<longrightarrow> rest = [])))"

text \<open>The local variables of the loop for the job \<open>j\<close>, which has \<open>todo\<close> still to do.\<close>

definition serving :: "BackupJob \<Rightarrow> (string \<times> string) list \<Rightarrow> run_state \<Rightarrow> bool" where
  "serving j todo st \<longleftrightarrow> same_request (xs_job st) j \<and>
     (bj_backup_type j = CUSTOM \<longrightarrow>
        map target_name (bj_target_collections j) = map target_name (xs_results st) @ todo) \<and>
     bj_target_collections (xs_job st) = (if xs_results st = [] then bj_target_collections j else xs_results st)"

lemma map_sum_list_pending:
  "map_sum_list (\<lambda>t. pending_target (ct_database t) (ct_collection t)) ts = Inr us \<Longrightarrow> map target_name us = map target_name ts"
  by (induction ts arbitrary: us)
    (auto simp: pending_target_def mk_CollectionTarget_def validated_def target_name_def bind_sum_def
      split: sum.splits if_splits)

lemma resolve_custom:
  "resolve_targets uc job s = (Inr ts, s') \<Longrightarrow> bj_backup_type job = CUSTOM \<Longrightarrow>
   map target_name ts = map target_name (bj_target_collections job)"
  by (auto simp: resolve_targets_def liftE_def dest: map_sum_list_pending)

lemma prepare_same:
  "run_prepare uc job s = (Inr (j, out), s') \<Longrightarrow> same_request j job \<and> bj_target_collections j = bj_target_collections job"
  unfolding run_prepare_def Let_def
  by (elim bindM_InrE thenM_InrE)
    (auto simp: liftE_def returnM_def BackupJob_mark_running_def transition_Inr same_request_def split: sum.splits if_splits)

lemma finalize_same:
  "finalize_job uc n st s = (Inr (job, fs), s') \<Longrightarrow>
   same_request job (xs_job st) \<and> bj_target_collections job = bj_target_collections (xs_job st) \<and> (fs = CANCELLED \<longleftrightarrow> xs_cancelled st)"
  by (auto simp: finalize_job_def mark_defs transition_Inr same_request_def bindM_run Let_def
      split: prod.splits sum.splits if_splits)

lemma same_request_trans: "same_request k j \<Longrightarrow> same_request j i \<Longrightarrow> same_request k i"
  by (simp add: same_request_def)

lemma same_job_request: "same_job k j \<Longrightarrow> same_request k j \<and> bj_target_collections k = bj_target_collections j"
  by (auto simp: same_job_def same_request_def)

text \<open>
  The ports of a run may change stored rows, as the bot does when a user cancels a job that is
  running, but remove none; those used after the final save change none.
\<close>

locale backup_execution = job_repository "eb_job_repository uc" jobs persist wf_job clean
  for uc :: "'s ExecuteBackupUseCase" and jobs persist clean +
  assumes rows_kept: "execute_keeps (\<lambda>s. jobs s i \<noteq> None) uc"
    and lock_rows: "eb_lock_manager uc = Some lm \<Longrightarrow> keeps (\<lambda>s. jobs s i \<noteq> None) (lm_acquire lm r ttl)"
    and quiet_end: "outcome_keeps (\<lambda>s. jobs s = J) uc"
    and quiet_release: "eb_lock_manager uc = Some lm \<Longrightarrow> keeps (\<lambda>s. jobs s = J) (lm_release lm r tok)"
    and engine_valid: "be_backup_collection (eb_backup_engine uc) d c p s = (Inr t, s') \<Longrightarrow>
      valid_CollectionTarget t"
    and engine_named: "be_backup_collection (eb_backup_engine uc) d c p s = (Inr t, s') \<Longrightarrow> target_name t = (d, c)"
    and base_path: "wf_path (eb_backup_base_path uc)" "eb_backup_base_path uc \<noteq> []"
begin

definition stored :: "string \<Rightarrow> 's \<Rightarrow> bool" where
  "stored i s \<longleftrightarrow> jobs s i \<noteq> None"

lemma stored_eq: "stored i = (\<lambda>s. jobs s i \<noteq> None)"
  by (simp add: stored_def fun_eq_iff)

lemma port_keeps:
  "keeps (stored i) (rt_now (eb_runtime uc))" "keeps (stored i) (fs_ensure_dir (eb_fs_utils uc) p)"
  "keeps (stored i) (notify_progress uc job)" "keeps (stored i) (backup_single_collection uc t p)"
  "keeps (stored i) (resolve_targets uc job)"
  "keeps (stored i) (AuditService_log_job_event (eb_runtime uc) (eb_audit_repository uc) j ev rq d res)"
  using rows_kept [of i, folded stored_eq]
  by (auto simp: execute_keeps_def outcome_keeps_def
      intro!: notify_progress_keeps backup_single_collection_keeps resolve_targets_keeps log_job_event_keeps)

lemma save_own:
  assumes "wf_job j" "bj_id j = i"
  shows "triple (stored i) (jr_save (eb_job_repository uc) j)
    (\<lambda>_ s. \<exists>k. same_job k j \<and> jobs s i = Some k) (\<lambda>_ _. True)"
proof (rule tripleI)
  fix s x s' assume "stored i s" and run: "jr_save (eb_job_repository uc) j s = (x, s')"
  then have c: "clean s (bj_id j)" using jobs_wf assms(2) by (fastforce simp: stored_def)
  show "case x of Inl e \<Rightarrow> True | Inr y \<Rightarrow> \<exists>k. same_job k j \<and> jobs s' i = Some k"
    using save_done [OF _ assms(1) c] persist_same [OF assms(1) c] run assms(2) by (auto split: sum.split)
qed

lemma save_keeps_own:
  assumes "wf_job j" "bj_id j = i" "triple (stored i) m Q (\<lambda>_ _. True)"
  shows "triple (stored i) (thenM (jr_save (eb_job_repository uc) j) m) Q (\<lambda>_ _. True)"
  by (rule triple_then [OF triple_conseq [OF save_own [OF assms(1,2)]] assms(3)]) (auto simp: stored_def)

lemma lookup_triple:
  "triple (\<lambda>_. True) (lookup_job uc i n)
     (\<lambda>r s. \<forall>j. r = Some j \<longrightarrow> bj_id j = i \<and> wf_job j \<and> stored i s) (\<lambda>_ _. True)"
proof (induction n)
  case (Suc n)
  have get: "triple (\<lambda>_. True) (jr_get_by_id (eb_job_repository uc) i)
      (\<lambda>r s. \<forall>j. r = Some j \<longrightarrow> bj_id j = i \<and> wf_job j \<and> stored i s) (\<lambda>_ _. True)"
  proof (rule tripleI)
    fix s x s' assume run: "jr_get_by_id (eb_job_repository uc) i s = (x, s')"
    have "bj_id j = i \<and> wf_job j \<and> stored i s'" if "x = Inr (Some j)" for j
    proof -
      have "jobs s' i = Some j" using get_value [of i s "Some j" s'] get_run [OF run] run that by simp
      then show ?thesis using jobs_wf by (auto simp: stored_def)
    qed
    then show "case x of Inl e \<Rightarrow> True | Inr r \<Rightarrow> \<forall>j. r = Some j \<longrightarrow> bj_id j = i \<and> wf_job j \<and> stored i s'"
      by (auto split: sum.split)
  qed
  have any: "triple (\<lambda>_. True) m (\<lambda>_ _. True) (\<lambda>_ _. True)" for m :: "('s, unit) M"
    by (auto simp: triple_def split: prod.split sum.split)
  show ?case
    unfolding lookup_job.simps
    apply (rule triple_bind [OF get])
    subgoal for r
      by (cases r) (auto intro!: triple_basic triple_then [OF any] triple_conseq [OF Suc])
    done
next
  case 0
  show ?case unfolding lookup_job.simps by (rule triple_basic) simp
qed

lemma prepare_triple:
  assumes "bj_id job = i" "wf_job job"
  shows "triple (stored i) (run_prepare uc job)
    (\<lambda>(j, out) s. out = path_div (path_div (eb_backup_base_path uc) (bj_cluster_uri_hash job)) i \<and>
       running_job i out j \<and> stored i s) (\<lambda>_ _. True)"
proof -
  let ?out = "path_div (path_div (eb_backup_base_path uc) (bj_cluster_uri_hash job)) i"
  have w: "wf_path ?out" using base_path by (simp add: wf_path_div path_div_nonempty)
  have r: "running_job i ?out (j\<lparr>bj_output_path := Some ?out\<rparr>) \<and> bj_id j = i \<and>
      bj_cluster_uri_hash j = bj_cluster_uri_hash job" if "BackupJob_mark_running t1 t2 job = Inr j" for t1 t2 j
    using that assms w
    by (auto simp: BackupJob_mark_running_def transition_Inr running_job_def wf_job_def valid_BackupJob_def
        split: sum.splits if_splits)
  show ?thesis
    unfolding run_prepare_def Let_def
    apply (rule triple_bind_keeps [OF port_keeps(1)])+
    apply (rule triple_bind_lift_true, drule r, elim conjE)
    apply (rule triple_then_when, simp)
    apply (rule triple_then_keeps, simp add: port_keeps)
    by (rule save_keeps_own) (auto simp: running_job_def intro!: triple_basic)
qed

lemma backup_one_triple:
  assumes inv: "run_inv i out st" and len: "int (length (xs_results st)) < n"
  shows "triple (stored i) (backup_one uc out n t st)
    (\<lambda>st' s. (run_inv i out st' \<and> length (xs_results st') = Suc (length (xs_results st)) \<and>
       xs_cancelled st' = xs_cancelled st) \<and> stored i s) (\<lambda>_ _. True)"
proof -
  have res: "triple (stored i) (backup_single_collection uc t out)
      (\<lambda>r s. valid_CollectionTarget r \<and> stored i s) (\<lambda>_ _. True)"
  proof (rule tripleI)
    fix s x s' assume "stored i s" and run: "backup_single_collection uc t out s = (x, s')"
    then have "stored i s'" using keepsD [OF port_keeps(4)] by blast
    moreover have "valid_CollectionTarget r" if "x = Inr r" for r
      using run that engine_valid
      by (auto simp: backup_single_collection_def mk_CollectionTarget_def run_simps split: prod.splits sum.splits)
    ultimately show "case x of Inl e \<Rightarrow> True | Inr r \<Rightarrow> valid_CollectionTarget r \<and> stored i s'"
      by (auto split: sum.split)
  qed
  show ?thesis
    unfolding backup_one_def Let_def
    apply (rule triple_bind [OF res], rule triple_pure)
    apply (rule triple_bind_lift_true)
    apply (rule triple_bind_keeps [OF port_keeps(1)])
    subgoal premises p for r pr ts
    proof -
      let ?j = "(BackupJob_update_progress pr ts (xs_job st))\<lparr>bj_target_collections := xs_results (count_result r st)\<rparr>"
      have c: "counted (count_result r st)" "int (length (xs_results (count_result r st))) \<le> n"
        using inv len by (auto simp: run_inv_def counted_count_result)
      have v: "list_all valid_CollectionTarget (xs_results (count_result r st))"
        using inv p(1) by (simp add: run_inv_def)
      have "wf_job ?j" by (rule run_progress_wf [OF c p(2)]) (use inv v in \<open>simp_all add: run_inv_def running_job_def\<close>)
      then have j: "running_job i out ?j"
        using inv by (simp add: run_inv_def running_job_def BackupJob_update_progress_def)
      have i: "run_inv i out ((count_result r st)\<lparr>xs_job := ?j\<rparr>)"
        using c(1) v j by (simp add: run_inv_def)
      show ?thesis
        by (rule save_keeps_own) (use j i in \<open>auto simp: running_job_def intro!: triple_then_keeps port_keeps triple_basic\<close>)
    qed
    done
qed

lemma backup_loop_triple:
  assumes cc: "check_keeps (stored i) cc"
  shows "run_inv i out st \<Longrightarrow> int (length (xs_results st)) + int (length ts) = n \<Longrightarrow> \<not> xs_cancelled st \<Longrightarrow>
    triple (stored i) (backup_loop uc cc out n ts st)
     (\<lambda>st' s. run_inv i out st' \<and> int (length (xs_results st')) \<le> n \<and>
        (\<not> xs_cancelled st' \<longrightarrow> int (length (xs_results st')) = n) \<and> stored i s) (\<lambda>_ _. True)"
proof (induction ts arbitrary: st)
  case (Cons t ts)
  have c: "keeps (stored i) (case cc of None \<Rightarrow> returnM False | Some c \<Rightarrow> c)"
    using cc by (auto simp: check_keeps_def intro: keeps_intros split: option.split)
  have one: "triple (stored i) (bindM (backup_one uc out n t st) (backup_loop uc cc out n ts))
     (\<lambda>st' s. run_inv i out st' \<and> int (length (xs_results st')) \<le> n \<and>
        (\<not> xs_cancelled st' \<longrightarrow> int (length (xs_results st')) = n) \<and> stored i s) (\<lambda>_ _. True)"
    apply (rule triple_bind [OF backup_one_triple])
    using Cons.prems apply simp_all [2]
    apply (rule triple_pure)
    using Cons.prems by (intro Cons.IH) auto
  show ?case
    unfolding backup_loop.simps
    apply (rule triple_bind_keeps [OF c])
    subgoal for stop
      using one Cons.prems by (cases stop) (auto simp: run_inv_def intro!: triple_basic)
    done
qed (auto intro!: triple_basic)

text \<open>What the loop's variables keep needs no state.\<close>

lemma backup_one_serving:
  assumes inv: "serving j (target_name t # todo) st" and run: "backup_one uc out n t st s = (Inr st', s')"
  shows "serving j todo st'"
proof -
  obtain r s1 where r: "backup_single_collection uc t out s = (Inr r, s1)"
    and st': "\<exists>p ts. st' = (count_result r st)\<lparr>xs_job := (BackupJob_update_progress p ts (xs_job st))
      \<lparr>bj_target_collections := xs_results (count_result r st)\<rparr>\<rparr>"
    using run by (auto simp: backup_one_def bindM_eq_Inr thenM_eq_Inr Let_def returnM_def)
  have "target_name r = target_name t"
    using r engine_named
    by (auto simp: backup_single_collection_def mk_CollectionTarget_def target_name_def run_simps split: prod.splits sum.splits)
  then show ?thesis
    using inv st' by (auto simp: serving_def same_request_def BackupJob_update_progress_def)
qed

lemma backup_loop_serving:
  "serving j (map target_name ts) st \<Longrightarrow> \<not> xs_cancelled st \<Longrightarrow> backup_loop uc cc out n ts st s = (Inr st', s') \<Longrightarrow>
   \<exists>todo. serving j todo st' \<and> (\<not> xs_cancelled st' \<longrightarrow> todo = [])"
proof (induction ts arbitrary: st s)
  case Nil
  then show ?case by (auto simp: returnM_def)
next
  case (Cons t ts)
  from Cons.prems(3) obtain stop s1 where "(if stop then returnM (st\<lparr>xs_cancelled := True\<rparr>)
      else bindM (backup_one uc out n t st) (backup_loop uc cc out n ts)) s1 = (Inr st', s')"
    by (auto simp: bindM_eq_Inr)
  then consider (stop) "st' = st\<lparr>xs_cancelled := True\<rparr>"
    | (go) st1 s2 where "backup_one uc out n t st s1 = (Inr st1, s2)" "backup_loop uc cc out n ts st1 s2 = (Inr st', s')"
    by (auto simp: bindM_eq_Inr returnM_def split: if_splits)
  then show ?case
  proof cases
    case stop
    then show ?thesis using Cons.prems(1) by (auto simp: serving_def)
  next
    case go
    have "xs_cancelled st1 = xs_cancelled st"
      using go(1) by (auto simp: backup_one_def bindM_eq_Inr thenM_eq_Inr Let_def returnM_def)
    with Cons.IH [OF backup_one_serving [OF _ go(1)] _ go(2)] Cons.prems(1,2) show ?thesis by simp
  qed
qed

lemma serving_served:
  assumes inv: "serving j todo st" "\<not> xs_cancelled st \<Longrightarrow> todo = []"
    and run: "finalize_job uc n st s = (Inr (job, fs), s')" and k: "same_job k job"
  shows "served j fs k"
proof -
  note f = finalize_same [OF run] and k' = same_job_request [OF k]
  have "same_request k j" using f k' inv(1) by (simp add: serving_def same_request_def)
  moreover have "bj_target_collections k = (if xs_results st = [] then bj_target_collections j else xs_results st)"
    using f k' inv(1) by (simp add: serving_def)
  ultimately show ?thesis using f inv by (auto simp: served_def serving_def)
qed

lemma length_zero_filter:
  "length (filter P xs) = 0 \<longleftrightarrow> list_all (\<lambda>x. \<not> P x) xs"
  by (auto simp: filter_empty_conv list_all_iff)

lemma finalized:
  assumes inv: "run_inv i out st" and len: "int (length (xs_results st)) \<le> n"
    "\<not> xs_cancelled st \<Longrightarrow> int (length (xs_results st)) = n"
    and run: "finalize_job uc n st s = (Inr (job, fs), s')"
    and k: "same_job k job"
    and r: "r = \<lparr>ebr_job_id = bj_id job, ebr_status = fs, ebr_completed_collections = xs_completed st,
       ebr_failed_collections = xs_failed st, ebr_total_collections = n,
       ebr_bytes_processed = xs_bytes st, ebr_error_log = bj_error_log job\<rparr>"
  shows "run_reported i out n r k (xs_results st)"
proof -
  let ?rs = "xs_results st"
  have k': "bj_id k = bj_id job" "bj_status k = bj_status job" "bj_cancelled_by k = bj_cancelled_by job"
    "bj_output_path k = bj_output_path job" "bj_target_collections k = bj_target_collections job"
    "bj_error_log k = bj_error_log job" "bj_started_at k = bj_started_at job"
    "bj_completed_at k = bj_completed_at job"
    using k by (auto simp: same_job_def)
  have j: "counted st" "running_job i out (xs_job st)"
    "?rs \<noteq> [] \<Longrightarrow> bj_target_collections (xs_job st) = ?rs"
    using inv by (simp_all add: run_inv_def)
  have f: "xs_failed st = 0 \<longleftrightarrow> list_all succeeded ?rs" "xs_completed st = 0 \<longleftrightarrow> list_all (\<lambda>t. \<not> succeeded t) ?rs"
    using j(1) length_zero_filter [of "\<lambda>t. \<not> succeeded t" ?rs] length_zero_filter [of succeeded ?rs]
    by (simp_all add: counted_def del: length_0_conv)
  have ex: "list_ex P ?rs \<longleftrightarrow> \<not> list_all (\<lambda>t. \<not> P t) ?rs" for P
    by (auto simp: list_ex_iff list_all_iff)
  note sum = counted_length [OF j(1)] counted_nonneg [OF j(1)]
  have cnt: "xs_completed st = int (length (filter succeeded ?rs))"
    "xs_failed st = int (length (filter (\<lambda>t. \<not> succeeded t) ?rs))"
    "xs_bytes st = sum_list (map (size_or_0 \<circ> ct_size_bytes) (filter succeeded ?rs))"
    using j(1) by (simp_all add: counted_def)
  have n0: "0 < n \<Longrightarrow> xs_failed st = n \<Longrightarrow> \<not> xs_cancelled st \<Longrightarrow> xs_completed st = 0 \<and> ?rs \<noteq> []"
    using sum len(2) by auto
  have n1: "0 < xs_failed st \<Longrightarrow> \<not> (0 < n \<and> xs_failed st = n) \<Longrightarrow> \<not> xs_cancelled st \<Longrightarrow> xs_completed st \<noteq> 0"
    using sum len(2) by auto
  show ?thesis
    using run j(2,3) len n0 n1 sum(2)
    by (auto simp: run_reported_def k' r finalize_job_def running_job_def mark_defs transition_Inr truthy_def
        bindM_run Let_def ex f [symmetric] cnt [symmetric] split: prod.splits sum.splits if_splits)
qed

definition run_stored :: "(JobStatus \<Rightarrow> BackupJob \<Rightarrow> bool) \<Rightarrow> string \<Rightarrow> ExecuteBackupResult \<Rightarrow> 's \<Rightarrow> bool" where
  "run_stored P i r s \<longleftrightarrow>
     (\<exists>k results out n. jobs s i = Some k \<and> run_reported i out n r k results \<and> P (ebr_status r) k)"

lemma quiet_endD:
  "keeps (\<lambda>s. jobs s i = Some k) (rt_now (eb_runtime uc))"
  "keeps (\<lambda>s. jobs s i = Some k)
     (AuditService_log_job_event (eb_runtime uc) (eb_audit_repository uc) j ev rq d res)"
  "keeps (\<lambda>s. jobs s i = Some k) (notify_final uc job st c f n b)"
  "keeps (\<lambda>s. jobs s i = Some k) (apply_retention uc st)"
proof -
  have k: "keeps (\<lambda>s. jobs s i = Some k) m" if "\<And>J. keeps (\<lambda>s. jobs s = J) m" for m :: "('s, 'b) M"
    using that by (auto simp: keeps_def)
  show "keeps (\<lambda>s. jobs s i = Some k) (rt_now (eb_runtime uc))"
    using quiet_end by (auto simp: keeps_def outcome_keeps_def)
  show "keeps (\<lambda>s. jobs s i = Some k)
     (AuditService_log_job_event (eb_runtime uc) (eb_audit_repository uc) j ev rq d res)"
    using log_job_event_keeps [OF quiet_end] by (simp add: keeps_def)
  show "keeps (\<lambda>s. jobs s i = Some k) (notify_final uc job st c f n b)"
    using notify_final_keeps [OF quiet_end] by (simp add: keeps_def)
  show "keeps (\<lambda>s. jobs s i = Some k) (apply_retention uc st)"
    using apply_retention_keeps [OF quiet_end] by (simp add: keeps_def)
qed

lemma conclude_triple:
  assumes inv: "run_inv i out st" and len: "int (length (xs_results st)) \<le> n"
    "\<not> xs_cancelled st \<Longrightarrow> int (length (xs_results st)) = n"
    and P: "\<And>s job fs s' k. finalize_job uc n st s = (Inr (job, fs), s') \<Longrightarrow> same_job k job \<Longrightarrow> P fs k"
  shows "triple (stored i) (run_conclude uc n t0 st) (run_stored P i) (\<lambda>_ _. True)"
proof -
  define res where "res = (\<lambda>(job :: BackupJob) fs. \<lparr>ebr_job_id = i, ebr_status = fs, ebr_completed_collections = xs_completed st,
       ebr_failed_collections = xs_failed st, ebr_total_collections = n,
       ebr_bytes_processed = xs_bytes st, ebr_error_log = bj_error_log job\<rparr>)"
  have fin: "triple (stored i) (finalize_job uc n st)
      (\<lambda>x s. (bj_id (fst x) = i \<and> wf_job (fst x) \<and>
          (\<forall>k. same_job k (fst x) \<longrightarrow> run_reported i out n (res (fst x) (snd x)) k (xs_results st) \<and> P (snd x) k)) \<and> stored i s)
      (\<lambda>_ _. True)"
  proof (rule tripleI)
    fix s x s' assume st: "stored i s" and run: "finalize_job uc n st s = (x, s')"
    have o: "outcome_keeps (stored i) uc" using rows_kept [of i] by (simp add: execute_keeps_def stored_eq)
    have s': "stored i s'" using keepsD [OF finalize_job_keeps [OF o] st run] .
    have "bj_id j = i \<and> wf_job j" if "x = Inr (j, fs)" for j fs
      using that run inv
      by (auto simp: finalize_job_def run_inv_def running_job_def mark_defs transition_Inr bindM_run Let_def
          split: prod.splits sum.splits if_splits)
    then show "case x of Inl e \<Rightarrow> True
        | Inr x \<Rightarrow> (bj_id (fst x) = i \<and> wf_job (fst x) \<and>
          (\<forall>k. same_job k (fst x) \<longrightarrow> run_reported i out n (res (fst x) (snd x)) k (xs_results st) \<and> P (snd x) k)) \<and> stored i s'"
      using s' run finalized [OF inv len, of s _ _ s'] P by (auto simp: res_def split: sum.split)
  qed
  have tail: "triple (\<lambda>s. \<exists>k. same_job k job \<and> jobs s i = Some k)
     (bindM (rt_now (eb_runtime uc)) (\<lambda>now.
     thenM (AuditService_log_job_event (eb_runtime uc) (eb_audit_repository uc) j ev rq (d now) w)
    (thenM (notify_final uc job fs c f n b)
    (thenM (apply_retention uc fs) (returnM (res job fs)))))) (run_stored P i) (\<lambda>_ _. True)"
    if "\<forall>k. same_job k job \<longrightarrow> run_reported i out n (res job fs) k (xs_results st) \<and> P fs k" for job fs j ev rq d w c f b
    apply (intro triple_ex triple_pure)
    apply (intro triple_bind_keeps triple_then_keeps quiet_endD)
    using that by (intro triple_basic) (auto simp: run_stored_def res_def)
  show ?thesis
    unfolding run_conclude_def
    apply (rule triple_bind [OF fin], rule triple_pure, simp only: split_paired_all prod.case fst_conv snd_conv)
    apply (elim conjE)
    apply (rule triple_then [OF save_own], assumption, assumption)
    by (unfold res_def) (rule tail [unfolded res_def])
qed

lemma triple_known:
  assumes "triple I m R E" "\<And>s x s'. m s = (Inr x, s') \<Longrightarrow> V x"
  shows "triple I m (\<lambda>x s. V x \<and> R x s) E"
  using assms by (force simp: triple_def split: prod.splits sum.splits)

lemma run_job_triple:
  assumes job: "bj_id job = i" "wf_job job" and cc: "check_keeps (stored i) cc"
  shows "triple (stored i) (run_job uc cc job) (run_stored (served job) i) (\<lambda>_ _. True)"
proof -
  let ?start = "\<lambda>j. \<lparr>xs_job = j, xs_completed = 0, xs_failed = 0, xs_bytes = 0, xs_results = [], xs_cancelled = False\<rparr>"
  have fin: "triple (stored i) (bindM (backup_loop uc cc out (int (length ts)) ts (?start j))
      (run_conclude uc (int (length ts)) t0)) (run_stored (served job) i) (\<lambda>_ _. True)"
    if j: "running_job i out j" and s: "serving job (map target_name ts) (?start j)" for out j ts t0
    apply (rule triple_bind [OF triple_known [OF backup_loop_triple [OF cc], where V =
        "\<lambda>st'. \<exists>todo. serving job todo st' \<and> (\<not> xs_cancelled st' \<longrightarrow> todo = [])"]])
    subgoal using j by (simp add: run_inv_def counted_def)
    subgoal by simp
    subgoal by simp
    subgoal by (rule backup_loop_serving [OF s]) simp_all
    apply (intro triple_pure)
    apply (elim exE conjE)
    by (rule conclude_triple) (auto intro: serving_served)
  show ?thesis
    unfolding run_job_def
    apply (rule triple_bind [OF triple_known [OF prepare_triple [OF job], where V = "\<lambda>(j, out). same_request j job \<and>
        bj_target_collections j = bj_target_collections job"]])
    subgoal for s x by (cases x) (auto dest: prepare_same)
    apply (simp only: split_paired_all prod.case)
    apply (intro triple_pure)
    apply (rule triple_bind [OF triple_known [OF triple_keeps [OF port_keeps(5)], where V = "\<lambda>ts. bj_backup_type job = CUSTOM \<longrightarrow>
        map target_name ts = map target_name (bj_target_collections job)"]])
    subgoal by (auto dest: resolve_custom simp: same_request_def)
    apply (intro triple_pure)
    apply (rule triple_bind_keeps [OF port_keeps(1)])
    apply (rule triple_then_keeps [OF port_keeps(6)])
    by (rule fin) (auto simp: serving_def)
qed

lemma run_stored_any: "run_stored P i r s \<Longrightarrow> run_stored (\<lambda>_ _. True) i r s"
  by (auto simp: run_stored_def)

lemma locked_run_triple:
  assumes job: "bj_id job = i" "wf_job job" and cc: "check_keeps (stored i) cc"
  shows "triple (stored i) (case eb_lock_manager uc of
            None \<Rightarrow> run_job uc cc job
          | Some lm \<Rightarrow>
              bindM (lm_acquire lm (cluster_lock job) LOCK_TTL) (\<lambda>lock_token.
              case lock_token of
                None \<Rightarrow> raise_domain JobAlreadyRunningError m d
              | Some tok \<Rightarrow> finallyM (run_job uc cc job) (release_oserror lm (cluster_lock job) tok)))
     (run_stored (served job) i) (\<lambda>_ _. True)"
proof (cases "eb_lock_manager uc")
  case None
  then show ?thesis using run_job_triple [OF job cc] by simp
next
  case (Some lm)
  have run: "triple (stored i) (finallyM (run_job uc cc job) (release_oserror lm r tok)) (run_stored (served job) i) (\<lambda>_ _. True)" for r tok
  proof (rule tripleI)
    fix s x s2 assume s: "stored i s" and fin: "finallyM (run_job uc cc job) (release_oserror lm r tok) s = (x, s2)"
    obtain y s1 where y: "run_job uc cc job s = (y, s1)" by force
    obtain z where z: "release_oserror lm r tok s1 = (z, s2)" "x = (case z of Inl e \<Rightarrow> Inl e | Inr _ \<Rightarrow> y)"
      using fin y by (auto simp: finallyM_run split: prod.splits sum.splits)
    have "jobs s2 = jobs s1"
      using keepsD [OF release_oserror_keeps [OF quiet_release [OF Some]] _ z(1), of "jobs s1"] by simp
    then show "case x of Inl e \<Rightarrow> True | Inr y \<Rightarrow> run_stored (served job) i y s2"
      using tripleD [OF run_job_triple [OF job cc] s y] z(2) by (auto simp: run_stored_def split: sum.splits)
  qed
  show ?thesis
    unfolding Some option.case
    apply (rule triple_bind_keeps [OF lock_rows [OF Some, folded stored_eq]])
    by (auto intro!: triple_basic run split: option.split)
qed

lemma execute_triple:
  assumes cc: "check_keeps (stored i) cc"
  shows "triple (\<lambda>_. True) (ExecuteBackupUseCase_execute uc cc i) (run_stored (\<lambda>_ _. True) i) (\<lambda>_ _. True)"
  unfolding ExecuteBackupUseCase_execute_def
  apply (rule triple_bind [OF lookup_triple])
  subgoal for r
  proof (cases r)
    case (Some job)
    show ?thesis
      unfolding Some option.case
      by (rule triple_conseq [OF triple_pure [of "bj_id job = i \<and> wf_job job" "stored i"]], erule conjE,
          rule triple_conseq [OF locked_run_triple [OF _ _ cc]]) (auto intro: run_stored_any)
  qed (auto intro!: triple_basic)
  done

text \<open>The run of a job that is stored when it begins serves that job.\<close>

lemma execute_served:
  assumes cc: "check_keeps (stored i) cc" and j: "jobs s i = Some j"
    and run: "ExecuteBackupUseCase_execute uc cc i s = (Inr r, s')"
  shows "run_stored (served j) i r s'"
proof -
  obtain f s1 where get: "jr_get_by_id (eb_job_repository uc) i s = (Inr f, s1)"
    using run by (auto simp: ExecuteBackupUseCase_execute_def MAX_LOOKUP_RETRIES_def numeral_eq_Suc bindM_eq_Inr)
  have f: "f = Some j" "stored i s1" using get_value [OF get] get_run [OF get] j by (simp_all add: stored_def)
  have "lookup_job uc i MAX_LOOKUP_RETRIES s = (Inr (Some j), s1)"
    using get f(1) by (simp add: MAX_LOOKUP_RETRIES_def numeral_eq_Suc bindM_run)
  with run have "(case eb_lock_manager uc of
            None \<Rightarrow> run_job uc cc j
          | Some lm \<Rightarrow>
              bindM (lm_acquire lm (cluster_lock j) LOCK_TTL) (\<lambda>lock_token.
              case lock_token of
                None \<Rightarrow> raise_domain JobAlreadyRunningError ''Another backup is already running for this cluster''
                          [(''job_id'', PStr i), (''cluster_hash'', PStr (bj_cluster_uri_hash j))]
              | Some tok \<Rightarrow> finallyM (run_job uc cc j) (release_oserror lm (cluster_lock j) tok))) s1 = (Inr r, s')"
    by (simp add: ExecuteBackupUseCase_execute_def bindM_run)
  from tripleD [OF locked_run_triple [OF _ _ cc] f(2) this] jobs_wf [OF j] show ?thesis by simp
qed

end

end
