(* ===== verification/Completion.thy ===== *)
theory Completion
  imports ExecuteBackup
begin

text \<open>
  When a run of \<open>ExecuteBackupUseCase_execute\<close> ends well. \<open>returns\<close> says that a call returns rather than raises;
  \<open>answering\<close> lists the ports a run cannot do without. The engine, the messages and, up to
  \<open>OSError\<close>, the retention manager and the release of the lock are not among them.
\<close>

definition returns :: "('s, 'a) M \<Rightarrow> 's \<Rightarrow> bool" where
  "returns m s \<longleftrightarrow> (\<exists>x s'. m s = (Inr x, s'))"

lemma returns_returnM [simp]: "returns (returnM x) s"
  by (simp add: returns_def)

lemma returns_liftE [simp]: "returns (liftE r) s \<longleftrightarrow> (\<exists>x. r = Inr x)"
  by (simp add: returns_def)

lemma returns_tryM: "(\<And>e s'. m s = (Inl e, s') \<Longrightarrow> returns (h e) s') \<Longrightarrow> returns (tryM m h) s"
  by (cases "m s"; cases "fst (m s)") (auto simp: returns_def tryM_run)

lemma returns_bind_value:
  "returns m s \<Longrightarrow> (\<And>x s'. m s = (Inr x, s') \<Longrightarrow> returns (f x) s') \<Longrightarrow> returns (bindM m f) s"
  by (auto simp: returns_def bindM_run)

lemma returns_bind:
  assumes "returns m s" "P s" "triple P m Q E" "\<And>x s'. Q x s' \<Longrightarrow> returns (f x) s'"
  shows "returns (bindM m f) s"
  using assms by (auto intro!: returns_bind_value dest: tripleD)

lemma returns_then:
  assumes "returns m s" "P s" "triple P m (\<lambda>_. Q) E" "\<And>s'. Q s' \<Longrightarrow> returns n s'"
  shows "returns (thenM m n) s"
  unfolding thenM_def by (rule returns_bind [OF assms(1,2,3)]) (rule assms(4))

lemma returns_finallyM:
  "returns m s \<Longrightarrow> (\<And>x s'. m s = (Inr x, s') \<Longrightarrow> returns f s') \<Longrightarrow> returns (finallyM m f) s"
  by (auto simp: returns_def finallyM_run)

lemma returns_whenM: "(b \<Longrightarrow> returns m s) \<Longrightarrow> returns (whenM b m) s"
  by (simp add: returns_def whenM_run)

text \<open>A call that returns everywhere.\<close>

definition total :: "('s, 'a) M \<Rightarrow> bool" where
  "total m \<longleftrightarrow> (\<forall>s. returns m s)"

lemma totalD: "total m \<Longrightarrow> returns m s"
  by (simp add: total_def)

lemma totalE: "total m \<Longrightarrow> (\<And>x s'. m s = (Inr x, s') \<Longrightarrow> thesis) \<Longrightarrow> thesis"
  by (auto simp: total_def returns_def)

lemma total_bind: "total m \<Longrightarrow> (\<And>x. total (f x)) \<Longrightarrow> total (bindM m f)"
  by (auto simp: total_def intro: returns_bind_value)

lemma total_then: "total m \<Longrightarrow> total n \<Longrightarrow> total (thenM m n)"
  by (simp add: thenM_def total_bind)

lemma total_try: "(\<And>e. total (h e)) \<Longrightarrow> total (tryM m h)"
  by (simp add: total_def returns_tryM)

lemma total_return: "total (returnM x)"
  by (simp add: total_def)

lemmas total_intros = total_bind total_then total_try total_return

lemma mapM_all:
  "(\<And>x s. x \<in> set xs \<Longrightarrow> \<exists>y s'. f x s = (Inr y, s') \<and> P y) \<Longrightarrow>
   \<exists>ys s'. mapM_list f xs s = (Inr ys, s') \<and> list_all P ys"
proof (induction xs arbitrary: s)
  case (Cons x xs)
  obtain y s1 where y: "f x s = (Inr y, s1)" "P y" using Cons.prems [of x s] by auto
  obtain ys s2 where "mapM_list f xs s1 = (Inr ys, s2)" "list_all P ys"
    using Cons.IH [of s1] Cons.prems by auto
  with y show ?case by (simp add: bindM_Inr)
qed simp

text \<open>A call that returns or raises an \<open>OSError\<close>.\<close>

definition os_total :: "('s, 'a) M \<Rightarrow> bool" where
  "os_total m \<longleftrightarrow> (\<forall>s e s'. m s = (Inl e, s') \<longrightarrow> is_OSError e)"

lemma os_total_try:
  "os_total m \<Longrightarrow> total (tryM (thenM m (returnM ())) (\<lambda>e. if is_OSError e then returnM () else raiseM e))"
  by (auto simp: total_def os_total_def returns_def run_simps split: prod.splits sum.splits)

definition answering :: "('s \<Rightarrow> string \<Rightarrow> bool) \<Rightarrow> 's ExecuteBackupUseCase \<Rightarrow> bool" where
  "answering clean uc \<longleftrightarrow>
     total (rt_now (eb_runtime uc)) \<and> total (rt_monotonic (eb_runtime uc)) \<and>
     (\<forall>e. total (ar_log (eb_audit_repository uc) e)) \<and>
     (\<forall>j s. wf_job j \<and> clean s (bj_id j) \<longrightarrow> returns (jr_save (eb_job_repository uc) j) s) \<and>
     (\<forall>h. total (mm_list_databases (eb_mongo_metadata uc) h)) \<and>
     (\<forall>h d. total (mm_list_collections (eb_mongo_metadata uc) h d)) \<and>
     (\<forall>h s ds s'. mm_list_databases (eb_mongo_metadata uc) h s = (Inr ds, s') \<longrightarrow> [] \<notin> set ds) \<and>
     (\<forall>h d s cs s'. mm_list_collections (eb_mongo_metadata uc) h d s = (Inr cs, s') \<longrightarrow> [] \<notin> set cs) \<and>
     os_total (rm_apply_policy (eb_retention_manager uc)) \<and>
     (\<forall>lm r tok. eb_lock_manager uc = Some lm \<longrightarrow> os_total (lm_release lm r tok))"

lemma answeringD:
  assumes "answering clean uc"
  shows "total (rt_now (eb_runtime uc))" "total (rt_monotonic (eb_runtime uc))"
    "total (ar_log (eb_audit_repository uc) e)"
    "wf_job j \<Longrightarrow> clean s (bj_id j) \<Longrightarrow> returns (jr_save (eb_job_repository uc) j) s"
    "total (mm_list_databases (eb_mongo_metadata uc) h)" "total (mm_list_collections (eb_mongo_metadata uc) h d)"
    "mm_list_databases (eb_mongo_metadata uc) h s = (Inr ds, s') \<Longrightarrow> [] \<notin> set ds"
    "mm_list_collections (eb_mongo_metadata uc) h d s = (Inr cs, s') \<Longrightarrow> [] \<notin> set cs"
    "os_total (rm_apply_policy (eb_retention_manager uc))"
    "eb_lock_manager uc = Some lm \<Longrightarrow> os_total (lm_release lm r tok)"
  using assms unfolding answering_def by blast+

context backup_execution
begin

lemma log_total:
  assumes ans: "answering clean uc" and "0 < rq" "ev \<noteq> []" "res \<noteq> []"
  shows "total (AuditService_log_job_event (eb_runtime uc) (eb_audit_repository uc) j ev rq d res)"
proof -
  have "valid_AuditLog \<lparr>al_id = None, al_telegram_id = rq, al_action = ev, al_topic = ''JOB_EVENTS'',
         al_command = None, al_job_id = Some j, al_cluster_uri_hash = None,
         al_databases = None, al_collections = None, al_result = res,
         al_duration_ms = None, al_ip_address = None, al_user_agent = None, al_timestamp = t, al_details = d\<rparr>" for t
    using assms by (simp add: valid_AuditLog_def)
  then show ?thesis
    unfolding AuditService_log_job_event_def
    by (intro total_bind answeringD(1) [OF ans]) (simp_all add: validated_def total_def returns_bind_value totalD [OF answeringD(3) [OF ans]])
qed

lemma save_stored:
  assumes ans: "answering clean uc"
  shows "wf_job j \<Longrightarrow> bj_id j = i \<Longrightarrow> stored i s \<Longrightarrow>
    \<exists>s'. jr_save (eb_job_repository uc) j s = (Inr (), s')"
  using answeringD(4) [OF ans] jobs_wf by (fastforce simp: stored_def returns_def)

text \<open>The collections to dump have names.\<close>

definition named :: "CollectionTarget \<Rightarrow> bool" where
  "named t \<longleftrightarrow> ct_database t \<noteq> [] \<and> ct_collection t \<noteq> []"

lemma pending_targets:
  "list_all (\<lambda>t. d t \<noteq> [] \<and> c t \<noteq> []) ts \<Longrightarrow> \<exists>rs. map_sum_list (\<lambda>t. pending_target (d t) (c t)) ts = Inr rs \<and> list_all named rs"
  by (induction ts)
    (auto simp: pending_target_def mk_CollectionTarget_def validated_def valid_CollectionTarget_def named_def bind_sum_def)

lemma resolve_answers:
  assumes ans: "answering clean uc" and "wf_job job"
  shows "\<exists>ts s'. resolve_targets uc job s = (Inr ts, s') \<and> list_all named ts"
proof (cases "bj_backup_type job = CUSTOM")
  case True
  have "list_all (\<lambda>t. ct_database t \<noteq> [] \<and> ct_collection t \<noteq> []) (bj_target_collections job)"
    using assms by (auto simp: wf_job_def valid_BackupJob_def valid_CollectionTarget_def list_all_iff)
  from pending_targets [OF this] show ?thesis using True by (auto simp: resolve_targets_def)
next
  case False
  define f where "f h d = bindM (mm_list_collections (eb_mongo_metadata uc) h d)
      (\<lambda>cs. liftE (map_sum_list (pending_target d) cs))" for h d
  have one: "\<exists>rs s'. f h d s = (Inr rs, s') \<and> list_all named rs" if "d \<noteq> []" for h d s
  proof -
    obtain cs s' where cs: "mm_list_collections (eb_mongo_metadata uc) h d s = (Inr cs, s')"
      using totalE [OF answeringD(6) [OF ans]] by metis
    have "list_all (\<lambda>c. d \<noteq> [] \<and> c \<noteq> []) cs" using answeringD(8) [OF ans cs] that by (auto simp: list_all_iff)
    from pending_targets [OF this] cs show ?thesis by (auto simp: bindM_run f_def)
  qed
  obtain ds s1 where ds: "mm_list_databases (eb_mongo_metadata uc) (bj_cluster_uri_hash job) s = (Inr ds, s1)"
    using totalE [OF answeringD(5) [OF ans]] by metis
  have "\<exists>tss s2. mapM_list (f (bj_cluster_uri_hash job)) ds s1 = (Inr tss, s2) \<and> list_all (list_all named) tss"
    using answeringD(7) [OF ans ds] by (intro mapM_all one) auto
  then obtain tss s2 where tss: "mapM_list (f (bj_cluster_uri_hash job)) ds s1 = (Inr tss, s2)"
      "list_all (list_all named) tss" by blast
  have "resolve_targets uc job s = (Inr (concat tss), s2)"
    using False ds tss(1) unfolding resolve_targets_def f_def [symmetric] by (simp add: bindM_Inr)
  moreover have "list_all named (concat tss)" using tss(2) by (auto simp: list_all_iff)
  ultimately show ?thesis by blast
qed

lemma notify_total:
  assumes ans: "answering clean uc"
  shows "total (notify_progress uc job)"
proof -
  have "total (should_update_ui uc)"
    unfolding should_update_ui_def by (intro total_bind answeringD(2) [OF ans]) (simp add: total_def returns_def ex_bool_eq)
  then show ?thesis
    by (auto simp: notify_progress_def intro!: total_intros split: option.split)
qed

lemma run_progress_ok:
  assumes "counted st" "int (length (xs_results st)) \<le> n" "list_all valid_CollectionTarget (xs_results st)"
  shows "\<exists>p. run_progress n st = Inr p"
proof -
  have "0 \<le> size_or_0 (ct_size_bytes t)" if "t \<in> set (xs_results st)" for t
    using assms(3) that by (auto simp: list_all_iff valid_CollectionTarget_def size_or_0_def opt_ge0_def split: option.splits)
  then have "0 \<le> xs_bytes st"
    using assms(1) by (auto simp: counted_def intro!: sum_list_nonneg)
  then show ?thesis
    using counted_length [OF assms(1)] counted_nonneg [OF assms(1)] assms(2)
    by (auto simp: run_progress_def mk_JobProgress_def validated_def valid_JobProgress_def run_percent_def
        percent_of_bounds)
qed

lemma backup_one_answers:
  assumes ans: "answering clean uc" and inv: "run_inv i out st" and len: "int (length (xs_results st)) < n" and t: "named t" and st: "stored i s"
  shows "returns (backup_one uc out n t st) s"
proof -
  have "returns (backup_single_collection uc t out) s"
    using t by (auto simp: backup_single_collection_def named_def mk_CollectionTarget_def validated_def
        valid_CollectionTarget_def intro!: returns_tryM)
  then obtain r s1 where r: "backup_single_collection uc t out s = (Inr r, s1)" by (auto simp: returns_def)
  have s1: "stored i s1" using keepsD [OF port_keeps(4) st r] .
  have vr: "valid_CollectionTarget r"
    using r engine_valid
    by (auto simp: backup_single_collection_def mk_CollectionTarget_def run_simps split: prod.splits sum.splits)
  have c: "counted (count_result r st)" "int (length (xs_results (count_result r st))) \<le> n"
    "list_all valid_CollectionTarget (xs_results (count_result r st))"
    using inv len vr by (auto simp: run_inv_def counted_count_result)
  obtain pr where pr: "run_progress n (count_result r st) = Inr pr" using run_progress_ok [OF c] by blast
  obtain ts s2 where ts: "rt_now (eb_runtime uc) s1 = (Inr ts, s2)" using totalE [OF answeringD(1) [OF ans]] by metis
  let ?j = "(BackupJob_update_progress pr ts (xs_job st))\<lparr>bj_target_collections := xs_results (count_result r st)\<rparr>"
  have "wf_job ?j"
    by (rule run_progress_wf [OF c(1,2) pr]) (use inv c(3) in \<open>simp_all add: run_inv_def running_job_def\<close>)
  moreover have "bj_id ?j = i" using inv by (simp add: run_inv_def running_job_def BackupJob_update_progress_def)
  moreover have "stored i s2" using keepsD [OF port_keeps(1) s1 ts] .
  ultimately obtain s3 where s3: "jr_save (eb_job_repository uc) ?j s2 = (Inr (), s3)"
    using save_stored [OF ans, of ?j i s2] by blast
  obtain s4 where "notify_progress uc ?j s3 = (Inr (), s4)" using totalE [OF notify_total [OF ans]] by (metis unit.exhaust)
  then show ?thesis
    using r pr ts s3 by (simp add: backup_one_def returns_def run_simps Let_def)
qed

lemma backup_loop_answers:
  assumes ans: "answering clean uc" and cc: "check_keeps (stored i) cc" "\<And>c. cc = Some c \<Longrightarrow> total c"
  shows "run_inv i out st \<Longrightarrow> int (length (xs_results st)) + int (length ts) = n \<Longrightarrow> list_all named ts \<Longrightarrow>
    stored i s \<Longrightarrow> returns (backup_loop uc cc out n ts st) s"
proof (induction ts arbitrary: st s)
  case (Cons t ts)
  let ?c = "case cc of None \<Rightarrow> returnM False | Some c \<Rightarrow> c"
  have "total ?c" "keeps (stored i) ?c"
    using cc by (auto simp: check_keeps_def total_return intro: keeps_intros split: option.split)
  then obtain b s1 where b: "?c s = (Inr b, s1)" "stored i s1"
    using Cons.prems(4) by (metis totalE keepsD)
  have len: "int (length (xs_results st)) < n" using Cons.prems(2) by simp
  have "returns (bindM (backup_one uc out n t st) (backup_loop uc cc out n ts)) s1"
    apply (rule returns_bind [OF _ b(2) backup_one_triple [OF Cons.prems(1) len]])
    using Cons.prems(3) b(2) apply (intro backup_one_answers [OF ans Cons.prems(1) len]; simp)
    using Cons.prems Cons.IH by auto
  then show ?case using b(1) by (simp add: returns_def bindM_Inr)
qed simp

lemma finalize_answers:
  assumes ans: "answering clean uc" and inv: "run_inv i out st"
  shows "returns (finalize_job uc n st) s"
proof -
  obtain t1 s1 where t1: "rt_now (eb_runtime uc) s = (Inr t1, s1)" using totalE [OF answeringD(1) [OF ans]] by metis
  obtain t2 s2 where t2: "rt_now (eb_runtime uc) s1 = (Inr t2, s2)" using totalE [OF answeringD(1) [OF ans]] by metis
  have "bj_status (xs_job st) = JobStatus.RUNNING" using inv by (simp add: run_inv_def running_job_def)
  then show ?thesis
    using t1 t2 by (auto simp: finalize_job_def returns_def bindM_run Let_def mark_defs BackupJob_transition_def)
qed

text \<open>After the loop: the job is saved, audited, announced, and the retention policy runs.\<close>

lemma final_job:
  assumes inv: "run_inv i out st" and run: "finalize_job uc n st s = (Inr (job, fs), s')"
  shows "bj_id job = i \<and> wf_job job"
  using run inv
  by (auto simp: finalize_job_def run_inv_def running_job_def mark_defs transition_Inr bindM_run Let_def
      split: prod.splits sum.splits if_splits)

lemma after_total:
  assumes ans: "answering clean uc" and rq: "0 < rq"
  shows "total (bindM (rt_now (eb_runtime uc)) (\<lambda>now.
     thenM (AuditService_log_job_event (eb_runtime uc) (eb_audit_repository uc) j (event_name fs) rq (d now) (status_value fs))
    (thenM (notify_final uc job fs c f n b)
    (thenM (apply_retention uc fs) (returnM x)))))"
proof -
  have "event_name fs \<noteq> []" "status_value fs \<noteq> []" by (cases fs; simp)+
  then have "total (AuditService_log_job_event (eb_runtime uc) (eb_audit_repository uc) j (event_name fs) rq (d now) (status_value fs))" for now
    using log_total [OF ans rq] by blast
  moreover have "total (notify_final uc job fs c f n b)"
    by (simp add: notify_final_def Let_def total_try total_return)
  moreover have "total (apply_retention uc fs)"
    using os_total_try [OF answeringD(9) [OF ans]] by (simp add: apply_retention_def total_return)
  ultimately show ?thesis by (intro total_bind total_then answeringD(1) [OF ans] total_return)
qed

lemma conclude_answers:
  assumes ans: "answering clean uc" and inv: "run_inv i out st" and st: "stored i s"
  shows "returns (run_conclude uc n t0 st) s"
proof -
  obtain job fs s1 where fin: "finalize_job uc n st s = (Inr (job, fs), s1)"
    using finalize_answers [OF ans inv] by (force simp: returns_def)
  have o: "outcome_keeps (stored i) uc" using rows_kept [of i] by (simp add: execute_keeps_def stored_eq)
  have "stored i s1" using keepsD [OF finalize_job_keeps [OF o] st fin] .
  with final_job [OF inv fin] obtain s2 where sv: "jr_save (eb_job_repository uc) job s1 = (Inr (), s2)"
    using save_stored [OF ans, of job i s1] by blast
  have "0 < bj_requester_telegram_id job"
    using final_job [OF inv fin] by (simp add: wf_job_def valid_BackupJob_def)
  from totalD [OF after_total [OF ans this]] show ?thesis
    using fin sv by (simp add: run_conclude_def returns_def bindM_Inr thenM_run)
qed

text \<open>The job is stored as running when the preparation is done.\<close>

lemma prepare_saves:
  assumes "bj_id job = i" "wf_job job"
  shows "triple (stored i) (run_prepare uc job)
    (\<lambda>(j, out) s. \<exists>k. jobs s i = Some k \<and> bj_status k = JobStatus.RUNNING) (\<lambda>_ _. True)"
proof -
  let ?out = "path_div (path_div (eb_backup_base_path uc) (bj_cluster_uri_hash job)) i"
  have w: "wf_path ?out" using base_path by (simp add: wf_path_div path_div_nonempty)
  have r: "wf_job (j\<lparr>bj_output_path := Some ?out\<rparr>) \<and> bj_status j = JobStatus.RUNNING \<and> bj_id j = i \<and>
      bj_cluster_uri_hash j = bj_cluster_uri_hash job" if "BackupJob_mark_running t1 t2 job = Inr j" for t1 t2 j
    using that assms w
    by (auto simp: BackupJob_mark_running_def transition_Inr wf_job_def valid_BackupJob_def split: sum.splits if_splits)
  show ?thesis
    unfolding run_prepare_def Let_def
    apply (rule triple_bind_keeps [OF port_keeps(1)])+
    apply (rule triple_bind_lift_true, drule r, elim conjE)
    apply (rule triple_then_when, simp)
    apply (rule triple_then_keeps, simp add: port_keeps)
    by (rule triple_then [OF save_own]) (auto simp: same_job_def intro!: triple_basic)
qed

lemma execute_unlisted:
  assumes found: "jr_get_by_id (eb_job_repository uc) i s = (Inr (Some job), s1)"
    and lock: "eb_lock_manager uc = Some lm" "lm_acquire lm (cluster_lock job) LOCK_TTL s1 = (Inr (Some tok), s2)"
    and p: "run_prepare uc job s2 = (Inr (j, out), s3)"
    and raises: "resolve_targets uc j s3 = (Inl e, s4)" "jobs s4 = jobs s3"
  shows "\<exists>e' s' k. ExecuteBackupUseCase_execute uc cc i s = (Inl e', s') \<and> jobs s' i = Some k \<and> bj_status k = JobStatus.RUNNING"
proof -
  have look: "lookup_job uc i MAX_LOOKUP_RETRIES s = (Inr (Some job), s1)"
    using found by (simp add: MAX_LOOKUP_RETRIES_def numeral_eq_Suc bindM_run)
  have job: "bj_id job = i" "wf_job job" "stored i s1"
    using tripleD [OF lookup_triple TrueI look] by auto
  have s2: "stored i s2" using keepsD [OF lock_rows [OF lock(1), folded stored_eq] job(3) lock(2)] .
  obtain k where k: "jobs s4 i = Some k" "bj_status k = JobStatus.RUNNING"
    using tripleD [OF prepare_saves [OF job(1,2)] s2 p] raises(2) by auto
  have run: "run_job uc cc job s2 = (Inl e, s4)"
    using p raises(1) by (simp add: run_job_def bindM_run)
  obtain y s' where rel: "release_oserror lm (cluster_lock job) tok s4 = (y, s')" by force
  have "jobs s' = jobs s4"
    using keepsD [OF release_oserror_keeps [OF quiet_release [OF lock(1)]] _ rel, of "jobs s4"] by simp
  moreover have "\<exists>e'. ExecuteBackupUseCase_execute uc cc i s = (Inl e', s')"
    using look lock run rel by (cases y) (simp_all add: ExecuteBackupUseCase_execute_def bindM_Inr finallyM_run)
  ultimately show ?thesis using k by auto
qed

lemma run_job_answers:
  assumes ans: "answering clean uc" and job: "bj_id job = i" "wf_job job" "stored i s"
    and p: "run_prepare uc job s = (Inr (j, out), s1)"
    and cc: "check_keeps (stored i) cc" "\<And>c. cc = Some c \<Longrightarrow> total c"
  shows "returns (run_job uc cc job) s"
proof -
  have j: "running_job i out j" "stored i s1"
    using tripleD [OF prepare_triple [OF job(1,2)] job(3) p] by auto
  then have w: "wf_job j" "0 < bj_requester_telegram_id j"
    by (auto simp: running_job_def wf_job_def valid_BackupJob_def)
  obtain ts s2 where ts: "resolve_targets uc j s1 = (Inr ts, s2)" "list_all named ts"
    using resolve_answers [OF ans w(1)] by blast
  have s2: "stored i s2" using keepsD [OF port_keeps(5) j(2) ts(1)] .
  obtain t0 s3 where t0: "rt_now (eb_runtime uc) s2 = (Inr t0, s3)" using totalE [OF answeringD(1) [OF ans]] by metis
  have s3: "stored i s3" using keepsD [OF port_keeps(1) s2 t0] .
  let ?log = "AuditService_log_job_event (eb_runtime uc) (eb_audit_repository uc) (bj_id j) ''BACKUP_STARTED''
      (bj_requester_telegram_id j) (Some [(''total_collections'', PInt (int (length ts)))]) ''SUCCESS''"
  have "total ?log" by (rule log_total [OF ans]) (use w(2) in simp_all)
  then obtain u s4 where s4: "?log s3 = (Inr u, s4)" by (rule totalE)
  have st4: "stored i s4" using keepsD [OF port_keeps(6) s3 s4] .
  let ?st = "\<lparr>xs_job = j, xs_completed = 0, xs_failed = 0, xs_bytes = 0, xs_results = [], xs_cancelled = False\<rparr>"
  have inv: "run_inv i out ?st" using j(1) by (simp add: run_inv_def counted_def)
  have "returns (bindM (backup_loop uc cc out (int (length ts)) ts ?st) (run_conclude uc (int (length ts)) t0)) s4"
    by (rule returns_bind [OF backup_loop_answers [OF ans cc inv] st4 backup_loop_triple [OF cc(1) inv]])
      (use ts(2) st4 in \<open>auto intro: conclude_answers [OF ans]\<close>)
  then show ?thesis
    using p ts(1) t0 s4 by (simp add: run_job_def returns_def bindM_Inr thenM_run)
qed

lemma execute_answers:
  assumes ans: "answering clean uc"
    and found: "jr_get_by_id (eb_job_repository uc) i s = (Inr (Some job), s1)"
    and lock: "eb_lock_manager uc = Some lm" "lm_acquire lm (cluster_lock job) LOCK_TTL s1 = (Inr (Some tok), s2)"
    and p: "run_prepare uc job s2 = (Inr (j, out), s3)"
    and cc: "check_keeps (stored i) cc" "\<And>c. cc = Some c \<Longrightarrow> total c"
  shows "returns (ExecuteBackupUseCase_execute uc cc i) s"
proof -
  have look: "lookup_job uc i MAX_LOOKUP_RETRIES s = (Inr (Some job), s1)"
    using found by (simp add: MAX_LOOKUP_RETRIES_def numeral_eq_Suc bindM_run)
  have job: "bj_id job = i" "wf_job job" "stored i s1"
    using tripleD [OF lookup_triple TrueI look] by auto
  have s2: "stored i s2" using keepsD [OF lock_rows [OF lock(1), folded stored_eq] job(3) lock(2)] .
  have "returns (finallyM (run_job uc cc job) (release_oserror lm (cluster_lock job) tok)) s2"
    using totalD [OF os_total_try [OF answeringD(10) [OF ans lock(1)]]]
    by (intro returns_finallyM run_job_answers [OF ans job(1,2) s2 p cc]) (simp_all add: release_oserror_def)
  then show ?thesis
    using look lock by (simp add: ExecuteBackupUseCase_execute_def returns_def bindM_Inr)
qed

end

end
