(* ===== verification/Execution.thy ===== *)
theory Execution
  imports Requests Completion
begin

text \<open>
  The properties of running a backup: theorems about \<open>ExecuteBackupUseCase_execute\<close> over the contracts
  of its ports, and their runs in the closed world, where every port is the program's own adapter: the
  SQL repositories, the Redis locks, the \<^verbatim>\<open>mongodump\<close> engine, the Mongo metadata, the Telegram
  notifier, the file-system adapter and the retention manager. While a collection is dumped the
  bot may cancel a job (\<open>bot_cancels\<close>), so a run is not alone in the job table.
\<close>

section \<open>The worker's ports in the world\<close>

definition zoom_notifier :: "('w \<Rightarrow> 's) \<Rightarrow> ('s \<Rightarrow> 'w \<Rightarrow> 'w) \<Rightarrow> 's INotifier \<Rightarrow> 'w INotifier" where
  "zoom_notifier get put no =
     \<lparr>no_send_message = (\<lambda>c t z. zoom get put (no_send_message no c t z)),
      no_edit_message = (\<lambda>c m t. zoom get put (no_edit_message no c m t)),
      no_send_document = (\<lambda>c p t z. zoom get put (no_send_document no c p t z))\<rparr>"

definition world_notifier :: "world INotifier" where
  "world_notifier = zoom_notifier w_telegram (\<lambda>t. w_telegram_update (\<lambda>_. t)) (TelegramNotifier (tl_notifier 29 1000000))"

definition world_mongo :: "world IMongoMetadata" where
  "world_mongo =
     \<lparr>mm_list_databases = (\<lambda>h w. MongoMetadataAdapter_list_databases (catalog_adapter (w_cluster w) world_runtime) h w),
      mm_list_collections = (\<lambda>h d w. MongoMetadataAdapter_list_collections (catalog_adapter (w_cluster w) world_runtime) h d w),
      mm_get_size_stats = (\<lambda>h w. MongoMetadataAdapter_get_size_stats (catalog_adapter (w_cluster w) world_runtime) h w)\<rparr>"

definition world_retention :: "world RetentionManager" where
  "world_retention = mk_RetentionManager world_fs [''/'', ''backups''] 4 4 1 (Some world_jobs) world_runtime (\<lambda>ps. ps)"

text \<open>The bot cancels a job when the \<open>n\<close>-th dump starts, if \<open>act\<close> says so.\<close>

definition bot_cancels :: "(nat \<times> string \<times> User) option \<Rightarrow> (world, unit) M" where
  "bot_cancels act w = (case act of
     Some (n, i, u) \<Rightarrow>
       if length (ds_procs (w_dump w)) = n then (Inr (), snd (JobManager_cancel_job world_manager i u w)) else (Inr (), w)
   | None \<Rightarrow> (Inr (), w))"

definition world_engine :: "(nat \<times> string \<times> User) option \<Rightarrow> world IBackupEngine" where
  "world_engine act =
     (let eng = MongodumpBackupEngine ref_dump_host sample_engine in
      \<lparr>be_backup_collection = (\<lambda>d c p. thenM (bot_cancels act)
         (zoom w_dump (\<lambda>t. w_dump_update (\<lambda>_. t)) (be_backup_collection eng d c p))),
       be_get_version = zoom w_dump (\<lambda>t. w_dump_update (\<lambda>_. t)) (be_get_version eng),
       be_validate_connection = (\<lambda>h. zoom w_dump (\<lambda>t. w_dump_update (\<lambda>_. t)) (be_validate_connection eng h))\<rparr>)"

definition world_execute :: "(nat \<times> string \<times> User) option \<Rightarrow> world ExecuteBackupUseCase" where
  "world_execute act =
     \<lparr>eb_job_repository = world_jobs, eb_backup_engine = world_engine act, eb_mongo_metadata = world_mongo,
      eb_audit_repository = world_audit, eb_notifier = world_notifier,
      eb_retention_manager = RetentionManager world_retention, eb_fs_utils = world_fs,
      eb_lock_manager = Some world_locks, eb_backup_base_path = [''/'', ''backups''],
      eb_runtime = world_runtime, eb_last_ui = w_last_ui, eb_set_last_ui = (\<lambda>n. w_last_ui_update (\<lambda>_. n))\<rparr>"

text \<open>The worker's \<open>_cancel_check\<close>: the flag its signal handler sets.\<close>

definition world_cancel_check :: "(world, bool) M option" where
  "world_cancel_check = Some (\<lambda>w. (Inr (case w_sigterm_after w of
     None \<Rightarrow> False | Some n \<Rightarrow> n \<le> length (ds_procs (w_dump w))), w))"

section \<open>The contract of a run holds in the world\<close>

lemma fs_frames:
  assumes "\<And>t w. view (w_dump_update (ds_fs_update (\<lambda>_. t)) w) = view w"
  shows "frames view (fs_ensure_dir world_fs p)" "frames view (fs_list_files_recursive world_fs p pat)"
    "frames view (fs_get_modification_time world_fs p)" "frames view (fs_get_folder_size world_fs p)"
    "frames view (fs_delete world_fs p)"
  by (simp_all add: world_fs_def zoom_fs_def zoom_frames_other assms)

text \<open>A view that the worker's ports can only change through the bot.\<close>

definition outside :: "(world \<Rightarrow> 'v) \<Rightarrow> bool" where
  "outside view \<longleftrightarrow>
     (\<forall>t w. view (w_dump_update (\<lambda>_. t) w) = view w) \<and> (\<forall>t w. view (w_audit_update (\<lambda>_. t) w) = view w) \<and>
     (\<forall>t w. view (w_clock_update (\<lambda>_. t) w) = view w) \<and> (\<forall>t w. view (w_telegram_update (\<lambda>_. t) w) = view w) \<and>
     (\<forall>t w. view (w_last_ui_update (\<lambda>_. t) w) = view w) \<and> (\<forall>t w. view (w_queue_update (\<lambda>_. t) w) = view w)"

lemma dump_fs_update: "w_dump_update (ds_fs_update (\<lambda>_. t)) w = w_dump_update (\<lambda>_. (w_dump w)\<lparr>ds_fs := t\<rparr>) w"
  by (rule world.equality) simp_all

lemma retention_frames_world:
  assumes "outside view" "\<And>st a b. frames view (jr_list_by_status world_jobs st a b)"
  shows "frames view (rm_apply_policy (RetentionManager world_retention))"
proof -
  have "\<And>t w. view (w_dump_update (ds_fs_update (\<lambda>_. t)) w) = view w"
    using assms(1) by (simp add: outside_def dump_fs_update)
  note f = fs_frames [OF this]
  have "retention_frames view world_retention"
    using assms f by (simp add: retention_frames_def world_retention_def mk_RetentionManager_def world_runtime_def
        outside_def frames_def [of view "\<lambda>w. (Inr (w_clock w), w\<lparr>w_clock := w_clock w + 1\<rparr>)"])
  then show ?thesis by (simp add: RetentionManager_def apply_policy_frames)
qed

lemma mongo_frames:
  "frames view (mm_list_databases world_mongo h)" "frames view (mm_list_collections world_mongo h d)"
  by (simp_all add: frames_def world_mongo_def MongoMetadataAdapter_list_databases_def
      MongoMetadataAdapter_list_collections_def catalog_adapter_def catalog_client_def run_simps split: sum.split)

lemma outcome_frames_world:
  assumes "outside view" "\<And>st a b. frames view (jr_list_by_status world_jobs st a b)"
  shows "outcome_keeps (\<lambda>s. P (view s)) (world_execute act)"
proof -
  have n: "frames view (no_edit_message world_notifier c m t)" "frames view (no_send_message world_notifier c t z)" for c m t z
    using assms(1) by (simp_all add: world_notifier_def zoom_notifier_def zoom_frames_other outside_def)
  have a: "frames view (ar_log world_audit e)" for e
    using audit_frames_world [of view] assms(1) by (simp add: outside_def audit_frames_def)
  have t: "frames view (rt_now world_runtime)"
    using assms(1) by (simp add: world_runtime_def frames_def outside_def)
  show ?thesis
    unfolding outcome_keeps_def world_execute_def ExecuteBackupUseCase.simps
    by (intro conjI allI frames_keeps n a t retention_frames_world assms)
qed

lemma execute_frames_world:
  assumes out: "outside view" "\<And>st a b. frames view (jr_list_by_status world_jobs st a b)"
    and act: "keeps (\<lambda>s. P (view s)) (bot_cancels act)"
  shows "execute_keeps (\<lambda>s. P (view s)) (world_execute act)"
proof -
  have f: "frames view (fs_ensure_dir world_fs p)" for p
    using out(1) by (intro fs_frames) (simp add: outside_def dump_fs_update)
  have r: "frames view (rt_monotonic world_runtime)" "frames view (rt_sleep_ms world_runtime k)" for k
    using out(1) by (simp_all add: world_runtime_def frames_def outside_def)
  have h: "frames view (zoom w_dump (\<lambda>t. w_dump_update (\<lambda>_. t)) m)" for m :: "(dump_state, CollectionTarget) M"
    using out(1) by (intro zoom_frames_other) (simp add: outside_def)
  have e: "keeps (\<lambda>s. P (view s)) (be_backup_collection (world_engine act) d c p)" for d c p
    by (simp add: world_engine_def Let_def MongodumpBackupEngine_def) (intro keeps_thenM act frames_keeps h)
  have u: "view (w_last_ui_update (\<lambda>_. k) w) = view w" for k w using out(1) by (simp add: outside_def)
  show ?thesis
    unfolding execute_keeps_def
    using outcome_frames_world [OF out] e u
    by (auto simp: world_execute_def intro!: frames_keeps [where view = view and P = P] f r mongo_frames)
qed

lemma list_frames_world: "frames stored_jobs (jr_list_by_status world_jobs st a b)"
  using wmanager.list_frame by (simp add: world_manager_def)

lemma stored_outside: "outside stored_jobs"
  by (simp add: outside_def)

lemma bot_cancels_rows: "keeps (\<lambda>s. stored_jobs s i \<noteq> None) (bot_cancels act)"
proof (rule keepsI)
  fix w assume w: "stored_jobs w i \<noteq> None"
  have "stored_jobs (snd (JobManager_cancel_job world_manager k u w)) i \<noteq> None" for k u
  proof -
    obtain x w' where run: "JobManager_cancel_job world_manager k u w = (x, w')" by force
    have "stays stored_jobs (stored_jobs w) w" by (simp add: stays_def)
    from tripleD [OF wmanager.cancel_job_triple this run] w run show ?thesis
      by (auto simp: stays_def wmanager.cancel_changes_def wmanager.cancelled_def split: sum.splits if_splits)
  qed
  then show "stored_jobs (snd (bot_cancels act w)) i \<noteq> None"
    using w by (auto simp: bot_cancels_def split: option.split prod.split)
qed

interpretation wexecute: backup_execution "world_execute act" stored_jobs
  "\<lambda>w. persisted (job_rows w)" "\<lambda>w. clean_rows (job_rows w)" for act
proof (intro backup_execution.intro backup_execution_axioms.intro)
  show "job_repository (eb_job_repository (world_execute act)) stored_jobs (\<lambda>w. persisted (job_rows w))
      wf_job (\<lambda>w. clean_rows (job_rows w))"
    using wmanager.job_repository_axioms by (simp add: world_execute_def world_manager_def)
  show "execute_keeps (\<lambda>s. stored_jobs s i \<noteq> None) (world_execute act)" for i
    using execute_frames_world [where P = "\<lambda>J. J i \<noteq> None", OF stored_outside list_frames_world bot_cancels_rows] .
  show "outcome_keeps (\<lambda>s. stored_jobs s = J) (world_execute act)" for J
    using outcome_frames_world [where P = "\<lambda>J'. J' = J", OF stored_outside list_frames_world] .
  show "keeps (\<lambda>s. stored_jobs s i \<noteq> None) (lm_acquire lm r ttl)"
    if "eb_lock_manager (world_execute act) = Some lm" for lm r ttl i
    using that frames_keeps [where P = "\<lambda>J. J i \<noteq> None", OF redis_frames_world(1) [of stored_jobs]] by (simp add: world_execute_def)
  show "keeps (\<lambda>s. stored_jobs s = J) (lm_release lm r tok)"
    if "eb_lock_manager (world_execute act) = Some lm" for lm r tok J
    using that frames_keeps [where P = "\<lambda>J'. J' = J", OF redis_frames_world(2) [of stored_jobs]] by (simp add: world_execute_def)
  show "valid_CollectionTarget t" "target_name t = (d, c)"
    if run: "be_backup_collection (eb_backup_engine (world_execute act)) d c p s = (Inr t, s')" for d c p s t s'
  proof -
    obtain s1 t1 where "MongodumpBackupEngine_backup_collection ref_dump_host sample_engine d c p s1 = (Inr t, t1)"
      using run by (auto simp: world_execute_def world_engine_def Let_def MongodumpBackupEngine_def thenM_eq_Inr
          zoom_run split: prod.splits)
    from backup_collection_certified [OF this] show "valid_CollectionTarget t" "target_name t = (d, c)"
      by (auto simp: dump_certified_def target_name_def)
  qed
qed (simp_all add: world_execute_def wf_path_def good_part_def slash_def)

section \<open>The locks during a run\<close>

lemma bot_cancels_locks: "frames held_locks (bot_cancels act)"
proof -
  have "frames held_locks (JobManager_cancel_job world_manager i u)" for i u
  proof (rule manager_ops_frames(3))
    show "manager_frames held_locks world_manager"
      by (rule manager_frames_world) (simp_all add: uuid_keeps_locks)
    show "repo_frames held_locks (jm_job_repository world_manager)"
      by (auto simp: world_manager_def intro!: world_jobs_frames)
  qed
  then show ?thesis by (auto simp: bot_cancels_def frames_def split: option.split)
qed

lemma world_execute_locks: "execute_frames held_locks (world_execute act) world_cancel_check"
proof -
  have out: "outside held_locks" by (simp add: outside_def)
  have rf: "repo_frames held_locks world_jobs" by (rule world_jobs_frames) simp
  have "execute_keeps (\<lambda>s. held_locks s = v) (world_execute act)" for v
    using execute_frames_world [where P = "\<lambda>h. h = v", OF out _ frames_keeps [OF bot_cancels_locks]] rf
    by (simp add: repo_frames_def)
  moreover have "repo_keeps (\<lambda>s. held_locks s = v) world_jobs" for v
    using rf by (auto simp: repo_keeps_def repo_frames_def intro!: frames_keeps [where view = held_locks and P = "\<lambda>h. h = v"])
  moreover have "check_keeps (\<lambda>s. held_locks s = v) world_cancel_check" for v
    by (simp add: check_keeps_def world_cancel_check_def keeps_def)
  ultimately show ?thesis by (simp add: execute_frames_def world_execute_def)
qed

section \<open>A sample run\<close>

text \<open>A queued job for the collections \<open>shop.orders\<close> and \<open>shop.logs\<close>, the second of which cannot be
  dumped.\<close>

definition sample_target :: "string \<Rightarrow> CollectionTarget" where
  "sample_target c = \<lparr>ct_database = ''shop'', ct_collection = c, ct_status = CollectionBackupStatus.PENDING,
     ct_size_bytes = None, ct_error_message = None\<rparr>"

definition queued_row :: "string list \<Rightarrow> JobORM" where
  "queued_row cs =
     \<lparr>jo_id = ''j'', jo_requester_telegram_id = 7, jo_chat_id = Some (- 100), jo_topic_id = None,
      jo_status_message_id = Some 5, jo_backup_type = ''CUSTOM'', jo_status = ''QUEUED'',
      jo_cluster_uri_hash = sample_hash, jo_target_databases = Some [''shop''],
      jo_target_collections = Some (map (ct_dump \<circ> sample_target) cs),
      jo_output_path = None, jo_error_log = None, jo_started_at = None, jo_completed_at = None,
      jo_cancelled_by = None, jo_queue_job_id = Some ''j'', jo_retry_count = 0, jo_total_collections = None,
      jo_completed_collections = 0, jo_failed_collections = 0, jo_bytes_processed = 0,
      jo_created_at = 1000000, jo_updated_at = 1000004\<rparr>"

definition queued_world :: "string list \<Rightarrow> world" where
  "queued_world cs = start_world\<lparr>w_jobs := \<lparr>rf_rows = [queued_row cs], rf_next = 1\<rparr>,
     w_dump := start_dump\<lparr>ds_source := [((''shop'', ''orders''), Dumps 120)]\<rparr>\<rparr>"

section \<open>Evaluating the sample run\<close>

text \<open>
  The run is evaluated like a request (\<open>exec_cong\<close>); the calls of the disk and of \<^verbatim>\<open>mongodump\<close>
  are evaluated on their own first.
\<close>

lemma lookup_numeral:
  "lookup_job uc i (numeral k) =
     bindM (jr_get_by_id (eb_job_repository uc) i) (\<lambda>found.
     case found of
       Some job \<Rightarrow> returnM (Some job)
     | None \<Rightarrow>
         if pred_numeral k = 0 then returnM None
         else thenM (jr_clear_session_cache (eb_job_repository uc))
             (thenM (rt_sleep_ms (eb_runtime uc) RETRY_BACKOFF_MS) (lookup_job uc i (pred_numeral k))))"
  by (simp add: numeral_eq_Suc)

lemma world_ports:
  "eb_job_repository (world_execute act) = world_jobs" "eb_backup_engine (world_execute act) = world_engine act"
  "eb_mongo_metadata (world_execute act) = world_mongo" "eb_audit_repository (world_execute act) = world_audit"
  "eb_notifier (world_execute act) = world_notifier" "eb_retention_manager (world_execute act) = RetentionManager world_retention"
  "eb_fs_utils (world_execute act) = world_fs" "eb_lock_manager (world_execute act) = Some world_locks"
  "eb_backup_base_path (world_execute act) = [''/'', ''backups'']" "eb_runtime (world_execute act) = world_runtime"
  "eb_last_ui (world_execute act) = w_last_ui" "eb_set_last_ui (world_execute act) n = w_last_ui_update (\<lambda>_. n)"
  "be_backup_collection (world_engine act) d c p =
     thenM (bot_cancels act) (zoom w_dump (\<lambda>t. w_dump_update (\<lambda>_. t)) (MongodumpBackupEngine_backup_collection ref_dump_host sample_engine d c p))"
  by (simp_all add: world_execute_def world_engine_def Let_def MongodumpBackupEngine_def)


text \<open>The messages of a run are never read back: their effect on the Telegram server stays folded.\<close>

definition told :: "int \<Rightarrow> int \<Rightarrow> text_line list \<Rightarrow> telegram_state \<Rightarrow> telegram_state" where
  "told c m l T = snd (TelegramNotifier_edit_message (tl_notifier 29 1000000) c m l T)"

lemma tell: "TelegramNotifier_edit_message (tl_notifier 29 1000000) c m l T = (Inr (), told c m l T)"
proof -
  have sl: "\<exists>s'. lp_sleep tl_loop d s = (Inr (), s')" for d s by (simp add: tl_loop_def)
  have "\<exists>s'. tn_acquire (tl_notifier 29 1000000) s = (Inr (), s')" for s
    using tl_acquire_ok [of 29 1000000 s] by (auto simp: tl_notifier_def)
  then have loop: "\<exists>r s'. retry_loop tl_loop (tn_acquire (tl_notifier 29 1000000)) fn k n s = (Inr r, s')" for fn k n s
  proof (induction n arbitrary: k s)
    case (Suc n)
    obtain s1 where s1: "tn_acquire (tl_notifier 29 1000000) s = (Inr (), s1)" using Suc.prems by blast
    obtain y s2 where y: "fn s1 = (y, s2)" by force
    obtain s3 where s3: "whenM (k < MAX_RETRIES) (lp_sleep tl_loop (BACKOFF_BASE * 2 ^ (k - 1))) s2 = (Inr (), s3)"
      using sl by (fastforce simp: whenM_run)
    show ?case
      using Suc.IH [OF Suc.prems, of "k + 1" s3] s1 y s3 by (cases y) (auto simp: run_simps)
  qed simp
  obtain r s' where "execute_with_retry (tn_loop (tl_notifier 29 1000000)) (tn_acquire (tl_notifier 29 1000000))
      (bindM (AiogramBot_bot (tn_bot (tl_notifier 29 1000000)))
        (\<lambda>bot. tg_edit_message_text bot c m (html_escape (tn_render (tl_notifier 29 1000000) l)))) T = (Inr r, s')"
    using loop by (fastforce simp: execute_with_retry_def tl_notifier_def)
  then have "fst (TelegramNotifier_edit_message (tl_notifier 29 1000000) c m l T) = Inr ()"
    by (simp add: TelegramNotifier_edit_message_def Let_def thenM_run)
  then show ?thesis by (simp add: told_def prod_eq_iff)
qed

definition sample_out :: path where "sample_out = [''/'', ''backups'', sample_hash, ''j'']"

lemma sample_out_path: "path_div (path_div [''/'', ''backups''] sample_hash) ''j'' = sample_out"
  by code_simp

definition sample_disk :: "(path \<times> node) list \<Rightarrow> file_system" where
  "sample_disk new = \<lparr>vf_nodes = new @ [([''/'', ''backups''], Directory 7)], vf_cwd = [''/''],
     vf_volume = (10000000000, 5000000000, 5000000000), vf_clock = 7\<rparr>"

lemma sample_mkdir:
  "AioFsUtils_ensure_dir \<lparr>au_base_path = Some [''/'', ''backups''], au_gzip_size = g\<rparr> sample_out (ds_fs start_dump) =
     (Inr (), sample_disk [(sample_out, Directory 7), ([''/'', ''backups'', sample_hash], Directory 7)])"
  by code_simp

lemma sample_dump:
  "MongodumpBackupEngine_backup_collection ref_dump_host sample_engine ''shop'' ''orders'' sample_out
    \<lparr>ds_fs = sample_disk [(sample_out, Directory 7), ([''/'', ''backups'', sample_hash], Directory 7)],
     ds_temps = [], ds_source = [((''shop'', ''orders''), Dumps 120)], ds_procs = []\<rparr> =
   (Inr \<lparr>ct_database = ''shop'', ct_collection = ''orders'', ct_status = CollectionBackupStatus.SUCCESS,
        ct_size_bytes = Some 120, ct_error_message = None\<rparr>,
    \<lparr>ds_fs = sample_disk [(sample_out @ [''shop'', ''orders.bson''], File 120 7), (sample_out @ [''shop''], Directory 7),
       (sample_out, Directory 7), ([''/'', ''backups'', sample_hash], Directory 7)],
     ds_temps = [], ds_source = [((''shop'', ''orders''), Dumps 120)], ds_procs = [Dumps 120]\<rparr>)"
  by code_simp

lemma sample_glob:
  "AioFsUtils_list_files_recursive \<lparr>au_base_path = Some [''/'', ''backups''], au_gzip_size = g\<rparr> [''/'', ''backups''] ''backup_*.tar.gz''
     (sample_disk [(sample_out @ [''shop'', ''orders.bson''], File 120 7), (sample_out @ [''shop''], Directory 7),
       (sample_out, Directory 7), ([''/'', ''backups'', sample_hash], Directory 7)]) =
   (Inr [], sample_disk [(sample_out @ [''shop'', ''orders.bson''], File 120 7), (sample_out @ [''shop''], Directory 7),
       (sample_out, Directory 7), ([''/'', ''backups'', sample_hash], Directory 7)])"
  by code_simp

lemmas run_services =
  ExecuteBackupUseCase_execute_def lookup_numeral MAX_LOOKUP_RETRIES_def run_job_def run_prepare_def
  release_oserror_def cluster_lock_def CLUSTER_LOCK_PREFIX_def resolve_targets_def
  pending_target_def run_conclude_def finalize_job_def apply_retention_def notify_final_def
  backup_loop.simps backup_one_def backup_single_collection_def count_result_def run_progress_def
  run_percent_def notify_progress_def should_update_ui_def MIN_UI_UPDATE_INTERVAL_def
  size_or_0_def RetentionManager_def RetentionManager_apply_policy_def cleanup_old_backups_def enforce_max_storage_def
  world_retention_def mk_RetentionManager_def ARCHIVE_PATTERN_def
  BackupJob_update_progress_def mk_JobProgress_def valid_JobProgress_def
lemmas run_world = world_ports world_mongo_def world_notifier_def zoom_notifier_def TelegramNotifier_def
  bot_cancels_def queued_world_def queued_row_def sample_target_def sample_hash_ok sample_out_path
  sample_mkdir [unfolded start_dump_def, simplified] sample_dump sample_glob tell
lemma sample_percent: "percent_of 1 1 = 10000"
  by code_simp

lemmas run_defs = run_services run_world sample_percent exec_defs

lemma sample_run:
  "fst (ExecuteBackupUseCase_execute (world_execute None) world_cancel_check ''j'' (queued_world [''orders''])) =
     Inr \<lparr>ebr_job_id = ''j'', ebr_status = JobStatus.SUCCESS, ebr_completed_collections = 1,
       ebr_failed_collections = 0, ebr_total_collections = 1, ebr_bytes_processed = 120, ebr_error_log = None\<rparr>"
  by (simp add: run_defs world_cancel_check_def cong: exec_cong)

section \<open>Properties\<close>

text \<open>C17. What a finished run reports and stores. Whatever the dumps, the metadata and the messages do,
  and even if others change the job meanwhile, a run that returns leaves the job under its id with the
  status it reports, started, completed and with its output directory; the counters are those of the
  results, one per target in order; \<open>SUCCESS\<close> means that every target was dumped, \<open>FAILED\<close> that none
  was, with an error log, \<open>PARTIAL_SUCCESS\<close> that some were and some were not; only a cancelled run
  leaves targets out.\<close>

theorem execute_outcome:
  assumes contract: "backup_execution uc jobs persist clean" and check: "check_keeps (\<lambda>s. jobs s i \<noteq> None) cancel_check"
    and run: "ExecuteBackupUseCase_execute uc cancel_check i s = (Inr r, s')"
  shows "\<exists>k results out n. jobs s' i = Some k \<and> bj_id k = i \<and> ebr_job_id r = i \<and> bj_status k = ebr_status r \<and>
     bj_started_at k \<noteq> None \<and> bj_completed_at k \<noteq> None \<and> bj_output_path k = Some out \<and>
     ebr_status r \<in> {JobStatus.SUCCESS, JobStatus.FAILED, PARTIAL_SUCCESS, CANCELLED} \<and>
     ebr_total_collections r = n \<and>
     ebr_completed_collections r = int (length (filter succeeded results)) \<and>
     ebr_failed_collections r = int (length (filter (\<lambda>t. \<not> succeeded t) results)) \<and>
     ebr_bytes_processed r = sum_list (map (size_or_0 \<circ> ct_size_bytes) (filter succeeded results)) \<and>
     int (length results) \<le> n \<and> (ebr_status r \<noteq> CANCELLED \<longrightarrow> int (length results) = n) \<and>
     (results \<noteq> [] \<longrightarrow> bj_target_collections k = results) \<and>
     (ebr_status r = JobStatus.SUCCESS \<longrightarrow> list_all succeeded results) \<and>
     (ebr_status r = JobStatus.FAILED \<longrightarrow> results \<noteq> [] \<and> list_all (\<lambda>t. \<not> succeeded t) results \<and> truthy (bj_error_log k)) \<and>
     (ebr_status r = PARTIAL_SUCCESS \<longrightarrow> list_ex succeeded results \<and> list_ex (\<lambda>t. \<not> succeeded t) results) \<and>
     (ebr_status r = CANCELLED \<longrightarrow> bj_cancelled_by k = Some SYSTEM_TELEGRAM_ID)"
proof -
  have "check_keeps (backup_execution.stored jobs i) cancel_check"
    using check by (simp add: backup_execution.stored_eq [OF contract])
  from tripleD [OF backup_execution.execute_triple [OF contract this] TrueI run]
  obtain k results out n where "jobs s' i = Some k" "run_reported i out n r k results"
    by (auto simp: backup_execution.run_stored_def [OF contract])
  then show ?thesis by (intro exI [of _ k] exI [of _ results] exI [of _ out] exI [of _ n]) (simp add: run_reported_def)
qed

lemma check_keeps_world: "check_keeps (\<lambda>s. stored_jobs s i \<noteq> None) world_cancel_check"
  by (simp add: check_keeps_def world_cancel_check_def keeps_def)

lemma execute_outcome_witness:
  "\<exists>r s' k. ExecuteBackupUseCase_execute (world_execute None) world_cancel_check ''j'' (queued_world [''orders'']) = (Inr r, s') \<and>
     stored_jobs s' ''j'' = Some k \<and> bj_status k = JobStatus.SUCCESS \<and> bj_completed_at k \<noteq> None"
proof -
  note run = fst_run [of "ExecuteBackupUseCase_execute (world_execute None) world_cancel_check ''j''", OF sample_run]
  from execute_outcome [OF wexecute.backup_execution_axioms check_keeps_world run] run
  show ?thesis by auto
qed

text \<open>C6. A run serves the job it was started for. The stored job keeps its requester, chat, topic, status message, type and
  cluster, whatever others write to the row meanwhile; of a \<open>CUSTOM\<close> job the results are those of the requested
  collections, in the order of the request, and only a cancelled run leaves out some of the last ones.\<close>

theorem execute_serves_request:
  assumes contract: "backup_execution uc jobs persist clean" and check: "check_keeps (\<lambda>s. jobs s i \<noteq> None) cancel_check"
    and job: "jobs s i = Some j"
    and run: "ExecuteBackupUseCase_execute uc cancel_check i s = (Inr r, s')"
  shows "\<exists>k. jobs s' i = Some k \<and> bj_requester_telegram_id k = bj_requester_telegram_id j \<and> bj_chat_id k = bj_chat_id j \<and>
     bj_topic_id k = bj_topic_id j \<and> bj_status_message_id k = bj_status_message_id j \<and>
     bj_backup_type k = bj_backup_type j \<and> bj_cluster_uri_hash k = bj_cluster_uri_hash j \<and>
     (bj_backup_type j = CUSTOM \<longrightarrow>
       (\<exists>rest. map target_name (bj_target_collections j) = map target_name (bj_target_collections k) @ rest \<and>
          (ebr_status r \<noteq> CANCELLED \<longrightarrow> rest = [])))"
proof -
  have "check_keeps (backup_execution.stored jobs i) cancel_check"
    using check by (simp add: backup_execution.stored_eq [OF contract])
  from backup_execution.execute_served [OF contract this job run] show ?thesis
    by (auto simp: backup_execution.run_stored_def [OF contract] served_def same_request_def)
qed

lemma execute_serves_request_witness:
  "\<exists>r s' k. ExecuteBackupUseCase_execute (world_execute None) world_cancel_check ''j'' (queued_world [''orders'']) = (Inr r, s') \<and>
     stored_jobs s' ''j'' = Some k \<and> bj_requester_telegram_id k = 7 \<and>
     map target_name (bj_target_collections k) = [(''shop'', ''orders'')]"
proof -
  note run = fst_run [of "ExecuteBackupUseCase_execute (world_execute None) world_cancel_check ''j''", OF sample_run]
  obtain j where j: "stored_jobs (queued_world [''orders'']) ''j'' = Some j" "bj_backup_type j = CUSTOM"
    "bj_requester_telegram_id j = 7" "map target_name (bj_target_collections j) = [(''shop'', ''orders'')]"
    by (auto simp: run_world exec_defs rows_of_def job_of_rows_def target_name_def cong: exec_cong)
  from execute_serves_request [OF wexecute.backup_execution_axioms check_keeps_world j(1) run] j(2-) show ?thesis
    by (subst run) auto
qed

text \<open>C19. However a run ends, the locks held afterwards are those held before: the lock of the cluster
  is given back on success and on every exception, and one held by another run is left alone.\<close>

theorem execute_releases_lock:
  assumes lm: "eb_lock_manager uc = Some lm" "lock_manager lm held" "lock_answers lm held"
    and quiet: "execute_frames held uc cancel_check"
    and run: "ExecuteBackupUseCase_execute uc cancel_check i s = (x, s')"
  shows "held s' = held s"
proof -
  have br: "held t2 = held t"
    if "bindM (lm_acquire lm (cluster_lock job) LOCK_TTL) (\<lambda>lock_token. case lock_token of
           None \<Rightarrow> raise_domain c m d
         | Some tok \<Rightarrow> finallyM (run_job uc cancel_check job) (release_oserror lm (cluster_lock job) tok)) t = (y, t2)"
    for t t2 y c m d job
    using that lm(3) lock_manager.acquire_no [OF lm(2)]
      lock_manager.bracket [OF lm(2,3) _ release_oserror_ok run_job_frames [OF quiet]]
    by (auto simp: bindM_def lock_answers_def split: prod.splits sum.splits option.splits)
  show ?thesis
    using run lm(1) br framesD [OF lookup_job_frames [OF quiet]]
    by (auto simp: ExecuteBackupUseCase_execute_def run_simps split: prod.splits sum.splits option.splits)
qed

lemma execute_releases_lock_witness:
  "\<exists>r s'. ExecuteBackupUseCase_execute (world_execute None) world_cancel_check ''j'' (queued_world [''orders'']) = (Inr r, s') \<and>
     held_locks s' (''backup:cluster:'' @ sample_hash) = None"
proof -
  have lm: "eb_lock_manager (world_execute None) = Some world_locks" by (simp add: world_ports)
  note run = fst_run [of "ExecuteBackupUseCase_execute (world_execute None) world_cancel_check ''j''", OF sample_run]
  have "held_locks (snd (ExecuteBackupUseCase_execute (world_execute None) world_cancel_check ''j'' (queued_world [''orders'']))) =
      held_locks (queued_world [''orders''])"
    by (rule execute_releases_lock [OF lm world_lock_manager world_locks_answer world_execute_locks run])
  moreover have "held_locks (queued_world [''orders'']) (''backup:cluster:'' @ sample_hash) = None"
    by (simp add: queued_world_def start_world_def live_string_def empty_store_def)
  ultimately show ?thesis using run by metis
qed


text \<open>C18. A run that has started comes to an end. Once the job was found, its cluster locked and the
  preparation (the first save as \<open>RUNNING\<close>) has gone through, the run returns and leaves the job in a
  terminal state, whatever the engine and the messages raise, provided the ports it cannot do
  without answer: clock, repositories and Mongo metadata, and the retention manager and the release
  of the lock up to \<open>OSError\<close>.\<close>

theorem execute_completes:
  assumes contract: "backup_execution uc jobs persist clean" and answering: "answering clean uc"
    and found: "jr_get_by_id (eb_job_repository uc) i s = (Inr (Some job), s1)"
    and locked: "eb_lock_manager uc = Some lm"
      "lm_acquire lm (''backup:cluster:'' @ bj_cluster_uri_hash job) 3600 s1 = (Inr (Some tok), s2)"
    and prepared: "run_prepare uc job s2 = (Inr (j, out), s3)"
    and check: "check_keeps (\<lambda>s. jobs s i \<noteq> None) cancel_check" "\<And>c. cancel_check = Some c \<Longrightarrow> total c"
  shows "\<exists>r s' k. ExecuteBackupUseCase_execute uc cancel_check i s = (Inr r, s') \<and>
     jobs s' i = Some k \<and> bj_status k = ebr_status r \<and> bj_completed_at k \<noteq> None \<and>
     bj_status k \<in> {JobStatus.SUCCESS, JobStatus.FAILED, PARTIAL_SUCCESS, CANCELLED}"
proof -
  have cc: "check_keeps (backup_execution.stored jobs i) cancel_check"
    using check(1) by (simp add: backup_execution.stored_eq [OF contract])
  have acq: "lm_acquire lm (cluster_lock job) LOCK_TTL s1 = (Inr (Some tok), s2)"
    using locked(2) by (simp add: cluster_lock_def CLUSTER_LOCK_PREFIX_def LOCK_TTL_def)
  obtain r s' where run: "ExecuteBackupUseCase_execute uc cancel_check i s = (Inr r, s')"
    using backup_execution.execute_answers [OF contract answering found locked(1) acq prepared cc check(2)]
    by (auto simp: returns_def)
  from tripleD [OF backup_execution.execute_triple [OF contract cc] TrueI run]
  obtain k results out n where "jobs s' i = Some k" "run_reported i out n r k results"
    by (auto simp: backup_execution.run_stored_def [OF contract])
  with run show ?thesis by (auto simp: run_reported_def)
qed

text \<open>The world's ports answer; a retention manager that does nothing stands for the policy.\<close>

definition idle_retention :: "world IRetentionManager" where
  "idle_retention = \<lparr>rm_apply_policy = returnM no_deletion,
     rm_get_storage_stats = raiseM (OSError ''unused'')\<rparr>"

definition quiet_execute :: "world ExecuteBackupUseCase" where
  "quiet_execute = (world_execute None)\<lparr>eb_retention_manager := idle_retention\<rparr>"

lemma quiet_contract:
  "backup_execution quiet_execute stored_jobs (\<lambda>w. persisted (job_rows w)) (\<lambda>w. clean_rows (job_rows w))"
proof -
  note w = wexecute.rows_kept [of _ None] wexecute.lock_rows [of None] wexecute.quiet_end [of _ None]
    wexecute.quiet_release [of None] wexecute.engine_valid [of None] wexecute.engine_named [of None] wexecute.base_path [of None]
  show ?thesis
    using w wexecute.job_repository_axioms [of None]
    by (auto intro!: backup_execution.intro backup_execution_axioms.intro
        simp: quiet_execute_def idle_retention_def execute_keeps_def outcome_keeps_def keeps_returnM)
qed

lemma world_save_answers: "clean_rows (job_rows w) (bj_id j) \<Longrightarrow> returns (jr_save world_jobs j) w"
  by (auto simp: returns_def world_jobs_def SQLJobRepository_def SQLJobRepository_save_def exec_world bindM_run
      clean_rows_def rows_of_def job_of_rows_def split: list.splits option.split)

lemma quiet_answering: "answering (\<lambda>w. clean_rows (job_rows w)) quiet_execute"
proof -
  have clock: "total (rt_now world_runtime)" "total (rt_monotonic world_runtime)"
    by (simp_all add: total_def returns_def world_runtime_def)
  have audit: "total (ar_log world_audit e)" for e
    by (simp add: total_def returns_def world_audit_def SQLAuditRepository_def SQLAuditRepository_log_def exec_world)
  have meta: "total (mm_list_databases world_mongo h)" "total (mm_list_collections world_mongo h d)"
    "mm_list_databases world_mongo h s = (Inr ds, s') \<Longrightarrow> [] \<notin> set ds"
    "mm_list_collections world_mongo h d s = (Inr cs, s') \<Longrightarrow> [] \<notin> set cs" for h d s s' ds cs
    by (auto simp: total_def returns_def world_mongo_def MongoMetadataAdapter_list_databases_def
        MongoMetadataAdapter_list_collections_def catalog_adapter_def catalog_client_def catalog_names_def run_simps
        split: option.splits prod.splits)
  have unlock: "os_total (lm_release world_locks r tok)" for r tok
    by (auto simp: os_total_def world_locks_def RedisLockManager_def RedisLockManager_release_def RELEASE_SCRIPT_def
        exec_world run_simps split: prod.splits sum.splits if_splits)
  show ?thesis
    using clock audit meta unlock world_save_answers
    by (auto simp: answering_def quiet_execute_def world_ports idle_retention_def os_total_def)
qed

lemma quiet_start:
  "\<exists>job s1 tok s2 j out s3.
     jr_get_by_id (eb_job_repository quiet_execute) ''j'' (queued_world [''orders'', ''logs'']) = (Inr (Some job), s1) \<and>
     lm_acquire world_locks (''backup:cluster:'' @ bj_cluster_uri_hash job) 3600 s1 = (Inr (Some tok), s2) \<and>
     run_prepare quiet_execute job s2 = (Inr (j, out), s3)"
  by (simp add: quiet_execute_def run_defs cong: exec_cong)

lemma execute_completes_witness:
  "\<exists>r s' k. ExecuteBackupUseCase_execute quiet_execute None ''j'' (queued_world [''orders'', ''logs'']) = (Inr r, s') \<and>
     stored_jobs s' ''j'' = Some k \<and> bj_status k = ebr_status r"
proof -
  have lm: "eb_lock_manager quiet_execute = Some world_locks" by (simp add: quiet_execute_def world_ports)
  have cc: "check_keeps I None" for I :: "world \<Rightarrow> bool" by (simp add: check_keeps_def)
  show ?thesis
    using quiet_start execute_completes [OF quiet_contract quiet_answering _ lm _ _ cc] by blast
qed

text \<open>C20. A run that fails between its first save and its last leaves the job \<open>RUNNING\<close>: when the
  databases or collections of the cluster cannot be listed, the exception goes to the worker, and
  the stored job keeps the status \<open>RUNNING\<close>; it may still be cancelled, but not run again.\<close>

theorem execute_stuck_running:
  assumes contract: "backup_execution uc jobs persist clean"
    and found: "jr_get_by_id (eb_job_repository uc) i s = (Inr (Some job), s1)"
    and locked: "eb_lock_manager uc = Some lm"
      "lm_acquire lm (''backup:cluster:'' @ bj_cluster_uri_hash job) 3600 s1 = (Inr (Some tok), s2)"
    and prepared: "run_prepare uc job s2 = (Inr (j, out), s3)"
    and unlisted: "resolve_targets uc j s3 = (Inl e, s4)" "jobs s4 = jobs s3"
  shows "\<exists>e' s' k. ExecuteBackupUseCase_execute uc cancel_check i s = (Inl e', s') \<and>
     jobs s' i = Some k \<and> bj_status k = JobStatus.RUNNING"
proof -
  have acq: "lm_acquire lm (cluster_lock job) LOCK_TTL s1 = (Inr (Some tok), s2)"
    using locked(2) by (simp add: cluster_lock_def CLUSTER_LOCK_PREFIX_def LOCK_TTL_def)
  show ?thesis by (rule backup_execution.execute_unlisted [OF contract found locked(1) acq prepared unlisted])
qed

text \<open>C29. A second run on a cluster is refused, and nothing else happens. While the lock of the cluster is held
  by another run, \<open>execute\<close> raises \<open>JobAlreadyRunningError\<close> in the state in which \<open>acquire\<close> left it: whatever
  looking up the job and asking for the lock do not change (the job table, the dumps, the audit log, the
  messages of the world) is as before, so the job keeps the status it had.\<close>

theorem second_run_refused:
  assumes lm: "eb_lock_manager uc = Some lm" "lock_manager lm held"
    and found: "jr_get_by_id (eb_job_repository uc) i s = (Inr (Some job), s1)"
    and taken: "held s1 (''backup:cluster:'' @ bj_cluster_uri_hash job) = Some tok"
    and answers: "returns (lm_acquire lm (''backup:cluster:'' @ bj_cluster_uri_hash job) 3600) s1"
    and apart: "frames view (jr_get_by_id (eb_job_repository uc) i)"
      "frames view (lm_acquire lm (''backup:cluster:'' @ bj_cluster_uri_hash job) 3600)"
  shows "\<exists>s'. ExecuteBackupUseCase_execute uc cancel_check i s =
       (Inl (DomainExn JobAlreadyRunningError ''Another backup is already running for this cluster''
          [(''job_id'', PStr i), (''cluster_hash'', PStr (bj_cluster_uri_hash job))]), s') \<and>
     held s' = held s1 \<and> view s' = view s"
proof -
  have r: "cluster_lock job = ''backup:cluster:'' @ bj_cluster_uri_hash job" "LOCK_TTL = 3600"
    by (simp_all add: cluster_lock_def CLUSTER_LOCK_PREFIX_def LOCK_TTL_def)
  have look: "lookup_job uc i MAX_LOOKUP_RETRIES s = (Inr (Some job), s1)"
    using found by (simp add: MAX_LOOKUP_RETRIES_def numeral_eq_Suc bindM_run returnM_def)
  obtain t s' where acq: "lm_acquire lm (cluster_lock job) LOCK_TTL s1 = (Inr t, s')"
    using answers by (auto simp: r returns_def)
  from lock_manager.acquire_excluded [OF lm(2) _ acq] taken
  have "t = None" "held s' = held s1" by (auto simp: r)
  moreover have "view s' = view s"
    using framesD [OF apart(1) found] framesD [OF apart(2)] acq by (simp add: r)
  ultimately show ?thesis
    using look acq lm(1) by (simp add: ExecuteBackupUseCase_execute_def bindM_run raise_domain_def raiseM_def)
qed

text \<open>The world in which another run has just taken the lock of the cluster.\<close>

definition busy_world :: world where
  "busy_world = snd (lm_acquire world_locks (''backup:cluster:'' @ sample_hash) 3600 (queued_world [''orders'']))"

lemma busy_start:
  "\<exists>tok. held_locks busy_world (''backup:cluster:'' @ sample_hash) = Some tok" (is ?held)
  "returns (lm_acquire world_locks (''backup:cluster:'' @ sample_hash) 3600) busy_world" (is ?answers)
proof -
  let ?acq = "lm_acquire world_locks (''backup:cluster:'' @ sample_hash) 3600"
  have "\<exists>tok s'. ?acq (queued_world [''orders'']) = (Inr (Some tok), s')"
    by (simp add: run_world exec_defs cong: exec_cong)
  then obtain tok where acq: "?acq (queued_world [''orders'']) = (Inr (Some tok), busy_world)"
    by (auto simp: busy_world_def)
  then show ?held using lock_manager.acquire_ok [OF world_lock_manager acq] by simp
  show ?answers
    by (auto simp: returns_def run_world exec_defs cong: exec_cong split: option.split)
qed

lemma busy_job:
  "\<exists>j. jr_get_by_id world_jobs ''j'' busy_world = (Inr (Some j), busy_world) \<and>
     stored_jobs busy_world ''j'' = Some j \<and> bj_status j = QUEUED \<and> bj_cluster_uri_hash j = sample_hash"
proof -
  have "w_jobs busy_world = w_jobs (queued_world [''orders''])"
    using redis_frames_world(1) [of w_jobs] by (simp add: busy_world_def frames_def)
  then show ?thesis by (simp add: run_world exec_defs rows_of_def job_of_rows_def cong: exec_cong)
qed

lemma second_run_refused_witness:
  "\<exists>e s' k. ExecuteBackupUseCase_execute (world_execute None) world_cancel_check ''j'' busy_world = (Inl e, s') \<and>
     stored_jobs s' ''j'' = Some k \<and> bj_status k = QUEUED \<and> w_dump s' = w_dump busy_world"
proof -
  let ?view = "\<lambda>w. (stored_jobs w, w_dump w)"
  obtain j where j: "jr_get_by_id (eb_job_repository (world_execute None)) ''j'' busy_world = (Inr (Some j), busy_world)"
    "stored_jobs busy_world ''j'' = Some j" "bj_status j = QUEUED" "bj_cluster_uri_hash j = sample_hash"
    using busy_job by (auto simp: world_ports)
  have get: "frames ?view (jr_get_by_id (eb_job_repository (world_execute None)) ''j'')"
    by (auto simp: world_ports frames_def exec_world SQLJobRepository_def SQLJobRepository_get_by_id_def bindM_run
        split: sum.split option.split)
  have acq: "frames ?view (lm_acquire world_locks r n)" for r n
    by (rule redis_frames_world) simp
  have lm: "eb_lock_manager (world_execute None) = Some world_locks" by (simp add: world_ports)
  obtain tok where tok: "held_locks busy_world (''backup:cluster:'' @ bj_cluster_uri_hash j) = Some tok"
    using busy_start(1) j(4) by auto
  show ?thesis
    using second_run_refused [OF lm world_lock_manager j(1) tok _ get acq] busy_start(2) j(2-) by fastforce
qed

text \<open>The metadata adapter before its connection was opened.\<close>

definition closed_mongo :: "world IMongoMetadata" where
  "closed_mongo = MongoMetadataAdapter \<lparr>ma_client = raiseM (RuntimeError ''MongoConnection not started''),
     ma_stat_timeout = 15000, ma_runtime = world_runtime\<rparr>"

definition closed_execute :: "world ExecuteBackupUseCase" where
  "closed_execute = (world_execute None)\<lparr>eb_mongo_metadata := closed_mongo\<rparr>"

definition full_world :: world where
  "full_world = start_world\<lparr>w_jobs := \<lparr>rf_rows = [(queued_row [])\<lparr>jo_backup_type := ''FULL'',
     jo_target_databases := None, jo_target_collections := None\<rparr>], rf_next = 1\<rparr>\<rparr>"

lemma closed_contract:
  "backup_execution closed_execute stored_jobs (\<lambda>w. persisted (job_rows w)) (\<lambda>w. clean_rows (job_rows w))"
proof -
  note w = wexecute.rows_kept [of _ None] wexecute.lock_rows [of None] wexecute.quiet_end [of _ None]
    wexecute.quiet_release [of None] wexecute.engine_valid [of None] wexecute.engine_named [of None] wexecute.base_path [of None]
  have m: "keeps I (mm_list_databases closed_mongo h)" "keeps I (mm_list_collections closed_mongo h d)" for I h d
    by (simp_all add: closed_mongo_def MongoMetadataAdapter_def MongoMetadataAdapter_list_databases_def
        MongoMetadataAdapter_list_collections_def keeps_def run_simps)
  show ?thesis
    using w wexecute.job_repository_axioms [of None] m
    by (auto intro!: backup_execution.intro backup_execution_axioms.intro
        simp: closed_execute_def execute_keeps_def outcome_keeps_def)
qed

lemma closed_start:
  "\<exists>job s1 tok s2 j out s3 e s4.
     jr_get_by_id (eb_job_repository closed_execute) ''j'' full_world = (Inr (Some job), s1) \<and>
     lm_acquire world_locks (''backup:cluster:'' @ bj_cluster_uri_hash job) 3600 s1 = (Inr (Some tok), s2) \<and>
     run_prepare closed_execute job s2 = (Inr (j, out), s3) \<and>
     resolve_targets closed_execute j s3 = (Inl e, s4) \<and> stored_jobs s4 = stored_jobs s3"
  by (simp add: closed_execute_def closed_mongo_def MongoMetadataAdapter_def MongoMetadataAdapter_list_databases_def
      full_world_def run_defs cong: exec_cong)

lemma execute_stuck_running_witness:
  "\<exists>e' s' k. ExecuteBackupUseCase_execute closed_execute world_cancel_check ''j'' full_world = (Inl e', s') \<and>
     stored_jobs s' ''j'' = Some k \<and> bj_status k = JobStatus.RUNNING"
proof -
  have lm: "eb_lock_manager closed_execute = Some world_locks" by (simp add: closed_execute_def world_ports)
  show ?thesis
    using closed_start execute_stuck_running [OF closed_contract _ lm] by blast
qed

end
