(* ===== verification/Queries.thy ===== *)
theory Queries
  imports Execution
begin

text \<open>
  The remaining use cases of \<^verbatim>\<open>app/application/use_cases\<close>: adding a user, listing jobs and users, the
  details of a job, size queries with \<^verbatim>\<open>size_query_service.py\<close>, health and metrics, with their DTOs
  of \<^verbatim>\<open>app/application/dtos.py\<close>.
\<close>

text \<open>Python's \<open>xs[a:b]\<close>: a negative index counts from the end, one out of range is clipped.\<close>

definition slice_index :: "nat \<Rightarrow> int \<Rightarrow> nat" where
  "slice_index n i = nat (if i < 0 then max 0 (i + int n) else min i (int n))"

definition py_slice :: "int \<Rightarrow> int \<Rightarrow> 'a list \<Rightarrow> 'a list" where
  "py_slice a b xs =
     (let start = slice_index (length xs) a; stop = slice_index (length xs) b in take (stop - start) (drop start xs))"

section \<open>Adding a user\<close>

record AddUserDto =
  aud_requester :: UserPrincipalDto
  aud_telegram_id :: int
  aud_username :: string
  aud_role :: UserRole
  aud_topic :: string
  aud_command :: "string option"

definition valid_AddUserDto :: "AddUserDto \<Rightarrow> bool" where
  "valid_AddUserDto d \<longleftrightarrow>
     valid_UserPrincipalDto (aud_requester d) \<and> 0 < aud_telegram_id d \<and>
     aud_telegram_id d \<le> 9223372036854775807 \<and> aud_username d \<noteq> [] \<and> length (aud_username d) \<le> 32 \<and>
     list_all (\<lambda>c. c \<notin> set ''<>&'') (aud_username d)"

record AddUserResult =
  aur_telegram_id :: int
  aur_username :: string
  aur_role :: UserRole
  aur_is_new :: bool

record 's AddUserUseCase =
  au_user_repository :: "'s IUserRepository"
  au_permission_service :: PermissionService
  au_audit_repository :: "'s IAuditRepository" \<comment> \<open>inside the audit service\<close>
  au_runtime :: "'s Runtime"

definition AddUserUseCase_execute :: "'s AddUserUseCase \<Rightarrow> AddUserDto \<Rightarrow> ('s, AddUserResult) M" where
  "AddUserUseCase_execute uc dto =
     bindM (liftE (user_of_principal (aud_requester dto))) (\<lambda>requester.
     thenM (whenM (\<not> PermissionService_can_execute (au_permission_service uc) requester ''MANAGE_USERS'' (aud_topic dto))
              (raise_domain DomainPermissionError ''Only ADMIN can add users to the whitelist''
                 [(''requester_id'', PInt (up_telegram_id (aud_requester dto)))]))
    (bindM (ur_get_by_telegram_id (au_user_repository uc) (aud_telegram_id dto)) (\<lambda>existing.
     thenM (whenM (existing \<noteq> None)
              (raise_domain UserAlreadyExistsError
                 (''User with telegram_id '' @ str_int (aud_telegram_id dto) @ '' already exists'')
                 [(''telegram_id'', PInt (aud_telegram_id dto))]))
    (bindM (rt_now (au_runtime uc)) (\<lambda>t.
     bindM (liftE (mk_User (aud_telegram_id dto) (Some (aud_username dto)) (aud_role dto) True t)) (\<lambda>user.
     thenM (ur_save (au_user_repository uc) user)
    (thenM (AuditService_log_action (au_runtime uc) (au_audit_repository uc) ''USER_ADDED''
              (up_telegram_id (aud_requester dto)) (aud_topic dto) (aud_command dto) ''SUCCESS'' None None
              (Some [(''target_telegram_id'', PInt (aud_telegram_id dto)), (''target_username'', PStr (aud_username dto)),
                     (''target_role'', PStr (role_value (aud_role dto)))]))
           (returnM \<lparr>aur_telegram_id = aud_telegram_id dto, aur_username = aud_username dto,
                     aur_role = aud_role dto, aur_is_new = True\<rparr>))))))))"

section \<open>Jobs\<close>

record QueryJobsDto =
  qjd_user :: UserPrincipalDto
  qjd_filter_status :: "JobStatus option"
  qjd_page :: int
  qjd_page_size :: int
  qjd_topic :: string
  qjd_command :: "string option"

definition valid_page :: "int \<Rightarrow> int \<Rightarrow> bool" where
  "valid_page page page_size \<longleftrightarrow> 1 \<le> page \<and> 1 \<le> page_size \<and> page_size \<le> 50"

definition valid_QueryJobsDto :: "QueryJobsDto \<Rightarrow> bool" where
  "valid_QueryJobsDto d \<longleftrightarrow> valid_UserPrincipalDto (qjd_user d) \<and> valid_page (qjd_page d) (qjd_page_size d)"

record QueryJobsResult =
  qjr_jobs :: "BackupJob list"
  qjr_page :: int
  qjr_page_size :: int

definition page_context :: "int \<Rightarrow> int \<Rightarrow> nat \<Rightarrow> pydict" where
  "page_context page page_size n =
     [(''page'', PInt page), (''page_size'', PInt page_size), (''count'', PInt (int n))]"

definition QueryJobsUseCase_execute ::
  "'s Runtime \<Rightarrow> 's IAuditRepository \<Rightarrow> 's IJobRepository \<Rightarrow> QueryJobsDto \<Rightarrow> ('s, QueryJobsResult) M" where
  "QueryJobsUseCase_execute rt ar jr dto =
     bindM (if up_role (qjd_user dto) = UserRole.ADMIN
            then jr_list_by_status jr (qjd_filter_status dto) (qjd_page dto) (qjd_page_size dto)
            else jr_list_by_user jr (up_telegram_id (qjd_user dto)) (qjd_filter_status dto)
                   (qjd_page dto) (qjd_page_size dto)) (\<lambda>jobs.
     thenM (AuditService_log_action rt ar ''LIST_JOBS'' (up_telegram_id (qjd_user dto)) (qjd_topic dto)
              (qjd_command dto) ''SUCCESS'' None None
              (Some (page_context (qjd_page dto) (qjd_page_size dto) (length jobs))))
           (returnM \<lparr>qjr_jobs = jobs, qjr_page = qjd_page dto, qjr_page_size = qjd_page_size dto\<rparr>))"

record GetJobDetailDto =
  gjd_user :: UserPrincipalDto
  gjd_job_id :: string
  gjd_topic :: string
  gjd_command :: "string option"

definition valid_GetJobDetailDto :: "GetJobDetailDto \<Rightarrow> bool" where
  "valid_GetJobDetailDto d \<longleftrightarrow> valid_UserPrincipalDto (gjd_user d) \<and> gjd_job_id d \<noteq> []"

record GetJobDetailResult =
  gjr_job :: BackupJob

definition GetJobDetailUseCase_execute ::
  "'s Runtime \<Rightarrow> 's IAuditRepository \<Rightarrow> 's IJobRepository \<Rightarrow> GetJobDetailDto \<Rightarrow> ('s, GetJobDetailResult) M" where
  "GetJobDetailUseCase_execute rt ar jr dto =
     bindM (jr_get_by_id jr (gjd_job_id dto)) (\<lambda>found.
     case found of
       None \<Rightarrow> raise_domain JobNotFoundError (''Job '' @ gjd_job_id dto @ '' not found'')
                 [(''job_id'', PStr (gjd_job_id dto))]
     | Some job \<Rightarrow>
         thenM (whenM (\<not> UserPrincipalDto_has_role (gjd_user dto) UserRole.ADMIN \<and>
                       up_telegram_id (gjd_user dto) \<noteq> bj_requester_telegram_id job)
                  (raise_domain DomainPermissionError ''No tienes permiso para ver este job.''
                     [(''job_id'', PStr (gjd_job_id dto)), (''user_id'', PInt (up_telegram_id (gjd_user dto)))]))
        (thenM (AuditService_log_action rt ar ''GET_JOB_DETAIL'' (up_telegram_id (gjd_user dto)) (gjd_topic dto)
                  (gjd_command dto) ''SUCCESS'' None None
                  (Some [(''job_id'', PStr (bj_id job)), (''status'', PStr (status_value (bj_status job)))]))
               (returnM \<lparr>gjr_job = job\<rparr>)))"

section \<open>Users\<close>

record QueryUsersDto =
  qud_user :: UserPrincipalDto
  qud_page :: int
  qud_page_size :: int
  qud_topic :: string
  qud_command :: "string option"

record QueryUsersResult =
  qur_users :: "UserPrincipalDto list"
  qur_page :: int
  qur_page_size :: int
  qur_total :: int

definition valid_QueryUsersDto :: "QueryUsersDto \<Rightarrow> bool" where
  "valid_QueryUsersDto d \<longleftrightarrow> valid_UserPrincipalDto (qud_user d) \<and> valid_page (qud_page d) (qud_page_size d)"

definition principal_of_user :: "User \<Rightarrow> exn + UserPrincipalDto" where
  "principal_of_user u = validated valid_UserPrincipalDto ''UserPrincipalDto''
     \<lparr>up_telegram_id = u_telegram_id u, up_username = u_username u, up_role = u_role u, up_is_active = u_is_active u\<rparr>"

definition QueryUsersUseCase_execute ::
  "'s Runtime \<Rightarrow> 's IAuditRepository \<Rightarrow> 's IUserRepository \<Rightarrow> QueryUsersDto \<Rightarrow> ('s, QueryUsersResult) M" where
  "QueryUsersUseCase_execute rt ar ur dto =
     bindM (ur_list_all ur (qud_page dto) (qud_page_size dto)) (\<lambda>users.
     bindM (ur_count_all ur) (\<lambda>n_total.
     thenM (AuditService_log_action rt ar ''LIST_USERS'' (up_telegram_id (qud_user dto)) (qud_topic dto)
              (qud_command dto) ''SUCCESS'' None None
              (Some (page_context (qud_page dto) (qud_page_size dto) (length users))))
    (bindM (liftE (map_sum_list principal_of_user users)) (\<lambda>principals.
     returnM \<lparr>qur_users = principals, qur_page = qud_page dto, qur_page_size = qud_page_size dto,
              qur_total = n_total\<rparr>))))"

section \<open>Sizes\<close>

definition SizeQueryService_get_cluster_size :: "'s IMongoMetadata \<Rightarrow> string \<Rightarrow> ('s, SizeReport) M" where
  "SizeQueryService_get_cluster_size mm h = mm_get_size_stats mm h"

definition SizeQueryService_get_database_sizes :: "'s IMongoMetadata \<Rightarrow> string \<Rightarrow> ('s, DatabaseSize list) M" where
  "SizeQueryService_get_database_sizes mm h =
     bindM (mm_get_size_stats mm h) (\<lambda>report. returnM (sr_databases report))"

definition SizeQueryService_get_collection_sizes ::
  "'s IMongoMetadata \<Rightarrow> string \<Rightarrow> string option \<Rightarrow> int \<Rightarrow> int \<Rightarrow> ('s, CollectionSize list) M" where
  "SizeQueryService_get_collection_sizes mm h database page page_size =
     bindM (mm_get_size_stats mm h) (\<lambda>report.
     let collections = sr_collections report;
         collections = (if truthy database then filter (\<lambda>c. cs_database c = the database) collections else collections);
         start = (page - 1) * page_size in
     returnM (py_slice start (start + page_size) collections))"

record QuerySizeDto =
  qsd_user :: UserPrincipalDto
  qsd_scope :: string
  qsd_cluster_uri_hash :: string
  qsd_database_name :: "string option"
  qsd_page :: int
  qsd_page_size :: int
  qsd_topic :: string
  qsd_command :: "string option"

definition valid_QuerySizeDto :: "QuerySizeDto \<Rightarrow> bool" where
  "valid_QuerySizeDto d \<longleftrightarrow>
     valid_UserPrincipalDto (qsd_user d) \<and> qsd_scope d \<in> {''cluster'', ''database'', ''collection''} \<and>
     is_sha256_hex (qsd_cluster_uri_hash d) \<and> valid_page (qsd_page d) (qsd_page_size d)"

record QuerySizeResult =
  qsr_scope :: string
  qsr_cluster_uri_hash :: string
  qsr_database_name :: "string option"
  qsr_total_size_bytes :: int
  qsr_databases :: "DatabaseSize list option"
  qsr_collections :: "CollectionSize list option"

text \<open>Pydantic takes the nested models as they are: they were validated when they were built.\<close>

definition mk_QuerySizeResult ::
  "string \<Rightarrow> string \<Rightarrow> string option \<Rightarrow> int \<Rightarrow> DatabaseSize list option \<Rightarrow> CollectionSize list option \<Rightarrow>
   exn + QuerySizeResult" where
  "mk_QuerySizeResult scope h database n_total dbs cols =
     validated (\<lambda>r. is_sha256_hex (qsr_cluster_uri_hash r)) ''QuerySizeResult''
       \<lparr>qsr_scope = scope, qsr_cluster_uri_hash = h, qsr_database_name = database,
        qsr_total_size_bytes = n_total, qsr_databases = dbs, qsr_collections = cols\<rparr>"

record 's QuerySizeUseCase =
  qs_mongo_metadata :: "'s IMongoMetadata" \<comment> \<open>inside the size query service\<close>
  qs_audit_repository :: "'s IAuditRepository"
  qs_lock_manager :: "'s ILockManager option"
  qs_runtime :: "'s Runtime"

definition SIZE_LOCK :: string where "SIZE_LOCK = ''size_query:global''"
definition SIZE_LOCK_TTL :: int where "SIZE_LOCK_TTL = 300"

definition query_cluster :: "'s QuerySizeUseCase \<Rightarrow> QuerySizeDto \<Rightarrow> ('s, QuerySizeResult) M" where
  "query_cluster uc dto =
     bindM (SizeQueryService_get_cluster_size (qs_mongo_metadata uc) (qsd_cluster_uri_hash dto)) (\<lambda>report.
     liftE (mk_QuerySizeResult ''cluster'' (qsd_cluster_uri_hash dto) None (SizeReport_total_size_bytes report)
              (Some (sr_databases report)) (Some (sr_collections report))))"

definition query_databases :: "'s QuerySizeUseCase \<Rightarrow> QuerySizeDto \<Rightarrow> ('s, QuerySizeResult) M" where
  "query_databases uc dto =
     bindM (SizeQueryService_get_database_sizes (qs_mongo_metadata uc) (qsd_cluster_uri_hash dto)) (\<lambda>dbs.
     liftE (mk_QuerySizeResult ''database'' (qsd_cluster_uri_hash dto) None (sum_list (map ds_size_bytes dbs))
              (Some dbs) None))"

definition query_collections :: "'s QuerySizeUseCase \<Rightarrow> QuerySizeDto \<Rightarrow> ('s, QuerySizeResult) M" where
  "query_collections uc dto =
     bindM (SizeQueryService_get_collection_sizes (qs_mongo_metadata uc) (qsd_cluster_uri_hash dto)
              (qsd_database_name dto) (qsd_page dto) (qsd_page_size dto)) (\<lambda>cols.
     liftE (mk_QuerySizeResult ''collection'' (qsd_cluster_uri_hash dto) (qsd_database_name dto)
              (sum_list (map cs_size_bytes cols)) None (Some cols)))"

text \<open>The body of the \<open>try\<close>.\<close>

definition query_size_body :: "'s QuerySizeUseCase \<Rightarrow> QuerySizeDto \<Rightarrow> ('s, QuerySizeResult) M" where
  "query_size_body uc dto =
     (let scope = lower (qsd_scope dto) in
      bindM (if scope = ''cluster'' then query_cluster uc dto
             else if scope = ''database'' then query_databases uc dto
             else query_collections uc dto) (\<lambda>result.
      thenM (AuditService_log_action (qs_runtime uc) (qs_audit_repository uc) ''SIZE_QUERIED''
               (up_telegram_id (qsd_user dto)) (qsd_topic dto) (qsd_command dto) ''SUCCESS'' None None
               (Some [(''scope'', PStr scope), (''cluster_uri_hash'', PStr (qsd_cluster_uri_hash dto)),
                      (''database_name'', opt_str (qsd_database_name dto)),
                      (''total_size_bytes'', PInt (qsr_total_size_bytes result))]))
            (returnM result)))"

definition QuerySizeUseCase_execute :: "'s QuerySizeUseCase \<Rightarrow> QuerySizeDto \<Rightarrow> ('s, QuerySizeResult) M" where
  "QuerySizeUseCase_execute uc dto =
     thenM (whenM (\<not> up_is_active (qsd_user dto))
              (raise_domain DomainPermissionError ''User is not authorised to query sizes''
                 [(''user_id'', PInt (up_telegram_id (qsd_user dto))), (''topic'', PStr (qsd_topic dto))]))
    (case qs_lock_manager uc of
       None \<Rightarrow> query_size_body uc dto
     | Some lm \<Rightarrow>
         bindM (lm_acquire lm SIZE_LOCK SIZE_LOCK_TTL) (\<lambda>lock_token.
         case lock_token of
           None \<Rightarrow> raise_domain BackupEngineError ''A size query is already in progress. Please wait and retry.''
                     [(''user_id'', PInt (up_telegram_id (qsd_user dto)))]
         | Some tok \<Rightarrow> finallyM (query_size_body uc dto) (release_suppressed lm SIZE_LOCK tok)))"

section \<open>Health and metrics\<close>

record HealthCheckDto =
  hcd_user :: UserPrincipalDto
  hcd_topic :: string
  hcd_command :: "string option"

definition valid_HealthCheckDto :: "HealthCheckDto \<Rightarrow> bool" where
  "valid_HealthCheckDto d \<longleftrightarrow> valid_UserPrincipalDto (hcd_user d)"

record HealthCheckResult =
  hcr_mongodb :: bool
  hcr_redis :: bool
  hcr_disk_free_bytes :: int
  hcr_disk_total_bytes :: int
  hcr_running_jobs :: int

record 's HealthCheckUseCase =
  hc_mongo_health :: "'s IHealth option"
  hc_redis_health :: "'s IHealth option"
  hc_fs_utils :: "'s IFsUtils"
  hc_backup_base_path :: path
  hc_job_repository :: "'s IJobRepository option"

definition ping_health :: "'s IHealth option \<Rightarrow> ('s, bool) M" where
  "ping_health h = (case h of None \<Rightarrow> returnM False | Some p \<Rightarrow> hp_ping p)"

definition count_running_jobs :: "'s HealthCheckUseCase \<Rightarrow> ('s, int) M" where
  "count_running_jobs uc = (case hc_job_repository uc of
     None \<Rightarrow> returnM 0 | Some jr \<Rightarrow> jr_count_by_status jr JobStatus.RUNNING)"

definition HealthCheckUseCase_execute :: "'s HealthCheckUseCase \<Rightarrow> HealthCheckDto \<Rightarrow> ('s, HealthCheckResult) M" where
  "HealthCheckUseCase_execute uc dto =
     bindM (ping_health (hc_mongo_health uc)) (\<lambda>mongo_ok.
     bindM (ping_health (hc_redis_health uc)) (\<lambda>redis_ok.
     bindM (fs_get_disk_usage (hc_fs_utils uc) (hc_backup_base_path uc)) (\<lambda>(total_bytes, _, free_bytes).
     bindM (count_running_jobs uc) (\<lambda>running.
     returnM \<lparr>hcr_mongodb = mongo_ok, hcr_redis = redis_ok, hcr_disk_free_bytes = free_bytes,
              hcr_disk_total_bytes = total_bytes, hcr_running_jobs = running\<rparr>))))"

record QueryMetricsDto =
  qmd_user :: UserPrincipalDto
  qmd_topic :: string
  qmd_command :: "string option"

definition valid_QueryMetricsDto :: "QueryMetricsDto \<Rightarrow> bool" where
  "valid_QueryMetricsDto d \<longleftrightarrow> valid_UserPrincipalDto (qmd_user d)"

record QueryMetricsResult =
  qmr_jobs_today :: int
  qmr_jobs_week :: int
  qmr_jobs_month :: int
  qmr_success_rate_percent :: int
  qmr_avg_duration_seconds :: "int option"
  qmr_storage_bytes :: int

record 's QueryMetricsUseCase =
  qm_job_repository :: "'s IJobRepository"
  qm_fs_utils :: "'s IFsUtils"
  qm_backup_base_path :: path

definition QueryMetricsUseCase_execute :: "'s QueryMetricsUseCase \<Rightarrow> QueryMetricsDto \<Rightarrow> ('s, QueryMetricsResult) M" where
  "QueryMetricsUseCase_execute uc dto =
     bindM (jr_get_job_stats (qm_job_repository uc)) (\<lambda>stats.
     bindM (fs_get_folder_size (qm_fs_utils uc) (qm_backup_base_path uc)) (\<lambda>storage.
     returnM \<lparr>qmr_jobs_today = st_jobs_today stats, qmr_jobs_week = st_jobs_week stats,
              qmr_jobs_month = st_jobs_month stats, qmr_success_rate_percent = st_success_rate_percent stats,
              qmr_avg_duration_seconds = st_avg_duration_seconds stats, qmr_storage_bytes = storage\<rparr>))"

section \<open>Properties\<close>

text \<open>C32. Adding a user, over any SQL session: a requester whom the access rules refuse gets
  \<open>DomainPermissionError\<close> and nothing has happened; a call that returns found no row under the new
  identifier and leaves exactly that user added, active, with the given name and role; no other
  call, an existing identifier included, changes any other user.\<close>

theorem add_user_outcome:
  assumes ses: "sql_session ses rows" and repo: "au_user_repository uc = SQLUserRepository ses"
    and quiet: "runtime_frames rows (au_runtime uc)" "audit_frames rows (au_audit_repository uc)"
    and req: "user_of_principal (aud_requester dto) = Inr requester"
    and run: "AddUserUseCase_execute uc dto s = (x, s')"
  shows "(\<not> PermissionService_can_execute (au_permission_service uc) requester ''MANAGE_USERS'' (aud_topic dto) \<longrightarrow>
      s' = s \<and> (\<exists>m d. x = Inl (DomainExn DomainPermissionError m d))) \<and>
    (\<forall>r. x = Inr r \<longrightarrow>
      PermissionService_can_execute (au_permission_service uc) requester ''MANAGE_USERS'' (aud_topic dto) \<and>
      user_rows (aud_telegram_id dto) (rows s) = [] \<and> aur_is_new r \<and> aur_telegram_id r = aud_telegram_id dto \<and>
      (\<exists>t. user_of_rows (rows s') = (user_of_rows (rows s))(aud_telegram_id dto \<mapsto>
        \<lparr>u_telegram_id = aud_telegram_id dto, u_username = Some (aud_username dto), u_role = aud_role dto,
         u_is_active = True, u_created_at = t\<rparr>))) \<and>
    (user_of_rows (rows s) (aud_telegram_id dto) \<noteq> None \<longrightarrow> (\<exists>e. x = Inl e) \<and> rows s' = rows s) \<and>
    (\<forall>k. k \<noteq> aud_telegram_id dto \<longrightarrow> user_of_rows (rows s') k = user_of_rows (rows s) k)"
proof -
  have loc: "sql_user_session ses rows" using ses by (simp add: sql_user_session_def)
  let ?can = "PermissionService_can_execute (au_permission_service uc) requester ''MANAGE_USERS'' (aud_topic dto)"
  let ?i = "aud_telegram_id dto"
  show ?thesis
  proof (cases ?can)
    case False
    then show ?thesis using run req by (auto simp: AddUserUseCase_execute_def run_simps)
  next
    case True
    obtain y s1 where y: "SQLUserRepository_get_by_telegram_id ses ?i s = (y, s1)" by force
    note g = sql_user_session.get_user_spec [OF loc y]
    show ?thesis
    proof (cases "y = Inr None")
      case False
      then have "s' = s1" "\<exists>e. x = Inl e"
        using run req True y repo
        by (auto simp: AddUserUseCase_execute_def SQLUserRepository_def run_simps split: sum.splits option.splits)
      then show ?thesis using g True by auto
    next
      case new: True
      obtain z s2 where z: "rt_now (au_runtime uc) s1 = (z, s2)" by force
      have s2: "rows s2 = rows s" using framesD [OF runtime_framesD(1) [OF quiet(1)] z] g by simp
      have nil: "user_rows ?i (rows s) = []" using g new by simp
      then have none: "user_of_rows (rows s) ?i = None" by (simp add: user_of_rows_def)
      show ?thesis
      proof (cases "\<exists>t u. z = Inr t \<and> mk_User ?i (Some (aud_username dto)) (aud_role dto) True t = Inr u")
        case False
        then have "s' = s2" "\<exists>e. x = Inl e"
          using run req True y repo new z
          by (auto simp: AddUserUseCase_execute_def SQLUserRepository_def run_simps split: sum.splits option.splits)
        then show ?thesis using s2 True none by auto
      next
        case True
        then obtain t u where u: "z = Inr t" "mk_User ?i (Some (aud_username dto)) (aud_role dto) True t = Inr u" by blast
        obtain v s3 where v: "SQLUserRepository_save ses u s2 = (v, s3)" by force
        have uf: "u = \<lparr>u_telegram_id = ?i, u_username = Some (aud_username dto), u_role = aud_role dto,
            u_is_active = True, u_created_at = t\<rparr>" "0 < ?i"
          using u(2) by (auto simp: mk_User_Inr)
        note sv = sql_user_session.save_new_user [OF loc v]
        have rest: "rows s' = rows s3 \<and> (\<forall>r. x = Inr r \<longrightarrow> v = Inr () \<and> aur_is_new r \<and> aur_telegram_id r = ?i)"
          using run req \<open>?can\<close> y repo new z u v framesD [OF log_action_frames [OF quiet]]
          by (auto simp: AddUserUseCase_execute_def SQLUserRepository_def run_simps split: sum.splits prod.splits)
        then show ?thesis using sv s2 nil none uf \<open>?can\<close> by auto
      qed
    qed
  qed
qed

definition world_add_user :: "world AddUserUseCase" where
  "world_add_user =
     \<lparr>au_user_repository = SQLUserRepository user_session, au_permission_service = default_service,
      au_audit_repository = world_audit, au_runtime = world_runtime\<rparr>"

definition sample_new_user :: AddUserDto where
  "sample_new_user =
     \<lparr>aud_requester = \<lparr>up_telegram_id = 1, up_username = None, up_role = UserRole.ADMIN, up_is_active = True\<rparr>,
      aud_telegram_id = 9, aud_username = ''ana'', aud_role = DBA, aud_topic = ''ADMIN'', aud_command = None\<rparr>"

lemma admin_may_manage:
  "PermissionService_can_execute default_service \<lparr>u_telegram_id = i, u_username = n, u_role = UserRole.ADMIN,
     u_is_active = True, u_created_at = t\<rparr> ''MANAGE_USERS'' ''ADMIN''"
  by code_simp

lemma parse_topic_admin: "parse_topic ''ADMIN'' = Inr TopicType.ADMIN"
  by code_simp

lemma sample_new_user_run:
  "fst (AddUserUseCase_execute world_add_user sample_new_user start_world) =
     Inr \<lparr>aur_telegram_id = 9, aur_username = ''ana'', aur_role = DBA, aur_is_new = True\<rparr>"
  by (simp add: exec_defs AddUserUseCase_execute_def world_add_user_def sample_new_user_def
      SQLUserRepository_def SQLUserRepository_get_by_telegram_id_def SQLUserRepository_save_def
      user_row_def user_session_def admin_may_manage parse_topic_admin cong: exec_cong)

lemma add_user_outcome_witness:
  "\<exists>s' u. AddUserUseCase_execute world_add_user sample_new_user start_world =
       (Inr \<lparr>aur_telegram_id = 9, aur_username = ''ana'', aur_role = DBA, aur_is_new = True\<rparr>, s') \<and>
     user_of_rows (rf_rows (w_users s')) 9 = Some u \<and> u_role u = DBA \<and> u_is_active u"
proof -
  have ses: "sql_session user_session (\<lambda>w. rf_rows (w_users w))"
    unfolding user_session_def by (rule zoom_sql_session [OF ref_sql.sql_session_axioms]) simp
  have q: "runtime_frames (\<lambda>w. rf_rows (w_users w)) world_runtime"
      "audit_frames (\<lambda>w. rf_rows (w_users w)) (au_audit_repository world_add_user)"
    by (auto simp: world_add_user_def intro!: runtime_frames_world audit_frames_world zoom_frames_other)
  have req: "user_of_principal (aud_requester sample_new_user) =
      Inr \<lparr>u_telegram_id = 1, u_username = None, u_role = UserRole.ADMIN, u_is_active = True, u_created_at = 0\<rparr>"
    by (simp add: sample_new_user_def user_of_principal_def mk_User_def)
  note run = fst_run [of "AddUserUseCase_execute world_add_user sample_new_user", OF sample_new_user_run]
  from add_user_outcome [OF ses _ _ q(2) req run] q(1) run show ?thesis
    by (auto simp: world_add_user_def sample_new_user_def)
qed

text \<open>The size lock is never left behind: with a lock store that answers, whatever a size query does
  and however it ends, the locks held afterwards are those held before; and while the lock is held
  by another, the query raises \<open>BackupEngineError\<close> without asking the cluster.\<close>

lemma size_query_releases_lock:
  assumes lm: "qs_lock_manager uc = Some lm" "lock_manager lm held" "lock_answers lm held"
    and quiet: "runtime_frames held (qs_runtime uc)" "audit_frames held (qs_audit_repository uc)"
      "\<And>h. frames held (mm_get_size_stats (qs_mongo_metadata uc) h)"
    and run: "QuerySizeUseCase_execute uc dto s = (x, s')"
  shows "held s' = held s \<and>
    (\<forall>s1. up_is_active (qsd_user dto) \<longrightarrow> lm_acquire lm ''size_query:global'' 300 s = (Inr None, s1) \<longrightarrow>
      s' = s1 \<and> (\<exists>m d. x = Inl (DomainExn BackupEngineError m d)))"
proof
  have body: "frames held (query_size_body uc dto)"
    unfolding query_size_body_def Let_def query_cluster_def query_databases_def query_collections_def
      SizeQueryService_get_cluster_size_def SizeQueryService_get_database_sizes_def
      SizeQueryService_get_collection_sizes_def
    by (intro frame_intros quiet)
  show "held s' = held s"
    using run lm lock_manager.acquire_no [OF lm(2)]
      lock_manager.bracket [OF lm(2,3) _ release_suppressed_ok body]
    by (auto simp: QuerySizeUseCase_execute_def run_simps lock_answers_def
        split: prod.splits sum.splits option.splits if_splits)
  show "\<forall>s1. up_is_active (qsd_user dto) \<longrightarrow> lm_acquire lm ''size_query:global'' 300 s = (Inr None, s1) \<longrightarrow>
      s' = s1 \<and> (\<exists>m d. x = Inl (DomainExn BackupEngineError m d))"
    using run lm(1)
    by (auto simp: QuerySizeUseCase_execute_def run_simps SIZE_LOCK_def SIZE_LOCK_TTL_def)
qed

definition world_size :: "world QuerySizeUseCase" where
  "world_size =
     \<lparr>qs_mongo_metadata = world_mongo, qs_audit_repository = world_audit, qs_lock_manager = Some world_locks,
      qs_runtime = world_runtime\<rparr>"

definition sample_size :: QuerySizeDto where
  "sample_size =
     \<lparr>qsd_user = \<lparr>up_telegram_id = 7, up_username = None, up_role = DBA, up_is_active = True\<rparr>, qsd_scope = ''cluster'',
      qsd_cluster_uri_hash = sample_hash, qsd_database_name = None, qsd_page = 1, qsd_page_size = 20,
      qsd_topic = ''SIZE_ASK'', qsd_command = None\<rparr>"

lemma catalog_run:
  "ma_client (catalog_adapter cat rt) s = (Inr (catalog_client cat), s)" "ma_runtime (catalog_adapter cat rt) = rt"
  "MongoMetadataAdapter_list_databases (catalog_adapter cat rt) h s =
     (Inr (sort (filter (\<lambda>d. d \<noteq> [] \<and> d \<notin> SYSTEM_DATABASES) (map fst cat))), s)"
  by (simp_all add: MongoMetadataAdapter_list_databases_def catalog_adapter_def catalog_client_def run_simps conj_commute)

lemma size_stats_frames:
  "(\<And>t w. view (w_clock_update (\<lambda>_. t) w) = view w) \<Longrightarrow> frames view (mm_get_size_stats world_mongo h)"
  by (simp add: frames_def world_mongo_def MongoMetadataAdapter_get_size_stats_def catalog_run
      catalog.collect_databases_run world_runtime_def bindM_run)

lemma parse_topic_size: "parse_topic ''SIZE_ASK'' = Inr SIZE_ASK"
  by code_simp

lemma size_query_releases_lock_witness:
  "\<exists>r s'. QuerySizeUseCase_execute world_size sample_size start_world = (Inr r, s') \<and> qsr_total_size_bytes r = 0 \<and>
     held_locks s' ''size_query:global'' = None"
proof -
  have "fst (QuerySizeUseCase_execute world_size sample_size start_world) =
      Inr \<lparr>qsr_scope = ''cluster'', qsr_cluster_uri_hash = sample_hash, qsr_database_name = None,
        qsr_total_size_bytes = 0, qsr_databases = Some [], qsr_collections = Some []\<rparr>"
    by (simp add: exec_defs QuerySizeUseCase_execute_def world_size_def sample_size_def SIZE_LOCK_def SIZE_LOCK_TTL_def
        query_size_body_def query_cluster_def SizeQueryService_get_cluster_size_def world_mongo_def lower_def lower_char_def
        MongoMetadataAdapter_get_size_stats_def MongoMetadataAdapter_list_databases_def catalog_adapter_def catalog_client_def
        mk_QuerySizeResult_def sample_hash_ok valid_SizeReport_def SizeReport_total_size_bytes_def parse_topic_size cong: exec_cong)
  note run = fst_run [of "QuerySizeUseCase_execute world_size sample_size", OF this]
  have "qs_lock_manager world_size = Some world_locks" by (simp add: world_size_def)
  note k = size_query_releases_lock [OF this world_lock_manager world_locks_answer _ _ _ run]
  have "held_locks (snd (QuerySizeUseCase_execute world_size sample_size start_world)) = held_locks start_world"
    by (rule k [THEN conjunct1])
      (auto simp: world_size_def uuid_keeps_locks intro!: runtime_frames_world audit_frames_world size_stats_frames)
  moreover have "held_locks start_world ''size_query:global'' = None"
    by (simp add: start_world_def empty_store_def live_string_def)
  ultimately show ?thesis using run by (intro exI conjI) (assumption, simp_all)
qed

lemma py_slice_nonneg: "py_slice (int a) (int a + int n) xs = take n (drop a xs)"
  by (cases "a \<le> length xs") (auto simp: py_slice_def slice_index_def Let_def nat_add_distrib min_def)

lemma concat_pages: "concat (map (\<lambda>p. take n (drop (p * n) xs)) [0..<k]) = take (k * n) xs"
proof (induction k)
  case (Suc k)
  then show ?case using take_add [of "k * n" n xs] by (simp add: add.commute)
qed simp

text \<open>The pages of a collection listing are the listing cut in order: the first \<open>k\<close> pages of \<open>n\<close>
  concatenate to the first \<open>k * n\<close> collections of the report, all of them or those of the named
  database, so nothing is shown twice or left out.\<close>

lemma size_pages_partition:
  assumes "mm_get_size_stats mm h s = (Inr report, s')"
  shows "\<exists>pages. map (\<lambda>p. SizeQueryService_get_collection_sizes mm h database (int p + 1) (int n) s) [0..<k] =
        map (\<lambda>xs. (Inr xs, s')) pages \<and>
      concat pages = take (k * n) (filter (\<lambda>c. truthy database \<longrightarrow> cs_database c = the database) (sr_collections report))"
proof -
  let ?cs = "filter (\<lambda>c. truthy database \<longrightarrow> cs_database c = the database) (sr_collections report)"
  have "SizeQueryService_get_collection_sizes mm h database (int p + 1) (int n) s =
      (Inr (take n (drop (p * n) ?cs)), s')" for p
    using assms py_slice_nonneg [of "p * n" n]
    by (cases "truthy database") (simp_all add: SizeQueryService_get_collection_sizes_def run_simps Let_def)
  then show ?thesis
    by (intro exI [of _ "map (\<lambda>p. take n (drop (p * n) ?cs)) [0..<k]"]) (simp add: concat_pages comp_def)
qed

definition three_collections :: "unit IMongoMetadata" where
  "three_collections = MongoMetadataAdapter (catalog_adapter
     [(''shop'', Some [], [(''a'', Some []), (''b'', Some []), (''c'', Some [])])] (still_runtime 9))"

lemma size_pages_partition_witness:
  "\<exists>xs ys. SizeQueryService_get_collection_sizes three_collections sample_hash None 1 2 () = (Inr xs, ()) \<and>
     SizeQueryService_get_collection_sizes three_collections sample_hash None 2 2 () = (Inr ys, ()) \<and>
     map cs_collection (xs @ ys) = [''a'', ''b'', ''c'']"
proof -
  have "mm_get_size_stats three_collections sample_hash () = (Inr \<lparr>sr_cluster_uri_hash = sample_hash, sr_timestamp = 9,
      sr_databases = [\<lparr>ds_database = ''shop'', ds_size_bytes = 0, ds_collection_count = 0\<rparr>],
      sr_collections = map (\<lambda>c. \<lparr>cs_database = ''shop'', cs_collection = c, cs_size_bytes = 0, cs_document_count = 0\<rparr>)
        [''a'', ''b'', ''c'']\<rparr>, ())"
    by code_simp
  note k = size_pages_partition [OF this, where n = 2 and k = 2 and database = None]
  have "[0..<2] = [0, 1 :: nat]" by code_simp
  with k obtain xs ys where "SizeQueryService_get_collection_sizes three_collections sample_hash None 1 2 () = (Inr xs, ())"
    "SizeQueryService_get_collection_sizes three_collections sample_hash None 2 2 () = (Inr ys, ())"
    "xs @ ys = map (\<lambda>c. \<lparr>cs_database = ''shop'', cs_collection = c, cs_size_bytes = 0, cs_document_count = 0\<rparr>) [''a'', ''b'', ''c'']"
    by (auto simp: truthy_def map_eq_Cons_conv Cons_eq_map_conv)
  then show ?thesis by (intro exI conjI) (assumption, assumption, simp del: map_append)
qed

lemma map_sum_list_Inr:
  "map_sum_list f xs = Inr ys \<Longrightarrow> length ys = length xs \<and> (\<forall>y \<in> set ys. \<exists>x \<in> set xs. f x = Inr y)"
  by (induction xs arbitrary: ys) (fastforce simp: bind_sum_Inr)+

text \<open>C33. Who sees which job: a user who is not an administrator is only ever shown jobs he requested,
  by the details of a job and by the listing, whatever the page and the filter.\<close>

theorem jobs_private:
  assumes ses: "sql_session ses rows" and other: "up_role user \<noteq> UserRole.ADMIN"
  shows "(GetJobDetailUseCase_execute rt ar (SQLJobRepository rt ses) \<lparr>gjd_user = user, gjd_job_id = i, gjd_topic = tp, gjd_command = c\<rparr> s
        = (Inr \<lparr>gjr_job = job\<rparr>, s') \<longrightarrow>
      bj_requester_telegram_id job = up_telegram_id user \<and> job_of_rows (rows s) i = Some job) \<and>
    (QueryJobsUseCase_execute rt ar (SQLJobRepository rt ses) \<lparr>qjd_user = user, qjd_filter_status = st, qjd_page = p, qjd_page_size = n,
        qjd_topic = tp, qjd_command = c\<rparr> s = (Inr r, s') \<longrightarrow>
      (\<forall>j \<in> set (qjr_jobs r). bj_requester_telegram_id j = up_telegram_id user \<and>
        (st \<noteq> None \<longrightarrow> st = Some (bj_status j)) \<and> (\<exists>row \<in> set (rows s). to_entity row = Inr j)) \<and>
      length (qjr_jobs r) \<le> nat n)"
proof -
  have loc: "sql_job_session ses rows" using ses by (simp add: sql_job_session_def)
  have ent: "bj_requester_telegram_id j = jo_requester_telegram_id r \<and> status_value (bj_status j) = jo_status r"
    if "to_entity r = Inr j" for r j
    using that by (auto simp: to_entity_def bind_sum_Inr validated_Inr parse_status_def enum_lookup_Inr)
  have det: "bj_requester_telegram_id job = up_telegram_id user \<and> job_of_rows (rows s) i = Some job"
    if run: "GetJobDetailUseCase_execute rt ar (SQLJobRepository rt ses) \<lparr>gjd_user = user, gjd_job_id = i, gjd_topic = tp, gjd_command = c\<rparr> s
        = (Inr \<lparr>gjr_job = job\<rparr>, s')"
  proof -
    obtain y s1 where y: "SQLJobRepository_get_by_id ses i s = (y, s1)" by force
    show ?thesis
      using run y other sql_job_session.get_spec(2) [OF loc y]
      by (auto simp: GetJobDetailUseCase_execute_def UserPrincipalDto_has_role_def SQLJobRepository_def run_simps
          split: sum.splits option.splits prod.splits if_splits)
  qed
  let ?q = "\<lparr>qr_where = \<lambda>r. jo_requester_telegram_id r = up_telegram_id user \<and> status_filter st r,
      qr_order = Descending jo_created_at, qr_offset = (p - 1) * n, qr_limit = Some n\<rparr>"
  have lst: "(\<forall>j \<in> set (qjr_jobs r). bj_requester_telegram_id j = up_telegram_id user \<and>
        (st \<noteq> None \<longrightarrow> st = Some (bj_status j)) \<and> (\<exists>row \<in> set (rows s). to_entity row = Inr j)) \<and>
      length (qjr_jobs r) \<le> nat n"
    if run: "QueryJobsUseCase_execute rt ar (SQLJobRepository rt ses) \<lparr>qjd_user = user, qjd_filter_status = st, qjd_page = p, qjd_page_size = n,
        qjd_topic = tp, qjd_command = c\<rparr> s = (Inr r, s')"
  proof -
    obtain y s1 where y: "ss_select ses ?q s = (y, s1)" by force
    then obtain xs where xs: "y = Inr xs" "map_sum_list to_entity xs = Inr (qjr_jobs r)"
      using run other
      by (auto simp: QueryJobsUseCase_execute_def SQLJobRepository_def SQLJobRepository_list_by_user_def run_simps
          split: sum.splits prod.splits)
    have xs_row: "\<exists>row \<in> set xs. to_entity row = Inr j" if "j \<in> set (qjr_jobs r)" for j
      using map_sum_list_Inr [OF xs(2)] that by simp
    have sel: "Database.answers ?q (rows s) xs" using sql_session.select_ok [OF ses y [unfolded xs(1)]] .
    then obtain zs where zs: "mset zs = mset (filter (qr_where ?q) (rows s))" "xs = windowed ?q zs"
      by (auto simp: Database.answers_def)
    have "set xs \<subseteq> set zs" unfolding zs(2) by (auto simp: windowed_def dest: in_set_takeD in_set_dropD)
    also have "set zs = set (filter (qr_where ?q) (rows s))" using zs(1) by (metis set_mset_mset)
    finally have sub: "set xs \<subseteq> set (filter (qr_where ?q) (rows s))" .
    have len: "length (qjr_jobs r) \<le> nat n"
      using map_sum_list_Inr [OF xs(2)] zs(2) by (simp add: windowed_def)
    have "st \<noteq> None \<longrightarrow> st = Some (bj_status j)" if "to_entity row = Inr j" "row \<in> set xs" for row j
      using ent [OF that(1)] that(2) sub by (cases st) (auto simp: status_filter_def)
    then show ?thesis using xs_row sub ent len by fastforce
  qed
  show ?thesis using det lst by blast
qed

definition stored_world :: world where
  "stored_world = start_world\<lparr>w_jobs := \<lparr>rf_rows = [to_orm sample_job], rf_next = 0\<rparr>\<rparr>"

lemma jobs_private_witness:
  "\<exists>job s'. GetJobDetailUseCase_execute world_runtime world_audit world_jobs
       \<lparr>gjd_user = \<lparr>up_telegram_id = 7, up_username = None, up_role = DBA, up_is_active = True\<rparr>, gjd_job_id = ''j1'',
        gjd_topic = ''ADMIN'', gjd_command = None\<rparr> stored_world = (Inr \<lparr>gjr_job = job\<rparr>, s') \<and> bj_requester_telegram_id job = 7"
proof -
  let ?u = "\<lparr>up_telegram_id = 7, up_username = None, up_role = DBA, up_is_active = True\<rparr>"
  let ?run = "GetJobDetailUseCase_execute world_runtime world_audit world_jobs
       \<lparr>gjd_user = ?u, gjd_job_id = ''j1'', gjd_topic = ''ADMIN'', gjd_command = None\<rparr>"
  have "fst (?run stored_world) = Inr \<lparr>gjr_job = persisted [to_orm sample_job] sample_job\<rparr>"
    by code_simp
  note run = fst_run [of ?run, OF this]
  have ses: "sql_session job_session job_rows"
    unfolding job_session_def by (rule zoom_sql_session [OF ref_sql.sql_session_axioms]) simp
  have "up_role ?u \<noteq> UserRole.ADMIN" by simp
  from jobs_private [OF ses this, THEN conjunct1] run show ?thesis
    unfolding world_jobs_def by fastforce
qed

end
