(* ===== verification/Keyboards.thy ===== *)
theory Keyboards
  imports Middleware Queries
begin

text \<open>
  \<^verbatim>\<open>app/telegram/keyboards\<close>: the callback payloads and the inline keyboards, and \<open>next_role\<close>. A payload is
  packed into the string Telegram sends back by aiogram's \<open>CallbackData\<close>, which is a parameter with its
  documented behaviour as the locale \<open>callback_data\<close>. The two check marks, emoji in the source, are written
  \<open>[x]\<close> and \<open>[ ]\<close>, the two lights of a user \<open>on\<close> and \<open>off\<close>; the status emoji of a job is its letter.
\<close>

section \<open>Payloads\<close>

datatype callback =
    BackupTypeCallback string \<comment> \<open>action\<close>
  | DatabaseCallback string string \<comment> \<open>database, action\<close>
  | CollectionCallback string string string \<comment> \<open>database, collection, action\<close>
  | PageCallback int
  | ConfirmCallback string \<comment> \<open>action\<close>
  | JobPageCallback int
  | JobActionCallback string string \<comment> \<open>job\_id, action\<close>
  | SizeDbCallback string
  | SizeCollPageCallback string int \<comment> \<open>database, page\<close>
  | UserPageCallback int
  | UserToggleCallback int
  | UserRoleCallback int string \<comment> \<open>telegram\_id, current\_role\<close>

fun callback_prefix :: "callback \<Rightarrow> string" where
  "callback_prefix (BackupTypeCallback _) = ''backup_type''"
| "callback_prefix (DatabaseCallback _ _) = ''db''"
| "callback_prefix (CollectionCallback _ _ _) = ''coll''"
| "callback_prefix (PageCallback _) = ''page''"
| "callback_prefix (ConfirmCallback _) = ''confirm''"
| "callback_prefix (JobPageCallback _) = ''job_page''"
| "callback_prefix (JobActionCallback _ _) = ''job_action''"
| "callback_prefix (SizeDbCallback _) = ''size_db''"
| "callback_prefix (SizeCollPageCallback _ _) = ''size_coll_page''"
| "callback_prefix (UserPageCallback _) = ''user_page''"
| "callback_prefix (UserToggleCallback _) = ''user_toggle''"
| "callback_prefix (UserRoleCallback _ _) = ''user_role''"

fun callback_fields :: "callback \<Rightarrow> string list" where
  "callback_fields (BackupTypeCallback a) = [a]"
| "callback_fields (DatabaseCallback d a) = [d, a]"
| "callback_fields (CollectionCallback d c a) = [d, c, a]"
| "callback_fields (PageCallback p) = [str_int p]"
| "callback_fields (ConfirmCallback a) = [a]"
| "callback_fields (JobPageCallback p) = [str_int p]"
| "callback_fields (JobActionCallback j a) = [j, a]"
| "callback_fields (SizeDbCallback d) = [d]"
| "callback_fields (SizeCollPageCallback d p) = [d, str_int p]"
| "callback_fields (UserPageCallback p) = [str_int p]"
| "callback_fields (UserToggleCallback i) = [str_int i]"
| "callback_fields (UserRoleCallback i r) = [str_int i, r]"

text \<open>
  aiogram joins the prefix and the fields with colons; \<open>pack()\<close> raises \<open>ValueError\<close> when a field has a colon
  or the result is longer than 64 bytes. A filter unpacks what has its prefix.
\<close>

definition packed :: "callback \<Rightarrow> string" where
  "packed cb = join '':'' (callback_prefix cb # callback_fields cb)"

definition packable :: "callback \<Rightarrow> bool" where
  "packable cb \<longleftrightarrow> list_all (\<lambda>f. CHR '':'' \<notin> set f) (callback_fields cb) \<and> utf8_length (packed cb) \<le> 64"

record packing =
  pk_pack :: "callback \<Rightarrow> exn + string"
  pk_unpack :: "string \<Rightarrow> callback option"

locale callback_data =
  fixes pk :: packing
  assumes pack_ok: "packable cb \<Longrightarrow> pk_pack pk cb = Inr (packed cb)"
    and pack_err: "\<not> packable cb \<Longrightarrow> \<exists>m. pk_pack pk cb = Inl (ValueError m)"
    and unpack_ok: "packable cb \<Longrightarrow> pk_unpack pk (packed cb) = Some cb"
    and unpack_prefix: "pk_unpack pk s = Some cb \<Longrightarrow> starts_with s (callback_prefix cb @ '':'')"

section \<open>Keyboards\<close>

definition button :: "packing \<Rightarrow> string \<times> callback \<Rightarrow> exn + (string \<times> string)" where
  "button pk b = bind_sum (pk_pack pk (snd b)) (\<lambda>d. Inr (fst b, d))"

text \<open>\<open>builder.row\<close> puts its buttons in one row, \<open>builder.adjust(1)\<close> every button in a row of its own.\<close>

definition in_one_row :: "packing \<Rightarrow> (string \<times> callback) list \<Rightarrow> exn + (string \<times> string) list" where
  "in_one_row pk bs = map_sum_list (button pk) bs"

definition one_per_row :: "packing \<Rightarrow> (string \<times> callback) list \<Rightarrow> exn + keyboard" where
  "one_per_row pk bs = bind_sum (in_one_row pk bs) (\<lambda>xs. Inr (map (\<lambda>b. [b]) xs))"

text \<open>Rows, then a row of navigation if there is one.\<close>

definition with_navigation :: "packing \<Rightarrow> (string \<times> callback) list list \<Rightarrow> (string \<times> callback) list \<Rightarrow> exn + keyboard" where
  "with_navigation pk rows nav = map_sum_list (in_one_row pk) (rows @ (if nav = [] then [] else [nav]))"

definition check_mark :: "bool \<Rightarrow> string" where
  "check_mark b = (if b then ''[x] '' else ''[ ] '')"

definition build_backup_type_keyboard :: "packing \<Rightarrow> exn + keyboard" where
  "build_backup_type_keyboard pk =
     bind_sum (in_one_row pk [(''Full'', BackupTypeCallback ''full''), (''Custom'', BackupTypeCallback ''custom'')])
       (\<lambda>r. Inr [r])"

definition build_database_keyboard :: "packing \<Rightarrow> string list \<Rightarrow> string set \<Rightarrow> exn + keyboard" where
  "build_database_keyboard pk databases selected =
     one_per_row pk (map (\<lambda>db. (check_mark (db \<in> selected) @ db, DatabaseCallback db ''toggle'')) databases @
       [(''Continuar'', DatabaseCallback ''_'' ''continuar'')])"

text \<open>The final \<open>adjust(1)\<close> also splits the row of the two navigation buttons.\<close>

definition collection_key :: "string \<times> string \<Rightarrow> string" where
  "collection_key dc = fst dc @ ''.'' @ snd dc"

definition build_collection_keyboard ::
  "packing \<Rightarrow> (string \<times> string) list \<Rightarrow> string set \<Rightarrow> int \<Rightarrow> int \<Rightarrow> exn + keyboard" where
  "build_collection_keyboard pk collections selected page page_size =
     (let start = page * page_size; stop = start + page_size; page_items = py_slice start stop collections in
      one_per_row pk
        (map (\<lambda>(db, coll). (check_mark (collection_key (db, coll) \<in> selected) @ collection_key (db, coll),
                            CollectionCallback db coll ''toggle'')) page_items @
         (if 0 < page then [(''Anterior'', PageCallback (page - 1))] else []) @
         (if stop < int (length collections) then [(''Siguiente'', PageCallback (page + 1))] else []) @
         [(''Confirmar selecci'' @ [CHR 0xF3] @ ''n'', ConfirmCallback ''confirmar'')]))"

definition build_confirm_keyboard :: "packing \<Rightarrow> exn + keyboard" where
  "build_confirm_keyboard pk =
     bind_sum (in_one_row pk [(''Ejecutar'', ConfirmCallback ''ejecutar''), (''Cancelar'', ConfirmCallback ''cancelar'')])
       (\<lambda>r. Inr [r])"

fun status_mark :: "JobStatus \<Rightarrow> string" where
  "status_mark JobStatus.PENDING = ''P''"
| "status_mark QUEUED = ''Q''"
| "status_mark JobStatus.RUNNING = ''R''"
| "status_mark JobStatus.SUCCESS = ''S''"
| "status_mark JobStatus.FAILED = ''F''"
| "status_mark PARTIAL_SUCCESS = ''W''"
| "status_mark CANCELLED = ''C''"

definition build_jobs_keyboard :: "packing \<Rightarrow> BackupJob list \<Rightarrow> int \<Rightarrow> int \<Rightarrow> exn + keyboard" where
  "build_jobs_keyboard pk jobs page page_size =
     with_navigation pk
       (map (\<lambda>job. [(status_mark (bj_status job) @ '' '' @ take 8 (bj_id job), JobActionCallback (bj_id job) ''detail''),
                    (''Cancelar'', JobActionCallback (bj_id job) ''cancel'')]) jobs)
       ((if 1 < page then [(''Anterior'', JobPageCallback (page - 1))] else []) @
        (if int (length jobs) = page_size then [(''Siguiente'', JobPageCallback (page + 1))] else []))"

definition build_size_db_keyboard :: "packing \<Rightarrow> string list \<Rightarrow> exn + keyboard" where
  "build_size_db_keyboard pk databases = one_per_row pk (map (\<lambda>db. (db, SizeDbCallback db)) databases)"

definition build_size_collection_keyboard :: "packing \<Rightarrow> string \<Rightarrow> int \<Rightarrow> int \<Rightarrow> int \<Rightarrow> exn + keyboard" where
  "build_size_collection_keyboard pk database collection_count page page_size =
     (let total_pages = (collection_count + page_size - 1) div page_size in
      with_navigation pk []
       ((if 0 < page then [(''Anterior'', SizeCollPageCallback database (page - 1))] else []) @
        (if page + 1 < total_pages then [(''Siguiente'', SizeCollPageCallback database (page + 1))] else [])))"

definition user_label :: "UserPrincipalDto \<Rightarrow> string" where
  "user_label u = (if truthy (up_username u) then the (up_username u) else str_int (up_telegram_id u))"

definition build_users_keyboard :: "packing \<Rightarrow> UserPrincipalDto list \<Rightarrow> int \<Rightarrow> int \<Rightarrow> exn + keyboard" where
  "build_users_keyboard pk users page page_size =
     with_navigation pk
       (map (\<lambda>u. [((if up_is_active u then ''on '' else ''off '') @ user_label u, UserToggleCallback (up_telegram_id u)),
                  (''Rol: '' @ role_value (up_role u), UserRoleCallback (up_telegram_id u) (role_value (up_role u)))]) users)
       ((if 1 < page then [(''Anterior'', UserPageCallback (page - 1))] else []) @
        (if int (length users) = page_size then [(''Siguiente'', UserPageCallback (page + 1))] else []))"

fun find_index :: "'a \<Rightarrow> 'a list \<Rightarrow> nat option" where
  "find_index x [] = None"
| "find_index x (y # ys) = (if x = y then Some 0 else map_option Suc (find_index x ys))"

definition ROLE_CYCLE :: "UserRole list" where
  "ROLE_CYCLE = [UserRole.ADMIN, DBA, OPERATOR, READONLY]"

definition next_role :: "UserRole \<Rightarrow> UserRole" where
  "next_role current =
     (case find_index current ROLE_CYCLE of
        None \<Rightarrow> READONLY
      | Some idx \<Rightarrow> ROLE_CYCLE ! ((idx + 1) mod length ROLE_CYCLE))"

section \<open>A packing\<close>

fun ref_fields :: "string \<Rightarrow> string list \<Rightarrow> callback option" where
  "ref_fields p [a] =
     (let n = py_int a in
      if p = ''backup_type'' then Some (BackupTypeCallback a) else if p = ''confirm'' then Some (ConfirmCallback a)
      else if p = ''size_db'' then Some (SizeDbCallback a)
      else (case n of Inl _ \<Rightarrow> None | Inr i \<Rightarrow>
        if p = ''page'' then Some (PageCallback i) else if p = ''job_page'' then Some (JobPageCallback i)
        else if p = ''user_page'' then Some (UserPageCallback i) else if p = ''user_toggle'' then Some (UserToggleCallback i)
        else None))"
| "ref_fields p [a, b] =
     (if p = ''db'' then Some (DatabaseCallback a b) else if p = ''job_action'' then Some (JobActionCallback a b)
      else if p = ''size_coll_page'' then (case py_int b of Inr i \<Rightarrow> Some (SizeCollPageCallback a i) | Inl _ \<Rightarrow> None)
      else if p = ''user_role'' then (case py_int a of Inr i \<Rightarrow> Some (UserRoleCallback i b) | Inl _ \<Rightarrow> None)
      else None)"
| "ref_fields p [a, b, c] = (if p = ''coll'' then Some (CollectionCallback a b c) else None)"
| "ref_fields p _ = None"

text \<open>\<open>value.split(":")\<close>\<close>

fun split_colon :: "string \<Rightarrow> string list" where
  "split_colon [] = [[]]"
| "split_colon (c # cs) =
     (if c = CHR '':'' then [] # split_colon cs
      else (case split_colon cs of x # xs \<Rightarrow> (c # x) # xs | [] \<Rightarrow> [[c]]))"

definition ref_packing :: packing where
  "ref_packing =
     \<lparr>pk_pack = (\<lambda>cb. if packable cb then Inr (packed cb) else Inl (ValueError ''callback data'')),
      pk_unpack = (\<lambda>s. case split_colon s of p # fs \<Rightarrow> ref_fields p fs | [] \<Rightarrow> None)\<rparr>"

text \<open>Reading back a number that was written.\<close>

lemma digit_char: "n < 10 \<Longrightarrow> is_digit (char_of (48 + n)) \<and> digit_value (char_of (48 + n)) = int n" for n :: nat
  by (simp add: is_digit_def digit_value_def Let_def)

lemma nat_digits_digits: "list_all is_digit (nat_digits n) \<and> nat_digits n \<noteq> []"
  by (induction n rule: nat_digits.induct) (subst (1 2) nat_digits.simps, auto simp: digit_char)

lemma parse_digits_append:
  "list_all is_digit s \<Longrightarrow> parse_digits b acc s = Some v \<Longrightarrow> is_digit c \<Longrightarrow>
   parse_digits b acc (s @ [c]) = Some (v * 10 + digit_value c)"
  by (induction s arbitrary: b acc) (auto split: if_splits)

lemma parse_nat_digits: "parse_digits False 0 (nat_digits n) = Some (int n)"
proof (induction n rule: nat_digits.induct)
  case (1 n)
  show ?case
  proof (cases "n < 10")
    case True
    then show ?thesis using digit_char [of n] by (subst nat_digits.simps) simp
  next
    case False
    then have "parse_digits False 0 (nat_digits (n div 10)) = Some (int (n div 10))" by (rule 1)
    moreover have "n mod 10 < 10" by simp
    moreover have "int (n div 10) * 10 + int (n mod 10) = int n"
      by (metis div_mult_mod_eq of_nat_add of_nat_mult of_nat_numeral)
    ultimately show ?thesis
      using False parse_digits_append [of "nat_digits (n div 10)" False 0 _ "char_of (48 + n mod 10)"] nat_digits_digits [of "n div 10"]
        digit_char [of "n mod 10"]
      by (subst nat_digits.simps) simp
  qed
qed

lemma py_int_str_int: "py_int (str_int i) = Inr i"
proof -
  have m: "\<not> is_space (CHR ''-'')" "\<not> is_digit (CHR ''-'')" "\<not> is_digit (CHR ''+'')" by code_simp+
  have d: "list_all is_digit (nat_digits n)" "nat_digits n \<noteq> []" for n using nat_digits_digits by auto
  have nsp: "\<not> (\<forall>x\<in>set (nat_digits n). is_space x)" for n
    using d [of n] digit_not_space by (cases "nat_digits n") auto
  have st: "py_strip (nat_digits n) = nat_digits n" "py_strip (CHR ''-'' # nat_digits n) = CHR ''-'' # nat_digits n" for n
    using digits_no_space [OF d(1) [of n]] m(1) nsp [of n] by (auto simp: py_strip_def dropWhile_append)
  have hd: "hd (nat_digits n) \<noteq> CHR ''-''" "hd (nat_digits n) \<noteq> CHR ''+''" for n
    using d [of n] m by (cases "nat_digits n"; auto)+
  show ?thesis
  proof (cases "i < 0")
    case True
    then show ?thesis using st(2) [of "nat (- i)"] parse_nat_digits [of "nat (- i)"]
      by (simp add: py_int_def str_int_def Let_def del: parse_digits.simps)
  next
    case False
    obtain c cs where c: "nat_digits (nat i) = c # cs" using d(2) [of "nat i"] that by (cases "nat_digits (nat i)") auto
    have "c \<noteq> CHR ''-''" "c \<noteq> CHR ''+''" using hd [of "nat i"] c by simp_all
    then show ?thesis using False st(1) [of "nat i"] parse_nat_digits [of "nat i"] c
      by (simp add: py_int_def str_int_def Let_def del: parse_digits.simps)
  qed
qed

lemma str_int_no_colon: "CHR '':'' \<notin> set (str_int i)"
proof -
  have "\<not> is_digit (CHR '':'')" by code_simp
  then have "CHR '':'' \<notin> set (nat_digits n)" for n
    using nat_digits_digits [of n] by (auto simp: list_all_iff)
  then show ?thesis by (simp add: str_int_def)
qed

lemma split_colon_nonempty [simp]: "split_colon s \<noteq> []"
  by (cases s) (auto split: list.split)

lemma split_colon_prefix: "split_colon s = p # f # fs \<Longrightarrow> starts_with s (p @ '':'')"
proof (induction s arbitrary: p)
  case (Cons c cs)
  show ?case
  proof (cases "c = CHR '':''")
    case True
    then show ?thesis using Cons.prems by (simp add: starts_with_def)
  next
    case False
    obtain x xs where x: "split_colon cs = x # xs" by (cases "split_colon cs") auto
    then show ?thesis using False Cons.prems Cons.IH [of x] by (auto simp: starts_with_def)
  qed
qed simp

lemma ref_fields_prefix: "ref_fields p fs = Some cb \<Longrightarrow> callback_prefix cb = p \<and> fs \<noteq> []"
  by (cases "(p, fs)" rule: ref_fields.cases) (auto simp: Let_def split: if_splits sum.splits)

lemma split_colon_join:
  "list_all (\<lambda>f. CHR '':'' \<notin> set f) xs \<Longrightarrow> xs \<noteq> [] \<Longrightarrow> split_colon (join '':'' xs) = xs"
proof -
  have app: "CHR '':'' \<notin> set x \<Longrightarrow> split_colon (x @ s) = (case split_colon s of y # ys \<Rightarrow> (x @ y) # ys | [] \<Rightarrow> [x])" for x s
    by (induction x) (auto split: list.split)
  have one: "CHR '':'' \<notin> set x \<Longrightarrow> split_colon x = [x]" for x
    using app [of x "[]"] by simp
  show "list_all (\<lambda>f. CHR '':'' \<notin> set f) xs \<Longrightarrow> xs \<noteq> [] \<Longrightarrow> ?thesis"
    by (induction "'':''" xs rule: join.induct) (simp_all add: one app)
qed

interpretation ref: callback_data ref_packing
proof
  fix cb assume p: "packable cb"
  have "CHR '':'' \<notin> set (callback_prefix cb)" by (cases cb) simp_all
  then have "split_colon (packed cb) = callback_prefix cb # callback_fields cb"
    using p by (simp add: packed_def packable_def split_colon_join del: join.simps)
  then show "pk_unpack ref_packing (packed cb) = Some cb"
    by (cases cb) (simp_all add: ref_packing_def py_int_str_int)
next
  fix s cb assume u: "pk_unpack ref_packing s = Some cb"
  show "starts_with s (callback_prefix cb @ '':'')"
    using u ref_fields_prefix split_colon_prefix [of s]
    by (auto simp: ref_packing_def neq_Nil_conv split: list.splits) blast
qed (auto simp: ref_packing_def)

section \<open>Lemmas\<close>

context callback_data begin

lemma pack_Inr: "pk_pack pk cb = Inr s \<longleftrightarrow> packable cb \<and> s = packed cb"
  using pack_ok [of cb] pack_err [of cb] by (cases "packable cb") auto

lemma row_ok: "list_all (\<lambda>b. packable (snd b)) bs \<Longrightarrow> in_one_row pk bs = Inr (map (\<lambda>b. (fst b, packed (snd b))) bs)"
  by (induction bs) (simp_all add: in_one_row_def button_def pack_ok)

lemma row_err: "\<not> list_all (\<lambda>b. packable (snd b)) bs \<Longrightarrow> \<exists>m. in_one_row pk bs = Inl (ValueError m)"
proof (induction bs)
  case (Cons b bs)
  show ?case
  proof (cases "packable (snd b)")
    case True
    then obtain m where "in_one_row pk bs = Inl (ValueError m)" using Cons by auto
    then show ?thesis using True by (simp add: in_one_row_def button_def pack_ok)
  next
    case False
    then show ?thesis using pack_err [of "snd b"] by (auto simp: in_one_row_def button_def)
  qed
qed simp

lemma one_per_row_ok: "list_all (\<lambda>b. packable (snd b)) bs \<Longrightarrow> one_per_row pk bs = Inr (map (\<lambda>b. [(fst b, packed (snd b))]) bs)"
  by (simp add: one_per_row_def row_ok)

lemma one_per_row_err: "\<not> list_all (\<lambda>b. packable (snd b)) bs \<Longrightarrow> \<exists>m. one_per_row pk bs = Inl (ValueError m)"
  using row_err [of bs] by (auto simp: one_per_row_def)

end

text \<open>What a keyboard offers: the payloads its buttons send back.\<close>

definition payloads :: "packing \<Rightarrow> keyboard \<Rightarrow> callback list" where
  "payloads pk kb = concat (map (\<lambda>(t, d). case pk_unpack pk d of None \<Rightarrow> [] | Some cb \<Rightarrow> [cb]) (concat kb))"

fun target_of :: "callback \<Rightarrow> (string \<times> string) list" where
  "target_of (CollectionCallback d c a) = [(d, c)]"
| "target_of _ = []"

fun page_of :: "callback \<Rightarrow> int list" where
  "page_of (PageCallback p) = [p]"
| "page_of _ = []"

definition offered :: "packing \<Rightarrow> keyboard \<Rightarrow> (string \<times> string) list" where
  "offered pk kb = concat (map target_of (payloads pk kb))"

definition linked_pages :: "packing \<Rightarrow> keyboard \<Rightarrow> int list" where
  "linked_pages pk kb = concat (map page_of (payloads pk kb))"

context callback_data begin

lemma payloads_one_per_row:
  "list_all (\<lambda>b. packable (snd b)) bs \<Longrightarrow> payloads pk (map (\<lambda>b. [(fst b, packed (snd b))]) bs) = map snd bs"
  by (induction bs) (simp_all add: payloads_def unpack_ok)

lemma collection_page:
  assumes "list_all (\<lambda>(d, c). packable (CollectionCallback d c ''toggle'')) cs" "\<And>q. q \<le> Suc p \<Longrightarrow> packable (PageCallback (int q))"
  shows "\<exists>kb. build_collection_keyboard pk cs sel (int p) (int n) = Inr kb \<and> offered pk kb = take n (drop (p * n) cs) \<and>
    linked_pages pk kb = (if 0 < p then [int p - 1] else []) @ (if (p + 1) * n < length cs then [int p + 1] else [])"
proof -
  let ?items = "take n (drop (p * n) cs)"
  let ?bs = "map (\<lambda>(db, coll). (check_mark (collection_key (db, coll) \<in> sel) @ collection_key (db, coll),
        CollectionCallback db coll ''toggle'')) ?items @
      (if 0 < p then [(''Anterior'', PageCallback (int p - 1))] else []) @
      (if (p + 1) * n < length cs then [(''Siguiente'', PageCallback (int p + 1))] else []) @
      [(''Confirmar selecci'' @ [CHR 0xF3] @ ''n'', ConfirmCallback ''confirmar'')]"
  have ok: "list_all (\<lambda>b. packable (snd b)) ?bs"
  proof -
    have "list_all (\<lambda>(d, c). packable (CollectionCallback d c ''toggle'')) ?items"
      using assms(1) by (auto simp: list_all_iff dest!: in_set_takeD in_set_dropD)
    moreover have "0 < p \<Longrightarrow> packable (PageCallback (int p - 1))"
      using assms(2) [of "p - 1"] by (simp add: of_nat_diff)
    moreover have "packable (PageCallback (int p + 1))" using assms(2) [of "Suc p"] by (simp add: add.commute)
    moreover have "packable (ConfirmCallback ''confirmar'')" by code_simp
    ultimately show ?thesis by (auto simp: list_all_iff)
  qed
  have eq: "build_collection_keyboard pk cs sel (int p) (int n) = one_per_row pk ?bs"
  proof -
    have "(int p * int n + int n < int (length cs)) = ((p + 1) * n < length cs)"
      by (metis add.commute mult_Suc of_nat_add of_nat_less_iff of_nat_mult plus_1_eq_Suc)
    then show ?thesis
      using py_slice_nonneg [of "p * n" n cs] by (simp add: build_collection_keyboard_def Let_def)
  qed
  show ?thesis
  proof (intro exI conjI)
    show "build_collection_keyboard pk cs sel (int p) (int n) = Inr (map (\<lambda>b. [(fst b, packed (snd b))]) ?bs)"
      unfolding eq by (rule one_per_row_ok [OF ok])
    have items: "map snd (map (\<lambda>(db, coll). (check_mark (collection_key (db, coll) \<in> sel) @ collection_key (db, coll),
        CollectionCallback db coll ''toggle'')) xs) = map (\<lambda>(d, c). CollectionCallback d c ''toggle'') xs" for xs
      by (induction xs) auto
    have offer: "concat (map target_of (map (\<lambda>(d, c). CollectionCallback d c ''toggle'') xs)) = xs"
      "concat (map page_of (map (\<lambda>(d, c). CollectionCallback d c ''toggle'') xs)) = []" for xs
      by (induction xs) auto
    note pl = payloads_one_per_row [OF ok, unfolded map_append items]
    show "offered pk (map (\<lambda>b. [(fst b, packed (snd b))]) ?bs) = ?items"
      unfolding offered_def map_append pl concat_append offer by simp
    show "linked_pages pk (map (\<lambda>b. [(fst b, packed (snd b))]) ?bs) =
        (if 0 < p then [int p - 1] else []) @ (if (p + 1) * n < length cs then [int p + 1] else [])"
      unfolding linked_pages_def map_append pl concat_append offer by simp
  qed
qed

end

section \<open>Properties\<close>

text \<open>C36. The wizard offers every collection exactly once: as long as every button fits, the first \<open>k\<close>
  pages of the collection keyboard are built, and the toggles on them are, in order, the first \<open>k * n\<close>
  collections. Page \<open>p\<close> has a button to the next page exactly when collections are left, one to the
  page before exactly when there is one, and no other page buttons: following them from page 0
  meets every collection.\<close>

theorem collection_pages:
  assumes pk: "callback_data pk"
    and fit: "\<And>d c. (d, c) \<in> set cs \<Longrightarrow> packable (CollectionCallback d c ''toggle'')"
      "\<And>p. p \<le> k \<Longrightarrow> packable (PageCallback (int p))"
  shows "\<exists>kbs. map (\<lambda>p. build_collection_keyboard pk cs sel (int p) (int n)) [0..<k] = map Inr kbs \<and>
    concat (map (offered pk) kbs) = take (k * n) cs \<and>
    (\<forall>p < k. linked_pages pk (kbs ! p) =
      (if 0 < p then [int p - 1] else []) @ (if (p + 1) * n < length cs then [int p + 1] else []))"
proof -
  have "list_all (\<lambda>(d, c). packable (CollectionCallback d c ''toggle'')) cs"
    using fit(1) by (auto simp: list_all_iff)
  then have "\<forall>p < k. \<exists>kb. build_collection_keyboard pk cs sel (int p) (int n) = Inr kb \<and>
      offered pk kb = take n (drop (p * n) cs) \<and>
      linked_pages pk kb = (if 0 < p then [int p - 1] else []) @ (if (p + 1) * n < length cs then [int p + 1] else [])"
    using callback_data.collection_page [OF pk] fit(2) by simp
  then obtain kb where kb: "\<And>p. p < k \<Longrightarrow> build_collection_keyboard pk cs sel (int p) (int n) = Inr (kb p) \<and>
      offered pk (kb p) = take n (drop (p * n) cs) \<and>
      linked_pages pk (kb p) = (if 0 < p then [int p - 1] else []) @ (if (p + 1) * n < length cs then [int p + 1] else [])"
    by metis
  have "map (offered pk) (map kb [0..<k]) = map (\<lambda>p. take n (drop (p * n) cs)) [0..<k]" using kb by simp
  then have "concat (map (offered pk) (map kb [0..<k])) = take (k * n) cs"
    by (simp only: concat_pages)
  then show ?thesis using kb by (intro exI [of _ "map kb [0..<k]"]) simp
qed

lemma collection_pages_witness:
  "\<exists>a b. build_collection_keyboard ref_packing [(''shop'', ''orders''), (''shop'', ''users''), (''x'', ''y'')] {} 0 2 = Inr a \<and>
     build_collection_keyboard ref_packing [(''shop'', ''orders''), (''shop'', ''users''), (''x'', ''y'')] {} 1 2 = Inr b \<and>
     offered ref_packing a @ offered ref_packing b = [(''shop'', ''orders''), (''shop'', ''users''), (''x'', ''y'')] \<and>
     linked_pages ref_packing a = [1] \<and> linked_pages ref_packing b = [0]"
proof -
  let ?cs = "[(''shop'', ''orders''), (''shop'', ''users''), (''x'', ''y'')]"
  have "\<forall>x \<in> set ?cs. packable (CollectionCallback (fst x) (snd x) ''toggle'')" by code_simp
  then have f: "packable (CollectionCallback d c ''toggle'')" if "(d, c) \<in> set ?cs" for d c
    using that by (metis fst_conv snd_conv)
  have "packable (PageCallback 0) \<and> packable (PageCallback 1) \<and> packable (PageCallback 2)" by code_simp
  then have p: "packable (PageCallback (int p))" if "p \<le> 2" for p
    using that by (cases "p = 0 \<or> p = 1 \<or> p = 2") auto
  have u: "[0..<2] = [0, 1 :: nat]" by code_simp
  from collection_pages [where cs = ?cs and k = 2 and n = 2 and sel = "{}", OF ref.callback_data_axioms f p] show ?thesis
    unfolding u by (auto simp: map_eq_Cons_conv Cons_eq_map_conv All_less_Suc numeral_2_eq_2)
qed

text \<open>One name that does not fit blocks its page: a collection whose toggle button has a colon in a name or
  needs more than 64 bytes makes every page it is on raise \<open>ValueError\<close>, so none of the
  collections of that page, and no later page, can be selected.\<close>

lemma long_name_blocks_page:
  assumes pk: "callback_data pk" and on_page: "(d, c) \<in> set (take n (drop (p * n) cs))"
    and long: "\<not> packable (CollectionCallback d c ''toggle'')"
  shows "\<exists>m. build_collection_keyboard pk cs sel (int p) (int n) = Inl (ValueError m)"
proof -
  have "\<not> list_all (\<lambda>b. packable (snd b)) (map (\<lambda>(db, coll). (check_mark (collection_key (db, coll) \<in> sel) @ collection_key (db, coll),
      CollectionCallback db coll ''toggle'')) (take n (drop (p * n) cs)) @ xs)" for xs
    using on_page long by (force simp: list_all_iff)
  note err = callback_data.one_per_row_err [OF pk this]
  show ?thesis
    unfolding build_collection_keyboard_def Let_def py_slice_nonneg [of "p * n" n, unfolded of_nat_mult] by (rule err)
qed

lemma long_name_blocks_page_witness:
  "\<exists>m. build_collection_keyboard ref_packing [(''shop'', ''orders''), (''shop'', replicate 60 CHR ''x'')] {} 0 10 = Inl (ValueError m)"
proof -
  have "\<not> packable (CollectionCallback ''shop'' (replicate 60 CHR ''x'') ''toggle'')" by code_simp
  from long_name_blocks_page [OF ref.callback_data_axioms _ this, of 10 0 "[(''shop'', ''orders''), (''shop'', replicate 60 CHR ''x'')]"]
  show ?thesis by simp
qed

text \<open>Which buttons the access rules see: of all payloads only the choice of the backup type and the two
  size keyboards name a command. Every other button (toggling a user, changing a role, cancelling a
  job, confirming a backup) carries none, so the role middleware passes it on for any
  authenticated user in any topic.\<close>

lemma callback_commands:
  assumes pk: "callback_data pk" and cb: "pk_pack pk cb = Inr s"
    and ev: "event_message ev = None" "event_callback ev = Some q" "cq_data q = Some s"
  shows "extract_command ev = (case cb of BackupTypeCallback _ \<Rightarrow> Some ''BACKUP'' | SizeDbCallback _ \<Rightarrow> Some ''SIZE_QUERY''
      | SizeCollPageCallback _ _ \<Rightarrow> Some ''SIZE_QUERY'' | _ \<Rightarrow> None) \<and>
    (extract_command ev = None \<longrightarrow> RoleMiddleware_call ro h ev data = h ev data)"
proof
  have "s = packed cb" using callback_data.pack_Inr [OF pk] cb by simp
  then show "extract_command ev = (case cb of BackupTypeCallback _ \<Rightarrow> Some ''BACKUP'' | SizeDbCallback _ \<Rightarrow> Some ''SIZE_QUERY''
      | SizeCollPageCallback _ _ \<Rightarrow> Some ''SIZE_QUERY'' | _ \<Rightarrow> None)"
    using ev by (cases cb) (simp_all add: extract_command_def packed_def map_callback_data_def starts_with_def)
  show "extract_command ev = None \<longrightarrow> RoleMiddleware_call ro h ev data = h ev data"
    by (simp add: RoleMiddleware_call_def Let_def split: option.split)
qed

definition toggle_click :: event where
  "toggle_click = CallbackEvent \<lparr>cq_from_id = 7, cq_message = None, cq_data = Some ''user_toggle:9''\<rparr>"

lemma callback_commands_witness: "extract_command toggle_click = None"
proof -
  have "pk_pack ref_packing (UserToggleCallback 9) = Inr ''user_toggle:9''" by code_simp
  from callback_commands [OF ref.callback_data_axioms this, of toggle_click
      "\<lparr>cq_from_id = 7, cq_message = None, cq_data = Some ''user_toggle:9''\<rparr>", THEN conjunct1] show ?thesis
    by (simp add: toggle_click_def event_message_def event_callback_def)
qed

end
