(* ===== verification/Dependencies.thy ===== *)
theory Dependencies
  imports Keyboards
begin

text \<open>
  \<^verbatim>\<open>app/telegram/dependencies.py\<close>: the container of the ports the Telegram handlers use, the middleware that
  hands it to them, and the functions that assemble each use case over the repositories of a session. A
  session is the four table sessions of \<open>TelegramDependencies\<close>; opening and closing one is left out.
\<close>

record 's TelegramDependencies =
  td_config :: AppConfig
  td_sha256 :: "string \<Rightarrow> string"
  td_jobs :: "('s, JobORM) session" \<comment> \<open>what the session factory gives\<close>
  td_users :: "('s, UserORM) session"
  td_audit_logs :: "('s, AuditLogORM) session"
  td_rates :: "('s, RateLimitORM) session"
  td_mongo_metadata :: "'s IMongoMetadata"
  td_mongo_connection :: "('s, 's mongo_client) MongoConnection"
  td_redis_connection :: "('s, 's rq_client) RedisConnection"
  td_rq :: "'s rq_client" \<comment> \<open>RQ over the Redis connection\<close>
  td_aioredis_client :: "'s redis"
  td_fs_utils :: "'s IFsUtils"
  td_permission_service :: PermissionService
  td_runtime :: "'s Runtime"

definition cluster_uri_hash :: "'s TelegramDependencies \<Rightarrow> string" where
  "cluster_uri_hash td = AppConfig_cluster_uri_hash (td_sha256 td) (td_config td)"

text \<open>\<open>data["telegram_deps"]\<close> is the first argument of the handler.\<close>

definition DependencyInjectionMiddleware ::
  "'s TelegramDependencies \<Rightarrow> ('s TelegramDependencies \<Rightarrow> ('s, 'r) handler) \<Rightarrow> ('s, 'r) handler" where
  "DependencyInjectionMiddleware deps handler = handler deps"

text \<open>What the libraries give for settings: clients that are not connected yet, a Redis client, RQ.\<close>

record 's libraries =
  lb_mongo :: "mongo_options \<Rightarrow> ('s, 's mongo_client) MongoConnection"
  lb_redis :: "redis_options \<Rightarrow> ('s, 's rq_client) RedisConnection"
  lb_rq :: "('s, 's rq_client) RedisConnection \<Rightarrow> 's rq_client"
  lb_aioredis :: "string \<Rightarrow> 's redis"
  lb_fs :: "AioFsUtils \<Rightarrow> 's IFsUtils"
  lb_gzip_size :: "int \<Rightarrow> int"
  lb_runtime :: "'s Runtime"
  lb_sha256 :: "string \<Rightarrow> string"

definition metadata_over :: "'s Runtime \<Rightarrow> ('s, 's mongo_client) MongoConnection \<Rightarrow> 's IMongoMetadata" where
  "metadata_over rt mc = MongoMetadataAdapter \<lparr>ma_client = MongoConnection_client mc, ma_stat_timeout = 15000, ma_runtime = rt\<rparr>"

definition build_telegram_dependencies ::
  "'s libraries \<Rightarrow> AppConfig \<Rightarrow> ('s, JobORM) session \<Rightarrow> ('s, UserORM) session \<Rightarrow> ('s, AuditLogORM) session \<Rightarrow>
   ('s, RateLimitORM) session \<Rightarrow> ('s, 's TelegramDependencies) M" where
  "build_telegram_dependencies lb config jobs users audit rates =
     (let mongo_conn = lb_mongo lb (MongoConnection_from_config config);
          redis_conn = lb_redis lb (RedisConnection_from_config config) in
      thenM (MongoConnection_connect mongo_conn)
     (thenM (RedisConnection_connect redis_conn)
     (returnM
        \<lparr>td_config = config, td_sha256 = lb_sha256 lb, td_jobs = jobs, td_users = users, td_audit_logs = audit,
         td_rates = rates, td_mongo_metadata = metadata_over (lb_runtime lb) mongo_conn, td_mongo_connection = mongo_conn,
         td_redis_connection = redis_conn, td_rq = lb_rq lb redis_conn, td_aioredis_client = lb_aioredis lb (ac_redis_url config),
         td_fs_utils = lb_fs lb \<lparr>au_base_path = Some (ac_backup_base_path config), au_gzip_size = lb_gzip_size lb\<rparr>,
         td_permission_service = default_service, td_runtime = lb_runtime lb\<rparr>)))"

section \<open>Use cases\<close>

definition deps_audit :: "'s TelegramDependencies \<Rightarrow> 's IAuditRepository" where
  "deps_audit td = SQLAuditRepository (td_audit_logs td)"

definition deps_jobs :: "'s TelegramDependencies \<Rightarrow> 's IJobRepository" where
  "deps_jobs td = SQLJobRepository (td_runtime td) (td_jobs td)"

definition deps_locks :: "'s TelegramDependencies \<Rightarrow> 's ILockManager" where
  "deps_locks td = RedisLockManager (td_runtime td) (td_aioredis_client td)"

definition deps_job_manager :: "'s TelegramDependencies \<Rightarrow> 's JobManager" where
  "deps_job_manager td =
     \<lparr>jm_job_repository = deps_jobs td, jm_job_queue = RQJobQueue (td_rq td), jm_permission_service = td_permission_service td,
      jm_audit_repository = deps_audit td, jm_runtime = td_runtime td\<rparr>"

definition build_request_backup_use_case :: "'s TelegramDependencies \<Rightarrow> 's RequestBackupUseCase" where
  "build_request_backup_use_case td =
     \<lparr>rb_permission_service = td_permission_service td,
      rb_rate_limit_repo = SQLRateLimitRepository (td_runtime td) (td_rates td), rb_fs_utils = td_fs_utils td,
      rb_job_manager = deps_job_manager td, rb_audit_repository = deps_audit td, rb_lock_manager = Some (deps_locks td),
      rb_backup_base_path = ac_backup_base_path (td_config td), rb_max_backup_rate = ac_rate_limit_max_requests (td_config td),
      rb_backup_rate_window = ac_rate_limit_window_seconds (td_config td), rb_min_free_disk_bytes = 1073741824,
      rb_runtime = td_runtime td\<rparr>"

definition build_query_size_use_case :: "'s TelegramDependencies \<Rightarrow> 's QuerySizeUseCase" where
  "build_query_size_use_case td =
     \<lparr>qs_mongo_metadata = td_mongo_metadata td, qs_audit_repository = deps_audit td, qs_lock_manager = Some (deps_locks td),
      qs_runtime = td_runtime td\<rparr>"

definition build_list_jobs_use_case :: "'s TelegramDependencies \<Rightarrow> QueryJobsDto \<Rightarrow> ('s, QueryJobsResult) M" where
  "build_list_jobs_use_case td = QueryJobsUseCase_execute (td_runtime td) (deps_audit td) (deps_jobs td)"

definition build_list_users_use_case :: "'s TelegramDependencies \<Rightarrow> QueryUsersDto \<Rightarrow> ('s, QueryUsersResult) M" where
  "build_list_users_use_case td =
     QueryUsersUseCase_execute (td_runtime td) (deps_audit td) (SQLUserRepository (td_users td))"

definition build_add_user_use_case :: "'s TelegramDependencies \<Rightarrow> 's AddUserUseCase" where
  "build_add_user_use_case td =
     \<lparr>au_user_repository = SQLUserRepository (td_users td), au_permission_service = td_permission_service td,
      au_audit_repository = deps_audit td, au_runtime = td_runtime td\<rparr>"

definition build_cancel_job_use_case :: "'s TelegramDependencies \<Rightarrow> CancelJobDto \<Rightarrow> ('s, CancelJobResult) M" where
  "build_cancel_job_use_case td = CancelJobUseCase_execute (deps_job_manager td)"

definition build_health_check_use_case :: "'s TelegramDependencies \<Rightarrow> 's HealthCheckUseCase" where
  "build_health_check_use_case td =
     \<lparr>hc_mongo_health = Some \<lparr>hp_ping = MongoConnection_ping (td_mongo_connection td)\<rparr>,
      hc_redis_health = Some \<lparr>hp_ping = RedisConnection_ping (td_redis_connection td)\<rparr>,
      hc_fs_utils = td_fs_utils td, hc_backup_base_path = ac_backup_base_path (td_config td),
      hc_job_repository = Some (deps_jobs td)\<rparr>"

definition build_query_metrics_use_case :: "'s TelegramDependencies \<Rightarrow> 's QueryMetricsUseCase" where
  "build_query_metrics_use_case td =
     \<lparr>qm_job_repository = deps_jobs td, qm_fs_utils = td_fs_utils td, qm_backup_base_path = ac_backup_base_path (td_config td)\<rparr>"

definition build_get_job_detail_use_case :: "'s TelegramDependencies \<Rightarrow> GetJobDetailDto \<Rightarrow> ('s, GetJobDetailResult) M" where
  "build_get_job_detail_use_case td = GetJobDetailUseCase_execute (td_runtime td) (deps_audit td) (deps_jobs td)"

end
