(* ===== verification/Chat.thy ===== *)
theory Chat
  imports Dependencies
begin

text \<open>
  What the routers of \<^verbatim>\<open>app/telegram/routers\<close> share: the conversation state aiogram keeps for a user
  (\<^verbatim>\<open>FSMContext\<close> over a storage), the states of \<^verbatim>\<open>states/backup_states.py\<close>, the monitor of
  \<^verbatim>\<open>fsm_timeout.py\<close>, and the printing of sizes. The storage is a parameter; the locale \<open>fsm_storage\<close> states
  what aiogram documents of it, \<open>ref_storage\<close> is one in memory.
\<close>

section \<open>Printing numbers\<close>

text \<open>
  A nonnegative double \<open>m * 2 ^ e\<close>. \<open>ratio n d\<close> is Python's \<open>n / d\<close> of two integers, the nearest double with
  ties to even; \<open>double_digits\<close> rounds a double as \<open>:.1f\<close> and \<open>:.2f\<close> do, on its exact value, to a number of tenths or
  hundredths. The numbers of the program are far from the largest and the smallest double.
\<close>

type_synonym double = "int \<times> int"

function bit_count :: "int \<Rightarrow> int" where
  "bit_count n = (if n \<le> 0 then 0 else 1 + bit_count (n div 2))"
  by auto
termination by (relation "measure nat") auto

declare bit_count.simps [simp del]

definition ratio :: "int \<Rightarrow> int \<Rightarrow> double" where
  "ratio n d =
     (if n = 0 then (0, 0)
      else let e = bit_count n - bit_count d - 53;
               e = (if d * 2 ^ nat e * 2 ^ 53 \<le> n * 2 ^ nat (- e) then e + 1 else e) in
           (round_div (n * 2 ^ nat (- e)) (d * 2 ^ nat e), e))"

definition double_times :: "double \<Rightarrow> int \<Rightarrow> double" where
  "double_times x k = ratio (fst x * 2 ^ nat (snd x) * k) (2 ^ nat (- snd x))"

definition double_digits :: "int \<Rightarrow> double \<Rightarrow> int" where
  "double_digits k x = round_div (fst x * 2 ^ nat (snd x) * k) (2 ^ nat (- snd x))"

definition two_decimals :: "double \<Rightarrow> string" where
  "two_decimals x = (let h = double_digits 100 x in str_int (h div 100) @ ''.'' @ str_int (h div 10 mod 10) @ str_int (h mod 10))"

definition one_decimal :: "double \<Rightarrow> string" where
  "one_decimal x = (let t = double_digits 10 x in str_int (t div 10) @ ''.'' @ str_int (t mod 10))"

text \<open>\<open>f"{n:,}"\<close>\<close>

fun group_rev :: "string \<Rightarrow> string" where
  "group_rev (a # b # c # d # ds) = a # b # c # CHR '','' # group_rev (d # ds)"
| "group_rev ds = ds"

definition thousands :: "int \<Rightarrow> string" where
  "thousands n = (if n < 0 then ''-'' else []) @ rev (group_rev (rev (str_int (abs n))))"

text \<open>The same \<open>_format_size\<close> in \<^verbatim>\<open>routers/backup.py\<close> and \<^verbatim>\<open>routers/size.py\<close>.\<close>

definition format_size :: "int \<Rightarrow> string" where
  "format_size bytes_value =
     (if 1073741824 \<le> bytes_value then two_decimals (ratio bytes_value 1073741824) @ '' GB''
      else if 1048576 \<le> bytes_value then two_decimals (ratio bytes_value 1048576) @ '' MB''
      else thousands bytes_value @ '' B'')"

definition gigabytes :: "int \<Rightarrow> string" where
  "gigabytes n = two_decimals (ratio n (1024 * 1024 * 1024))"

section \<open>Conversation states\<close>

datatype BackupStates =
    idle
  | selecting_backup_type
  | selecting_databases
  | selecting_collections
  | confirming
  | executing

text \<open>The dictionary of a conversation; \<open>None\<close> is a key that is not there, or is there with \<open>None\<close>.\<close>

record wizard_data =
  wd_chat_id :: "int option"
  wd_topic_id :: "int option"
  wd_backup_type :: "string option"
  wd_selected_databases :: "string list option"
  wd_all_databases :: "string list option"
  wd_all_collections :: "string list option"
  wd_selected_collections :: "string list option"
  wd_current_page :: "int option"

definition empty_data :: wizard_data where
  "empty_data =
     \<lparr>wd_chat_id = None, wd_topic_id = None, wd_backup_type = None, wd_selected_databases = None,
      wd_all_databases = None, wd_all_collections = None, wd_selected_collections = None, wd_current_page = None\<rparr>"

record StorageKey =
  sk_bot_id :: int
  sk_chat_id :: int
  sk_user_id :: int

record 's FSMStorage =
  sg_get_state :: "StorageKey \<Rightarrow> ('s, BackupStates option) M"
  sg_set_state :: "StorageKey \<Rightarrow> BackupStates option \<Rightarrow> ('s, unit) M"
  sg_get_data :: "StorageKey \<Rightarrow> ('s, wizard_data) M"
  sg_set_data :: "StorageKey \<Rightarrow> wizard_data \<Rightarrow> ('s, unit) M"
  sg_update_data :: "StorageKey \<Rightarrow> (wizard_data \<Rightarrow> wizard_data) \<Rightarrow> ('s, unit) M"
  sg_clear :: "StorageKey \<Rightarrow> ('s, unit) M" \<comment> \<open>no state, then no data\<close>

text \<open>\<open>FSMContext(storage, key)\<close>\<close>

record 's FSMContext =
  fx_storage :: "'s FSMStorage"
  fx_key :: StorageKey

definition fx_get_state :: "'s FSMContext \<Rightarrow> ('s, BackupStates option) M" where
  "fx_get_state fx = sg_get_state (fx_storage fx) (fx_key fx)"

definition fx_set_state :: "'s FSMContext \<Rightarrow> BackupStates \<Rightarrow> ('s, unit) M" where
  "fx_set_state fx st = sg_set_state (fx_storage fx) (fx_key fx) (Some st)"

definition fx_get_data :: "'s FSMContext \<Rightarrow> ('s, wizard_data) M" where
  "fx_get_data fx = sg_get_data (fx_storage fx) (fx_key fx)"

definition fx_set_data :: "'s FSMContext \<Rightarrow> wizard_data \<Rightarrow> ('s, unit) M" where
  "fx_set_data fx d = sg_set_data (fx_storage fx) (fx_key fx) d"

definition fx_update_data :: "'s FSMContext \<Rightarrow> (wizard_data \<Rightarrow> wizard_data) \<Rightarrow> ('s, unit) M" where
  "fx_update_data fx f = sg_update_data (fx_storage fx) (fx_key fx) f"

definition fx_clear :: "'s FSMContext \<Rightarrow> ('s, unit) M" where
  "fx_clear fx = sg_clear (fx_storage fx) (fx_key fx)"

text \<open>A conversation is a state and its data. What a call that returns did to it; one that raises may have
  done it or not, \<open>clear\<close> also half of it.\<close>

type_synonym conversation = "BackupStates option \<times> wizard_data"

locale fsm_storage =
  fixes sg :: "'s FSMStorage" and talk :: "'s \<Rightarrow> StorageKey \<Rightarrow> conversation"
  assumes get_state_frame: "frames talk (sg_get_state sg k)"
    and get_state_ok: "sg_get_state sg k s = (Inr x, s') \<Longrightarrow> x = fst (talk s k)"
    and get_data_frame: "frames talk (sg_get_data sg k)"
    and get_data_ok: "sg_get_data sg k s = (Inr d, s') \<Longrightarrow> d = snd (talk s k)"
    and set_state_ok: "sg_set_state sg k x s = (Inr u, s') \<Longrightarrow> talk s' = (talk s)(k := (x, snd (talk s k)))"
    and set_state_err: "sg_set_state sg k x s = (Inl e, s') \<Longrightarrow>
      talk s' = talk s \<or> talk s' = (talk s)(k := (x, snd (talk s k)))"
    and set_data_ok: "sg_set_data sg k d s = (Inr u, s') \<Longrightarrow> talk s' = (talk s)(k := (fst (talk s k), d))"
    and set_data_err: "sg_set_data sg k d s = (Inl e, s') \<Longrightarrow>
      talk s' = talk s \<or> talk s' = (talk s)(k := (fst (talk s k), d))"
    and update_data_ok: "sg_update_data sg k f s = (Inr u, s') \<Longrightarrow>
      talk s' = (talk s)(k := (fst (talk s k), f (snd (talk s k))))"
    and update_data_err: "sg_update_data sg k f s = (Inl e, s') \<Longrightarrow>
      talk s' = talk s \<or> talk s' = (talk s)(k := (fst (talk s k), f (snd (talk s k))))"
    and clear_ok: "sg_clear sg k s = (Inr u, s') \<Longrightarrow> talk s' = (talk s)(k := (None, empty_data))"
    and clear_err: "sg_clear sg k s = (Inl e, s') \<Longrightarrow>
      talk s' = talk s \<or> talk s' = (talk s)(k := (None, snd (talk s k))) \<or> talk s' = (talk s)(k := (None, empty_data))"

definition ref_storage :: "(StorageKey \<Rightarrow> conversation) FSMStorage" where
  "ref_storage =
     \<lparr>sg_get_state = (\<lambda>k s. (Inr (fst (s k)), s)),
      sg_set_state = (\<lambda>k x s. (Inr (), s(k := (x, snd (s k))))),
      sg_get_data = (\<lambda>k s. (Inr (snd (s k)), s)),
      sg_set_data = (\<lambda>k d s. (Inr (), s(k := (fst (s k), d)))),
      sg_update_data = (\<lambda>k f s. (Inr (), s(k := (fst (s k), f (snd (s k)))))),
      sg_clear = (\<lambda>k s. (Inr (), s(k := (None, empty_data))))\<rparr>"

interpretation ref_fsm: fsm_storage ref_storage "\<lambda>s. s"
  by unfold_locales (auto simp: ref_storage_def frames_def)

section \<open>Inactivity\<close>

definition FSM_ACTIVE_KEY :: string where "FSM_ACTIVE_KEY = ''fsm:backup:active''"
definition TIMEOUT_MICROSECONDS :: int where "TIMEOUT_MICROSECONDS = 600 * 1000000"
definition CHECK_INTERVAL_MS :: int where "CHECK_INTERVAL_MS = 300 * 1000"

text \<open>The score is the Unix time of the interaction.\<close>

definition FSMTimeoutMonitor_touch :: "'s Runtime \<Rightarrow> 's redis \<Rightarrow> int \<Rightarrow> ('s, unit) M" where
  "FSMTimeoutMonitor_touch rt rd user_id =
     bindM (rt_now rt) (\<lambda>now. thenM (rd_zadd rd FSM_ACTIVE_KEY now (str_int user_id)) (returnM ()))"

record 's FSMTimeoutMonitor =
  tm_bot :: "'s Bot"
  tm_bot_id :: int
  tm_storage :: "'s FSMStorage"
  tm_config :: AppConfig
  tm_redis :: "'s redis"
  tm_zrangebyscore :: "string \<Rightarrow> int \<Rightarrow> int \<Rightarrow> ('s, string list) M" \<comment> \<open>\<open>ZRANGEBYSCORE\<close>\<close>
  tm_runtime :: "'s Runtime"

definition timeout_text :: string where
  "timeout_text = ''Sesi'' @ [CHR 0xF3] @ ''n de backup expirada por inactividad (>10 min). Usa /backup para reiniciar.''"

definition timeout_key :: "'s FSMTimeoutMonitor \<Rightarrow> int \<Rightarrow> exn + StorageKey" where
  "timeout_key tm user_id =
     bind_sum (py_int (ac_telegram_chat_id (tm_config tm))) (\<lambda>chat_id.
     Inr \<lparr>sk_bot_id = tm_bot_id tm, sk_chat_id = chat_id, sk_user_id = user_id\<rparr>)"

text \<open>The body of the loop over the expired members; \<open>send_message\<close> is given the chat as a string there.\<close>

definition expire_session :: "'s FSMTimeoutMonitor \<Rightarrow> StorageKey \<Rightarrow> ('s, unit) M" where
  "expire_session tm key =
     bindM (sg_get_state (tm_storage tm) key) (\<lambda>current_state.
     whenM (current_state \<noteq> None \<and> current_state \<noteq> Some idle)
       (thenM (sg_set_state (tm_storage tm) key (Some idle))
       (thenM (sg_set_data (tm_storage tm) key empty_data)
              (tryM (bot_send_message (tm_bot tm) (sk_chat_id key) timeout_text
                       (Some (ac_topic_backup_requests (tm_config tm))) None)
                 (\<lambda>exc. returnM ())))))"

definition expire_member :: "'s FSMTimeoutMonitor \<Rightarrow> string \<Rightarrow> ('s, unit) M" where
  "expire_member tm member =
     (case py_int member of
        Inl _ \<Rightarrow> returnM ()
      | Inr user_id \<Rightarrow> bindM (liftE (timeout_key tm user_id)) (expire_session tm))"

fun for_each :: "('a \<Rightarrow> ('s, unit) M) \<Rightarrow> 'a list \<Rightarrow> ('s, unit) M" where
  "for_each f [] = returnM ()"
| "for_each f (x # xs) = thenM (f x) (for_each f xs)"

definition FSMTimeoutMonitor_check_timeouts :: "'s FSMTimeoutMonitor \<Rightarrow> ('s, unit) M" where
  "FSMTimeoutMonitor_check_timeouts tm =
     bindM (rt_now (tm_runtime tm)) (\<lambda>now.
     let cutoff = now - TIMEOUT_MICROSECONDS in
     bindM (tm_zrangebyscore tm FSM_ACTIVE_KEY 0 cutoff) (\<lambda>expired.
     if expired = [] then returnM ()
     else thenM (for_each (expire_member tm) expired)
         (thenM (rd_zremrangebyscore (tm_redis tm) FSM_ACTIVE_KEY 0 cutoff) (returnM ()))))"

text \<open>\<open>_run\<close> sleeps and checks for ever; this is one turn, in which nothing can stop it.\<close>

definition FSMTimeoutMonitor_turn :: "'s FSMTimeoutMonitor \<Rightarrow> ('s, unit) M" where
  "FSMTimeoutMonitor_turn tm =
     thenM (rt_sleep_ms (tm_runtime tm) CHECK_INTERVAL_MS)
           (tryM (FSMTimeoutMonitor_check_timeouts tm) (\<lambda>exc. returnM ()))"

end
