(* ===== verification/Frames.thy ===== *)
theory Frames
  imports Dependencies
begin

text \<open>
  What the use cases of the bot leave alone. \<open>deps_frames view td\<close> says that no call of a library
  below the dependencies \<open>td\<close>, other than on the user table, changes \<open>view\<close>; then no use case
  assembled from \<open>td\<close> does, by the frame rules of the monad. The rules are collected in
  \<open>frame_intros\<close>, for the proofs about the handlers.
\<close>

section \<open>Libraries\<close>

definition session_frames :: "('s \<Rightarrow> 'v) \<Rightarrow> ('s, 'r) session \<Rightarrow> bool" where
  "session_frames view ses \<longleftrightarrow>
     (\<forall>q. frames view (ss_select ses q)) \<and> (\<forall>P. frames view (ss_count ses P)) \<and>
     (\<forall>c. frames view (ss_commit ses c)) \<and> frames view (ss_rollback ses)"

definition redis_frames :: "('s \<Rightarrow> 'v) \<Rightarrow> 's redis \<Rightarrow> bool" where
  "redis_frames view rd \<longleftrightarrow>
     (\<forall>k v n. frames view (rd_set_nx_ex rd k v n)) \<and> (\<forall>k. frames view (rd_get rd k)) \<and>
     (\<forall>k. frames view (rd_del rd k)) \<and> (\<forall>k. frames view (rd_exists rd k)) \<and>
     (\<forall>k m v. frames view (rd_zadd rd k m v)) \<and> (\<forall>k a b. frames view (rd_zremrangebyscore rd k a b)) \<and>
     (\<forall>m. frames view m \<longrightarrow> frames view (rd_eval rd m))"

definition rq_frames :: "('s \<Rightarrow> 'v) \<Rightarrow> 's rq_client \<Rightarrow> bool" where
  "rq_frames view rq \<longleftrightarrow>
     (\<forall>n i ty p f. frames view (rq_enqueue_in rq n i ty p f)) \<and> (\<forall>i. frames view (rq_fetch rq i)) \<and>
     (\<forall>i. frames view (rq_cancel rq i))"

definition metadata_frames :: "('s \<Rightarrow> 'v) \<Rightarrow> 's IMongoMetadata \<Rightarrow> bool" where
  "metadata_frames view mm \<longleftrightarrow>
     (\<forall>h. frames view (mm_list_databases mm h)) \<and> (\<forall>h d. frames view (mm_list_collections mm h d)) \<and>
     (\<forall>h. frames view (mm_get_size_stats mm h))"

definition deps_frames :: "('s \<Rightarrow> 'v) \<Rightarrow> 's TelegramDependencies \<Rightarrow> bool" where
  "deps_frames view td \<longleftrightarrow>
     session_frames view (td_jobs td) \<and> session_frames view (td_audit_logs td) \<and> session_frames view (td_rates td) \<and>
     metadata_frames view (td_mongo_metadata td) \<and>
     frames view (MongoConnection_ping (td_mongo_connection td)) \<and>
     frames view (RedisConnection_ping (td_redis_connection td)) \<and>
     rq_frames view (td_rq td) \<and> redis_frames view (td_aioredis_client td) \<and>
     (\<forall>p. frames view (fs_get_disk_usage (td_fs_utils td) p)) \<and>
     (\<forall>p. frames view (fs_get_folder_size (td_fs_utils td) p)) \<and> runtime_frames view (td_runtime td)"

lemma frames_case_sum [frame_intros]:
  "(\<And>e. frames view (h e)) \<Longrightarrow> (\<And>x. frames view (f x)) \<Longrightarrow>
   frames view (case z of Inl e \<Rightarrow> h e | Inr x \<Rightarrow> f x)"
  by (cases z) simp_all

lemma session_framesD [frame_intros]:
  assumes "session_frames view ses"
  shows "frames view (ss_select ses q)" "frames view (ss_count ses P)" "frames view (ss_commit ses c)"
    "frames view (ss_rollback ses)"
  using assms by (simp_all add: session_frames_def)

lemma redis_framesD [frame_intros]:
  assumes "redis_frames view rd"
  shows "frames view (rd_set_nx_ex rd k v n)" "frames view (rd_get rd k)" "frames view (rd_del rd k)"
    "frames view (rd_exists rd k)" "frames view (rd_zadd rd k m sc)" "frames view (rd_zremrangebyscore rd k a b)"
    "frames view scr \<Longrightarrow> frames view (rd_eval rd scr)"
  using assms by (simp_all add: redis_frames_def)

lemma rq_framesD [frame_intros]:
  assumes "rq_frames view rq"
  shows "frames view (rq_enqueue_in rq n i ty p f)" "frames view (rq_fetch rq i)" "frames view (rq_cancel rq i)"
  using assms by (simp_all add: rq_frames_def)

lemma metadata_framesD [frame_intros]:
  assumes "metadata_frames view mm"
  shows "frames view (mm_list_databases mm h)" "frames view (mm_list_collections mm h d)"
    "frames view (mm_get_size_stats mm h)"
  using assms by (simp_all add: metadata_frames_def)

lemma deps_framesD:
  assumes "deps_frames view td"
  shows "session_frames view (td_jobs td)" "session_frames view (td_audit_logs td)" "session_frames view (td_rates td)"
    "metadata_frames view (td_mongo_metadata td)" "frames view (MongoConnection_ping (td_mongo_connection td))"
    "frames view (RedisConnection_ping (td_redis_connection td))" "rq_frames view (td_rq td)"
    "redis_frames view (td_aioredis_client td)" "frames view (fs_get_disk_usage (td_fs_utils td) p)"
    "frames view (fs_get_folder_size (td_fs_utils td) p)" "runtime_frames view (td_runtime td)"
  using assms by (simp_all add: deps_frames_def)

section \<open>Adapters\<close>

lemma job_repository_frames:
  assumes "session_frames view ses" "runtime_frames view rt"
  shows "repo_frames view (SQLJobRepository rt ses)"
    "frames view (jr_list_by_user (SQLJobRepository rt ses) u st p n)"
    "frames view (jr_list_by_status (SQLJobRepository rt ses) st p n)"
    "frames view (jr_get_by_id (SQLJobRepository rt ses) i)"
    "frames view (jr_count_by_status (SQLJobRepository rt ses) status)"
    "frames view (jr_get_job_stats (SQLJobRepository rt ses))"
  unfolding repo_frames_def SQLJobRepository_def IJobRepository.simps SQLJobRepository_get_by_id_def
    SQLJobRepository_save_def SQLJobRepository_list_by_status_def SQLJobRepository_list_by_user_def
    SQLJobRepository_count_by_status_def SQLJobRepository_get_job_stats_def Let_def
  by (intro conjI allI frame_intros assms)+

lemma audit_repository_frames: "session_frames view ses \<Longrightarrow> audit_frames view (SQLAuditRepository ses)"
  unfolding audit_frames_def SQLAuditRepository_def IAuditRepository.simps SQLAuditRepository_log_def
  by (intro allI frame_intros)

lemma rate_repository_frames:
  "session_frames view ses \<Longrightarrow> runtime_frames view rt \<Longrightarrow>
   frames view (rl_increment (SQLRateLimitRepository rt ses) u a w)"
  unfolding SQLRateLimitRepository_def IRateLimitRepository.simps SQLRateLimitRepository_increment_def
  by (intro frame_intros)

lemma redis_lock_frames:
  assumes "redis_frames view rd" "runtime_frames view rt"
  shows "frames view (lm_acquire (RedisLockManager rt rd) r n)" "frames view (lm_release (RedisLockManager rt rd) r tok)"
  unfolding RedisLockManager_def ILockManager.simps RedisLockManager_acquire_def RedisLockManager_release_def
    RELEASE_SCRIPT_def
  by (intro frame_intros assms)+

lemma rq_queue_frames:
  assumes "rq_frames view rq"
  shows "frames view (jq_enqueue (RQJobQueue rq) i ty p pr)" "frames view (jq_cancel_job (RQJobQueue rq) q)"
  unfolding RQJobQueue_def IJobQueue.simps RQJobQueue_enqueue_def RQJobQueue_cancel_job_def Let_def
  by (intro frame_intros assms)+

section \<open>Use cases\<close>

lemma deps_parts_frames:
  assumes "deps_frames view td"
  shows "audit_frames view (deps_audit td)" "repo_frames view (deps_jobs td)" "manager_frames view (deps_job_manager td)"
    "frames view (lm_acquire (deps_locks td) r n)" "frames view (lm_release (deps_locks td) r tok)"
  using deps_framesD [OF assms]
  by (simp_all add: deps_audit_def deps_jobs_def deps_locks_def deps_job_manager_def manager_frames_def
      audit_repository_frames job_repository_frames redis_lock_frames rq_queue_frames)

lemma use_case_frames:
  assumes "deps_frames view td"
  shows "frames view (RequestBackupUseCase_execute (build_request_backup_use_case td) rdto)"
    "frames view (QuerySizeUseCase_execute (build_query_size_use_case td) sdto)"
    "frames view (build_list_jobs_use_case td jdto)" "frames view (build_get_job_detail_use_case td gdto)"
    "frames view (build_cancel_job_use_case td cdto)"
    "frames view (HealthCheckUseCase_execute (build_health_check_use_case td) hdto)"
    "frames view (QueryMetricsUseCase_execute (build_query_metrics_use_case td) mdto)"
proof -
  note d = deps_framesD [OF assms] and p = deps_parts_frames [OF assms]
  have jobs: "frames view (jr_list_by_user (deps_jobs td) u st pg n)" "frames view (jr_list_by_status (deps_jobs td) st pg n)"
    "frames view (jr_get_by_id (deps_jobs td) i)" "frames view (jr_count_by_status (deps_jobs td) status)"
    "frames view (jr_get_job_stats (deps_jobs td))" for u st pg n i status
    using d by (simp_all add: deps_jobs_def job_repository_frames)
  have mrepo: "repo_frames view (jm_job_repository (deps_job_manager td))" using p(2) by (simp add: deps_job_manager_def)
  have rq: "request_frames view (build_request_backup_use_case td)"
    using d p by (simp add: request_frames_def build_request_backup_use_case_def rate_repository_frames)
  have rrepo: "repo_frames view (jm_job_repository (rb_job_manager (build_request_backup_use_case td)))"
    using mrepo by (simp add: build_request_backup_use_case_def)
  have lk: "rb_lock_manager (build_request_backup_use_case td) = Some (deps_locks td)"
    by (simp add: build_request_backup_use_case_def)
  have inc: "frames view (rl_increment (rb_rate_limit_repo (build_request_backup_use_case td)) u a w)" for u a w
    using rq by (simp add: request_frames_def)
  show "frames view (RequestBackupUseCase_execute (build_request_backup_use_case td) rdto)"
    unfolding RequestBackupUseCase_execute_def lk option.case
    by (intro frame_intros request_body_frames [OF rq rrepo] release_suppressed_frames p inc)
  show "frames view (QuerySizeUseCase_execute (build_query_size_use_case td) sdto)"
    unfolding QuerySizeUseCase_execute_def build_query_size_use_case_def query_size_body_def Let_def query_cluster_def
      query_databases_def query_collections_def SizeQueryService_get_cluster_size_def
      SizeQueryService_get_database_sizes_def SizeQueryService_get_collection_sizes_def QuerySizeUseCase.simps option.case
    by (intro frame_intros release_suppressed_frames p d)
  show "frames view (build_list_jobs_use_case td jdto)"
    unfolding build_list_jobs_use_case_def QueryJobsUseCase_execute_def by (intro frame_intros jobs p d)
  show "frames view (build_get_job_detail_use_case td gdto)"
    unfolding build_get_job_detail_use_case_def GetJobDetailUseCase_execute_def by (intro frame_intros jobs p d)
  show "frames view (build_cancel_job_use_case td cdto)"
    unfolding build_cancel_job_use_case_def CancelJobUseCase_execute_def
    by (intro frame_intros manager_ops_frames [OF p(3) mrepo] p(3))
  show "frames view (HealthCheckUseCase_execute (build_health_check_use_case td) hdto)"
    unfolding HealthCheckUseCase_execute_def build_health_check_use_case_def ping_health_def count_running_jobs_def
    by (simp, intro frame_intros jobs d)
  show "frames view (QueryMetricsUseCase_execute (build_query_metrics_use_case td) mdto)"
    unfolding build_query_metrics_use_case_def QueryMetricsUseCase_execute_def QueryMetricsUseCase.simps by (intro frame_intros jobs d)
qed

end
