(* ===== verification/Wizard.thy ===== *)
theory Wizard
  imports Chat Frames
begin

text \<open>
  \<^verbatim>\<open>app/telegram/routers/backup.py\<close>: the conversation in which a user chooses what to back up. Each handler
  is a definition of its name; \<open>backup_callback\<close> is the registration of the callback handlers, the first
  whose filters match. The keys of a handler's arguments \<open>telegram_deps\<close>, \<open>state\<close>, \<open>user\<close> are \<open>td\<close>,
  \<open>fx\<close>, \<open>user\<close>; \<open>ch\<close> is what aiogram gives every handler.

  What the conversation is to do is stated in \<open>WizardSpec\<close>.
\<close>

section \<open>Handlers\<close>

record 's chat =
  ch_bot :: "'s Bot"
  ch_packing :: packing
  ch_set_list :: "string set \<Rightarrow> 's \<Rightarrow> string list" \<comment> \<open>\<open>list(s)\<close> of a set, in whatever order\<close>

definition list_of_set :: "'s chat \<Rightarrow> string set \<Rightarrow> ('s, string list) M" where
  "list_of_set ch S = (\<lambda>s. (Inr (ch_set_list ch S s), s))"

definition touch :: "'s TelegramDependencies \<Rightarrow> User \<Rightarrow> ('s, unit) M" where
  "touch td user = FSMTimeoutMonitor_touch (td_runtime td) (td_aioredis_client td) (u_telegram_id user)"

definition answer :: "'s chat \<Rightarrow> CallbackQuery \<Rightarrow> ('s, unit) M" where
  "answer ch cb = bot_answer_callback (ch_bot ch) cb None False"

text \<open>\<open>if isinstance(callback.message, Message): await callback.message.edit_text(...)\<close>, with and without a
  keyboard, which is built before the call.\<close>

definition edit_with :: "'s chat \<Rightarrow> CallbackQuery \<Rightarrow> string \<Rightarrow> exn + keyboard \<Rightarrow> ('s, unit) M" where
  "edit_with ch cb text kb = (case cq_message cb of
     None \<Rightarrow> returnM ()
   | Some m \<Rightarrow> bindM (liftE kb) (\<lambda>k. bot_edit_text (ch_bot ch) m text (Some k)))"

definition edit_plain :: "'s chat \<Rightarrow> CallbackQuery \<Rightarrow> string \<Rightarrow> ('s, unit) M" where
  "edit_plain ch cb text = (case cq_message cb of None \<Rightarrow> returnM () | Some m \<Rightarrow> bot_edit_text (ch_bot ch) m text None)"

definition get_list :: "string list option \<Rightarrow> string list" where
  "get_list x = (case x of None \<Rightarrow> [] | Some xs \<Rightarrow> xs)"

definition estimate_line :: "string \<Rightarrow> string" where
  "estimate_line v = ''Estimaci'' @ [CHR 0xF3] @ ''n: '' @ v @ newline"

definition full_summary :: "string \<Rightarrow> int \<Rightarrow> string" where
  "full_summary cluster size_bytes =
     ''Resumen del backup'' @ newline @ newline @ ''Tipo: Full'' @ newline @ ''Cluster: '' @ take 8 cluster @ newline @
     estimate_line (format_size size_bytes)"

definition custom_summary :: "string list \<Rightarrow> string \<Rightarrow> string \<Rightarrow> string" where
  "custom_summary dbs n estimate =
     ''Resumen del backup'' @ newline @ newline @ ''Tipo: Custom'' @ newline @ ''Bases: '' @ join '', '' dbs @ newline @
     ''Colecciones: '' @ n @ newline @ estimate_line estimate"

definition cmd_backup ::
  "'s chat \<Rightarrow> 's TelegramDependencies \<Rightarrow> 's FSMContext \<Rightarrow> Message \<Rightarrow> User \<Rightarrow> ('s, unit) M" where
  "cmd_backup ch td fx message user =
     thenM (touch td user)
    (thenM (fx_set_state fx selecting_backup_type)
    (thenM (fx_set_data fx (empty_data\<lparr>wd_chat_id := Some (msg_chat_id message), wd_topic_id := msg_thread_id message\<rparr>))
    (bindM (liftE (build_backup_type_keyboard (ch_packing ch))) (\<lambda>kb.
     Message_answer (ch_bot ch) message ''Selecciona el tipo de backup:'' (Some kb)))))"

definition on_full_type ::
  "'s chat \<Rightarrow> 's TelegramDependencies \<Rightarrow> 's FSMContext \<Rightarrow> CallbackQuery \<Rightarrow> User \<Rightarrow> ('s, unit) M" where
  "on_full_type ch td fx cb user =
     thenM (touch td user)
    (thenM (answer ch cb)
    (thenM (fx_set_state fx confirming)
    (thenM (fx_update_data fx (\<lambda>d. d\<lparr>wd_backup_type := Some ''FULL''\<rparr>))
    (bindM (mm_get_size_stats (td_mongo_metadata td) (cluster_uri_hash td)) (\<lambda>size_report.
     edit_with ch cb (full_summary (cluster_uri_hash td) (sum_list (map ds_size_bytes (sr_databases size_report))))
       (build_confirm_keyboard (ch_packing ch)))))))"

definition on_custom_type ::
  "'s chat \<Rightarrow> 's TelegramDependencies \<Rightarrow> 's FSMContext \<Rightarrow> CallbackQuery \<Rightarrow> User \<Rightarrow> ('s, unit) M" where
  "on_custom_type ch td fx cb user =
     thenM (touch td user)
    (thenM (answer ch cb)
    (bindM (mm_list_databases (td_mongo_metadata td) (cluster_uri_hash td)) (\<lambda>databases.
     thenM (fx_set_state fx selecting_databases)
    (thenM (fx_update_data fx (\<lambda>d. d\<lparr>wd_backup_type := Some ''CUSTOM'', wd_selected_databases := Some [],
                                       wd_all_databases := Some databases\<rparr>))
    (edit_with ch cb ''Selecciona las bases de datos:'' (build_database_keyboard (ch_packing ch) databases {}))))))"

definition toggled :: "'a \<Rightarrow> 'a set \<Rightarrow> 'a set" where
  "toggled x S = (if x \<in> S then S - {x} else insert x S)"

definition on_db_toggle ::
  "'s chat \<Rightarrow> 's TelegramDependencies \<Rightarrow> 's FSMContext \<Rightarrow> CallbackQuery \<Rightarrow> string \<Rightarrow> User \<Rightarrow> ('s, unit) M" where
  "on_db_toggle ch td fx cb database user =
     thenM (touch td user)
    (thenM (answer ch cb)
    (bindM (fx_get_data fx) (\<lambda>data.
     let selected = toggled database (set (get_list (wd_selected_databases data)));
         databases = get_list (wd_all_databases data) in
     bindM (list_of_set ch selected) (\<lambda>xs.
     thenM (fx_update_data fx (\<lambda>d. d\<lparr>wd_selected_databases := Some xs\<rparr>))
    (edit_with ch cb ''Selecciona las bases de datos:'' (build_database_keyboard (ch_packing ch) databases selected))))))"

text \<open>The loop over the selected databases.\<close>

fun collect_pairs :: "'s IMongoMetadata \<Rightarrow> string \<Rightarrow> string list \<Rightarrow> ('s, (string \<times> string) list) M" where
  "collect_pairs mm h [] = returnM []"
| "collect_pairs mm h (db # dbs) =
     bindM (mm_list_collections mm h db) (\<lambda>cols.
     bindM (collect_pairs mm h dbs) (\<lambda>rest. returnM (map (\<lambda>c. (db, c)) cols @ rest)))"

definition on_db_continuar ::
  "'s chat \<Rightarrow> 's TelegramDependencies \<Rightarrow> 's FSMContext \<Rightarrow> CallbackQuery \<Rightarrow> User \<Rightarrow> ('s, unit) M" where
  "on_db_continuar ch td fx cb user =
     thenM (touch td user)
    (bindM (fx_get_data fx) (\<lambda>data.
     let selected_databases = get_list (wd_selected_databases data) in
     if selected_databases = []
     then bot_answer_callback (ch_bot ch) cb (Some ''Selecciona al menos una base de datos'') True
     else thenM (answer ch cb)
    (bindM (collect_pairs (td_mongo_metadata td) (cluster_uri_hash td) selected_databases) (\<lambda>all_collections.
     thenM (fx_set_state fx selecting_collections)
    (thenM (fx_update_data fx (\<lambda>d. d\<lparr>wd_all_collections := Some (map collection_key all_collections),
                                       wd_selected_collections := Some [], wd_current_page := Some 0\<rparr>))
    (if cq_message cb = None then returnM ()
     else if all_collections = []
     then thenM (fx_set_state fx confirming)
         (thenM (fx_update_data fx (\<lambda>d. d\<lparr>wd_selected_collections := Some []\<rparr>))
         (edit_with ch cb (custom_summary selected_databases ''0'' ''0 B'') (build_confirm_keyboard (ch_packing ch))))
     else edit_with ch cb ''Selecciona las colecciones:'' (build_collection_keyboard (ch_packing ch) all_collections {} 0 10)))))))"

text \<open>\<open>db, _, coll = c.partition(".")\<close>\<close>

definition key_pair :: "string \<Rightarrow> string \<times> string" where
  "key_pair c = (case py_partition (CHR ''.'') c of (db, _, coll) \<Rightarrow> (db, coll))"

definition on_coll_toggle ::
  "'s chat \<Rightarrow> 's TelegramDependencies \<Rightarrow> 's FSMContext \<Rightarrow> CallbackQuery \<Rightarrow> string \<Rightarrow> string \<Rightarrow> User \<Rightarrow> ('s, unit) M" where
  "on_coll_toggle ch td fx cb database collection user =
     thenM (touch td user)
    (thenM (answer ch cb)
    (bindM (fx_get_data fx) (\<lambda>data.
     let selected = toggled (collection_key (database, collection)) (set (get_list (wd_selected_collections data)));
         all_collections = map key_pair (get_list (wd_all_collections data));
         current_page = (case wd_current_page data of None \<Rightarrow> 0 | Some p \<Rightarrow> p) in
     bindM (list_of_set ch selected) (\<lambda>xs.
     thenM (fx_update_data fx (\<lambda>d. d\<lparr>wd_selected_collections := Some xs\<rparr>))
    (edit_with ch cb ''Selecciona las colecciones:''
       (build_collection_keyboard (ch_packing ch) all_collections selected current_page 10))))))"

definition on_page_nav ::
  "'s chat \<Rightarrow> 's TelegramDependencies \<Rightarrow> 's FSMContext \<Rightarrow> CallbackQuery \<Rightarrow> int \<Rightarrow> User \<Rightarrow> ('s, unit) M" where
  "on_page_nav ch td fx cb page user =
     thenM (touch td user)
    (thenM (answer ch cb)
    (bindM (fx_get_data fx) (\<lambda>data.
     let selected = set (get_list (wd_selected_collections data));
         all_collections = map key_pair (get_list (wd_all_collections data)) in
     thenM (fx_update_data fx (\<lambda>d. d\<lparr>wd_current_page := Some page\<rparr>))
    (edit_with ch cb ''Selecciona las colecciones:''
       (build_collection_keyboard (ch_packing ch) all_collections selected page 10)))))"

text \<open>\<open>size_map\<close> is a dictionary: of equal keys the last one counts.\<close>

definition selected_size :: "SizeReport \<Rightarrow> string list \<Rightarrow> int" where
  "selected_size report selected =
     (let size_map = map_of (rev (map (\<lambda>c. (collection_key (cs_database c, cs_collection c), cs_size_bytes c)) (sr_collections report)))
      in sum_list (map (\<lambda>c. case size_map c of None \<Rightarrow> 0 | Some n \<Rightarrow> n) selected))"

definition on_coll_confirmar ::
  "'s chat \<Rightarrow> 's TelegramDependencies \<Rightarrow> 's FSMContext \<Rightarrow> CallbackQuery \<Rightarrow> User \<Rightarrow> ('s, unit) M" where
  "on_coll_confirmar ch td fx cb user =
     thenM (touch td user)
    (bindM (fx_get_data fx) (\<lambda>data.
     let selected_collections = get_list (wd_selected_collections data);
         selected_databases = get_list (wd_selected_databases data) in
     if selected_collections = []
     then bot_answer_callback (ch_bot ch) cb (Some (''Selecciona al menos una colecci'' @ [CHR 0xF3] @ ''n'')) True
     else thenM (answer ch cb)
    (bindM (mm_get_size_stats (td_mongo_metadata td) (cluster_uri_hash td)) (\<lambda>size_report.
     thenM (fx_set_state fx confirming)
    (edit_with ch cb
       (custom_summary selected_databases (str_int (int (length selected_collections)))
          (format_size (selected_size size_report selected_collections)))
       (build_confirm_keyboard (ch_packing ch)))))))"

text \<open>\<open>CollectionTarget(database=db, collection=coll) for db, coll in (c.split(".", 1) ...)\<close>\<close>

definition key_target :: "string \<Rightarrow> exn + CollectionTarget" where
  "key_target c = (case py_partition (CHR ''.'') c of (db, found, coll) \<Rightarrow>
     if found then mk_CollectionTarget db coll CollectionBackupStatus.PENDING None None
     else Inl (ValueError ''not enough values to unpack (expected 2, got 1)''))"

definition wizard_type :: "wizard_data \<Rightarrow> string" where
  "wizard_type data = (case wd_backup_type data of None \<Rightarrow> ''FULL'' | Some t \<Rightarrow> t)"

definition wizard_targets :: "wizard_data \<Rightarrow> exn + CollectionTarget list option" where
  "wizard_targets data =
     (let selected_collections = get_list (wd_selected_collections data) in
      if wizard_type data = ''CUSTOM'' \<and> selected_collections \<noteq> []
      then bind_sum (map_sum_list key_target selected_collections) (\<lambda>ts. Inr (Some ts))
      else Inr None)"

definition wizard_dto :: "'s TelegramDependencies \<Rightarrow> wizard_data \<Rightarrow> CallbackQuery \<Rightarrow> User \<Rightarrow> exn + RequestBackupDto" where
  "wizard_dto td data cb user =
     bind_sum (wizard_targets data) (\<lambda>target_collections.
     bind_sum (principal_of_user user) (\<lambda>principal.
     bind_sum (parse_backup_type (wizard_type data)) (\<lambda>ty.
     validated valid_RequestBackupDto ''RequestBackupDto''
       \<lparr>rbd_user = principal, rbd_chat_id = wd_chat_id data, rbd_topic_id = wd_topic_id data,
        rbd_status_message_id = map_option msg_id (cq_message cb), rbd_backup_type = ty,
        rbd_cluster_uri_hash = cluster_uri_hash td, rbd_target_collections = target_collections,
        rbd_topic = ''BACKUP_REQUESTS'', rbd_command = Some ''BACKUP''\<rparr>)))"

text \<open>\<open>str\<close> of a value in the details of an error.\<close>

fun pyval_repr :: "pyval \<Rightarrow> string" where
  "pyval_repr PNone = ''None''"
| "pyval_repr (PBool b) = (if b then ''True'' else ''False'')"
| "pyval_repr (PInt i) = str_int i"
| "pyval_repr (PStr s) = py_repr s"
| "pyval_repr (PList xs) = ''['' @ join '', '' (map pyval_repr xs) @ '']''"
| "pyval_repr (PDict kvs) = ''{'' @ join '', '' (map (\<lambda>(k, v). py_repr k @ '': '' @ pyval_repr v) kvs) @ ''}''"

definition pyval_str :: "pyval \<Rightarrow> string" where
  "pyval_str v = (case v of PStr s \<Rightarrow> s | _ \<Rightarrow> pyval_repr v)"

definition rate_limit_text :: "exn \<Rightarrow> string" where
  "rate_limit_text exc =
     ''Rate limit excedido: '' @ exn_str exc @ newline @ ''Espera '' @
     (case exc of DomainExn _ _ details \<Rightarrow> (case map_of details ''window_seconds'' of None \<Rightarrow> ''60'' | Some v \<Rightarrow> pyval_str v)
      | _ \<Rightarrow> ''60'') @ '' segundos.''"

text \<open>The three \<open>except\<close> clauses: what is shown for an exception, \<open>None\<close> when it is not caught.\<close>

definition refusal_text :: "exn \<Rightarrow> string option" where
  "refusal_text exc =
     (if is_instance exc RateLimitError then Some (rate_limit_text exc)
      else if is_instance exc DiskSpaceError then Some (''Sin espacio en disco: '' @ exn_str exc)
      else if is_instance exc DomainPermissionError then Some (''Permisos insuficientes: '' @ exn_str exc)
      else None)"

definition queued_text :: "RequestBackupResult \<Rightarrow> string" where
  "queued_text result =
     ''Backup en cola'' @ newline @ newline @ ''Job ID: <code>'' @ rbr_job_id result @ ''</code>'' @ newline @
     ''Estado: '' @ status_value (rbr_status result)"

definition on_ejecutar ::
  "'s chat \<Rightarrow> 's TelegramDependencies \<Rightarrow> 's FSMContext \<Rightarrow> CallbackQuery \<Rightarrow> User \<Rightarrow> ('s, unit) M" where
  "on_ejecutar ch td fx cb user =
     thenM (touch td user)
    (thenM (answer ch cb)
    (bindM (fx_get_data fx) (\<lambda>data.
     bindM (liftE (wizard_dto td data cb user)) (\<lambda>dto.
     bindM (tryM (bindM (RequestBackupUseCase_execute (build_request_backup_use_case td) dto)
                    (\<lambda>result. returnM (queued_text result)))
             (\<lambda>exc. case refusal_text exc of None \<Rightarrow> raiseM exc | Some text \<Rightarrow> returnM text)) (\<lambda>text.
     thenM (fx_clear fx)
    (edit_plain ch cb text))))))"

definition on_cancelar ::
  "'s chat \<Rightarrow> 's TelegramDependencies \<Rightarrow> 's FSMContext \<Rightarrow> CallbackQuery \<Rightarrow> User \<Rightarrow> ('s, unit) M" where
  "on_cancelar ch td fx cb user =
     thenM (touch td user)
    (thenM (bot_answer_callback (ch_bot ch) cb (Some ''Backup cancelado'') False)
    (thenM (fx_clear fx)
    (edit_plain ch cb ''Backup cancelado.'')))"

section \<open>The router\<close>

definition backup_callback ::
  "'s chat \<Rightarrow> 's TelegramDependencies \<Rightarrow> 's FSMContext \<Rightarrow> BackupStates option \<Rightarrow> CallbackQuery \<Rightarrow> callback \<Rightarrow> User \<Rightarrow>
   ('s, unit) M option" where
  "backup_callback ch td fx st cb payload user = (case (st, payload) of
     (Some selecting_backup_type, BackupTypeCallback action) \<Rightarrow>
       if action = ''full'' then Some (on_full_type ch td fx cb user)
       else if action = ''custom'' then Some (on_custom_type ch td fx cb user) else None
   | (Some selecting_databases, DatabaseCallback database action) \<Rightarrow>
       if action = ''toggle'' then Some (on_db_toggle ch td fx cb database user)
       else if action = ''continuar'' then Some (on_db_continuar ch td fx cb user) else None
   | (Some selecting_collections, CollectionCallback database collection action) \<Rightarrow>
       if action = ''toggle'' then Some (on_coll_toggle ch td fx cb database collection user) else None
   | (Some selecting_collections, PageCallback page) \<Rightarrow> Some (on_page_nav ch td fx cb page user)
   | (Some selecting_collections, ConfirmCallback action) \<Rightarrow>
       if action = ''confirmar'' then Some (on_coll_confirmar ch td fx cb user) else None
   | (Some confirming, ConfirmCallback action) \<Rightarrow>
       if action = ''ejecutar'' then Some (on_ejecutar ch td fx cb user)
       else if action = ''cancelar'' then Some (on_cancelar ch td fx cb user) else None
   | _ \<Rightarrow> None)"

end
