(* ===== verification/WizardSpec.thy ===== *)
theory WizardSpec
  imports Wizard
begin

text \<open>
  What the backup conversation is to do, and that the handlers of \<open>Wizard\<close> do it. \<open>wizard_step\<close> is the
  diagram of \<^verbatim>\<open>states/backup_states.py\<close> with the selections written in, \<open>wizard_of\<close> reads its state off the
  stored dictionary, \<open>wizard_ok\<close> is the type of that dictionary.
\<close>

section \<open>The abstract wizard\<close>

datatype wizard =
    Idle
  | ChoosingType
  | ChoosingDatabases "string list" "string set" \<comment> \<open>offered, selected\<close>
  | ChoosingCollections "string set" "string list" "string set" int \<comment> \<open>databases, offered, selected, page\<close>
  | Confirming "string set option" \<comment> \<open>\<open>None\<close> for a full backup\<close>
  | Executing

inductive wizard_step :: "wizard \<Rightarrow> callback \<Rightarrow> wizard \<Rightarrow> bool" where
  choose_full: "wizard_step ChoosingType (BackupTypeCallback ''full'') (Confirming None)"
| choose_custom: "wizard_step ChoosingType (BackupTypeCallback ''custom'') (ChoosingDatabases dbs {})"
| toggle_database:
    "wizard_step (ChoosingDatabases dbs D) (DatabaseCallback d ''toggle'') (ChoosingDatabases dbs (toggled d D))"
| no_database: "wizard_step (ChoosingDatabases dbs {}) (DatabaseCallback d ''continuar'') (ChoosingDatabases dbs {})"
| list_collections:
    "D \<noteq> {} \<Longrightarrow> (\<forall>k \<in> set keys. \<exists>d \<in> D. \<exists>c. k = collection_key (d, c)) \<Longrightarrow>
     wizard_step (ChoosingDatabases dbs D) (DatabaseCallback d ''continuar'') (ChoosingCollections D keys {} 0)"
| no_collections:
    "D \<noteq> {} \<Longrightarrow> wizard_step (ChoosingDatabases dbs D) (DatabaseCallback d ''continuar'') (Confirming (Some {}))"
| toggle_collection:
    "wizard_step (ChoosingCollections D keys C p) (CollectionCallback d c ''toggle'')
       (ChoosingCollections D keys (toggled (collection_key (d, c)) C) p)"
| turn_page: "wizard_step (ChoosingCollections D keys C p) (PageCallback q) (ChoosingCollections D keys C q)"
| no_collection:
    "wizard_step (ChoosingCollections D keys {} p) (ConfirmCallback ''confirmar'') (ChoosingCollections D keys {} p)"
| confirm: "C \<noteq> {} \<Longrightarrow> wizard_step (ChoosingCollections D keys C p) (ConfirmCallback ''confirmar'') (Confirming (Some C))"
| run: "wizard_step (Confirming w) (ConfirmCallback ''ejecutar'') Idle"
| cancel: "wizard_step (Confirming w) (ConfirmCallback ''cancelar'') Idle"

definition wizard_of :: "conversation \<Rightarrow> wizard" where
  "wizard_of c = (let d = snd c in case fst c of
     None \<Rightarrow> Idle
   | Some idle \<Rightarrow> Idle
   | Some selecting_backup_type \<Rightarrow> ChoosingType
   | Some selecting_databases \<Rightarrow>
       ChoosingDatabases (get_list (wd_all_databases d)) (set (get_list (wd_selected_databases d)))
   | Some selecting_collections \<Rightarrow>
       ChoosingCollections (set (get_list (wd_selected_databases d))) (get_list (wd_all_collections d))
         (set (get_list (wd_selected_collections d))) (case wd_current_page d of None \<Rightarrow> 0 | Some p \<Rightarrow> p)
   | Some confirming \<Rightarrow>
       Confirming (if wizard_type d = ''CUSTOM'' then Some (set (get_list (wd_selected_collections d))) else None)
   | Some executing \<Rightarrow> Executing)"

text \<open>The type of the dictionary: the type of backup is the value of an enumeration member and set by the
  time it is needed, and every key of a collection has its dot.\<close>

definition keyed :: "string list option \<Rightarrow> bool" where
  "keyed x \<longleftrightarrow> list_all (\<lambda>k. CHR ''.'' \<in> set k) (get_list x)"

definition wizard_ok :: "conversation \<Rightarrow> bool" where
  "wizard_ok c \<longleftrightarrow> (let st = fst c; d = snd c in
     wd_backup_type d \<in> {None, Some ''FULL'', Some ''CUSTOM''} \<and>
     (st = Some confirming \<longrightarrow> wd_backup_type d \<noteq> None) \<and>
     (st = Some selecting_databases \<or> st = Some selecting_collections \<longrightarrow> wd_backup_type d = Some ''CUSTOM'') \<and>
     keyed (wd_all_collections d) \<and> keyed (wd_selected_collections d) \<and> st \<noteq> Some executing)"

section \<open>Refinement\<close>

definition bot_frames :: "('s \<Rightarrow> 'v) \<Rightarrow> 's Bot \<Rightarrow> bool" where
  "bot_frames view b \<longleftrightarrow>
     (\<forall>c t z k. frames view (bot_send_message b c t z k)) \<and> (\<forall>m t k. frames view (bot_edit_text b m t k)) \<and>
     (\<forall>c t a. frames view (bot_answer_callback b c t a)) \<and> frames view (bot_get_me b) \<and>
     (\<forall>c d t z. frames view (bot_send_document b c d t z)) \<and> (\<forall>c u. frames view (bot_get_chat_member b c u))"

lemma bot_framesD [frame_intros]:
  assumes "bot_frames view b"
  shows "frames view (bot_send_message b c t z k)" "frames view (bot_edit_text b m t k)"
    "frames view (bot_answer_callback b cb t' a)" "frames view (bot_get_me b)" "frames view (bot_send_document b c t t'' z)"
    "frames view (bot_get_chat_member b ci u)"
  using assms by (simp_all add: bot_frames_def)

text \<open>A write that always returns, and what it does to a view.\<close>

lemma triple_write:
  assumes "\<And>s. \<exists>s'. m s = (Inr (), s')" and "\<And>s s'. view s = v \<Longrightarrow> m s = (Inr (), s') \<Longrightarrow> view s' = v'"
  shows "triple (stays view v) m (\<lambda>_. stays view v') (\<lambda>_ _. False)"
proof (rule tripleI)
  fix s x s' assume s: "stays view v s" "m s = (x, s')"
  then have "m s = (Inr (), s')" "x = Inr ()" using assms(1) [of s] by auto
  then show "case x of Inl e \<Rightarrow> False | Inr y \<Rightarrow> stays view v' s'" using assms(2) s(1) by (simp add: stays_def)
qed

lemma triple_then_write:
  "triple P w (\<lambda>_. R) (\<lambda>_ _. False) \<Longrightarrow> triple R n Q E \<Longrightarrow> triple P (thenM w n) Q E"
  by (rule triple_then [where R = R]) (erule triple_conseq, auto)

text \<open>A step that may have been cut short by an exception before it changed anything.\<close>

definition stepped ::
  "StorageKey \<Rightarrow> (StorageKey \<Rightarrow> conversation) \<Rightarrow> callback \<Rightarrow> bool \<Rightarrow> (StorageKey \<Rightarrow> conversation) \<Rightarrow> bool" where
  "stepped k v p failed v' \<longleftrightarrow>
     (wizard_step (wizard_of (v k)) p (wizard_of (v' k)) \<or> failed \<and> v' = v) \<and> wizard_ok (v' k) \<and>
     (\<forall>k'. k' \<noteq> k \<longrightarrow> v' k' = v k')"

lemma stepped_unchanged: "wizard_ok (v k) \<Longrightarrow> stepped k v p True v"
  by (simp add: stepped_def)

lemma stepped_weaken: "stepped k v p False v' \<Longrightarrow> stepped k v p True v'"
  by (auto simp: stepped_def)

lemma stepped_update:
  "wizard_step (wizard_of (v k)) p (wizard_of c) \<Longrightarrow> wizard_ok c \<Longrightarrow> stepped k v p b (v(k := c))"
  by (simp add: stepped_def)

text \<open>A storage that answers its writes.\<close>

locale answering = fsm_storage sg talk for sg :: "'s FSMStorage" and talk +
  assumes set_state_total: "\<exists>s'. sg_set_state sg k x s = (Inr (), s')"
    and update_data_total: "\<exists>s'. sg_update_data sg k f s = (Inr (), s')"
    and set_data_total: "\<exists>s'. sg_set_data sg k d s = (Inr (), s')"
    and clear_total: "\<exists>s'. sg_clear sg k s = (Inr (), s')"
begin

lemma writes:
  "triple (stays talk v) (sg_set_state sg k st) (\<lambda>_. stays talk (v(k := (st, snd (v k))))) (\<lambda>_ _. False)"
  "triple (stays talk v) (sg_update_data sg k f) (\<lambda>_. stays talk (v(k := (fst (v k), f (snd (v k)))))) (\<lambda>_ _. False)"
  "triple (stays talk v) (sg_set_data sg k d) (\<lambda>_. stays talk (v(k := (fst (v k), d)))) (\<lambda>_ _. False)"
  "triple (stays talk v) (sg_clear sg k) (\<lambda>_. stays talk (v(k := (None, empty_data)))) (\<lambda>_ _. False)"
  by (rule triple_write; auto simp: set_state_total update_data_total set_data_total clear_total
      dest: set_state_ok update_data_ok set_data_ok clear_ok)+

end

definition started :: "Message \<Rightarrow> conversation" where
  "started m = (Some selecting_backup_type, empty_data\<lparr>wd_chat_id := Some (msg_chat_id m), wd_topic_id := msg_thread_id m\<rparr>)"

text \<open>
  A conversation of one user: the storage answers, everything else may fail, and nothing but the storage
  holds conversations.
\<close>

locale conversing = answering "fx_storage fx" talk for fx :: "'s FSMContext" and talk +
  fixes ch :: "'s chat" and td :: "'s TelegramDependencies"
  assumes deps_quiet: "deps_frames talk td"
    and bot_quiet: "bot_frames talk (ch_bot ch)"
    and set_list: "finite S \<Longrightarrow> set (ch_set_list ch S s) = S"
begin

lemmas set_state_triple = writes(1) [where k = "fx_key fx" and st = "Some st", folded fx_set_state_def] for st
lemmas update_data_triple = writes(2) [where k = "fx_key fx", folded fx_update_data_def]
lemmas set_data_triple = writes(3) [where k = "fx_key fx", folded fx_set_data_def]
lemmas clear_triple = writes(4) [where k = "fx_key fx", folded fx_clear_def]

lemma get_data_triple:
  "(\<And>e s. stays talk v s \<Longrightarrow> E e s) \<Longrightarrow> triple (stays talk v) (f (snd (v (fx_key fx)))) Q E \<Longrightarrow>
   triple (stays talk v) (bindM (fx_get_data fx) f) Q E"
proof (rule tripleI)
  fix s x s'
  assume E: "\<And>e s. stays talk v s \<Longrightarrow> E e s" and f: "triple (stays talk v) (f (snd (v (fx_key fx)))) Q E"
    and s: "stays talk v s" and r: "bindM (fx_get_data fx) f s = (x, s')"
  obtain y s1 where y: "fx_get_data fx s = (y, s1)" by force
  have s1: "stays talk v s1" using framesD [OF get_data_frame y [unfolded fx_get_data_def]] s by (simp add: stays_def)
  show "case x of Inl e \<Rightarrow> E e s' | Inr y \<Rightarrow> Q y s'"
  proof (cases y)
    case (Inl e)
    then show ?thesis using r y E [OF s1] by (auto simp: bindM_def)
  next
    case (Inr d)
    then have "d = snd (v (fx_key fx))" using get_data_ok [OF y [unfolded fx_get_data_def Inr]] s by (simp add: stays_def)
    then show ?thesis using tripleD [OF f s1] r y Inr by (simp add: bindM_def)
  qed
qed

lemma quiet [frame_intros]:
  "frames talk (touch td user)" "frames talk (answer ch cb)" "frames talk (edit_with ch cb text kb)"
  "frames talk (edit_plain ch cb text)" "frames talk (list_of_set ch S)"
  unfolding touch_def FSMTimeoutMonitor_touch_def answer_def edit_with_def edit_plain_def
  using deps_framesD [OF deps_quiet]
  by (intro frame_intros bot_quiet; simp)+ (simp add: list_of_set_def frames_def)

abbreviation steps :: "(StorageKey \<Rightarrow> conversation) \<Rightarrow> callback \<Rightarrow> (StorageKey \<Rightarrow> conversation) \<Rightarrow> ('s, unit) M \<Rightarrow> bool" where
  "steps v p v' m \<equiv> triple (stays talk v') m
     (\<lambda>_ s. stepped (fx_key fx) v p False (talk s)) (\<lambda>_ s. stepped (fx_key fx) v p True (talk s))"

lemma then_write:
  "triple (stays talk v1) w (\<lambda>_. stays talk v') (\<lambda>_ _. False) \<Longrightarrow> steps v p v' n \<Longrightarrow> steps v p v1 (thenM w n)"
  by (rule triple_then_write)

text \<open>A second write to the same conversation replaces the first.\<close>

lemma rewrite_triple:
  "triple (stays talk (v(fx_key fx := (x, d)))) (fx_set_state fx st) (\<lambda>_. stays talk (v(fx_key fx := (Some st, d)))) (\<lambda>_ _. False)"
  "triple (stays talk (v(fx_key fx := (x, d)))) (fx_update_data fx f) (\<lambda>_. stays talk (v(fx_key fx := (x, f d)))) (\<lambda>_ _. False)"
  using set_state_triple [of "v(fx_key fx := (x, d))" st] update_data_triple [of "v(fx_key fx := (x, d))" f] by simp_all

lemmas then_writes = then_write [OF rewrite_triple(1)] then_write [OF rewrite_triple(2)]
  then_write [OF set_state_triple] then_write [OF update_data_triple] then_write [OF clear_triple]

lemma ends: "frames talk m \<Longrightarrow> stepped (fx_key fx) v p False v' \<Longrightarrow> steps v p v' m"
  by (erule triple_conseq [OF triple_frame [where v = v']]) (auto simp: stays_def intro: stepped_weaken)

text \<open>Before the first write an exception leaves everything as it was.\<close>

lemma then_quiet: "wizard_ok (v (fx_key fx)) \<Longrightarrow> frames talk m \<Longrightarrow> steps v p v n \<Longrightarrow> steps v p v (thenM m n)"
  by (rule triple_then_frame) (simp_all add: stays_def stepped_unchanged)

lemma bind_quiet:
  "wizard_ok (v (fx_key fx)) \<Longrightarrow> frames talk m \<Longrightarrow> (\<And>x. steps v p v (f x)) \<Longrightarrow> steps v p v (bindM m f)"
  by (rule triple_bind_frame) (simp_all add: stays_def stepped_unchanged)

lemma bind_data:
  "wizard_ok (v (fx_key fx)) \<Longrightarrow> steps v p v (f (snd (v (fx_key fx)))) \<Longrightarrow> steps v p v (bindM (fx_get_data fx) f)"
  by (rule get_data_triple) (simp_all add: stays_def stepped_unchanged)

lemmas then_begin = then_quiet [OF _ quiet(1)] then_quiet [OF _ quiet(2)]
lemmas wizard_defs = wizard_of_def wizard_ok_def wizard_type_def keyed_def get_list_def Let_def

lemma full_type_steps:
  assumes "wizard_ok (v (fx_key fx))" "fst (v (fx_key fx)) = Some selecting_backup_type"
  shows "steps v (BackupTypeCallback ''full'') v (on_full_type ch td fx cb user)"
proof -
  have "stepped (fx_key fx) v (BackupTypeCallback ''full'') False
      (v(fx_key fx := (Some confirming, (snd (v (fx_key fx)))\<lparr>wd_backup_type := Some ''FULL''\<rparr>)))"
    using assms by (intro stepped_update) (auto intro!: wizard_step.intros simp: wizard_defs)
  then show ?thesis
    unfolding on_full_type_def
    by (intro then_begin assms then_writes ends frame_intros deps_framesD [OF deps_quiet] quiet)
qed

lemma custom_type_steps:
  assumes "wizard_ok (v (fx_key fx))" "fst (v (fx_key fx)) = Some selecting_backup_type"
  shows "steps v (BackupTypeCallback ''custom'') v (on_custom_type ch td fx cb user)"
proof -
  have "stepped (fx_key fx) v (BackupTypeCallback ''custom'') False
      (v(fx_key fx := (Some selecting_databases, (snd (v (fx_key fx)))
         \<lparr>wd_backup_type := Some ''CUSTOM'', wd_selected_databases := Some [], wd_all_databases := Some dbs\<rparr>)))" for dbs
    using assms wizard_step.choose_custom [of dbs] by (intro stepped_update) (auto simp: wizard_defs)
  then show ?thesis
    unfolding on_custom_type_def
    by (intro then_begin assms bind_quiet then_writes ends frame_intros deps_framesD [OF deps_quiet] quiet)
      (simp_all only: prod.sel deps_framesD [OF deps_quiet])
qed

lemma steps_if:
  "(b \<Longrightarrow> steps v p v' m) \<Longrightarrow> (\<not> b \<Longrightarrow> steps v p v' n) \<Longrightarrow> steps v p v' (if b then m else n)"
  by simp

lemma bind_known:
  assumes ok: "wizard_ok (v (fx_key fx))" and q: "frames talk m" and m: "\<And>s x s'. m s = (Inr x, s') \<Longrightarrow> P x"
    and f: "\<And>x. P x \<Longrightarrow> steps v p v (f x)"
  shows "steps v p v (bindM m f)"
proof (rule triple_bind [where R = "\<lambda>x s. P x \<and> stays talk v s"], rule tripleI)
  fix s x s' assume "stays talk v s" "m s = (x, s')"
  then have "stays talk v s'" using framesD [OF q] by (simp add: stays_def)
  then show "case x of Inl e \<Rightarrow> stepped (fx_key fx) v p True (talk s') | Inr y \<Rightarrow> P y \<and> stays talk v s'"
    using stepped_unchanged [where v = v and k = "fx_key fx", OF ok] m \<open>m s = (x, s')\<close> by (cases x) (auto simp: stays_def)
next
  fix x show "triple (\<lambda>s. P x \<and> stays talk v s) (f x) (\<lambda>_ s. stepped (fx_key fx) v p False (talk s))
      (\<lambda>_ s. stepped (fx_key fx) v p True (talk s))"
    using f [of x] by (cases "P x") (simp_all add: triple_def)
qed

lemma bind_list_of_set:
  "wizard_ok (v (fx_key fx)) \<Longrightarrow> finite S \<Longrightarrow> (\<And>xs. set xs = S \<Longrightarrow> steps v p v (f xs)) \<Longrightarrow>
   steps v p v (bindM (list_of_set ch S) f)"
  by (erule bind_known [OF _ quiet(5), where P = "\<lambda>xs. set xs = S"]) (auto simp: list_of_set_def set_list)

lemma collect_pairs_frames: "frames talk (collect_pairs (td_mongo_metadata td) h dbs)"
  by (induction dbs) (simp_all only: collect_pairs.simps frame_intros deps_framesD [OF deps_quiet])

lemma collect_pairs_from: "collect_pairs mm h dbs s = (Inr ps, s') \<Longrightarrow> fst ` set ps \<subseteq> set dbs"
  by (induction dbs arbitrary: s s' ps) (fastforce simp: bindM_eq_Inr)+

lemma bind_collect_pairs:
  "wizard_ok (v (fx_key fx)) \<Longrightarrow> (\<And>ps. fst ` set ps \<subseteq> set dbs \<Longrightarrow> steps v p v (f ps)) \<Longrightarrow>
   steps v p v (bindM (collect_pairs (td_mongo_metadata td) h dbs) f)"
  by (erule bind_known [OF _ collect_pairs_frames, where P = "\<lambda>ps. fst ` set ps \<subseteq> set dbs"]) (rule collect_pairs_from)

lemma finite_toggled [simp]: "finite S \<Longrightarrow> finite (toggled x S)"
  by (simp add: toggled_def)

lemma db_toggle_steps:
  assumes ok: "wizard_ok (v (fx_key fx))" and st: "fst (v (fx_key fx)) = Some selecting_databases"
  shows "steps v (DatabaseCallback d ''toggle'') v (on_db_toggle ch td fx cb d user)"
proof -
  let ?D = "set (get_list (wd_selected_databases (snd (v (fx_key fx)))))"
  have step: "stepped (fx_key fx) v (DatabaseCallback d ''toggle'') False
      (v(fx_key fx := (fst (v (fx_key fx)), (snd (v (fx_key fx)))\<lparr>wd_selected_databases := Some xs\<rparr>)))"
    if "set xs = toggled d ?D" for xs
    using assms that wizard_step.toggle_database [of _ ?D d] by (intro stepped_update) (auto simp: wizard_defs)
  show ?thesis
    unfolding on_db_toggle_def Let_def
    by (intro then_begin ok bind_data bind_list_of_set then_writes ends frame_intros quiet finite_toggled finite_set step)
qed

lemma db_continuar_steps:
  assumes ok: "wizard_ok (v (fx_key fx))" and st: "fst (v (fx_key fx)) = Some selecting_databases"
  shows "steps v (DatabaseCallback d ''continuar'') v (on_db_continuar ch td fx cb user)"
proof -
  let ?dbs = "get_list (wd_selected_databases (snd (v (fx_key fx))))"
  let ?p = "DatabaseCallback d ''continuar''" and ?d = "snd (v (fx_key fx))"
  have w: "wizard_of (v (fx_key fx)) = ChoosingDatabases (get_list (wd_all_databases ?d)) (set ?dbs)"
    using st by (simp add: wizard_of_def Let_def)
  have none: "stepped (fx_key fx) v ?p False v" if "?dbs = []"
    using ok that by (simp add: stepped_def w wizard_step.no_database)
  let ?listed = "\<lambda>ps. ?d\<lparr>wd_all_collections := Some (map collection_key ps), wd_selected_collections := Some [], wd_current_page := Some 0\<rparr>"
  have listed: "stepped (fx_key fx) v ?p False (v(fx_key fx := (Some selecting_collections, ?listed ps)))"
    if "?dbs \<noteq> []" "fst ` set ps \<subseteq> set ?dbs" for ps
  proof (rule stepped_update)
    show "wizard_ok (Some selecting_collections, ?listed ps)"
      using ok st by (auto simp: wizard_ok_def keyed_def get_list_def Let_def list_all_iff collection_key_def)
    have "wizard_of (Some selecting_collections, ?listed ps) = ChoosingCollections (set ?dbs) (map collection_key ps) {} 0"
      by (simp add: wizard_of_def get_list_def Let_def)
    moreover have "\<forall>k \<in> set (map collection_key ps). \<exists>x \<in> set ?dbs. \<exists>c. k = collection_key (x, c)"
      using that(2) by fastforce
    ultimately show "wizard_step (wizard_of (v (fx_key fx))) ?p (wizard_of (Some selecting_collections, ?listed ps))"
      using that(1) by (simp add: w wizard_step.list_collections)
  qed
  have empty: "stepped (fx_key fx) v ?p False
      (v(fx_key fx := (Some confirming, (?listed ps)\<lparr>wd_selected_collections := Some []\<rparr>)))" if "?dbs \<noteq> []" "\<not> ps \<noteq> []" for ps
  proof (rule stepped_update)
    show "wizard_ok (Some confirming, (?listed ps)\<lparr>wd_selected_collections := Some []\<rparr>)"
      using ok st that(2) by (auto simp: wizard_ok_def keyed_def get_list_def Let_def)
    have "wizard_of (Some confirming, (?listed ps)\<lparr>wd_selected_collections := Some []\<rparr>) = Confirming (Some {})"
      using ok st by (auto simp: wizard_of_def wizard_ok_def wizard_type_def get_list_def Let_def)
    then show "wizard_step (wizard_of (v (fx_key fx))) ?p (wizard_of (Some confirming, (?listed ps)\<lparr>wd_selected_collections := Some []\<rparr>))"
      using that by (simp add: w wizard_step.no_collections)
  qed
  show ?thesis
    unfolding on_db_continuar_def Let_def
    apply (intro then_begin ok bind_data steps_if)
     apply (intro ends frame_intros bot_quiet none, assumption)
    apply (intro then_begin ok bind_collect_pairs then_writes steps_if)
    apply (intro ends frame_intros quiet listed; assumption)
    apply (intro ends frame_intros quiet empty; simp)
    apply (intro ends frame_intros quiet listed; assumption)
    done
qed

lemma coll_toggle_steps:
  assumes ok: "wizard_ok (v (fx_key fx))" and st: "fst (v (fx_key fx)) = Some selecting_collections"
  shows "steps v (CollectionCallback d c ''toggle'') v (on_coll_toggle ch td fx cb d c user)"
proof -
  let ?d = "snd (v (fx_key fx))" and ?k = "collection_key (d, c)"
  let ?C = "set (get_list (wd_selected_collections ?d))"
  have step: "stepped (fx_key fx) v (CollectionCallback d c ''toggle'') False
      (v(fx_key fx := (fst (v (fx_key fx)), ?d\<lparr>wd_selected_collections := Some xs\<rparr>)))" if "set xs = toggled ?k ?C" for xs
  proof (rule stepped_update)
    show "wizard_ok (fst (v (fx_key fx)), ?d\<lparr>wd_selected_collections := Some xs\<rparr>)"
      using ok st that by (auto simp: wizard_ok_def keyed_def get_list_def Let_def list_all_iff toggled_def collection_key_def split: if_splits)
    show "wizard_step (wizard_of (v (fx_key fx))) (CollectionCallback d c ''toggle'')
        (wizard_of (fst (v (fx_key fx)), ?d\<lparr>wd_selected_collections := Some xs\<rparr>))"
      using st that wizard_step.toggle_collection [of _ _ ?C _ d c] by (simp add: wizard_of_def get_list_def Let_def)
  qed
  show ?thesis
    unfolding on_coll_toggle_def Let_def
    by (intro then_begin ok bind_data bind_list_of_set then_writes ends frame_intros quiet finite_toggled finite_set step)
qed

lemma page_nav_steps:
  assumes ok: "wizard_ok (v (fx_key fx))" and st: "fst (v (fx_key fx)) = Some selecting_collections"
  shows "steps v (PageCallback q) v (on_page_nav ch td fx cb q user)"
proof -
  have step: "stepped (fx_key fx) v (PageCallback q) False
      (v(fx_key fx := (fst (v (fx_key fx)), (snd (v (fx_key fx)))\<lparr>wd_current_page := Some q\<rparr>)))"
    using ok st wizard_step.turn_page [of _ _ _ _ q]
    by (intro stepped_update) (simp_all add: wizard_ok_def wizard_of_def Let_def)
  show ?thesis
    unfolding on_page_nav_def Let_def
    by (intro then_begin ok bind_data then_writes ends frame_intros quiet step)
qed

lemma coll_confirmar_steps:
  assumes ok: "wizard_ok (v (fx_key fx))" and st: "fst (v (fx_key fx)) = Some selecting_collections"
  shows "steps v (ConfirmCallback ''confirmar'') v (on_coll_confirmar ch td fx cb user)"
proof -
  let ?d = "snd (v (fx_key fx))"
  let ?C = "get_list (wd_selected_collections ?d)"
  have w: "\<exists>D keys p. wizard_of (v (fx_key fx)) = ChoosingCollections D keys (set ?C) p"
    using st by (simp add: wizard_of_def Let_def)
  have none: "stepped (fx_key fx) v (ConfirmCallback ''confirmar'') False v" if "?C = []"
    using ok that w wizard_step.no_collection by (auto simp: stepped_def)
  have step: "stepped (fx_key fx) v (ConfirmCallback ''confirmar'') False (v(fx_key fx := (Some confirming, ?d)))" if "?C \<noteq> []"
    using ok st that w wizard_step.confirm [of "set ?C"]
    by (intro stepped_update) (auto simp: wizard_ok_def wizard_of_def wizard_type_def Let_def)
  show ?thesis
    unfolding on_coll_confirmar_def Let_def
    apply (intro then_begin ok bind_data steps_if)
     apply (intro ends frame_intros bot_quiet none, assumption)
    apply (intro then_begin ok bind_quiet then_writes metadata_framesD deps_framesD [OF deps_quiet])
    apply (intro ends frame_intros quiet step, assumption)
    done
qed

lemma idle_stepped:
  assumes ok: "wizard_ok (v (fx_key fx))" and st: "fst (v (fx_key fx)) = Some confirming"
  shows "stepped (fx_key fx) v (ConfirmCallback ''ejecutar'') False (v(fx_key fx := (None, empty_data)))"
    "stepped (fx_key fx) v (ConfirmCallback ''cancelar'') False (v(fx_key fx := (None, empty_data)))"
proof -
  have "wizard_ok (None, empty_data)" by (simp add: wizard_ok_def empty_data_def keyed_def get_list_def Let_def)
  moreover have "wizard_of (None, empty_data) = Idle" "\<exists>w. wizard_of (v (fx_key fx)) = Confirming w"
    using st by (simp_all add: wizard_of_def Let_def)
  ultimately show "stepped (fx_key fx) v (ConfirmCallback ''ejecutar'') False (v(fx_key fx := (None, empty_data)))"
    "stepped (fx_key fx) v (ConfirmCallback ''cancelar'') False (v(fx_key fx := (None, empty_data)))"
    by (auto intro!: stepped_update intro: wizard_step.intros)
qed

lemma ejecutar_steps:
  assumes ok: "wizard_ok (v (fx_key fx))" and st: "fst (v (fx_key fx)) = Some confirming"
  shows "steps v (ConfirmCallback ''ejecutar'') v (on_ejecutar ch td fx cb user)"
  unfolding on_ejecutar_def
  apply (intro then_begin ok bind_data)
  apply (intro bind_quiet ok frame_intros use_case_frames deps_quiet then_writes)
  apply (intro ends quiet idle_stepped assms)
  done

lemma cancelar_steps:
  assumes ok: "wizard_ok (v (fx_key fx))" and st: "fst (v (fx_key fx)) = Some confirming"
  shows "steps v (ConfirmCallback ''cancelar'') v (on_cancelar ch td fx cb user)"
  unfolding on_cancelar_def
  apply (rule then_begin, rule ok)
  apply (rule then_quiet, rule ok, intro frame_intros bot_quiet)
  apply (rule then_writes)
  apply (intro ends quiet idle_stepped assms)
  done

lemma callback_steps:
  assumes "wizard_ok (v (fx_key fx))" "backup_callback ch td fx (fst (v (fx_key fx))) cb p user = Some h"
  shows "steps v p v h"
  using assms
  by (auto simp: backup_callback_def split: option.splits BackupStates.splits callback.splits if_splits
      intro: full_type_steps custom_type_steps db_toggle_steps db_continuar_steps coll_toggle_steps page_nav_steps
        coll_confirmar_steps ejecutar_steps cancelar_steps)

text \<open>The command, from any state.\<close>

lemma cmd_backup_starts:
  "triple (stays talk v) (cmd_backup ch td fx message user) (\<lambda>_. stays talk (v(fx_key fx := started message)))
     (\<lambda>_ s. talk s = v \<or> talk s = v(fx_key fx := started message))"
proof -
  let ?E = "\<lambda>_ s. talk s = v \<or> talk s = v(fx_key fx := started message)"
  have data: "triple (stays talk (v(fx_key fx := (x, d)))) (fx_set_data fx d')
      (\<lambda>_. stays talk (v(fx_key fx := (x, d')))) (\<lambda>_ _. False)" for x d d'
    using set_data_triple [of "v(fx_key fx := (x, d))" d'] by simp
  have fin: "triple (stays talk (v(fx_key fx := started message)))
      (bindM (liftE kb) (\<lambda>k. Message_answer (ch_bot ch) message t (Some k)))
      (\<lambda>_. stays talk (v(fx_key fx := started message))) ?E" for kb t
    by (rule triple_conseq [OF triple_frame]) (auto simp: stays_def Message_answer_def intro!: frame_intros bot_quiet)
  show ?thesis
    unfolding cmd_backup_def
    apply (rule triple_then_frame [OF quiet(1)])
     apply (simp add: stays_def)
    apply (rule triple_then_write [OF set_state_triple], rule triple_then_write [OF data])
    apply (fold started_def, rule fin)
    done
qed

end

end
