(* ===== verification/Timeouts.thy ===== *)
theory Timeouts
  imports WizardSpec
begin

text \<open>
  What the monitor of inactivity of \<open>Chat\<close> does to the conversations, whatever its bot, clock and Redis do.
\<close>

text \<open>The conversations when those of \<open>K\<close> that are under way have been reset.\<close>

definition timed_out :: "StorageKey set \<Rightarrow> (StorageKey \<Rightarrow> conversation) \<Rightarrow> StorageKey \<Rightarrow> conversation" where
  "timed_out K v k = (if k \<in> K \<and> fst (v k) \<notin> {None, Some idle} then (Some idle, empty_data) else v k)"

definition member_keys :: "'s FSMTimeoutMonitor \<Rightarrow> string list \<Rightarrow> StorageKey set" where
  "member_keys tm ms = {k. \<exists>m \<in> set ms. \<exists>i. py_int m = Inr i \<and> timeout_key tm i = Inr k}"

lemma timed_out_simps [simp]:
  "timed_out {} v = v" "timed_out K2 (timed_out K1 v) = timed_out (K1 \<union> K2) v"
  by (auto simp: timed_out_def fun_eq_iff)

lemma member_keys_simps [simp]:
  "member_keys tm [] = {}"
  "member_keys tm (m # ms) =
     (case py_int m of Inl e \<Rightarrow> {} | Inr i \<Rightarrow> (case timeout_key tm i of Inl e \<Rightarrow> {} | Inr k \<Rightarrow> {k})) \<union> member_keys tm ms"
  by (auto simp: member_keys_def split: sum.splits)

text \<open>Some of the conversations have been reset, when the check was cut short.\<close>

definition some_reset :: "(StorageKey \<Rightarrow> conversation) \<Rightarrow> (StorageKey \<Rightarrow> conversation) \<Rightarrow> bool" where
  "some_reset v v' \<longleftrightarrow> (\<forall>k. v' k = v k \<or> v' k = (Some idle, empty_data))"

lemma some_reset_timed_out [simp]: "some_reset v v" "some_reset v (timed_out K v)"
  by (auto simp: some_reset_def timed_out_def)

lemma some_reset_later: "some_reset (timed_out K v) v' \<Longrightarrow> some_reset v v'"
  unfolding some_reset_def timed_out_def by metis

locale monitored = answering "tm_storage tm" talk for tm :: "'s FSMTimeoutMonitor" and talk +
  assumes tm_bot_quiet: "bot_frames talk (tm_bot tm)"
    and tm_redis_quiet: "frames talk (tm_zrangebyscore tm k a b)" "redis_frames talk (tm_redis tm)"
    and tm_clock_quiet: "runtime_frames talk (tm_runtime tm)" "frames talk (rt_sleep_ms (tm_runtime tm) n)"
begin

abbreviation resets :: "(StorageKey \<Rightarrow> conversation) \<Rightarrow> ('s, unit) M \<Rightarrow> StorageKey set \<Rightarrow> bool" where
  "resets v m K \<equiv> triple (stays talk v) m (\<lambda>_. stays talk (timed_out K v)) (\<lambda>_ s. some_reset v (talk s))"

lemma get_state_bind:
  assumes f: "triple (stays talk v) (f (fst (v k))) Q (\<lambda>_ s. some_reset v (talk s))"
  shows "triple (stays talk v) (bindM (sg_get_state (tm_storage tm) k) f) Q (\<lambda>_ s. some_reset v (talk s))"
proof (rule triple_bind [where R = "\<lambda>x s. x = fst (v k) \<and> stays talk v s"], rule tripleI)
  fix s x s' assume "stays talk v s" "sg_get_state (tm_storage tm) k s = (x, s')"
  then show "case x of Inl e \<Rightarrow> some_reset v (talk s') | Inr y \<Rightarrow> y = fst (v k) \<and> stays talk v s'"
    using framesD [OF get_state_frame] get_state_ok by (cases x) (auto simp: stays_def)
next
  fix x show "triple (\<lambda>s. x = fst (v k) \<and> stays talk v s) (f x) Q (\<lambda>_ s. some_reset v (talk s))"
    using f by (cases "x = fst (v k)") (simp_all add: triple_def)
qed

lemma expire_session_resets: "resets v (expire_session tm k) {k}"
  unfolding expire_session_def
proof (rule get_state_bind)
  let ?send = "tryM (bot_send_message (tm_bot tm) (sk_chat_id k) timeout_text
     (Some (ac_topic_backup_requests (tm_config tm))) None) (\<lambda>exc. returnM ())"
  let ?v = "v(k := (Some idle, empty_data))"
  have "triple (stays talk (v(k := (Some idle, snd (v k))))) (sg_set_data (tm_storage tm) k empty_data)
      (\<lambda>_. stays talk ?v) (\<lambda>_ _. False)"
    using writes(3) [where v = "v(k := (Some idle, snd (v k)))" and k = k and d = empty_data] by simp
  moreover have "triple (stays talk ?v) ?send (\<lambda>_. stays talk ?v) (\<lambda>_. stays talk ?v)"
    by (rule triple_conseq [OF triple_frame]) (auto simp: stays_def intro!: frame_intros tm_bot_quiet)
  ultimately have all: "triple (stays talk v) (thenM (sg_set_state (tm_storage tm) k (Some idle))
      (thenM (sg_set_data (tm_storage tm) k empty_data) ?send)) (\<lambda>_. stays talk ?v) (\<lambda>_. stays talk ?v)"
    by (rule triple_then_write [OF writes(1) triple_then_write])
  show "resets v (whenM (fst (v k) \<noteq> None \<and> fst (v k) \<noteq> Some idle)
      (thenM (sg_set_state (tm_storage tm) k (Some idle)) (thenM (sg_set_data (tm_storage tm) k empty_data) ?send))) {k}"
  proof (cases "fst (v k) \<noteq> None \<and> fst (v k) \<noteq> Some idle")
    case True
    then have "timed_out {k} v = ?v" by (auto simp: timed_out_def fun_eq_iff)
    then show ?thesis
      using True unfolding whenM_def
      by (simp only: simp_thms if_True) (rule triple_conseq [OF all], auto simp: stays_def some_reset_def)
  next
    case False
    then have "timed_out {k} v = v" by (auto simp: timed_out_def fun_eq_iff)
    then show ?thesis using False by (auto simp: whenM_def stays_def intro!: triple_basic)
  qed
qed

lemma resets_then: "resets v m K1 \<Longrightarrow> resets (timed_out K1 v) n K2 \<Longrightarrow> resets v (thenM m n) (K1 \<union> K2)"
  by (rule triple_then, assumption, erule triple_conseq) (auto intro: some_reset_later)

lemma expire_member_resets: "resets v (expire_member tm m) (member_keys tm [m])"
  unfolding expire_member_def
  by (auto split: sum.split intro!: triple_basic triple_bind_lift expire_session_resets simp: stays_def)

lemma for_each_resets: "resets v (for_each (expire_member tm) ms) (member_keys tm ms)"
proof (induction ms arbitrary: v)
  case (Cons m ms)
  have "member_keys tm (m # ms) = member_keys tm [m] \<union> member_keys tm ms" by (auto simp: member_keys_def)
  then show ?case using resets_then [OF expire_member_resets [of v m] Cons.IH] by simp
qed (auto intro!: triple_basic simp: stays_def)

text \<open>The whole check and a turn: other conversations, and those not under way, stay as they are.\<close>

lemma check_resets:
  "triple (stays talk v) (FSMTimeoutMonitor_check_timeouts tm) (\<lambda>_ s. some_reset v (talk s)) (\<lambda>_ s. some_reset v (talk s))"
proof -
  have "triple (stays talk v) (thenM (for_each (expire_member tm) ms)
      (thenM (rd_zremrangebyscore (tm_redis tm) a b c) (returnM ()))) (\<lambda>_ s. some_reset v (talk s)) (\<lambda>_ s. some_reset v (talk s))" for ms a b c
    by (rule triple_then [OF for_each_resets], rule triple_frame_end [where view = talk and v = "timed_out (member_keys tm ms) v"])
      (auto simp: stays_def intro!: frame_intros tm_redis_quiet)
  then show ?thesis
    unfolding FSMTimeoutMonitor_check_timeouts_def Let_def
    by (intro triple_bind_frame frame_intros tm_redis_quiet tm_clock_quiet) (auto simp: stays_def intro!: triple_basic)
qed

lemma turn_resets:
  "triple (stays talk v) (FSMTimeoutMonitor_turn tm) (\<lambda>_ s. some_reset v (talk s)) (\<lambda>_ s. some_reset v (talk s))"
  unfolding FSMTimeoutMonitor_turn_def
proof (rule triple_then_frame [OF tm_clock_quiet(2)])
  show "triple (stays talk v) (tryM (FSMTimeoutMonitor_check_timeouts tm) (\<lambda>exc. returnM ()))
      (\<lambda>_ s. some_reset v (talk s)) (\<lambda>_ s. some_reset v (talk s))"
    using check_resets [of v] by (fastforce simp: triple_def tryM_def split: prod.splits sum.splits)
qed (simp add: stays_def)

end

end
