(* ===== verification/BotWorld.thy ===== *)
theory BotWorld
  imports Timeouts Execution "HOL-Library.Char_ord" "HOL-Library.List_Lexorder"
begin

text \<open>
  The world of \<open>World\<close> with the conversations of the bot and the texts it sent. The dependencies
  \<open>bot_deps\<close> are the program's own adapters over it, carried from the world by \<open>zoom\<close>; a
  set is listed in lexicographic order. The contract \<open>conversing\<close> is interpreted here.
\<close>

record bot_world =
  bw_world :: world
  bw_talk :: "StorageKey \<Rightarrow> conversation"
  bw_said :: "string list" \<comment> \<open>the texts sent and shown, the last one first\<close>

definition zoom_runtime :: "('w \<Rightarrow> 's) \<Rightarrow> ('s \<Rightarrow> 'w \<Rightarrow> 'w) \<Rightarrow> 's Runtime \<Rightarrow> 'w Runtime" where
  "zoom_runtime get put rt =
     \<lparr>rt_now = zoom get put (rt_now rt), rt_monotonic = zoom get put (rt_monotonic rt),
      rt_uuid_hex = zoom get put (rt_uuid_hex rt), rt_uuid_str = zoom get put (rt_uuid_str rt),
      rt_sleep_ms = (\<lambda>n. zoom get put (rt_sleep_ms rt n))\<rparr>"

definition zoom_rq :: "('w \<Rightarrow> 's) \<Rightarrow> ('s \<Rightarrow> 'w \<Rightarrow> 'w) \<Rightarrow> 's rq_client \<Rightarrow> 'w rq_client" where
  "zoom_rq get put rq =
     \<lparr>rq_enqueue_in = (\<lambda>n i ty p f. zoom get put (rq_enqueue_in rq n i ty p f)), rq_fetch = (\<lambda>i. zoom get put (rq_fetch rq i)),
      rq_get_status = (\<lambda>i. zoom get put (rq_get_status rq i)), rq_cancel = (\<lambda>i. zoom get put (rq_cancel rq i)),
      rq_retry_count = (\<lambda>i. zoom get put (rq_retry_count rq i)),
      rq_save_retry_count = (\<lambda>i n. zoom get put (rq_save_retry_count rq i n)), rq_requeue = (\<lambda>i. zoom get put (rq_requeue rq i))\<rparr>"

definition zoom_metadata :: "('w \<Rightarrow> 's) \<Rightarrow> ('s \<Rightarrow> 'w \<Rightarrow> 'w) \<Rightarrow> 's IMongoMetadata \<Rightarrow> 'w IMongoMetadata" where
  "zoom_metadata get put mm =
     \<lparr>mm_list_databases = (\<lambda>h. zoom get put (mm_list_databases mm h)),
      mm_list_collections = (\<lambda>h d. zoom get put (mm_list_collections mm h d)),
      mm_get_size_stats = (\<lambda>h. zoom get put (mm_get_size_stats mm h))\<rparr>"

definition zoom_storage :: "('w \<Rightarrow> 's) \<Rightarrow> ('s \<Rightarrow> 'w \<Rightarrow> 'w) \<Rightarrow> 's FSMStorage \<Rightarrow> 'w FSMStorage" where
  "zoom_storage get put sg =
     \<lparr>sg_get_state = (\<lambda>k. zoom get put (sg_get_state sg k)), sg_set_state = (\<lambda>k x. zoom get put (sg_set_state sg k x)),
      sg_get_data = (\<lambda>k. zoom get put (sg_get_data sg k)), sg_set_data = (\<lambda>k d. zoom get put (sg_set_data sg k d)),
      sg_update_data = (\<lambda>k f. zoom get put (sg_update_data sg k f)), sg_clear = (\<lambda>k. zoom get put (sg_clear sg k))\<rparr>"

abbreviation put_world :: "world \<Rightarrow> bot_world \<Rightarrow> bot_world" where
  "put_world t \<equiv> bw_world_update (\<lambda>_. t)"

definition say :: "string \<Rightarrow> (bot_world, unit) M" where
  "say t = (\<lambda>w. (Inr (), w\<lparr>bw_said := t # bw_said w\<rparr>))"

definition bot_bot :: "bot_world Bot" where
  "bot_bot =
     \<lparr>bot_send_message = (\<lambda>c t z k. say t), bot_edit_text = (\<lambda>m t k. say t),
      bot_answer_callback = (\<lambda>cb t a. case t of None \<Rightarrow> returnM () | Some x \<Rightarrow> say x),
      bot_send_document = (\<lambda>c d t z. say t), bot_get_chat_member = (\<lambda>c u. returnM MEMBER), bot_get_me = returnM True\<rparr>"

definition bot_chat :: "bot_world chat" where
  "bot_chat = \<lparr>ch_bot = bot_bot, ch_packing = ref_packing, ch_set_list = (\<lambda>S w. sorted_list_of_set S)\<rparr>"

definition bot_storage :: "bot_world FSMStorage" where
  "bot_storage = zoom_storage bw_talk (\<lambda>t. bw_talk_update (\<lambda>_. t)) ref_storage"

definition bot_key :: StorageKey where
  "bot_key = \<lparr>sk_bot_id = 1, sk_chat_id = - 100, sk_user_id = 7\<rparr>"

definition bot_context :: "bot_world FSMContext" where
  "bot_context = \<lparr>fx_storage = bot_storage, fx_key = bot_key\<rparr>"

definition bot_deps :: "bot_world TelegramDependencies" where
  "bot_deps =
     \<lparr>td_config = sample_config, td_sha256 = (\<lambda>_. sample_hash),
      td_jobs = zoom_session bw_world put_world job_session, td_users = zoom_session bw_world put_world user_session,
      td_audit_logs = zoom_session bw_world put_world audit_session, td_rates = zoom_session bw_world put_world rate_session,
      td_mongo_metadata = zoom_metadata bw_world put_world world_mongo,
      td_mongo_connection =
        \<lparr>mcn_options = MongoConnection_from_config sample_config, mcn_client = (\<lambda>w. None), mcn_set_client = (\<lambda>c w. w),
         mcn_new_client = (\<lambda>opts. raiseM (RuntimeError ''offline'')), mcn_close_client = (\<lambda>c. returnM ()),
         mcn_ping_client = (\<lambda>c. returnM ())\<rparr>,
      td_redis_connection =
        \<lparr>rcn_options = RedisConnection_from_config sample_config, rcn_client = (\<lambda>w. None), rcn_set_client = (\<lambda>c w. w),
         rcn_new_client = (\<lambda>opts b. raiseM (RuntimeError ''offline'')), rcn_close_client = (\<lambda>c. returnM ()),
         rcn_ping_client = (\<lambda>c. returnM False)\<rparr>,
      td_rq = zoom_rq bw_world put_world world_rq, td_aioredis_client = zoom_redis bw_world put_world world_redis,
      td_fs_utils = zoom_fs bw_world put_world world_fs, td_permission_service = default_service,
      td_runtime = zoom_runtime bw_world put_world world_runtime\<rparr>"

text \<open>What is outside the world of the services is left alone by all of them.\<close>

lemma bot_deps_frames:
  assumes "\<And>t w. view (put_world t w) = view w"
  shows "deps_frames view bot_deps" "session_frames view (td_users bot_deps)"
proof -
  have ses: "session_frames view (zoom_session bw_world put_world ses)" for ses :: "(world, 'row) session"
    by (simp add: session_frames_def zoom_session_def zoom_frames_other assms)
  have fr: "frames view (zoom bw_world put_world m)" for m :: "(world, 'm) M"
    by (rule zoom_frames_other) (rule assms)
  have ping: "frames view (MongoConnection_ping (td_mongo_connection bot_deps))"
    "frames view (RedisConnection_ping (td_redis_connection bot_deps))"
    by (simp_all add: frames_def MongoConnection_ping_def RedisConnection_ping_def bot_deps_def)
  show "deps_frames view bot_deps"
    using ping by (simp add: deps_frames_def bot_deps_def ses fr metadata_frames_def zoom_metadata_def rq_frames_def zoom_rq_def
        redis_frames_def zoom_redis_def zoom_fs_def runtime_frames_def zoom_runtime_def)
  show "session_frames view (td_users bot_deps)" by (simp add: bot_deps_def ses)
qed

lemma bot_bot_frames: "(\<And>t w. view (bw_said_update t w) = view w) \<Longrightarrow> bot_frames view (ch_bot bot_chat)"
  by (simp add: bot_frames_def bot_chat_def bot_bot_def say_def frames_def split: option.split)

interpretation bwiz: conversing bot_context bw_talk bot_chat bot_deps
proof
  fix S :: "string set" and s show "finite S \<Longrightarrow> set (ch_set_list bot_chat S s) = S" by (simp add: bot_chat_def)
qed (auto simp: bot_context_def bot_storage_def zoom_storage_def ref_storage_def zoom_def frames_def fun_upd_def
    intro!: bot_deps_frames bot_bot_frames)

text \<open>The monitor over the same storage and Redis.\<close>

definition bot_zrangebyscore :: "string \<Rightarrow> int \<Rightarrow> int \<Rightarrow> (bot_world, string list) M" where
  "bot_zrangebyscore k lo hi w =
     (Inr (map fst (filter (\<lambda>(m, sc). lo \<le> sc \<and> sc \<le> hi) (live_zset (w_redis (bw_world w)) k))), w)"

definition bot_monitor :: "bot_world FSMTimeoutMonitor" where
  "bot_monitor =
     \<lparr>tm_bot = bot_bot, tm_bot_id = 1, tm_storage = bot_storage, tm_config = sample_config,
      tm_redis = zoom_redis bw_world put_world world_redis, tm_zrangebyscore = bot_zrangebyscore,
      tm_runtime = zoom_runtime bw_world put_world world_runtime\<rparr>"

interpretation bmon: monitored bot_monitor bw_talk
proof
  show "redis_frames bw_talk (tm_redis bot_monitor)"
    by (simp add: bot_monitor_def redis_frames_def zoom_redis_def zoom_frames_other)
  show "runtime_frames bw_talk (tm_runtime bot_monitor)" "frames bw_talk (rt_sleep_ms (tm_runtime bot_monitor) n)" for n
    by (simp_all add: bot_monitor_def runtime_frames_def zoom_runtime_def zoom_frames_other)
  show "bot_frames bw_talk (tm_bot bot_monitor)" using bwiz.bot_quiet by (simp add: bot_monitor_def bot_chat_def)
  show "frames bw_talk (tm_zrangebyscore bot_monitor k a b)" for k a b
    by (simp add: bot_monitor_def frames_def bot_zrangebyscore_def)
qed (use bwiz.answering_axioms in \<open>auto simp: bot_monitor_def bot_context_def answering_def answering_axioms_def fsm_storage_def\<close>)

definition start_bot :: bot_world where
  "start_bot = \<lparr>bw_world = users_world\<lparr>w_cluster := sample_catalog\<rparr>, bw_talk = (\<lambda>k. (None, empty_data)), bw_said = []\<rparr>"

definition shop_button :: "string \<Rightarrow> CallbackQuery" where
  "shop_button d = \<lparr>cq_from_id = 7, cq_message = Some \<lparr>msg_id = 40, msg_chat_id = - 100, msg_thread_id = Some 1,
     msg_from_id = None, msg_text = None\<rparr>, cq_data = Some d\<rparr>"

text \<open>The bot in the middle of a conversation.\<close>

definition talking :: "conversation \<Rightarrow> bot_world" where
  "talking c = start_bot\<lparr>bw_talk := (\<lambda>k. if k = bot_key then c else (None, empty_data))\<rparr>"

definition shop_data :: wizard_data where
  "shop_data = empty_data\<lparr>wd_chat_id := Some (- 100), wd_topic_id := Some 1, wd_backup_type := Some ''CUSTOM'',
     wd_selected_databases := Some [''broken''], wd_all_databases := Some [''broken'', ''shop'']\<rparr>"

definition shop_bot :: bot_world where
  "shop_bot = talking (Some selecting_databases, shop_data)"

end
