(* ===== verification/Conversation.thy ===== *)
theory Conversation
  imports BotWorld
begin

text \<open>
  The conversation of one user through everything that can happen to it: buttons, the command, the
  monitor of inactivity, and the rest of the bot. What it refines, what is requested when it ends.
\<close>

section \<open>The buttons\<close>



section \<open>The whole conversation\<close>

text \<open>What can happen: the user presses a button or sends the command, a turn of the monitor passes, or something
  else that does not write this conversation. \<open>key\<close> starts with nothing stored.\<close>

inductive conversation_run :: "'s FSMContext \<Rightarrow> ('s \<Rightarrow> StorageKey \<Rightarrow> conversation) \<Rightarrow> 's chat \<Rightarrow> 's TelegramDependencies \<Rightarrow>
    's FSMTimeoutMonitor \<Rightarrow> 's \<Rightarrow> bool"
  for fx talk ch td tm where
  nothing: "talk s (fx_key fx) = (None, empty_data) \<Longrightarrow> conversation_run fx talk ch td tm s"
| command: "conversation_run fx talk ch td tm s \<Longrightarrow> cmd_backup ch td fx message user s = (x, s') \<Longrightarrow>
    conversation_run fx talk ch td tm s'"
| press: "conversation_run fx talk ch td tm s \<Longrightarrow>
    backup_callback ch td fx (fst (talk s (fx_key fx))) cb p user = Some h \<Longrightarrow> h s = (x, s') \<Longrightarrow>
    conversation_run fx talk ch td tm s'"
| inactivity: "conversation_run fx talk ch td tm s \<Longrightarrow> FSMTimeoutMonitor_turn tm s = (x, s') \<Longrightarrow>
    conversation_run fx talk ch td tm s'"
| elsewhere: "conversation_run fx talk ch td tm s \<Longrightarrow> talk s' (fx_key fx) = talk s (fx_key fx) \<Longrightarrow>
    conversation_run fx talk ch td tm s'"

lemma wizard_ok_simple [simp]:
  "wizard_ok (None, empty_data)" "wizard_ok (Some idle, empty_data)" "wizard_ok (started m)"
  by (simp_all add: wizard_ok_def started_def empty_data_def keyed_def get_list_def Let_def)

lemma conversation_run_ok:
  assumes "conversing fx talk ch td" "monitored tm talk" "conversation_run fx talk ch td tm s"
  shows "wizard_ok (talk s (fx_key fx))"
  using assms(3)
proof induction
  case (command s message user x s')
  have "talk s' = talk s \<or> talk s' = (talk s)(fx_key fx := started message)"
    using tripleD [OF conversing.cmd_backup_starts [OF assms(1), where v = "talk s"] _ command(2)] by (auto simp: stays_def split: sum.splits)
  then show ?case using command.IH by auto
next
  case (press s cb p user h x s')
  then show ?case
    using tripleD [OF conversing.callback_steps [where v = "talk s", OF assms(1) press.IH press(2)] _ press(3)]
    by (auto simp: stays_def stepped_def split: sum.splits)
next
  case (inactivity s x s')
  have "some_reset (talk s) (talk s')"
    using tripleD [OF monitored.turn_resets [OF assms(2), where v = "talk s"] _ inactivity(2)] by (auto simp: stays_def split: sum.splits)
  then show ?case using inactivity.IH by (metis some_reset_def wizard_ok_simple(2))
qed simp_all

section \<open>What is requested\<close>

definition target_key :: "CollectionTarget \<Rightarrow> string" where
  "target_key t = collection_key (ct_database t, ct_collection t)"

text \<open>The request asks for what the wizard has: everything, or exactly the selected collections.\<close>

definition asks_for :: "string set option \<Rightarrow> RequestBackupDto \<Rightarrow> bool" where
  "asks_for w dto \<longleftrightarrow> (case w of
     None \<Rightarrow> rbd_backup_type dto = FULL \<and> rbd_target_collections dto = None
   | Some C \<Rightarrow> rbd_backup_type dto = CUSTOM \<and>
       (case rbd_target_collections dto of None \<Rightarrow> C = {} | Some ts \<Rightarrow> ts \<noteq> [] \<and> set (map target_key ts) = C))"

lemma partition_found:
  "c \<in> set s \<Longrightarrow> takeWhile (\<lambda>x. x \<noteq> c) s @ c # drop (Suc (length (takeWhile (\<lambda>x. x \<noteq> c) s))) s = s"
  by (induction s) auto

lemma key_target_Inr: "key_target k = Inr t \<Longrightarrow> target_key t = k"
  using partition_found [of "CHR ''.''" k]
  by (auto simp: key_target_def py_partition_def mk_CollectionTarget_def target_key_def collection_key_def validated_def
      split: if_splits)

lemma key_target_Inl: "CHR ''.'' \<in> set k \<Longrightarrow> key_target k = Inl e \<Longrightarrow> e = ValidationError ''CollectionTarget''"
  by (auto simp: key_target_def py_partition_def mk_CollectionTarget_def validated_def split: if_splits)

lemma key_targets:
  "map_sum_list key_target ks = Inr ts \<Longrightarrow> map target_key ts = ks"
  "list_all (\<lambda>k. CHR ''.'' \<in> set k) ks \<Longrightarrow> map_sum_list key_target ks = Inl e \<Longrightarrow> e = ValidationError ''CollectionTarget''"
  by (induction ks arbitrary: ts) (auto split: sum.splits dest: key_target_Inr key_target_Inl simp: bind_sum_def)

lemma wizard_dto_asks:
  assumes ok: "wizard_ok c" and w: "wizard_of c = Confirming w"
  shows "case wizard_dto td (snd c) cb user of Inr dto \<Rightarrow> asks_for w dto
    | Inl e \<Rightarrow> e \<in> ValidationError ` {''CollectionTarget'', ''UserPrincipalDto'', ''RequestBackupDto''}"
proof -
  let ?ks = "get_list (wd_selected_collections (snd c))" and ?t = "wizard_type (snd c)"
  have st: "fst c = Some confirming" and w_def: "w = (if ?t = ''CUSTOM'' then Some (set ?ks) else None)"
    using w by (auto simp: wizard_of_def Let_def split: option.splits BackupStates.splits)
  have t: "?t \<in> {''FULL'', ''CUSTOM''}" "list_all (\<lambda>k. CHR ''.'' \<in> set k) ?ks"
    using ok st by (auto simp: wizard_ok_def keyed_def wizard_type_def Let_def)
  then have ty: "parse_backup_type ?t = Inr (if ?t = ''CUSTOM'' then CUSTOM else FULL)"
    by (auto simp: parse_backup_type_def enum_lookup_def)
  have ts: "case wizard_targets (snd c) of Inl e \<Rightarrow> e = ValidationError ''CollectionTarget''
      | Inr None \<Rightarrow> ?t = ''FULL'' \<or> ?ks = [] | Inr (Some ts) \<Rightarrow> ?t = ''CUSTOM'' \<and> ts \<noteq> [] \<and> map target_key ts = ?ks"
    using t key_targets [of ?ks] by (auto simp: wizard_targets_def Let_def bind_sum_def split: sum.split)
  show ?thesis
    using ts ty by (auto simp: wizard_dto_def bind_sum_def principal_of_user_def validated_def asks_for_def w_def
        simp flip: set_map split: sum.splits option.splits)
qed

text \<open>C2. What the wizard keeps is well typed and what it requests is what was chosen: after any history of
  buttons, commands and timeouts, however they failed, the stored dictionary has its type; and when the user is
  asked to confirm, the request that would be made either has type FULL and no targets, or has type CUSTOM and
  exactly the collections selected on the keyboard, or is refused by the validation of its fields, never by a
  missing key or a value that is not of the enumeration.\<close>

theorem wizard_typed:
  assumes "conversing fx talk ch td" "monitored tm talk" "conversation_run fx talk ch td tm s"
  shows "wizard_ok (talk s (fx_key fx)) \<and>
    (wizard_of (talk s (fx_key fx)) = Confirming w \<longrightarrow>
      (case wizard_dto td (snd (talk s (fx_key fx))) cb user of
         Inr dto \<Rightarrow> asks_for w dto
       | Inl e \<Rightarrow> e \<in> ValidationError ` {''CollectionTarget'', ''UserPrincipalDto'', ''RequestBackupDto''}))"
  using conversation_run_ok [OF assms] wizard_dto_asks by fastforce


definition backup_message :: Message where
  "backup_message = \<lparr>msg_id = 39, msg_chat_id = - 100, msg_thread_id = Some 1, msg_from_id = Some 7, msg_text = Some ''/backup''\<rparr>"

abbreviation bot_run :: "bot_world \<Rightarrow> bool" where
  "bot_run \<equiv> conversation_run bot_context bw_talk bot_chat bot_deps bot_monitor"

text \<open>Between two buttons the rest of the bot may have done anything.\<close>

lemma talking_key: "bw_talk (talking c) bot_key = c" "fx_key bot_context = bot_key"
  by (simp_all add: talking_def bot_context_def)

lemma bot_run_elsewhere: "bot_run w \<Longrightarrow> bw_talk w bot_key = c \<Longrightarrow> bot_run (talking c)"
  by (erule conversation_run.elsewhere) (simp add: talking_key)

lemma press_talking:
  assumes "bot_run (talking c)" "backup_callback bot_chat bot_deps bot_context (fst c) (shop_button d) p sample_user = Some h"
    "bw_talk (snd (h (talking c))) bot_key = c'"
  shows "bot_run (talking c')"
proof -
  have "backup_callback bot_chat bot_deps bot_context (fst (bw_talk (talking c) (fx_key bot_context))) (shop_button d) p sample_user = Some h"
    using assms(2) by (simp only: talking_key)
  from bot_run_elsewhere [OF conversation_run.press [OF assms(1) this prod.collapse [symmetric]] assms(3)] show ?thesis .
qed

definition asked_bot :: bot_world where
  "asked_bot = talking (Some confirming, shop_data\<lparr>wd_selected_databases := Some [''shop''],
     wd_all_collections := Some [''shop.carts'', ''shop.logs'', ''shop.orders''],
     wd_current_page := Some 0, wd_selected_collections := Some [''shop.orders'']\<rparr>)"

lemma asked_bot_run: "bot_run asked_bot"
proof -
  let ?d0 = "empty_data\<lparr>wd_chat_id := Some (- 100), wd_topic_id := Some 1\<rparr>"
  let ?d1 = "shop_data\<lparr>wd_selected_databases := Some []\<rparr>" and ?d2 = "shop_data\<lparr>wd_selected_databases := Some [''shop'']\<rparr>"
  let ?d3 = "?d2\<lparr>wd_all_collections := Some [''shop.carts'', ''shop.logs'', ''shop.orders''], wd_selected_collections := Some [], wd_current_page := Some 0\<rparr>"
  have "bot_run start_bot" by (rule conversation_run.nothing) (simp add: start_bot_def)
  then have "bot_run (snd (cmd_backup bot_chat bot_deps bot_context backup_message sample_user start_bot))"
    by (rule conversation_run.command [OF _ prod.collapse [symmetric]])
  moreover have "bw_talk (snd (cmd_backup bot_chat bot_deps bot_context backup_message sample_user start_bot)) bot_key =
      (Some selecting_backup_type, ?d0)"
    by code_simp
  ultimately have "bot_run (talking (Some selecting_backup_type, ?d0))"
    by (rule bot_run_elsewhere)
  then have "bot_run (talking (Some selecting_databases, ?d1))"
    by (rule press_talking [where d = "''c''" and p = "BackupTypeCallback ''custom''"]) (simp add: backup_callback_def, code_simp)
  then have "bot_run (talking (Some selecting_databases, ?d2))"
    by (rule press_talking [where d = "''d''" and p = "DatabaseCallback ''shop'' ''toggle''"]) (simp add: backup_callback_def, code_simp)
  then have "bot_run (talking (Some selecting_collections, ?d3))"
    by (rule press_talking [where d = "''e''" and p = "DatabaseCallback [] ''continuar''"]) (simp add: backup_callback_def, code_simp)
  then have "bot_run (talking (Some selecting_collections, ?d3\<lparr>wd_selected_collections := Some [''shop.orders'']\<rparr>))"
    by (rule press_talking [where d = "''f''" and p = "CollectionCallback ''shop'' ''orders'' ''toggle''"]) (simp add: backup_callback_def, code_simp)
  then have "bot_run (talking (Some confirming, ?d3\<lparr>wd_selected_collections := Some [''shop.orders'']\<rparr>))"
    by (rule press_talking [where d = "''g''" and p = "ConfirmCallback ''confirmar''"]) (simp add: backup_callback_def, code_simp)
  then show ?thesis by (simp add: asked_bot_def)
qed

lemma wizard_typed_witness:
  "\<exists>dto. wizard_dto bot_deps (snd (bw_talk asked_bot bot_key)) (shop_button ''h'') sample_user = Inr dto \<and>
     asks_for (Some {''shop.orders''}) dto"
proof -
  have key: "fx_key bot_context = bot_key" by (simp add: bot_context_def)
  have w: "wizard_of (bw_talk asked_bot bot_key) = Confirming (Some {''shop.orders''})"
    by (simp add: asked_bot_def talking_def shop_data_def wizard_of_def wizard_type_def get_list_def Let_def)
  have "\<not> isl (wizard_dto bot_deps (snd (bw_talk asked_bot bot_key)) (shop_button ''h'') sample_user)"
    by code_simp
  then show ?thesis
    using wizard_typed [OF bwiz.conversing_axioms bmon.monitored_axioms asked_bot_run, where w = "Some {''shop.orders''}"
        and cb = "shop_button ''h''" and user = sample_user] w unfolding key by (auto split: sum.splits)
qed

section \<open>Inactivity\<close>

text \<open>C34. When a check of the monitor returns, exactly the conversations of the users whose last interaction is
  older than ten minutes and that are under way have been reset to idle with no data; every other conversation
  is as it was, even if telling the user failed.\<close>

theorem inactive_sessions_expire:
  assumes "monitored tm talk" "rt_now (tm_runtime tm) s = (Inr now, s1)"
    "tm_zrangebyscore tm FSM_ACTIVE_KEY 0 (now - TIMEOUT_MICROSECONDS) s1 = (Inr ms, s2)"
    "FSMTimeoutMonitor_check_timeouts tm s = (Inr (), s')"
  shows "talk s' k = (if k \<in> member_keys tm ms \<and> fst (talk s k) \<notin> {None, Some idle} then (Some idle, empty_data) else talk s k)"
proof -
  have "talk s2 = talk s"
    using framesD [OF monitored.tm_redis_quiet(1) [OF assms(1)] assms(3)]
      framesD [OF runtime_framesD(1) [OF monitored.tm_clock_quiet(1) [OF assms(1)]] assms(2)] by simp
  moreover have "talk s' = timed_out (member_keys tm ms) (talk s2)"
  proof (cases "ms = []")
    case True
    then show ?thesis using assms(2-4) by (simp add: FSMTimeoutMonitor_check_timeouts_def bindM_def Let_def)
  next
    case False
    let ?rest = "thenM (rd_zremrangebyscore (tm_redis tm) FSM_ACTIVE_KEY 0 (now - TIMEOUT_MICROSECONDS)) (returnM ())"
    have "bindM (for_each (expire_member tm) ms) (\<lambda>_. ?rest) s2 = (Inr (), s')"
      using assms(2-4) False by (simp add: FSMTimeoutMonitor_check_timeouts_def thenM_def [of "for_each _ _"] bindM_def Let_def)
    then obtain u s3 where loop: "for_each (expire_member tm) ms s2 = (Inr u, s3)" and rest: "?rest s3 = (Inr (), s')"
      unfolding bindM_eq_Inr by blast
    have "frames talk ?rest" by (intro frame_intros monitored.tm_redis_quiet(2) [OF assms(1)])
    then have "talk s' = talk s3" using rest by (rule framesD)
    then show ?thesis
      using tripleD [OF monitored.for_each_resets [OF assms(1), where v = "talk s2"] _ loop] by (simp add: stays_def)
  qed
  ultimately show ?thesis by (simp add: timed_out_def)
qed

definition stale_bot :: bot_world where
  "stale_bot = shop_bot\<lparr>bw_world := start_world\<lparr>w_clock := 700000000,
     w_redis := empty_store\<lparr>rs_zsets := (\<lambda>k. if k = FSM_ACTIVE_KEY then [(''7'', 1), (''8'', 650000000)] else [])\<rparr>\<rparr>\<rparr>"

lemma inactive_sessions_expire_witness:
  "fst (bw_talk stale_bot bot_key) = Some selecting_databases \<and>
   bw_talk (snd (FSMTimeoutMonitor_check_timeouts bot_monitor stale_bot)) bot_key = (Some idle, empty_data)"
proof -
  let ?s1 = "snd (rt_now (tm_runtime bot_monitor) stale_bot)" and ?r = "FSMTimeoutMonitor_check_timeouts bot_monitor stale_bot"
  have now: "rt_now (tm_runtime bot_monitor) stale_bot = (Inr 700000000, ?s1)"
    by (simp add: bot_monitor_def zoom_runtime_def zoom_def world_runtime_def stale_bot_def)
  have old: "tm_zrangebyscore bot_monitor FSM_ACTIVE_KEY 0 (700000000 - TIMEOUT_MICROSECONDS) ?s1 = (Inr [''7''], ?s1)"
    by (simp add: bot_monitor_def zoom_runtime_def zoom_def world_runtime_def stale_bot_def bot_zrangebyscore_def
        TIMEOUT_MICROSECONDS_def live_zset_def empty_store_def)
  have "fst ?r = Inr ()" by code_simp
  then have ran: "?r = (Inr (), snd ?r)" by (metis prod.collapse)
  have "py_int ''7'' = Inr 7" "timeout_key bot_monitor 7 = Inr bot_key" by code_simp+
  then have "bot_key \<in> member_keys bot_monitor [''7'']" by simp
  moreover have "fst (bw_talk stale_bot bot_key) = Some selecting_databases"
    by (simp add: stale_bot_def shop_bot_def talking_def)
  ultimately show ?thesis
    using inactive_sessions_expire [OF bmon.monitored_axioms now old ran] by simp
qed

end
