(* ===== verification/SizeRouter.thy ===== *)
theory SizeRouter
  imports Wizard
begin

text \<open>
  \<^verbatim>\<open>app/telegram/routers/size.py\<close>: the commands that print sizes and the buttons that turn their pages. Nothing
  is kept between them, the page is in the button. The bullets and dots of the texts are left out, as in
  \<open>Telegram\<close>.
\<close>

definition SIZE_COLLECTION_PAGE_SIZE :: int where "SIZE_COLLECTION_PAGE_SIZE = 20"

section \<open>Texts\<close>

definition get_items :: "'a list option \<Rightarrow> 'a list" where
  "get_items x = (case x of None \<Rightarrow> [] | Some xs \<Rightarrow> xs)"

definition render_cluster_size :: "QuerySizeResult \<Rightarrow> string" where
  "render_cluster_size result =
     (let dbs = get_items (qsr_databases result);
          db_lines = join newline (map (\<lambda>db. ''   '' @ ds_database db @ '': '' @ format_size (ds_size_bytes db)) dbs) in
      ''<b>Tama'' @ [CHR 0xF1] @ ''o del Cluster</b>'' @ newline @
      ''Cluster: <code>'' @ take 8 (qsr_cluster_uri_hash result) @ ''</code>'' @ newline @ newline @
      ''<b>Total:</b> '' @ format_size (qsr_total_size_bytes result) @ newline @
      ''<b>Bases de datos:</b> '' @ str_int (int (length dbs)) @ newline @
      ''<b>Colecciones:</b> '' @ str_int (sum_list (map ds_collection_count dbs)) @ newline @ newline @ db_lines)"

text \<open>\<open>pct = (db.size_bytes / total) * 100\<close> in floating point.\<close>

definition render_database_sizes :: "QuerySizeResult \<Rightarrow> string" where
  "render_database_sizes result =
     (let databases = get_items (qsr_databases result);
          n_total = (if qsr_total_size_bytes result = 0 then 1 else qsr_total_size_bytes result);
          line = (\<lambda>db. ''   '' @ ds_database db @ '': '' @ format_size (ds_size_bytes db) @ '' ('' @
                        one_decimal (double_times (ratio (ds_size_bytes db) n_total) 100) @ ''%)'') in
      ''<b>Tama'' @ [CHR 0xF1] @ ''o por Base de Datos</b>'' @ newline @
      ''Cluster: <code>'' @ take 8 (qsr_cluster_uri_hash result) @ ''</code>'' @ newline @ newline @
      ''<b>Total:</b> '' @ format_size n_total @ newline @
      ''<b>Bases:</b> '' @ str_int (int (length databases)) @ newline @ newline @ join newline (map line databases))"

definition render_collections :: "string \<Rightarrow> CollectionSize list \<Rightarrow> int \<Rightarrow> int \<Rightarrow> int \<Rightarrow> string" where
  "render_collections database collections page page_size total_count =
     ''<b>Colecciones: '' @ database @ ''</b>'' @ newline @
     ''P'' @ [CHR 0xE1] @ ''gina '' @ str_int (page + 1) @ '' de '' @ str_int ((total_count + page_size - 1) div page_size) @
     newline @ newline @
     join newline (map (\<lambda>coll. ''   '' @ cs_collection coll @ '': '' @ format_size (cs_size_bytes coll) @ '' ('' @
       thousands (cs_document_count coll) @ '' docs)'') collections)"

section \<open>Handlers\<close>

definition run_size_query ::
  "'s TelegramDependencies \<Rightarrow> User \<Rightarrow> string \<Rightarrow> string option \<Rightarrow> int \<Rightarrow> int \<Rightarrow> ('s, QuerySizeResult) M" where
  "run_size_query td user scope database_name page page_size =
     bindM (liftE (bind_sum (principal_of_user user) (\<lambda>principal.
       validated valid_QuerySizeDto ''QuerySizeDto''
         \<lparr>qsd_user = principal, qsd_scope = scope, qsd_cluster_uri_hash = cluster_uri_hash td,
          qsd_database_name = database_name, qsd_page = page, qsd_page_size = page_size, qsd_topic = ''SIZE_ASK'',
          qsd_command = Some (upper scope)\<rparr>))) (\<lambda>dto.
     QuerySizeUseCase_execute (build_query_size_use_case td) dto)"

definition cmd_size :: "'s chat \<Rightarrow> 's TelegramDependencies \<Rightarrow> Message \<Rightarrow> User \<Rightarrow> ('s, unit) M" where
  "cmd_size ch td message user =
     bindM (run_size_query td user ''cluster'' None 1 50) (\<lambda>result.
     Message_answer (ch_bot ch) message (render_cluster_size result) None)"

definition cmd_size_db :: "'s chat \<Rightarrow> 's TelegramDependencies \<Rightarrow> Message \<Rightarrow> User \<Rightarrow> ('s, unit) M" where
  "cmd_size_db ch td message user =
     bindM (run_size_query td user ''database'' None 1 50) (\<lambda>result.
     Message_answer (ch_bot ch) message (render_database_sizes result) None)"

text \<open>What \<open>_send_collection_page\<close> shows: the collections of the page and how many there are, as far as it asks.\<close>

definition collection_page ::
  "'s TelegramDependencies \<Rightarrow> User \<Rightarrow> string \<Rightarrow> int \<Rightarrow> ('s, CollectionSize list \<times> int) M" where
  "collection_page td user database page =
     bindM (run_size_query td user ''collection'' (Some database) (page + 1) 50) (\<lambda>result.
     let collections = get_items (qsr_collections result);
         total_count = int (length collections) in
     if page = 0 \<or> total_count = SIZE_COLLECTION_PAGE_SIZE
     then bindM (run_size_query td user ''collection'' (Some database) 1 50) (\<lambda>full_result.
       let full = get_items (qsr_collections full_result) in
       returnM (py_slice (page * SIZE_COLLECTION_PAGE_SIZE) ((page + 1) * SIZE_COLLECTION_PAGE_SIZE) full, int (length full)))
     else returnM (collections, total_count))"

definition collection_page_message ::
  "packing \<Rightarrow> string \<Rightarrow> int \<Rightarrow> CollectionSize list \<times> int \<Rightarrow> exn + string \<times> keyboard option" where
  "collection_page_message pk database page shown =
     (let total_count = snd shown;
          text = render_collections database (fst shown) page SIZE_COLLECTION_PAGE_SIZE total_count in
      if SIZE_COLLECTION_PAGE_SIZE < total_count
      then bind_sum (build_size_collection_keyboard pk database total_count page SIZE_COLLECTION_PAGE_SIZE)
             (\<lambda>keyboard. Inr (text, Some keyboard))
      else Inr (text, None))"

text \<open>Of \<open>edit_message\<close> and \<open>bot\<close> one is given by every caller; \<open>place\<close> is the message to edit, or the chat and
  topic to send to.\<close>

definition send_collection_page ::
  "'s chat \<Rightarrow> 's TelegramDependencies \<Rightarrow> User \<Rightarrow> string \<Rightarrow> int \<Rightarrow> Message + int \<times> int option \<Rightarrow> ('s, unit) M" where
  "send_collection_page ch td user database page place =
     bindM (collection_page td user database page) (\<lambda>shown.
     bindM (liftE (collection_page_message (ch_packing ch) database page shown)) (\<lambda>(text, keyboard).
     case place of
       Inl edit_message \<Rightarrow> bot_edit_text (ch_bot ch) edit_message text keyboard
     | Inr (chat_id, thread_id) \<Rightarrow> bot_send_message (ch_bot ch) chat_id text thread_id keyboard))"

text \<open>\<open>message.text.split(maxsplit=n) if message.text else []\<close>\<close>

definition message_args :: "nat \<Rightarrow> Message \<Rightarrow> string list" where
  "message_args n message = (case msg_text message of None \<Rightarrow> [] | Some text \<Rightarrow> split_space n text)"

definition cmd_size_collection :: "'s chat \<Rightarrow> 's TelegramDependencies \<Rightarrow> Message \<Rightarrow> User \<Rightarrow> ('s, unit) M" where
  "cmd_size_collection ch td message user =
     (let args = message_args 1 message;
          db_name = (if 1 < length args then py_strip (args ! 1) else []) in
      if db_name \<noteq> []
      then send_collection_page ch td user db_name 0 (Inr (msg_chat_id message, msg_thread_id message))
      else bindM (mm_list_databases (td_mongo_metadata td) (cluster_uri_hash td)) (\<lambda>databases.
           if databases = [] then Message_answer (ch_bot ch) message ''No se encontraron bases de datos.'' None
           else bindM (liftE (build_size_db_keyboard (ch_packing ch) databases)) (\<lambda>kb.
                Message_answer (ch_bot ch) message ''Selecciona una base de datos:'' (Some kb))))"

definition on_size_page ::
  "'s chat \<Rightarrow> 's TelegramDependencies \<Rightarrow> CallbackQuery \<Rightarrow> string \<Rightarrow> int \<Rightarrow> User \<Rightarrow> ('s, unit) M" where
  "on_size_page ch td cb database page user =
     thenM (answer ch cb)
    (case cq_message cb of
       None \<Rightarrow> returnM ()
     | Some m \<Rightarrow> send_collection_page ch td user database page (Inl m))"

definition on_size_db_selected ::
  "'s chat \<Rightarrow> 's TelegramDependencies \<Rightarrow> CallbackQuery \<Rightarrow> string \<Rightarrow> User \<Rightarrow> ('s, unit) M" where
  "on_size_db_selected ch td cb database user = on_size_page ch td cb database 0 user"

definition on_size_collection_page ::
  "'s chat \<Rightarrow> 's TelegramDependencies \<Rightarrow> CallbackQuery \<Rightarrow> string \<Rightarrow> int \<Rightarrow> User \<Rightarrow> ('s, unit) M" where
  "on_size_collection_page ch td cb database page user = on_size_page ch td cb database page user"

section \<open>The router\<close>

definition size_message :: "'s chat \<Rightarrow> 's TelegramDependencies \<Rightarrow> string \<Rightarrow> Message \<Rightarrow> User \<Rightarrow> ('s, unit) M option" where
  "size_message ch td command message user = map_option (\<lambda>h. h ch td message user) (map_of
     [(''size'', cmd_size), (''size_db'', cmd_size_db), (''size_collection'', cmd_size_collection)] command)"

fun size_callback :: "'s chat \<Rightarrow> 's TelegramDependencies \<Rightarrow> CallbackQuery \<Rightarrow> callback \<Rightarrow> User \<Rightarrow> ('s, unit) M option" where
  "size_callback ch td cb (SizeDbCallback database) user = Some (on_size_db_selected ch td cb database user)"
| "size_callback ch td cb (SizeCollPageCallback database page) user = Some (on_size_collection_page ch td cb database page user)"
| "size_callback ch td cb _ user = None"

end
