(* ===== verification/SizePages.thy ===== *)
theory SizePages
  imports SizeRouter BotWorld
begin

text \<open>
  What the pages of \<^verbatim>\<open>/size_collection\<close> show. The metadata port may be any that lists the same collections
  whenever it answers.
\<close>

lemma run_size_query_collections:
  assumes "\<forall>s r s'. mm_get_size_stats (td_mongo_metadata td) (cluster_uri_hash td) s = (Inr r, s') \<longrightarrow>
      filter (\<lambda>c. cs_database c = database) (sr_collections r) = cs"
    and "database \<noteq> []" and run: "run_size_query td user ''collection'' (Some database) page n s = (Inr result, s')"
  shows "1 \<le> page \<and> get_items (qsr_collections result) = py_slice ((page - 1) * n) ((page - 1) * n + n) cs"
proof -
  let ?uc = "build_query_size_use_case td"
  let ?dto = "\<lambda>u. \<lparr>qsd_user = u, qsd_scope = ''collection'', qsd_cluster_uri_hash = cluster_uri_hash td,
     qsd_database_name = Some database, qsd_page = page, qsd_page_size = n, qsd_topic = ''SIZE_ASK'',
     qsd_command = Some (upper ''collection'')\<rparr>"
  obtain u where exe: "QuerySizeUseCase_execute ?uc (?dto u) s = (Inr result, s')" and page: "1 \<le> page"
    using run by (auto simp: run_size_query_def bindM_eq_Inr bind_sum_def valid_QuerySizeDto_def valid_page_def split: sum.splits)
  obtain s2 s3 where body: "query_size_body ?uc (?dto u) s2 = (Inr result, s3)"
    using exe unfolding QuerySizeUseCase_execute_def build_query_size_use_case_def
    by (auto simp: thenM_eq_Inr bindM_eq_Inr raise_domain_def raiseM_def split: option.splits dest!: finallyM_Inr)
  have "lower ''collection'' = ''collection''" by code_simp
  then obtain s4 s5 where q: "query_collections ?uc (?dto u) s4 = (Inr result, s5)"
    using body by (auto simp: query_size_body_def thenM_eq_Inr bindM_eq_Inr Let_def)
  show ?thesis
    using q assms(1)[rule_format] assms(2) page
    by (auto simp: query_collections_def build_query_size_use_case_def bindM_eq_Inr SizeQueryService_get_collection_sizes_def
        mk_QuerySizeResult_def truthy_def get_items_def Let_def split: if_splits)
qed

text \<open>C35. A database with between 21 and 50 collections: the first page shows the first twenty of them and a
  button for the next page; whatever later page that button or an old keyboard asks for, the page that
  comes is empty, says that there are zero pages and has no buttons, so the collections after the twentieth are
  never shown.\<close>

theorem later_size_pages_are_empty:
  assumes "\<forall>s r s'. mm_get_size_stats (td_mongo_metadata td) (cluster_uri_hash td) s = (Inr r, s') \<longrightarrow>
      filter (\<lambda>c. cs_database c = database) (sr_collections r) = cs"
    and "database \<noteq> []" "20 < length cs" "length cs \<le> 50"
    and "collection_page td user database page s = (Inr shown, s')"
  shows "(page = 0 \<longrightarrow> shown = (take 20 cs, int (length cs)) \<and>
      collection_page_message pk database page shown =
        bind_sum (with_navigation pk [] [(''Siguiente'', SizeCollPageCallback database 1)])
          (\<lambda>kb. Inr (render_collections database (take 20 cs) 0 20 (int (length cs)), Some kb))) \<and>
    (page \<noteq> 0 \<longrightarrow> 0 < page \<and> shown = ([], 0) \<and>
      collection_page_message pk database page shown = Inr (render_collections database [] page 20 0, None))"
proof -
  note q = run_size_query_collections [OF assms(1,2)]
  obtain r s1 where r: "run_size_query td user ''collection'' (Some database) (page + 1) 50 s = (Inr r, s1)"
    using assms(5) by (auto simp: collection_page_def bindM_eq_Inr)
  show ?thesis
  proof (cases "page = 0")
    case True
    then obtain f s2 where "run_size_query td user ''collection'' (Some database) 1 50 s1 = (Inr f, s2)"
        "shown = (py_slice 0 20 (get_items (qsr_collections f)), int (length (get_items (qsr_collections f))))"
      using assms(5) r by (auto simp: collection_page_def bindM_eq_Inr SIZE_COLLECTION_PAGE_SIZE_def Let_def)
    moreover from q [OF this(1)] have "get_items (qsr_collections f) = cs"
      using assms(4) py_slice_nonneg [of 0 50 cs] by simp
    ultimately have "shown = (take 20 cs, int (length cs))" using py_slice_nonneg [of 0 20 cs] by simp
    moreover have "1 < (19 + int (length cs)) div 20" using assms(3) by linarith
    ultimately show ?thesis
      using True assms(3) by (simp add: collection_page_message_def SIZE_COLLECTION_PAGE_SIZE_def build_size_collection_keyboard_def Let_def)
  next
    case False
    from q [OF r] have "0 \<le> page" "get_items (qsr_collections r) = py_slice (page * 50) (page * 50 + 50) cs" by simp_all
    moreover have "py_slice (page * 50) (page * 50 + 50) cs = []"
      using py_slice_nonneg [of "nat page * 50" 50 cs] assms(4) False calculation(1) by (simp add: nat_mult_distrib)
    ultimately show ?thesis
      using False assms(5) r
      by (auto simp: collection_page_def bindM_eq_Inr SIZE_COLLECTION_PAGE_SIZE_def Let_def collection_page_message_def)
  qed
qed

definition many_collections :: "CollectionSize list" where
  "many_collections = map (\<lambda>i. \<lparr>cs_database = ''shop'', cs_collection = replicate i (CHR ''c''), cs_size_bytes = int i,
     cs_document_count = 1\<rparr>) [1..<22]"

definition many_deps :: "bot_world TelegramDependencies" where
  "many_deps = bot_deps\<lparr>td_mongo_metadata := (td_mongo_metadata bot_deps)\<lparr>mm_get_size_stats := (\<lambda>h. returnM
     \<lparr>sr_cluster_uri_hash = sample_hash, sr_timestamp = 0, sr_databases = [], sr_collections = many_collections\<rparr>)\<rparr>\<rparr>"

lemma later_size_pages_are_empty_witness:
  "\<exists>s'. collection_page many_deps sample_user ''shop'' 1 start_bot = (Inr ([], 0), s') \<and>
     collection_page_message ref_packing ''shop'' 1 ([], 0) = Inr (render_collections ''shop'' [] 1 20 0, None)"
proof -
  have stats: "\<forall>s r s'. mm_get_size_stats (td_mongo_metadata many_deps) (cluster_uri_hash many_deps) s = (Inr r, s') \<longrightarrow>
      filter (\<lambda>c. cs_database c = ''shop'') (sr_collections r) = many_collections"
    by (auto simp: many_deps_def many_collections_def)
  have "\<not> isl (fst (collection_page many_deps sample_user ''shop'' 1 start_bot))" by code_simp
  then obtain shown s' where run: "collection_page many_deps sample_user ''shop'' 1 start_bot = (Inr shown, s')"
    by (metis isl_def obj_sumE prod.collapse)
  show ?thesis
    using later_size_pages_are_empty [OF stats _ _ _ run, where pk = ref_packing] run by (auto simp: many_collections_def)
qed

end
