(* ===== verification/AdminRouter.thy ===== *)
theory AdminRouter
  imports SizeRouter
begin

text \<open>
  \<^verbatim>\<open>app/telegram/routers/admin.py\<close>: jobs, users, cancellation, health and metrics. Nothing is kept between
  the handlers. The first message of a validation error of pydantic is a parameter, a function of the
  arguments of the constructor that raised; emojis are left out of the texts.
\<close>

definition JOBS_PAGE_SIZE :: int where "JOBS_PAGE_SIZE = 10"
definition USERS_PAGE_SIZE :: int where "USERS_PAGE_SIZE = 10"

section \<open>Texts\<close>

text \<open>
  \<open>isoformat\<close> of a time read from the database, which has no time zone: the proleptic Gregorian date of a
  number of microseconds since 1970.
\<close>

definition civil_date :: "int \<Rightarrow> int \<times> int \<times> int" where
  "civil_date days =
     (let z = days + 719468; era = z div 146097; doe = z mod 146097;
          yoe = (doe - doe div 1460 + doe div 36524 - doe div 146096) div 365;
          doy = doe - (365 * yoe + yoe div 4 - yoe div 100);
          mp = (5 * doy + 2) div 153;
          m = (if mp < 10 then mp + 3 else mp - 9) in
      (yoe + era * 400 + (if m \<le> 2 then 1 else 0), m, doy - (153 * mp + 2) div 5 + 1))"

definition zero_padded :: "nat \<Rightarrow> int \<Rightarrow> string" where
  "zero_padded n i = (let s = str_int i in replicate (n - length s) (CHR ''0'') @ s)"

definition isoformat :: "datetime \<Rightarrow> string" where
  "isoformat t =
     (let us = t mod 1000000; secs = t div 1000000; (y, m, d) = civil_date (secs div 86400); r = secs mod 86400 in
      zero_padded 4 y @ ''-'' @ zero_padded 2 m @ ''-'' @ zero_padded 2 d @ ''T'' @
      zero_padded 2 (r div 3600) @ '':'' @ zero_padded 2 (r div 60 mod 60) @ '':'' @ zero_padded 2 (r mod 60) @
      (if us = 0 then [] else ''.'' @ zero_padded 6 us))"

definition render_job_detail :: "BackupJob \<Rightarrow> string" where
  "render_job_detail job =
     join newline
       ([''<b>Job:</b> <code>'' @ bj_id job @ ''</code>'', ''<b>Estado:</b> '' @ status_value (bj_status job),
         ''<b>Tipo:</b> '' @ backup_type_value (bj_backup_type job),
         ''<b>Solicitante:</b> '' @ str_int (bj_requester_telegram_id job)] @
        (case bj_started_at job of None \<Rightarrow> [] | Some t \<Rightarrow> [''<b>Iniciado:</b> '' @ isoformat t]) @
        (case bj_completed_at job of None \<Rightarrow> [] | Some t \<Rightarrow> [''<b>Completado:</b> '' @ isoformat t]) @
        (if truthy (bj_error_log job) then [''<b>Error:</b> '' @ html_escape (take 200 (the (bj_error_log job)))] else []))"

definition render_jobs_list :: "QueryJobsResult \<Rightarrow> string" where
  "render_jobs_list result =
     ''<b>Jobs</b>'' @ newline @ ''P'' @ [CHR 0xE1] @ ''gina '' @ str_int (qjr_page result) @ newline @
     ''Mostrando '' @ str_int (int (length (qjr_jobs result))) @ '' job(s)'' @ newline @ newline @
     ''Selecciona una acci'' @ [CHR 0xF3] @ ''n:''"

definition render_users_list :: "QueryUsersResult \<Rightarrow> string" where
  "render_users_list result =
     (let total_pages = (qur_total result + qur_page_size result - 1) div qur_page_size result in
      ''<b>Usuarios</b>'' @ newline @ ''P'' @ [CHR 0xE1] @ ''gina '' @ str_int (qur_page result) @ '' de '' @ str_int total_pages @
      newline @ ''Total: '' @ str_int (qur_total result) @ newline @ newline @
      ''Toca un usuario para alternar activo / cambiar rol:'')"

definition cancelled_text :: "CancelJobResult \<Rightarrow> string" where
  "cancelled_text result =
     '' Job <code>'' @ cjx_job_id result @ ''</code> cancelado.'' @ newline @
     ''Nuevo estado: <b>'' @ status_value (cjx_status result) @ ''</b>''"

definition job_missing_text :: "string \<Rightarrow> string" where
  "job_missing_text job_id = ''Job <code>'' @ job_id @ ''</code> no encontrado.''"

section \<open>Queries\<close>

definition run_jobs_query :: "'s TelegramDependencies \<Rightarrow> User \<Rightarrow> int \<Rightarrow> ('s, QueryJobsResult) M" where
  "run_jobs_query td user page =
     bindM (liftE (bind_sum (principal_of_user user) (\<lambda>principal.
       validated valid_QueryJobsDto ''QueryJobsDto''
         \<lparr>qjd_user = principal, qjd_filter_status = None, qjd_page = page, qjd_page_size = JOBS_PAGE_SIZE,
          qjd_topic = ''ADMIN'', qjd_command = Some ''LIST_JOBS''\<rparr>))) (build_list_jobs_use_case td)"

definition run_users_query :: "'s TelegramDependencies \<Rightarrow> User \<Rightarrow> int \<Rightarrow> ('s, QueryUsersResult) M" where
  "run_users_query td user page =
     bindM (liftE (bind_sum (principal_of_user user) (\<lambda>principal.
       validated valid_QueryUsersDto ''QueryUsersDto''
         \<lparr>qud_user = principal, qud_page = page, qud_page_size = USERS_PAGE_SIZE, qud_topic = ''ADMIN'',
          qud_command = Some ''LIST_USERS''\<rparr>))) (build_list_users_use_case td)"

definition run_cancel_job :: "'s TelegramDependencies \<Rightarrow> User \<Rightarrow> string \<Rightarrow> ('s, CancelJobResult) M" where
  "run_cancel_job td user job_id =
     bindM (liftE (bind_sum (principal_of_user user) (\<lambda>principal.
       validated (\<lambda>d. valid_UserPrincipalDto (cjd_user d) \<and> cjd_job_id d \<noteq> []) ''CancelJobDto''
         \<lparr>cjd_user = principal, cjd_job_id = job_id, cjd_topic = ''BACKUP_REQUESTS'', cjd_command = Some ''CANCEL''\<rparr>)))
       (build_cancel_job_use_case td)"

text \<open>A page is shown in a new message or in the message of the button.\<close>

definition display :: "'s chat \<Rightarrow> Message \<Rightarrow> bool \<Rightarrow> string \<Rightarrow> keyboard option \<Rightarrow> ('s, unit) M" where
  "display ch message edit text kb =
     (if edit then bot_edit_text (ch_bot ch) message text kb else Message_answer (ch_bot ch) message text kb)"

definition show_jobs_page :: "'s chat \<Rightarrow> 's TelegramDependencies \<Rightarrow> Message \<Rightarrow> bool \<Rightarrow> User \<Rightarrow> int \<Rightarrow> ('s, unit) M" where
  "show_jobs_page ch td message edit user page =
     bindM (run_jobs_query td user page) (\<lambda>result.
     bindM (liftE (build_jobs_keyboard (ch_packing ch) (qjr_jobs result) page JOBS_PAGE_SIZE)) (\<lambda>kb.
     display ch message edit (render_jobs_list result) (Some kb)))"

definition show_users_page :: "'s chat \<Rightarrow> 's TelegramDependencies \<Rightarrow> Message \<Rightarrow> bool \<Rightarrow> User \<Rightarrow> int \<Rightarrow> ('s, unit) M" where
  "show_users_page ch td message edit user page =
     bindM (run_users_query td user page) (\<lambda>result.
     bindM (liftE (build_users_keyboard (ch_packing ch) (qur_users result) page USERS_PAGE_SIZE)) (\<lambda>kb.
     display ch message edit (render_users_list result) (Some kb)))"

section \<open>Commands\<close>

definition cmd_jobs :: "'s chat \<Rightarrow> 's TelegramDependencies \<Rightarrow> Message \<Rightarrow> User \<Rightarrow> ('s, unit) M" where
  "cmd_jobs ch td message user =
     (if \<not> User_has_role user UserRole.ADMIN
      then Message_answer (ch_bot ch) message ''No tienes permiso para gestionar jobs.'' None
      else show_jobs_page ch td message False user 1)"

definition cmd_users :: "'s chat \<Rightarrow> 's TelegramDependencies \<Rightarrow> Message \<Rightarrow> User \<Rightarrow> ('s, unit) M" where
  "cmd_users ch td message user =
     (if \<not> User_has_role user UserRole.ADMIN
      then Message_answer (ch_bot ch) message ''No tienes permiso para gestionar usuarios.'' None
      else show_users_page ch td message False user 1)"

text \<open>The two \<open>except\<close> clauses of a cancellation and of the detail of a job; \<open>None\<close> is not caught.\<close>

definition job_refusal :: "string \<Rightarrow> string \<Rightarrow> exn \<Rightarrow> string option" where
  "job_refusal job_id denied exc =
     (if is_instance exc JobNotFoundError then Some (job_missing_text job_id)
      else if is_instance exc DomainPermissionError then Some denied else None)"

definition cancel_text :: "'s TelegramDependencies \<Rightarrow> User \<Rightarrow> string \<Rightarrow> ('s, string) M" where
  "cancel_text td user job_id =
     tryM (bindM (run_cancel_job td user job_id) (\<lambda>result. returnM (cancelled_text result)))
       (\<lambda>exc. case job_refusal job_id ''No tienes permiso para cancelar este job.'' exc of
          None \<Rightarrow> raiseM exc | Some text \<Rightarrow> returnM text)"

definition cmd_cancel :: "'s chat \<Rightarrow> 's TelegramDependencies \<Rightarrow> Message \<Rightarrow> User \<Rightarrow> ('s, unit) M" where
  "cmd_cancel ch td message user =
     (let args = message_args 1 message in
      if length args < 2 then Message_answer (ch_bot ch) message ''Uso: /cancel <job_id>'' None
      else bindM (cancel_text td user (py_strip (args ! 1))) (\<lambda>text.
           Message_answer (ch_bot ch) message text None))"

text \<open>\<open>/auth\<close>: what the arguments say, or the answer that refuses them.\<close>

definition auth_request ::
  "(exn + UserPrincipalDto \<Rightarrow> int \<Rightarrow> string \<Rightarrow> string) \<Rightarrow> Message \<Rightarrow> User \<Rightarrow> string + AddUserDto" where
  "auth_request first_error message user =
     (let args = message_args 3 message in
      if length args < 4
      then Inl (''Uso: /auth <telegram_id> <username> <role>'' @ newline @ ''Roles: ADMIN, DBA, OPERATOR, READONLY'')
      else
        let raw_id = py_strip (args ! 1); username = py_strip (args ! 2); raw_role = upper (py_strip (args ! 3)) in
        case py_int raw_id of
          Inl _ \<Rightarrow> Inl (''telegram_id debe ser un n'' @ [CHR 0xFA] @ ''mero entero.'')
        | Inr telegram_id \<Rightarrow>
            if telegram_id \<le> 0 then Inl (''telegram_id debe ser un n'' @ [CHR 0xFA] @ ''mero positivo.'')
            else case parse_role raw_role of
              Inl _ \<Rightarrow> Inl (''Rol '' @ [CHR 0x27] @ raw_role @ [CHR 0x27] @ '' no v'' @ [CHR 0xE1] @ ''lido. Roles: ADMIN, DBA, OPERATOR, READONLY'')
            | Inr role \<Rightarrow>
                (case bind_sum (principal_of_user user) (\<lambda>principal.
                   validated valid_AddUserDto ''AddUserDto''
                     \<lparr>aud_requester = principal, aud_telegram_id = telegram_id, aud_username = username, aud_role = role,
                      aud_topic = ''ADMIN'', aud_command = Some ''AUTH''\<rparr>) of
                   Inl _ \<Rightarrow> Inl (''Entrada inv'' @ [CHR 0xE1] @ ''lida: '' @ first_error (principal_of_user user) telegram_id username)
                 | Inr dto \<Rightarrow> Inr dto))"

definition auth_refusal :: "AddUserDto \<Rightarrow> exn \<Rightarrow> string option" where
  "auth_refusal dto exc =
     (if is_instance exc DomainPermissionError then Some ''No tienes permiso para gestionar usuarios.''
      else if is_instance exc UserAlreadyExistsError
      then Some (''El usuario <code>'' @ str_int (aud_telegram_id dto) @ ''</code> ya existe. Usa el listado para modificarlo.'')
      else None)"

definition added_text :: "AddUserResult \<Rightarrow> string" where
  "added_text result =
     '' Usuario <code>'' @ str_int (aur_telegram_id result) @ ''</code> ('' @ aur_username result @
     '')agregado con rol <b>'' @ role_value (aur_role result) @ ''</b>.''"

definition cmd_auth ::
  "(exn + UserPrincipalDto \<Rightarrow> int \<Rightarrow> string \<Rightarrow> string) \<Rightarrow> 's chat \<Rightarrow> 's TelegramDependencies \<Rightarrow> Message \<Rightarrow> User \<Rightarrow> ('s, unit) M" where
  "cmd_auth first_error ch td message user =
     (if \<not> User_has_role user UserRole.ADMIN
      then Message_answer (ch_bot ch) message ''No tienes permiso para gestionar usuarios.'' None
      else case auth_request first_error message user of
        Inl text \<Rightarrow> Message_answer (ch_bot ch) message text None
      | Inr dto \<Rightarrow>
          bindM (tryM (bindM (AddUserUseCase_execute (build_add_user_use_case td) dto) (\<lambda>result. returnM (added_text result)))
                   (\<lambda>exc. case auth_refusal dto exc of None \<Rightarrow> raiseM exc | Some text \<Rightarrow> returnM text)) (\<lambda>text.
          Message_answer (ch_bot ch) message text None))"

section \<open>Buttons\<close>

text \<open>\<open>await callback.answer()\<close>, and nothing else when the message is not there; the refusals edit it.\<close>

definition on_button :: "'s chat \<Rightarrow> CallbackQuery \<Rightarrow> (Message \<Rightarrow> ('s, unit) M) \<Rightarrow> ('s, unit) M" where
  "on_button ch cb body =
     thenM (answer ch cb) (case cq_message cb of None \<Rightarrow> returnM () | Some m \<Rightarrow> body m)"

definition admin_only :: "'s chat \<Rightarrow> User \<Rightarrow> string \<Rightarrow> Message \<Rightarrow> ('s, unit) M \<Rightarrow> ('s, unit) M" where
  "admin_only ch user what m body =
     (if \<not> User_has_role user UserRole.ADMIN
      then bot_edit_text (ch_bot ch) m (''No tienes permiso para gestionar '' @ what @ ''.'') None
      else body)"

definition on_job_page :: "'s chat \<Rightarrow> 's TelegramDependencies \<Rightarrow> CallbackQuery \<Rightarrow> int \<Rightarrow> User \<Rightarrow> ('s, unit) M" where
  "on_job_page ch td cb page user =
     on_button ch cb (\<lambda>m. admin_only ch user ''jobs'' m (show_jobs_page ch td m True user page))"

definition job_detail_text :: "'s TelegramDependencies \<Rightarrow> User \<Rightarrow> string \<Rightarrow> ('s, string) M" where
  "job_detail_text td user job_id =
     bindM (liftE (bind_sum (principal_of_user user) (\<lambda>principal.
       validated valid_GetJobDetailDto ''GetJobDetailDto''
         \<lparr>gjd_user = principal, gjd_job_id = job_id, gjd_topic = ''ADMIN'', gjd_command = Some ''JOB_DETAIL''\<rparr>))) (\<lambda>dto.
     tryM (bindM (build_get_job_detail_use_case td dto) (\<lambda>detail. returnM (render_job_detail (gjr_job detail))))
       (\<lambda>exc. case job_refusal job_id ''No tienes permiso para ver este job.'' exc of
          None \<Rightarrow> raiseM exc | Some text \<Rightarrow> returnM text))"

definition on_job_action ::
  "'s chat \<Rightarrow> 's TelegramDependencies \<Rightarrow> CallbackQuery \<Rightarrow> string \<Rightarrow> string \<Rightarrow> User \<Rightarrow> ('s, unit) M" where
  "on_job_action ch td cb job_id action user =
     on_button ch cb (\<lambda>m.
       if action = ''detail''
       then bindM (job_detail_text td user job_id) (\<lambda>text. bot_edit_text (ch_bot ch) m text None)
       else if action = ''cancel''
       then bindM (cancel_text td user job_id) (\<lambda>text. bot_edit_text (ch_bot ch) m text None)
       else returnM ())"

definition on_user_page :: "'s chat \<Rightarrow> 's TelegramDependencies \<Rightarrow> CallbackQuery \<Rightarrow> int \<Rightarrow> User \<Rightarrow> ('s, unit) M" where
  "on_user_page ch td cb page user =
     on_button ch cb (\<lambda>m. admin_only ch user ''usuarios'' m (show_users_page ch td m True user page))"

text \<open>After a change the first page is shown.\<close>

definition user_changed ::
  "'s chat \<Rightarrow> 's TelegramDependencies \<Rightarrow> Message \<Rightarrow> User \<Rightarrow> User option \<Rightarrow> ('s, unit) M" where
  "user_changed ch td m user updated = (case updated of
     None \<Rightarrow> bot_edit_text (ch_bot ch) m ''Usuario no encontrado.'' None
   | Some _ \<Rightarrow> show_users_page ch td m True user 1)"

definition on_user_toggle :: "'s chat \<Rightarrow> 's TelegramDependencies \<Rightarrow> CallbackQuery \<Rightarrow> int \<Rightarrow> User \<Rightarrow> ('s, unit) M" where
  "on_user_toggle ch td cb telegram_id user =
     on_button ch cb (\<lambda>m. admin_only ch user ''usuarios'' m
       (bindM (SQLUserRepository_toggle_active (td_users td) telegram_id) (user_changed ch td m user)))"

definition on_user_role ::
  "'s chat \<Rightarrow> 's TelegramDependencies \<Rightarrow> CallbackQuery \<Rightarrow> int \<Rightarrow> string \<Rightarrow> User \<Rightarrow> ('s, unit) M" where
  "on_user_role ch td cb telegram_id current_role user =
     on_button ch cb (\<lambda>m. admin_only ch user ''usuarios'' m
       (bindM (liftE (parse_role current_role)) (\<lambda>current.
        bindM (SQLUserRepository_update_role (td_users td) telegram_id (next_role current)) (user_changed ch td m user))))"

section \<open>Health and metrics\<close>

definition status_text :: "bool \<Rightarrow> string" where
  "status_text ok = (if ok then '' OK'' else '' FAIL'')"

definition health_text :: "bool \<Rightarrow> HealthCheckResult \<Rightarrow> string" where
  "health_text telegram_ok result =
     ''<b>Health Check</b>'' @ newline @ newline @ ''Telegram API: '' @ status_text telegram_ok @ newline @
     ''MongoDB: '' @ status_text (hcr_mongodb result) @ newline @ ''Redis: '' @ status_text (hcr_redis result) @ newline @
     ''Disk: '' @ gigabytes (hcr_disk_free_bytes result) @ '' GB libre / '' @ gigabytes (hcr_disk_total_bytes result) @
     '' GB total'' @ newline @ ''Jobs running: '' @ str_int (hcr_running_jobs result)"

definition cmd_health :: "'s chat \<Rightarrow> 's TelegramDependencies \<Rightarrow> Message \<Rightarrow> User \<Rightarrow> ('s, unit) M" where
  "cmd_health ch td message user =
     (if \<not> User_has_role user UserRole.ADMIN
      then Message_answer (ch_bot ch) message ''No tienes permiso para este comando.'' None
      else bindM (tryM (bot_get_me (ch_bot ch)) (\<lambda>exc. returnM False)) (\<lambda>telegram_ok.
           bindM (liftE (bind_sum (principal_of_user user) (\<lambda>principal.
             validated valid_HealthCheckDto ''HealthCheckDto''
               \<lparr>hcd_user = principal, hcd_topic = ''ADMIN'', hcd_command = Some ''HEALTH''\<rparr>))) (\<lambda>dto.
           bindM (HealthCheckUseCase_execute (build_health_check_use_case td) dto) (\<lambda>result.
           Message_answer (ch_bot ch) message (health_text telegram_ok result) None))))"

text \<open>The rate and the average are hundredths.\<close>

definition stats_text :: "QueryMetricsResult \<Rightarrow> string" where
  "stats_text result =
     ''<b>M'' @ [CHR 0xE9] @ ''tricas de Jobs</b>'' @ newline @ newline @
     ''Hoy: '' @ str_int (qmr_jobs_today result) @ newline @ ''Esta semana: '' @ str_int (qmr_jobs_week result) @ newline @
     ''Este mes: '' @ str_int (qmr_jobs_month result) @ newline @
     ''Tasa de '' @ [CHR 0xE9] @ ''xito: '' @ one_decimal (ratio (qmr_success_rate_percent result) 100) @ ''%'' @ newline @
     ''Duraci'' @ [CHR 0xF3] @ ''n promedio: '' @
     (case qmr_avg_duration_seconds result of None \<Rightarrow> ''N/A'' | Some d \<Rightarrow> one_decimal (ratio d 100) @ ''s'') @ newline @
     ''Almacenamiento: '' @ gigabytes (qmr_storage_bytes result) @ '' GB''"

definition cmd_stats :: "'s chat \<Rightarrow> 's TelegramDependencies \<Rightarrow> Message \<Rightarrow> User \<Rightarrow> ('s, unit) M" where
  "cmd_stats ch td message user =
     (if \<not> User_has_role user UserRole.ADMIN
      then Message_answer (ch_bot ch) message ''No tienes permiso para este comando.'' None
      else bindM (liftE (bind_sum (principal_of_user user) (\<lambda>principal.
             validated valid_QueryMetricsDto ''QueryMetricsDto''
               \<lparr>qmd_user = principal, qmd_topic = ''ADMIN'', qmd_command = Some ''STATS''\<rparr>))) (\<lambda>dto.
           bindM (QueryMetricsUseCase_execute (build_query_metrics_use_case td) dto) (\<lambda>result.
           Message_answer (ch_bot ch) message (stats_text result) None)))"

section \<open>The router\<close>

definition admin_message ::
  "(exn + UserPrincipalDto \<Rightarrow> int \<Rightarrow> string \<Rightarrow> string) \<Rightarrow> 's chat \<Rightarrow> 's TelegramDependencies \<Rightarrow> string \<Rightarrow> Message \<Rightarrow> User \<Rightarrow>
   ('s, unit) M option" where
  "admin_message first_error ch td command message user = map_option (\<lambda>h. h ch td message user) (map_of
     [(''jobs'', cmd_jobs), (''users'', cmd_users), (''cancel'', cmd_cancel), (''auth'', cmd_auth first_error),
      (''health'', cmd_health), (''stats'', cmd_stats)] command)"

fun admin_callback ::
  "'s chat \<Rightarrow> 's TelegramDependencies \<Rightarrow> CallbackQuery \<Rightarrow> callback \<Rightarrow> User \<Rightarrow> ('s, unit) M option" where
  "admin_callback ch td cb (JobPageCallback page) user = Some (on_job_page ch td cb page user)"
| "admin_callback ch td cb (JobActionCallback job_id action) user = Some (on_job_action ch td cb job_id action user)"
| "admin_callback ch td cb (UserPageCallback page) user = Some (on_user_page ch td cb page user)"
| "admin_callback ch td cb (UserToggleCallback telegram_id) user = Some (on_user_toggle ch td cb telegram_id user)"
| "admin_callback ch td cb (UserRoleCallback telegram_id role) user = Some (on_user_role ch td cb telegram_id role user)"
| "admin_callback ch td cb _ user = None"

end
