(* ===== verification/Routers.thy ===== *)
theory Routers
  imports AdminRouter WizardSpec
begin

text \<open>
  \<^verbatim>\<open>app/telegram/routers/__init__.py\<close> and \<^verbatim>\<open>app/telegram/bot.py\<close>: the routers in the order they are included,
  behind the middlewares. aiogram gives a message its command and a user his stored conversation before
  it asks the routers; the first handler whose filters match is called.
\<close>

record 's bot =
  bt_chat :: "'s chat"
  bt_deps :: "'s TelegramDependencies"
  bt_storage :: "'s FSMStorage"
  bt_id :: int
  bt_command :: "Message \<Rightarrow> string option" \<comment> \<open>the \<open>Command\<close> filter\<close>
  bt_first_error :: "exn + UserPrincipalDto \<Rightarrow> int \<Rightarrow> string \<Rightarrow> string"

definition router_message ::
  "'s bot \<Rightarrow> 's FSMContext \<Rightarrow> string \<Rightarrow> Message \<Rightarrow> User \<Rightarrow> ('s, unit) M option" where
  "router_message b fx command m user =
     or_else (if command = ''backup'' then Some (cmd_backup (bt_chat b) (bt_deps b) fx m user) else None)
    (or_else (size_message (bt_chat b) (bt_deps b) command m user)
             (admin_message (bt_first_error b) (bt_chat b) (bt_deps b) command m user))"

definition router_callback ::
  "'s bot \<Rightarrow> 's FSMContext \<Rightarrow> BackupStates option \<Rightarrow> CallbackQuery \<Rightarrow> callback \<Rightarrow> User \<Rightarrow> ('s, unit) M option" where
  "router_callback b fx st cb p user =
     or_else (backup_callback (bt_chat b) (bt_deps b) fx st cb p user)
    (or_else (size_callback (bt_chat b) (bt_deps b) cb p user)
             (admin_callback (bt_chat b) (bt_deps b) cb p user))"

text \<open>The conversation of an update is that of its sender in its chat.\<close>

definition event_key :: "'s bot \<Rightarrow> event \<Rightarrow> StorageKey option" where
  "event_key b ev =
     (let ctx = extract_context ev in
      map_option (\<lambda>u. \<lparr>sk_bot_id = bt_id b, sk_chat_id = (case uc_chat_id ctx of None \<Rightarrow> u | Some c \<Rightarrow> c), sk_user_id = u\<rparr>)
        (uc_user_id ctx))"

text \<open>A call without the argument \<open>user\<close>, which the middlewares give, is a \<open>TypeError\<close>.\<close>

definition called :: "(User \<Rightarrow> ('s, unit) M option) \<Rightarrow> 's middleware_data \<Rightarrow> ('s, unit option) M" where
  "called h data = (case md_user data of
     None \<Rightarrow> raiseM (OtherException ''TypeError'' ''missing argument: user'')
   | Some user \<Rightarrow> (case h user of None \<Rightarrow> returnM None | Some m \<Rightarrow> thenM m (returnM (Some ()))))"

definition bot_handler :: "'s bot \<Rightarrow> ('s, unit) handler" where
  "bot_handler b ev data = (case (ev, event_key b ev) of
     (UpdateEvent u, Some key) \<Rightarrow>
       let fx = \<lparr>fx_storage = bt_storage b, fx_key = key\<rparr> in
       (case (upd_message u, upd_callback_query u) of
          (Some m, _) \<Rightarrow>
            (case bt_command b m of None \<Rightarrow> returnM None | Some c \<Rightarrow> called (router_message b fx c m) data)
        | (None, Some cb) \<Rightarrow>
            bindM (fx_get_state fx) (\<lambda>st.
            case Option.bind (cq_data cb) (pk_unpack (ch_packing (bt_chat b))) of
              None \<Rightarrow> returnM None | Some p \<Rightarrow> called (router_callback b fx st cb p) data)
        | _ \<Rightarrow> returnM None)
   | _ \<Rightarrow> returnM None)"

definition create_dispatcher ::
  "'s surroundings \<Rightarrow> 's MiddlewareDependencies option \<Rightarrow> 's bot \<Rightarrow> ('s, unit) handler" where
  "create_dispatcher su deps b = dispatch (get_global_middlewares su deps) (bot_handler b)"

section \<open>What the handlers leave alone\<close>

definition storage_frames :: "('s \<Rightarrow> 'v) \<Rightarrow> 's FSMStorage \<Rightarrow> bool" where
  "storage_frames view sg \<longleftrightarrow>
     (\<forall>k. frames view (sg_get_state sg k)) \<and> (\<forall>k x. frames view (sg_set_state sg k x)) \<and>
     (\<forall>k. frames view (sg_get_data sg k)) \<and> (\<forall>k d. frames view (sg_set_data sg k d)) \<and>
     (\<forall>k f. frames view (sg_update_data sg k f)) \<and> (\<forall>k. frames view (sg_clear sg k))"

lemma storage_framesD:
  assumes "storage_frames view (fx_storage fx)"
  shows "frames view (fx_get_state fx)" "frames view (fx_set_state fx st)" "frames view (fx_get_data fx)"
    "frames view (fx_set_data fx d)" "frames view (fx_update_data fx f)" "frames view (fx_clear fx)"
  using assms by (simp_all add: storage_frames_def fx_get_state_def fx_set_state_def fx_get_data_def fx_set_data_def
      fx_update_data_def fx_clear_def)

lemma chat_frames:
  assumes "deps_frames view td" "bot_frames view (ch_bot ch)"
  shows "frames view (touch td user)" "frames view (answer ch cb)" "frames view (edit_with ch cb text kb)"
    "frames view (edit_plain ch cb text)" "frames view (list_of_set ch S)" "frames view (Message_answer (ch_bot ch) m text' kb')"
    "frames view (display ch m e text'' kb'')" "frames view (collect_pairs (td_mongo_metadata td) h dbs)"
proof -
  show "frames view (touch td user)" "frames view (answer ch cb)" "frames view (edit_with ch cb text kb)"
    "frames view (edit_plain ch cb text)" "frames view (list_of_set ch S)" "frames view (Message_answer (ch_bot ch) m text' kb')"
    "frames view (display ch m e text'' kb'')"
    unfolding touch_def FSMTimeoutMonitor_touch_def answer_def edit_with_def edit_plain_def display_def Message_answer_def list_of_set_def
    using deps_framesD [OF assms(1)] by (intro frame_intros assms; simp)+ (simp add: frames_def, (intro frame_intros assms)+)
  show "frames view (collect_pairs (td_mongo_metadata td) h dbs)"
    by (induction dbs) (simp_all only: collect_pairs.simps frame_intros deps_framesD [OF assms(1)])
qed

lemma backup_router_frames:
  assumes "deps_frames view td" "bot_frames view (ch_bot ch)" "storage_frames view (fx_storage fx)"
  shows "frames view (cmd_backup ch td fx m user)"
    "backup_callback ch td fx st cb p user = Some h \<Longrightarrow> frames view h"
proof -
  note fr = frame_intros assms(2) storage_framesD [OF assms(3)] chat_frames [OF assms(1,2)] deps_framesD [OF assms(1)]
    use_case_frames [OF assms(1)]
  show "frames view (cmd_backup ch td fx m user)"
    unfolding cmd_backup_def by (intro fr)
  have "frames view (on_full_type ch td fx cb user)" "frames view (on_custom_type ch td fx cb user)"
    "frames view (on_db_toggle ch td fx cb db user)" "frames view (on_db_continuar ch td fx cb user)"
    "frames view (on_coll_toggle ch td fx cb db c user)" "frames view (on_page_nav ch td fx cb n user)"
    "frames view (on_coll_confirmar ch td fx cb user)" "frames view (on_ejecutar ch td fx cb user)"
    "frames view (on_cancelar ch td fx cb user)" for db c n
    unfolding on_full_type_def on_custom_type_def on_db_toggle_def on_db_continuar_def on_coll_toggle_def on_page_nav_def
      on_coll_confirmar_def on_ejecutar_def on_cancelar_def Let_def
    by (intro fr)+
  then show "backup_callback ch td fx st cb p user = Some h \<Longrightarrow> frames view h"
    by (auto simp: backup_callback_def split: option.splits BackupStates.splits callback.splits if_splits)
qed

lemma size_router_frames:
  assumes "deps_frames view td" "bot_frames view (ch_bot ch)"
  shows "size_message ch td c m user = Some h \<Longrightarrow> frames view h"
    "size_callback ch td cb p user = Some h' \<Longrightarrow> frames view h'"
proof -
  note fr = frame_intros assms(2) chat_frames [OF assms] deps_framesD [OF assms(1)] use_case_frames [OF assms(1)]
  have q: "frames view (run_size_query td user scope db page n)" for scope db page n
    unfolding run_size_query_def by (intro fr)
  have p: "frames view (send_collection_page ch td user db page place)" for db page place
    unfolding send_collection_page_def collection_page_def Let_def by (intro fr q)
  have "frames view (cmd_size ch td m user)" "frames view (cmd_size_db ch td m user)" "frames view (cmd_size_collection ch td m user)"
    unfolding cmd_size_def cmd_size_db_def cmd_size_collection_def Let_def by (intro fr q p)+
  then show "size_message ch td c m user = Some h \<Longrightarrow> frames view h"
    by (auto simp: size_message_def split: if_splits)
  have "frames view (on_size_page ch td cb db page user)" for db page
    unfolding on_size_page_def by (intro fr p)
  then show "size_callback ch td cb p user = Some h' \<Longrightarrow> frames view h'"
    by (cases p) (auto simp: on_size_db_selected_def on_size_collection_page_def)
qed

text \<open>The handlers of the admin router write users only for an administrator.\<close>

lemma admin_router_frames:
  assumes "deps_frames view td" "bot_frames view (ch_bot ch)" "u_role user \<noteq> UserRole.ADMIN"
  shows "admin_message fe ch td c m user = Some h \<Longrightarrow> frames view h"
    "admin_callback ch td cb p user = Some h' \<Longrightarrow> frames view h'"
proof -
  note fr = frame_intros assms(2) chat_frames [OF assms(1,2)] deps_framesD [OF assms(1)] use_case_frames [OF assms(1)]
  have no: "\<not> User_has_role user UserRole.ADMIN" using assms(3) by (simp add: User_has_role_def)
  have cancel: "frames view (cancel_text td user i)" for i
    unfolding cancel_text_def run_cancel_job_def by (intro fr)
  have "frames view (cmd_jobs ch td m user)" "frames view (cmd_users ch td m user)" "frames view (cmd_cancel ch td m user)"
    "frames view (cmd_auth fe ch td m user)" "frames view (cmd_health ch td m user)" "frames view (cmd_stats ch td m user)"
    unfolding cmd_jobs_def cmd_users_def cmd_cancel_def cmd_auth_def cmd_health_def cmd_stats_def Let_def
    using no by (intro fr cancel; simp)+
  then show "admin_message fe ch td c m user = Some h \<Longrightarrow> frames view h"
    by (auto simp: admin_message_def split: if_splits)
  have only: "frames view (admin_only ch user what m b)" for what m b
    unfolding admin_only_def using no by (intro fr) simp
  have "frames view (on_job_page ch td cb n user)" "frames view (on_job_action ch td cb i a user)"
    "frames view (on_user_page ch td cb n user)" "frames view (on_user_toggle ch td cb n user)"
    "frames view (on_user_role ch td cb n r user)" for n i a r
    unfolding on_job_page_def on_job_action_def on_user_page_def on_user_toggle_def on_user_role_def on_button_def job_detail_text_def
    by (intro fr only cancel)+
  then show "admin_callback ch td cb p user = Some h' \<Longrightarrow> frames view h'"
    by (cases p) auto
qed

end
