(* ===== verification/UserSafety.thy ===== *)
theory UserSafety
  imports Routers BotWorld
begin

text \<open>
  Who can change the table of users through the bot: the middlewares and the routers together. Everything
  but the sessions on the users is assumed to leave that table alone (\<open>stack_quiet\<close>, \<open>bot_quiet\<close>), which
  the program's adapters do.
\<close>

definition stack_quiet :: "('s \<Rightarrow> 'v) \<Rightarrow> 's surroundings \<Rightarrow> 's MiddlewareDependencies \<Rightarrow> 's middleware_data \<Rightarrow> bool" where
  "stack_quiet view su d data \<longleftrightarrow>
     runtime_frames view (su_runtime su) \<and> bot_frames view (su_receiving_bot su) \<and>
     (\<forall>i. frames view (su_cache_get su i)) \<and> (\<forall>i b. frames view (su_cache_set su i b)) \<and>
     (\<forall>b. md_bot data = Some b \<longrightarrow> bot_frames view b) \<and> (\<forall>b. mdp_bot d = Some b \<longrightarrow> bot_frames view b) \<and>
     session_frames view (mdp_audit_logs d) \<and> session_frames view (mdp_rates d) \<and>
     (\<forall>a. mdp_audit_service d = Some a \<longrightarrow> audit_frames view a) \<and>
     (\<forall>rd. mdp_redis_async_client d = Some rd \<longrightarrow> redis_frames view rd \<and>
        (\<forall>k. frames view (rd_zcard rd k)) \<and> (\<forall>k n. frames view (rd_expire rd k n)))"

definition bot_quiet :: "('s \<Rightarrow> 'v) \<Rightarrow> 's bot \<Rightarrow> bool" where
  "bot_quiet view b \<longleftrightarrow>
     deps_frames view (bt_deps b) \<and> bot_frames view (ch_bot (bt_chat b)) \<and> storage_frames view (bt_storage b)"

lemma frames_stays: "frames view m \<Longrightarrow> keeps (stays view v) m"
  by (rule frames_keeps [where P = "\<lambda>x. x = v", folded stays_def])

lemma keeps_bind_known:
  assumes "frames view m" "\<And>s x s'. stays view v s \<Longrightarrow> m s = (Inr x, s') \<Longrightarrow> P x" "\<And>x. P x \<Longrightarrow> keeps (stays view v) (f x)"
  shows "keeps (stays view v) (bindM m f)"
proof (rule keepsI)
  fix s assume s: "stays view v s"
  obtain r s1 where r: "m s = (r, s1)" by force
  with framesD [OF assms(1)] s have "stays view v s1" by (simp add: stays_def)
  then show "stays view v (snd (bindM m f s))"
    using r assms(2) [OF s] assms(3) by (cases r) (auto simp: bindM_def keeps_def)
qed

section \<open>The middlewares\<close>

lemma frames_option_known:
  "frames view m \<Longrightarrow> (\<And>x. z = Some x \<Longrightarrow> frames view (f x)) \<Longrightarrow> frames view (case z of None \<Rightarrow> m | Some x \<Rightarrow> f x)"
  by (cases z) auto

lemma safe_send_frames: "(\<And>b. md_bot data = Some b \<Longrightarrow> bot_frames view b) \<Longrightarrow> frames view (safe_send_message data c t z)"
  unfolding safe_send_message_def by (intro frames_option_known frame_intros)

lemma replies_frames:
  assumes "stack_quiet view su d data"
  shows "frames view (safe_send_message data c t z)" "frames view (reply_throttled config ctx data)"
    "frames view (reply_unauthorized ctx data)" "frames view (reply_forbidden ctx data)"
    "frames view (notify_user (su_receiving_bot su) ev data)"
proof -
  have s: "frames view (safe_send_message data c t z)" for c t z
    using assms by (intro safe_send_frames) (simp add: stack_quiet_def)
  show "frames view (safe_send_message data c t z)" "frames view (reply_throttled config ctx data)"
    "frames view (reply_unauthorized ctx data)" "frames view (reply_forbidden ctx data)"
    unfolding reply_throttled_def reply_unauthorized_def reply_forbidden_def by (intro s frame_intros)+
  show "frames view (notify_user (su_receiving_bot su) ev data)"
    using assms unfolding notify_user_def by (intro s frame_intros) (simp add: stack_quiet_def)
qed

lemma session_audit_frames: "stack_quiet view su d data \<Longrightarrow> audit_frames view (session_audit d)"
  by (auto simp: session_audit_def stack_quiet_def audit_repository_frames split: option.split)

lemma error_keeps:
  assumes q: "stack_quiet view su d data" and h: "keeps (stays view v) (h ev data)"
  shows "keeps (stays view v) (ErrorHandlerMiddleware_call eh (su_receiving_bot su) h ev data)"
  unfolding ErrorHandlerMiddleware_call_def Let_def
  by (rule keeps_tryM, rule h, rule frames_stays, intro frames_option_known frame_intros replies_frames [OF q])
    (use q in \<open>simp add: stack_quiet_def\<close>)

lemma topic_keeps:
  "stack_quiet view su d data \<Longrightarrow> keeps (stays view v) (h ev data) \<Longrightarrow>
   keeps (stays view v) (TopicFilterMiddleware_call c h ev data)"
  unfolding TopicFilterMiddleware_call_def Let_def
  by (intro keeps_intros; (assumption | rule frames_stays, intro frame_intros replies_frames))

lemma rate_keeps:
  assumes q: "stack_quiet view su d data" and h: "keeps (stays view v) (h ev data)"
  shows "keeps (stays view v) (RateLimitMiddleware_call \<lparr>rlm_config = c,
     rlm_redis = map_option (RedisRateLimitRepository (su_runtime su)) (mdp_redis_async_client d),
     rlm_sql = Some (SQLRateLimitRepository (su_runtime su) (mdp_rates d))\<rparr> h ev data)"
proof -
  have rt: "runtime_frames view (su_runtime su)" and ses: "session_frames view (mdp_rates d)"
    using q by (simp_all add: stack_quiet_def)
  have sql: "frames view (rl_check_limit (SQLRateLimitRepository (su_runtime su) (mdp_rates d)) u a m w)" for u a m w
    unfolding SQLRateLimitRepository_def IRateLimitRepository.simps SQLRateLimitRepository_check_limit_def
    by (intro frame_intros rt ses)
  have red: "frames view (rl_check_limit (RedisRateLimitRepository (su_runtime su) rd) u a m w)"
    "frames view (rl_increment (RedisRateLimitRepository (su_runtime su) rd) u a w)"
    if "mdp_redis_async_client d = Some rd" for rd u a m w
    using q that unfolding RedisRateLimitRepository_def IRateLimitRepository.simps RedisRateLimitRepository_check_limit_def
      RedisRateLimitRepository_increment_def now_ms_def CHECK_SCRIPT_def INCREMENT_SCRIPT_def
    by (auto simp: stack_quiet_def intro!: frame_intros)
  show ?thesis
    unfolding RateLimitMiddleware_call_def rate_limited_def Let_def RateLimitMiddleware.simps
    by (cases "mdp_redis_async_client d"; simp only: option.map or_else_def option.case;
        intro keeps_intros h frames_stays; (intro keeps_intros h frames_stays sql red rate_repository_frames rt ses replies_frames [OF q])?)
qed

lemma role_keeps:
  assumes q: "stack_quiet view su d data" and h: "keeps (stays view v) (h ev data)"
  shows "keeps (stays view v) (RoleMiddleware_call \<lparr>ro_audit = Some (session_audit d), ro_permission_service = ps, ro_config = c,
     ro_runtime = su_runtime su\<rparr> h ev data)"
proof -
  have "runtime_frames view (su_runtime su)" using q by (simp add: stack_quiet_def)
  then show ?thesis
    unfolding RoleMiddleware_call_def role_log_denied_def Let_def RoleMiddleware.simps option.case
    by (intro keeps_intros h frames_stays frame_intros replies_frames [OF q] session_audit_frames [OF q])
qed

lemma audit_keeps:
  assumes q: "stack_quiet view su d data" and h: "keeps (stays view v) (h ev data)"
  shows "keeps (stays view v) (AuditMiddleware_call \<lparr>aum_audit = Some (session_audit d), aum_config = c,
     aum_runtime = su_runtime su\<rparr> h ev data)"
proof -
  have rt: "runtime_frames view (su_runtime su)" using q by (simp add: stack_quiet_def)
  have fin: "frames view (audit_finally (su_runtime su) (session_audit d) user tp cmd z start err)" for user tp cmd z start err
    unfolding audit_finally_def audit_persist_def by (intro frame_intros rt session_audit_frames [OF q])
  have body: "keeps (stays view v) (\<lambda>s. case h ev data s of
      (Inr r, s') \<Rightarrow> thenM (audit_finally (su_runtime su) (session_audit d) user tp cmd z start None) (returnM r) s'
    | (Inl exc, s') \<Rightarrow> thenM (audit_finally (su_runtime su) (session_audit d) user tp cmd z start (Some exc)) (raiseM exc) s')"
    for user tp cmd z start
  proof (rule keepsI)
    fix s assume s: "stays view v s"
    have k: "stays view v s \<Longrightarrow> stays view v (snd (thenM (audit_finally (su_runtime su) (session_audit d) user tp cmd z start e) n s))"
      if "\<And>v. keeps (stays view v) n" for e n s
      using keeps_thenM [OF frames_stays [OF fin] that] by (simp add: keeps_def)
    obtain r s1 where r: "h ev data s = (r, s1)" by force
    with h s have "stays view v s1" using keepsD by fastforce
    then show "stays view v (snd (case h ev data s of
        (Inr r, s') \<Rightarrow> thenM (audit_finally (su_runtime su) (session_audit d) user tp cmd z start None) (returnM r) s'
      | (Inl exc, s') \<Rightarrow> thenM (audit_finally (su_runtime su) (session_audit d) user tp cmd z start (Some exc)) (raiseM exc) s'))"
      using r by (cases r) (simp_all add: k keeps_intros)
  qed
  show ?thesis
    unfolding AuditMiddleware_call_def Let_def AuditMiddleware.simps prod.case option.case
    by (rule keeps_case_option, rule h, rule keeps_bindM, rule frames_stays, intro frame_intros rt, rule body)
qed

section \<open>The dispatcher\<close>

text \<open>The handler is called only with the stored user of the sender's identifier, when Telegram does not say that he
  is an administrator of the chat.\<close>

lemma auth_keeps:
  assumes q: "stack_quiet rows su d data" and ses: "sql_session (mdp_users d) rows" and i: "uc_user_id (extract_context ev) = Some i"
    and member: "\<And>rv s. role_validator su (Some d) = Some rv \<Longrightarrow> fst (TelegramRoleValidator_is_admin rv i s) \<noteq> Inr True"
    and h: "\<And>u. user_of_rows v i = Some u \<Longrightarrow> keeps (stays rows v) (h ev (data\<lparr>md_user := Some u\<rparr>))"
  shows "keeps (stays rows v) (AuthMiddleware_call \<lparr>am_store = Some (SQLUserRepository (mdp_users d), session_audit d),
     am_config = c, am_validator = role_validator su (Some d), am_runtime = su_runtime su\<rparr> h ev data)"
proof -
  let ?am = "\<lparr>am_store = Some (SQLUserRepository (mdp_users d), session_audit d), am_config = c,
     am_validator = role_validator su (Some d), am_runtime = su_runtime su\<rparr>"
  let ?deny = "\<lambda>ctx. thenM (reply_unauthorized ctx data) (thenM (auth_log_denied ?am (session_audit d) ctx i) (returnM None))"
  have rt: "runtime_frames rows (su_runtime su)" using q by (simp add: stack_quiet_def)
  have deny: "keeps (stays rows v) (?deny ctx)" for ctx
    unfolding auth_log_denied_def AuthMiddleware.simps
    by (intro keeps_intros frames_stays frame_intros rt replies_frames [OF q] session_audit_frames [OF q])
  have loc: "sql_user_session (mdp_users d) rows" using ses by (simp add: sql_user_session_def)
  have get: "frames rows (ur_get_by_telegram_id (SQLUserRepository (mdp_users d)) i)"
    using sql_user_session.get_user_spec [OF loc] by (fastforce simp: frames_def SQLUserRepository_def intro: prod.collapse [symmetric])
  have stored: "keeps (stays rows v) (bindM (ur_get_by_telegram_id (SQLUserRepository (mdp_users d)) i) (\<lambda>found. case found of
      Some user \<Rightarrow> if u_is_active user then h ev (data\<lparr>md_user := Some user\<rparr>) else ?deny ctx | None \<Rightarrow> ?deny ctx))" for ctx
  proof (rule keeps_bind_known [OF get, where P = "\<lambda>found. \<forall>u. found = Some u \<longrightarrow> user_of_rows v i = Some u"])
    show "\<forall>u. found = Some u \<longrightarrow> user_of_rows v i = Some u"
      if "stays rows v s" "ur_get_by_telegram_id (SQLUserRepository (mdp_users d)) i s = (Inr found, s')" for s found s'
      using that sql_user_session.get_user_spec [OF loc, of i s "Inr found" s'] by (simp add: SQLUserRepository_def stays_def)
  qed (auto intro!: deny h split: option.split)
  have validator: "frames rows (TelegramRoleValidator_is_admin rv i)" if "role_validator su (Some d) = Some rv" for rv
    using q that unfolding TelegramRoleValidator_is_admin_def
    by (auto simp: stack_quiet_def role_validator_def intro!: frame_intros)
  show ?thesis
    unfolding AuthMiddleware_call_def Let_def AuthMiddleware.simps i option.case prod.case
  proof (rule keeps_bind_known [where P = "\<lambda>b. \<not> b"])
    show "frames rows (case role_validator su (Some d) of None \<Rightarrow> returnM False | Some rv \<Rightarrow> TelegramRoleValidator_is_admin rv i)"
      by (intro frames_option_known frame_intros validator)
    show "\<not> b" if "(case role_validator su (Some d) of None \<Rightarrow> returnM False | Some rv \<Rightarrow> TelegramRoleValidator_is_admin rv i) s = (Inr b, s')" for s b s'
      using that member [of _ s] by (auto simp: returnM_def split: option.splits)
  qed (simp add: stored)
qed

lemma called_frames: "(\<And>u m. md_user data = Some u \<Longrightarrow> h u = Some m \<Longrightarrow> frames view m) \<Longrightarrow> frames view (called h data)"
  unfolding called_def by (intro frames_option_known frame_intros)

lemma bot_handler_keeps:
  assumes "bot_quiet view b" "md_user data = Some u" "u_role u \<noteq> UserRole.ADMIN"
  shows "frames view (bot_handler b ev data)"
proof -
  have q: "deps_frames view (bt_deps b)" "bot_frames view (ch_bot (bt_chat b))" "storage_frames view (fx_storage \<lparr>fx_storage = bt_storage b, fx_key = k\<rparr>)" for k
    using assms(1) by (simp_all add: bot_quiet_def)
  have "frames view h" if "router_message b \<lparr>fx_storage = bt_storage b, fx_key = k\<rparr> c m u = Some h" for k c m h
    using that backup_router_frames(1) [OF q] size_router_frames(1) [OF q(1,2)] admin_router_frames(1) [OF q(1,2) assms(3)]
    by (auto simp: router_message_def or_else_def split: option.splits if_splits)
  moreover have "frames view h" if "router_callback b \<lparr>fx_storage = bt_storage b, fx_key = k\<rparr> st cb p u = Some h" for k st cb p h
    using that backup_router_frames(2) [OF q] size_router_frames(2) [OF q(1,2)] admin_router_frames(2) [OF q(1,2) assms(3)]
    by (auto simp: router_callback_def or_else_def split: option.splits)
  ultimately show ?thesis
    unfolding bot_handler_def Let_def
    using storage_framesD(1) [OF q(3)]
    by (auto simp: assms(2) split: event.split option.split intro!: frame_intros called_frames)
qed


section \<open>An operator's button\<close>

lemma topic_filter_code [code]:
  "TopicFilterMiddleware_call config handler ev data = (case config of
     None \<Rightarrow> returnM None
   | Some c \<Rightarrow>
       let ctx = extract_context ev in
       if (case uc_chat_id ctx of None \<Rightarrow> False | Some i \<Rightarrow> str_int i \<noteq> ac_telegram_chat_id c) then returnM None
       else case uc_topic_id ctx of
         None \<Rightarrow>
           thenM (case uc_chat_id ctx of None \<Rightarrow> returnM ()
                  | Some i \<Rightarrow> safe_send_message data i ''Usar topics designados'' None) (returnM None)
       | Some t \<Rightarrow>
           if t \<notin> allowed_topics c
           then thenM (case uc_chat_id ctx of None \<Rightarrow> returnM ()
                       | Some i \<Rightarrow> safe_send_message data i ''Usar topics designados'' (Some t)) (returnM None)
           else handler ev data)"
  by (simp add: TopicFilterMiddleware_call_def Let_def split: option.split)

definition bot_middlewares :: "bot_world MiddlewareDependencies" where
  "bot_middlewares =
     \<lparr>mdp_config = sample_config, mdp_users = zoom_session bw_world put_world user_session,
      mdp_audit_logs = zoom_session bw_world put_world audit_session, mdp_rates = zoom_session bw_world put_world rate_session,
      mdp_permission_service = None, mdp_audit_service = None, mdp_redis_async_client = None, mdp_bot = None\<rparr>"

definition bot_surroundings :: "bot_world surroundings" where
  "bot_surroundings =
     \<lparr>su_runtime = zoom_runtime bw_world put_world world_runtime, su_errors = \<lparr>eh_settings = sample_config, eh_format = exn_str\<rparr>,
      su_receiving_bot = bot_bot, su_cache_get = (\<lambda>i. returnM None), su_cache_set = (\<lambda>i b. returnM ()), su_is_api_error = (\<lambda>e. False)\<rparr>"

definition sample_bot :: "bot_world bot" where
  "sample_bot =
     \<lparr>bt_chat = bot_chat, bt_deps = bot_deps, bt_storage = bot_storage, bt_id = 1,
      bt_command = (\<lambda>m. map_option (\<lambda>t. tl (takeWhile (\<lambda>c. \<not> is_space c) t)) (msg_text m)), bt_first_error = (\<lambda>p i n. ''invalid'')\<rparr>"

definition toggle_update :: event where
  "toggle_update = UpdateEvent \<lparr>upd_id = 5, upd_message = None, upd_edited_message = None,
     upd_callback_query = Some \<lparr>cq_from_id = 7, cq_message = Some \<lparr>msg_id = 41, msg_chat_id = - 100, msg_thread_id = Some 4,
       msg_from_id = None, msg_text = None\<rparr>, cq_data = Some ''user_toggle:7''\<rparr>,
     upd_channel_post = None, upd_edited_channel_post = None\<rparr>"

abbreviation user_table :: "world \<Rightarrow> UserORM list" where
  "user_table w \<equiv> rf_rows (w_users w)"

lemma zoom_world_frames:
  "frames user_table m \<Longrightarrow> frames (\<lambda>w. user_table (bw_world w)) (zoom bw_world put_world m)"
  by (rule zoom_frames [where view = user_table]) simp_all

lemma users_quiet:
  "session_frames (\<lambda>w. user_table (bw_world w)) (zoom_session bw_world put_world job_session)"
  "session_frames (\<lambda>w. user_table (bw_world w)) (zoom_session bw_world put_world audit_session)"
  "session_frames (\<lambda>w. user_table (bw_world w)) (zoom_session bw_world put_world rate_session)"
  "runtime_frames (\<lambda>w. user_table (bw_world w)) (zoom_runtime bw_world put_world world_runtime)"
proof -
  have rt: "runtime_frames user_table world_runtime" by (rule runtime_frames_world) (simp_all add: zoom_frames_other)
  show "runtime_frames (\<lambda>w. user_table (bw_world w)) (zoom_runtime bw_world put_world world_runtime)"
    unfolding runtime_frames_def zoom_runtime_def Runtime.simps by (intro conjI allI zoom_world_frames runtime_framesD [OF rt])
qed (simp_all add: session_frames_def zoom_session_def job_session_def audit_session_def rate_session_def zoom_world_frames
    zoom_frames_other)

lemma bot_quiet_users: "bot_quiet (\<lambda>w. user_table (bw_world w)) sample_bot"
  "stack_quiet (\<lambda>w. user_table (bw_world w)) bot_surroundings bot_middlewares no_data"
proof -
  have bot: "bot_frames (\<lambda>w. user_table (bw_world w)) bot_bot"
    using bot_bot_frames [of "\<lambda>w. user_table (bw_world w)"] by (simp add: bot_chat_def)
  have mongo: "metadata_frames user_table world_mongo"
    by (simp add: metadata_frames_def size_stats_frames mongo_frames)
  have ping: "frames (\<lambda>w. user_table (bw_world w)) (MongoConnection_ping (td_mongo_connection bot_deps))"
    "frames (\<lambda>w. user_table (bw_world w)) (RedisConnection_ping (td_redis_connection bot_deps))"
    by (simp_all add: frames_def MongoConnection_ping_def RedisConnection_ping_def bot_deps_def)
  have rq: "rq_frames user_table world_rq" by (simp add: rq_frames_def world_rq_def frames_def)
  have rd: "redis_frames user_table world_redis"
    by (simp add: redis_frames_def world_redis_def zoom_redis_def zoom_frames_other)
  have fs: "frames user_table (fs_get_disk_usage world_fs p)" "frames user_table (fs_get_folder_size world_fs p)" for p
    by (simp_all add: world_fs_def zoom_fs_def zoom_frames_other)
  have "deps_frames (\<lambda>w. user_table (bw_world w)) bot_deps"
    unfolding deps_frames_def using ping
    by (simp add: bot_deps_def users_quiet metadata_frames_def zoom_metadata_def rq_frames_def zoom_rq_def redis_frames_def
        zoom_redis_def zoom_fs_def zoom_world_frames metadata_framesD [OF mongo] rq_framesD [OF rq] redis_framesD [OF rd] fs)
  then show "bot_quiet (\<lambda>w. user_table (bw_world w)) sample_bot"
    using bot by (auto simp: bot_quiet_def sample_bot_def bot_chat_def storage_frames_def bot_storage_def zoom_storage_def zoom_frames_other)
  show "stack_quiet (\<lambda>w. user_table (bw_world w)) bot_surroundings bot_middlewares no_data"
    using bot by (simp add: stack_quiet_def bot_surroundings_def bot_middlewares_def no_data_def users_quiet frame_intros)
qed


end
