(* ===== verification/UserButtons.thy ===== *)
theory UserButtons
  imports UserSafety
begin

text \<open>What the two buttons of a user in the listing do to the table of users.\<close>

lemma list_users_frames:
  assumes "sql_session (td_users td) rows" "deps_frames rows td" "bot_frames rows (ch_bot ch)"
  shows "frames rows (show_users_page ch td m e user page)"
proof -
  have sel: "frames rows (ss_select (td_users td) q)" "frames rows (ss_count (td_users td) P)" for q P
    using sql_session.select_frame [OF assms(1)] sql_session.count_frame [OF assms(1)] by auto
  note p = deps_parts_frames [OF assms(2)]
  show ?thesis
    unfolding show_users_page_def run_users_query_def build_list_users_use_case_def QueryUsersUseCase_execute_def
      SQLUserRepository_def IUserRepository.simps SQLUserRepository_list_all_def SQLUserRepository_count_all_def
    by (intro frame_intros sel p chat_frames [OF assms(2,3)] deps_framesD [OF assms(2)])
qed

lemma user_changed_frames:
  "sql_session (td_users td) rows \<Longrightarrow> deps_frames rows td \<Longrightarrow> bot_frames rows (ch_bot ch) \<Longrightarrow>
   frames rows (user_changed ch td m user updated)"
  unfolding user_changed_def by (intro frame_intros list_users_frames)

text \<open>An administrator's button that returned: the write between two steps that leave the users alone.\<close>

lemma admin_button_write:
  assumes ses: "sql_session (td_users td) rows" and q: "deps_frames rows td" "bot_frames rows (ch_bot ch)"
    and run: "on_button ch cb (\<lambda>m. admin_only ch user what m (bindM write (user_changed ch td m user))) s = (Inr (), s')"
    and "u_role user = UserRole.ADMIN" "cq_message cb \<noteq> None"
  obtains v s1 s2 where "rows s1 = rows s" "write s1 = (Inr v, s2)" "rows s' = rows s2"
proof -
  obtain m where m: "cq_message cb = Some m" using assms(6) by blast
  obtain u s1 where s1: "answer ch cb s = (Inr u, s1)" and r: "bindM write (user_changed ch td m user) s1 = (Inr (), s')"
    using run assms(5) m by (auto simp: on_button_def admin_only_def User_has_role_def thenM_eq_Inr)
  obtain v s2 where w: "write s1 = (Inr v, s2)" "user_changed ch td m user v s2 = (Inr (), s')"
    using r by (auto simp: bindM_eq_Inr)
  show thesis
    by (rule that [OF _ w(1)])
      (use framesD [OF chat_frames(2) [OF q] s1] framesD [OF user_changed_frames [OF ses q] w(2)] in simp_all)
qed

lemma bindM_liftE_Inr: "bindM (liftE (Inr x)) f = f x"
  by (simp add: fun_eq_iff bindM_def liftE_def)

lemma toggle_unknown:
  assumes "sql_session ses rows" "user_rows i (rows s) = []" "SQLUserRepository_toggle_active ses i s = (Inr v, s')"
  shows "rows s' = rows s"
proof -
  have loc: "sql_user_session ses rows" using assms(1) by (simp add: sql_user_session_def)
  obtain y s1 where y: "user_row ses i s = (y, s1)" by force
  show ?thesis
    using sql_user_session.user_row_spec [OF loc y] assms(2,3) y
    by (auto simp: SQLUserRepository_toggle_active_def bindM_def split: sum.splits option.splits)
qed

text \<open>C4. A press of one of the two buttons of a user by an administrator, when it returns: the activity button flips
  the activity of that user as stored, the role button gives him the successor of the role written on the
  button, which need not be the one he has; no other user and no other field is touched, and an unknown
  user stays unknown.\<close>

theorem user_buttons_outcome:
  assumes "sql_session (td_users td) rows" "deps_frames rows td" "bot_frames rows (ch_bot ch)"
    and "u_role user = UserRole.ADMIN" "cq_message cb \<noteq> None"
    and "user_rows i (rows s) = [] \<or> user_of_rows (rows s) i \<noteq> None"
  shows "(on_user_toggle ch td cb i user s = (Inr (), s') \<longrightarrow> user_of_rows (rows s') =
      (user_of_rows (rows s))(i := map_option (\<lambda>u. u\<lparr>u_is_active := \<not> u_is_active u\<rparr>) (user_of_rows (rows s) i))) \<and>
    (on_user_role ch td cb i (role_value r) user s = (Inr (), s') \<longrightarrow> user_of_rows (rows s') =
      (user_of_rows (rows s))(i := map_option (\<lambda>u. u\<lparr>u_role := next_role r\<rparr>) (user_of_rows (rows s) i)))"
proof (intro conjI impI)
  assume "on_user_toggle ch td cb i user s = (Inr (), s')"
  from admin_button_write [OF assms(1-3) this [unfolded on_user_toggle_def] assms(4,5)]
  obtain v s1 s2 where w: "rows s1 = rows s" "SQLUserRepository_toggle_active (td_users td) i s1 = (Inr v, s2)" "rows s' = rows s2" .
  show "user_of_rows (rows s') =
      (user_of_rows (rows s))(i := map_option (\<lambda>u. u\<lparr>u_is_active := \<not> u_is_active u\<rparr>) (user_of_rows (rows s) i))"
  proof (cases "user_of_rows (rows s) i")
    case None
    then show ?thesis using toggle_unknown [OF assms(1) _ w(2)] w(1,3) assms(6) by auto
  next
    case (Some u)
    then show ?thesis using toggle_active_spec [OF assms(1) _ w(2)] w(1,3) by simp
  qed
next
  assume "on_user_role ch td cb i (role_value r) user s = (Inr (), s')"
  then have "on_button ch cb (\<lambda>m. admin_only ch user ''usuarios'' m
      (bindM (SQLUserRepository_update_role (td_users td) i (next_role r)) (user_changed ch td m user))) s = (Inr (), s')"
    by (simp add: on_user_role_def bindM_liftE_Inr)
  from admin_button_write [OF assms(1-3) this assms(4,5)]
  obtain v s1 s2 where w: "rows s1 = rows s" "SQLUserRepository_update_role (td_users td) i (next_role r) s1 = (Inr v, s2)" "rows s' = rows s2" .
  show "user_of_rows (rows s') =
      (user_of_rows (rows s))(i := map_option (\<lambda>u. u\<lparr>u_role := next_role r\<rparr>) (user_of_rows (rows s) i))"
    using update_role_spec [OF assms(1) _ w(2)] w(1,3) assms(6) by auto
qed

text \<open>An administrator presses a button that says READONLY, of a user who is an operator.\<close>

definition stale_button :: "(exn + unit) \<times> bot_world" where
  "stale_button = on_user_role bot_chat bot_deps (shop_button ''user_role:7:READONLY'') 7 (role_value READONLY)
     (sample_user\<lparr>u_telegram_id := 1, u_role := UserRole.ADMIN\<rparr>) start_bot"

lemma user_buttons_outcome_witness:
  "fst stale_button = Inr () \<and>
   user_of_rows (user_table (bw_world (snd stale_button))) 7 = Some (sample_user\<lparr>u_role := UserRole.ADMIN\<rparr>)"
proof
  show ran: "fst stale_button = Inr ()" by code_simp
  have stored: "user_of_rows (user_table (bw_world start_bot)) 7 = Some sample_user" by code_simp
  have q: "deps_frames (\<lambda>w. user_table (bw_world w)) bot_deps" "bot_frames (\<lambda>w. user_table (bw_world w)) (ch_bot bot_chat)"
    using bot_quiet_users(1) by (simp_all add: bot_quiet_def sample_bot_def)
  have ses: "sql_session (td_users bot_deps) (\<lambda>w. user_table (bw_world w))"
    unfolding bot_deps_def TelegramDependencies.simps user_session_def
    by (intro zoom_sql_session [where rows = user_table] zoom_sql_session [OF ref_sql.sql_session_axioms]) simp_all
  have "on_user_role bot_chat bot_deps (shop_button ''user_role:7:READONLY'') 7 (role_value READONLY)
      (sample_user\<lparr>u_telegram_id := 1, u_role := UserRole.ADMIN\<rparr>) start_bot = (Inr (), snd stale_button)"
    using ran unfolding stale_button_def by (metis prod.collapse)
  with user_buttons_outcome [OF ses q, where r = READONLY and i = 7 and cb = "shop_button ''user_role:7:READONLY''"
      and user = "sample_user\<lparr>u_telegram_id := 1, u_role := UserRole.ADMIN\<rparr>" and s = start_bot and s' = "snd stale_button"]
  show "user_of_rows (user_table (bw_world (snd stale_button))) 7 = Some (sample_user\<lparr>u_role := UserRole.ADMIN\<rparr>)"
    using stored by (simp add: shop_button_def next_role_def ROLE_CYCLE_def)
qed

end
