(* ===== verification/Worker.thy ===== *)
theory Worker
  imports Dependencies Execution
begin

text \<open>
  \<^verbatim>\<open>app/workers/backup_worker.py\<close> with \<^verbatim>\<open>app/infrastructure/persistence/database.py\<close>: the process RQ starts
  for a job. It builds the ports from the settings, runs \<open>ExecuteBackupUseCase\<close> in one database session,
  reports an exception to Telegram and closes what it opened. The flag that the signal handler sets
  is a cell of the state. What the libraries give for the settings is a parameter, \<open>worker_host\<close>;
  emojis are left out of the texts.
\<close>

section \<open>The database\<close>

record 's db_session =
  dbs_jobs :: "('s, JobORM) session"
  dbs_users :: "('s, UserORM) session"
  dbs_audit_logs :: "('s, AuditLogORM) session"
  dbs_rates :: "('s, RateLimitORM) session"
  dbs_commit :: "('s, unit) M"
  dbs_rollback :: "('s, unit) M"
  dbs_close :: "('s, unit) M"

record 's db_engine =
  de_open_session :: "('s, 's db_session) M" \<comment> \<open>entering \<open>async with session_factory()\<close>\<close>
  de_create_tables :: "('s, unit) M"
  de_dispose :: "('s, unit) M"

text \<open>The arguments of \<open>create_async_engine\<close>: URL, echo, and the timeout of \<open>connect_args\<close>.\<close>

definition create_engine ::
  "(string \<Rightarrow> bool \<Rightarrow> int option \<Rightarrow> ('s, 's db_engine) M) \<Rightarrow> AppConfig \<Rightarrow> ('s, 's db_engine) M" where
  "create_engine create_async_engine config =
     (let url = ac_database_url config; is_sqlite = prefix ''sqlite'' url in
      create_async_engine url (ac_sqlalchemy_echo config) (if is_sqlite then Some 15 else None))"

definition init_database :: "'s db_engine \<Rightarrow> ('s, unit) M" where
  "init_database engine = de_create_tables engine"

definition dispose_engine :: "'s db_engine \<Rightarrow> ('s, unit) M" where
  "dispose_engine engine = de_dispose engine"

text \<open>\<open>async with session_factory() as session\<close>\<close>

definition with_session :: "'s db_engine \<Rightarrow> ('s db_session \<Rightarrow> ('s, 'a) M) \<Rightarrow> ('s, 'a) M" where
  "with_session engine body = bindM (de_open_session engine) (\<lambda>ses. finallyM (body ses) (dbs_close ses))"

text \<open>\<open>get_session\<close>, around what its caller does with the session.\<close>

definition get_session :: "'s db_engine \<Rightarrow> ('s db_session \<Rightarrow> ('s, 'a) M) \<Rightarrow> ('s, 'a) M" where
  "get_session engine body =
     with_session engine (\<lambda>ses.
       finallyM (tryM (bindM (body ses) (\<lambda>x. thenM (dbs_commit ses) (returnM x)))
                      (\<lambda>exc. thenM (dbs_rollback ses) (raiseM exc)))
                (dbs_close ses))"

section \<open>The host of the worker\<close>

record 's worker_host =
  wk_config :: "('s, AppConfig) M" \<comment> \<open>\<open>AppConfig()\<close>\<close>
  wk_create_async_engine :: "string \<Rightarrow> bool \<Rightarrow> int option \<Rightarrow> ('s, 's db_engine) M"
  wk_libraries :: "'s libraries"
  wk_close_aioredis :: "'s redis \<Rightarrow> ('s, unit) M"
  wk_zrange_first :: "'s redis \<Rightarrow> string \<Rightarrow> ('s, int list) M"
  wk_bot :: "string \<Rightarrow> 's AiogramBot" \<comment> \<open>the wrapper of a token\<close>
  wk_loop :: "'s event_loop"
  wk_resolve :: "path \<Rightarrow> ('s, path) M"
  wk_render :: "text_line list \<Rightarrow> string"
  wk_dump_host :: "'s dump_host"
  wk_set_order :: "path list \<Rightarrow> path list"
  wk_last_ui :: "'s \<Rightarrow> int" \<comment> \<open>the attribute of the use case object\<close>
  wk_set_last_ui :: "int \<Rightarrow> 's \<Rightarrow> 's"
  wk_shutdown_requested :: "'s \<Rightarrow> bool"
  wk_set_shutdown :: "bool \<Rightarrow> 's \<Rightarrow> 's"
  wk_install_handlers :: "('s, unit) M" \<comment> \<open>\<open>signal.signal\<close>\<close>
  wk_lax_int :: "pyval \<Rightarrow> int option" \<comment> \<open>what pydantic makes of other values for an \<open>int\<close>\<close>

definition handle_sigterm :: "'s worker_host \<Rightarrow> ('s, unit) M" where
  "handle_sigterm h = (\<lambda>s. (Inr (), wk_set_shutdown h True s))"

definition cancel_check :: "'s worker_host \<Rightarrow> ('s, bool) M" where
  "cancel_check h = (\<lambda>s. (Inr (wk_shutdown_requested h s), s))"

definition worker_mongo :: "'s worker_host \<Rightarrow> AppConfig \<Rightarrow> ('s, 's mongo_client) MongoConnection" where
  "worker_mongo h config = lb_mongo (wk_libraries h) (MongoConnection_from_config config)"

definition worker_redis :: "'s worker_host \<Rightarrow> AppConfig \<Rightarrow> ('s, 's rq_client) RedisConnection" where
  "worker_redis h config = lb_redis (wk_libraries h) (RedisConnection_from_config config)"

definition worker_aioredis :: "'s worker_host \<Rightarrow> AppConfig \<Rightarrow> 's redis" where
  "worker_aioredis h config = lb_aioredis (wk_libraries h) (ac_redis_url config)"

definition worker_bot :: "'s worker_host \<Rightarrow> AppConfig \<Rightarrow> 's AiogramBot" where
  "worker_bot h config = wk_bot h (ac_telegram_bot_token config)"

definition worker_limiter :: "'s worker_host \<Rightarrow> AppConfig \<Rightarrow> 's RedisGlobalRateLimiter" where
  "worker_limiter h config =
     \<lparr>rg_redis = worker_aioredis h config, rg_zrange_first = wk_zrange_first h (worker_aioredis h config), rg_limit = 30,
      rg_window_ms = 1000, rg_window_s = 1, rg_key = ''telegram_notifier:rate_limit''\<rparr>"

definition worker_notifier :: "'s worker_host \<Rightarrow> AppConfig \<Rightarrow> 's INotifier" where
  "worker_notifier h config =
     TelegramNotifier
       \<lparr>tn_bot = worker_bot h config, tn_base_path = Some (ac_backup_base_path config),
        tn_acquire = RedisGlobalRateLimiter_acquire (wk_loop h) (worker_limiter h config), tn_loop = wk_loop h,
        tn_resolve = wk_resolve h, tn_render = wk_render h\<rparr>"

definition worker_use_case :: "'s worker_host \<Rightarrow> AppConfig \<Rightarrow> 's db_session \<Rightarrow> 's ExecuteBackupUseCase" where
  "worker_use_case h config ses =
     (let lb = wk_libraries h; rt = lb_runtime lb; job_repo = SQLJobRepository rt (dbs_jobs ses);
          fs_utils = lb_fs lb \<lparr>au_base_path = Some (ac_backup_base_path config), au_gzip_size = lb_gzip_size lb\<rparr> in
      \<lparr>eb_job_repository = job_repo,
       eb_backup_engine = MongodumpBackupEngine (wk_dump_host h)
         \<lparr>me_uri = ac_mongodb_uri config, me_dump_timeout = 300, me_mongodump_path = None\<rparr>,
       eb_mongo_metadata = metadata_over rt (worker_mongo h config),
       eb_audit_repository = SQLAuditRepository (dbs_audit_logs ses), eb_notifier = worker_notifier h config,
       eb_retention_manager = RetentionManager
         (mk_RetentionManager fs_utils (ac_backup_base_path config) (ac_retention_full_weeks config)
            (ac_retention_custom_weeks config) (ac_retention_max_gb config) (Some job_repo) rt (wk_set_order h)),
       eb_fs_utils = fs_utils, eb_lock_manager = Some (RedisLockManager rt (worker_aioredis h config)),
       eb_backup_base_path = ac_backup_base_path config, eb_runtime = rt, eb_last_ui = wk_last_ui h,
       eb_set_last_ui = wk_set_last_ui h\<rparr>)"

section \<open>Running a job\<close>

record ExecuteBackupDto =
  ebd_job_id :: string
  ebd_chat_id :: "int option"
  ebd_topic_id :: "int option"
  ebd_status_message_id :: "int option"
  ebd_correlation_id :: "string option"

text \<open>An \<open>int | None\<close> and a \<open>str | None\<close> taken from the payload.\<close>

definition payload_int :: "(pyval \<Rightarrow> int option) \<Rightarrow> pydict \<Rightarrow> string \<Rightarrow> exn + int option" where
  "payload_int lax payload k = (case map_of payload k of
     None \<Rightarrow> Inr None
   | Some PNone \<Rightarrow> Inr None
   | Some (PInt i) \<Rightarrow> Inr (Some i)
   | Some v \<Rightarrow> (case lax v of None \<Rightarrow> Inl (ValidationError ''ExecuteBackupDto'') | Some i \<Rightarrow> Inr (Some i)))"

definition payload_str :: "pydict \<Rightarrow> string \<Rightarrow> exn + string option" where
  "payload_str payload k = (case map_of payload k of
     None \<Rightarrow> Inr None
   | Some PNone \<Rightarrow> Inr None
   | Some (PStr t) \<Rightarrow> Inr (Some t)
   | _ \<Rightarrow> Inl (ValidationError ''ExecuteBackupDto''))"

definition execute_dto :: "(pyval \<Rightarrow> int option) \<Rightarrow> string \<Rightarrow> pydict option \<Rightarrow> exn + ExecuteBackupDto" where
  "execute_dto lax job_id payload =
     (let p = (case payload of None \<Rightarrow> [] | Some d \<Rightarrow> d) in
      bind_sum (payload_int lax p ''chat_id'') (\<lambda>chat.
      bind_sum (payload_int lax p ''topic_id'') (\<lambda>topic.
      bind_sum (payload_int lax p ''status_message_id'') (\<lambda>status.
      bind_sum (payload_str p ''correlation_id'') (\<lambda>correlation.
      validated (\<lambda>d. ebd_job_id d \<noteq> []) ''ExecuteBackupDto''
        \<lparr>ebd_job_id = job_id, ebd_chat_id = chat, ebd_topic_id = topic, ebd_status_message_id = status,
         ebd_correlation_id = correlation\<rparr>)))))"

text \<open>The two messages about an exception; what they raise themselves is dropped.\<close>

definition report_failure :: "'s INotifier \<Rightarrow> AppConfig \<Rightarrow> ExecuteBackupDto \<Rightarrow> ('s, unit) M" where
  "report_failure no config dto =
     thenM (case (ebd_chat_id dto, ebd_status_message_id dto) of
              (Some chat, Some message) \<Rightarrow>
                tryM (no_edit_message no chat message [TxtOther '' FAILED: Error interno en el worker'']) (\<lambda>_. returnM ())
            | _ \<Rightarrow> returnM ())
       (tryM (bindM (liftE (py_int (ac_telegram_chat_id config))) (\<lambda>chat.
          no_send_message no chat
            [TxtOther '' Worker Error'', TxtOther (''Job: '' @ ebd_job_id dto),
             TxtOther (''Consulta los logs (correlation_id='' @ ebd_job_id dto @ '') para detalles.'')]
            (Some (ac_topic_execution_errors config)))) (\<lambda>_. returnM ()))"

definition worker_body ::
  "'s worker_host \<Rightarrow> AppConfig \<Rightarrow> 's db_session \<Rightarrow> string \<Rightarrow> pydict option \<Rightarrow> ('s, unit) M" where
  "worker_body h config ses job_id payload =
     thenM (\<lambda>s. (Inr (), wk_set_last_ui h 0 s)) \<comment> \<open>a new use case object\<close>
    (bindM (liftE (execute_dto (wk_lax_int h) job_id payload)) (\<lambda>dto.
     thenM (tryM (thenM (ExecuteBackupUseCase_execute (worker_use_case h config ses) (Some (cancel_check h)) (ebd_job_id dto))
                        (returnM ()))
              (\<lambda>exc. thenM (report_failure (worker_notifier h config) config dto) (raiseM exc)))
           (dbs_commit ses)))"

definition worker_close :: "'s worker_host \<Rightarrow> AppConfig \<Rightarrow> ('s, unit) M" where
  "worker_close h config =
     thenM (MongoConnection_close (worker_mongo h config))
    (thenM (RedisConnection_close (worker_redis h config))
    (thenM (wk_close_aioredis h (worker_aioredis h config)) (AiogramBot_shutdown (worker_bot h config))))"

definition worker_execute :: "'s worker_host \<Rightarrow> string \<Rightarrow> pydict option \<Rightarrow> ('s, unit) M" where
  "worker_execute h job_id payload =
     bindM (wk_config h) (\<lambda>config.
     bindM (create_engine (wk_create_async_engine h) config) (\<lambda>engine.
     finallyM
       (with_session engine (\<lambda>ses.
          thenM (MongoConnection_connect (worker_mongo h config))
         (thenM (RedisConnection_connect (worker_redis h config))
         (thenM (AiogramBot_start (worker_bot h config))
            (finallyM (worker_body h config ses job_id payload) (worker_close h config))))))
       (dispose_engine engine)))"

definition backup_worker_fn :: "'s worker_host \<Rightarrow> string \<Rightarrow> pydict option \<Rightarrow> ('s, unit) M" where
  "backup_worker_fn h job_id payload =
     thenM (wk_install_handlers h)
       (finallyM (worker_execute h job_id payload) (\<lambda>s. (Inr (), wk_set_shutdown h False s)))"

end
