(* ===== verification/WorkerRuns.thy ===== *)
theory WorkerRuns
  imports Worker
begin

text \<open>
  What the worker process leaves behind: \<open>worker_process\<close> is the contract of the connections it opens,
  interpreted at the end on the closed world. \<open>worker_started\<close> names the state in which the run begins.
\<close>

section \<open>Closing\<close>

lemma total_unit: "total m \<Longrightarrow> \<exists>s'. m s = (Inr (), s')" for m :: "('s, unit) M"
  by (auto simp: total_def returns_def)

text \<open>Everything opened is closed again, and no shutdown is pending.\<close>

definition worker_clean :: "'s worker_host \<Rightarrow> AppConfig \<Rightarrow> 's \<Rightarrow> bool" where
  "worker_clean h config s \<longleftrightarrow>
     mcn_client (worker_mongo h config) s = None \<and> rcn_client (worker_redis h config) s = None \<and>
     \<not> ab_is_started (worker_bot h config) s \<and> \<not> wk_shutdown_requested h s"

definition reset_shutdown :: "'s worker_host \<Rightarrow> ('s, unit) M" where
  "reset_shutdown h = (\<lambda>s. (Inr (), wk_set_shutdown h False s))"

definition late_closings :: "'s worker_host \<Rightarrow> 's db_engine \<Rightarrow> 's db_session \<Rightarrow> ('s, unit) M list" where
  "late_closings h engine ses = [dbs_close ses, dispose_engine engine, reset_shutdown h]"

definition aioredis_closing :: "'s worker_host \<Rightarrow> AppConfig \<Rightarrow> ('s, unit) M" where
  "aioredis_closing h config = wk_close_aioredis h (worker_aioredis h config)"

definition closings :: "'s worker_host \<Rightarrow> AppConfig \<Rightarrow> 's db_engine \<Rightarrow> 's db_session \<Rightarrow> ('s, unit) M list" where
  "closings h config engine ses =
     MongoConnection_close (worker_mongo h config) # RedisConnection_close (worker_redis h config) #
     aioredis_closing h config # AiogramBot_shutdown (worker_bot h config) # late_closings h engine ses"

text \<open>
  The closings answer, a cell that was emptied is empty, and each closing leaves alone what the
  earlier ones emptied.
\<close>

locale worker_process =
  fixes h :: "'s worker_host" and config :: AppConfig and engine :: "'s db_engine" and ses :: "'s db_session"
  assumes closing_answers: "m \<in> set (closings h config engine ses) \<Longrightarrow> total m"
    and mongo_cell: "mcn_client (worker_mongo h config) (mcn_set_client (worker_mongo h config) None s) = None"
    and redis_cell: "rcn_client (worker_redis h config) (rcn_set_client (worker_redis h config) None s) = None"
    and bot_cell: "\<not> ab_is_started (worker_bot h config) (ab_set_started (worker_bot h config) False s)"
    and flag_cell: "\<not> wk_shutdown_requested h (wk_set_shutdown h False s)"
    and after_mongo: "m \<in> set (drop 1 (closings h config engine ses)) \<Longrightarrow> frames (mcn_client (worker_mongo h config)) m"
    and after_redis: "m \<in> set (drop 2 (closings h config engine ses)) \<Longrightarrow> frames (rcn_client (worker_redis h config)) m"
    and after_bot: "m \<in> set (late_closings h engine ses) \<Longrightarrow> frames (ab_is_started (worker_bot h config)) m"
begin

lemma mongo_closed:
  assumes "MongoConnection_close (worker_mongo h config) s = (Inr u, s')"
  shows "mcn_client (worker_mongo h config) s' = None"
  using assms by (auto simp: MongoConnection_close_def thenM_run mongo_cell split: option.splits prod.splits sum.splits)

lemma redis_closed:
  assumes "RedisConnection_close (worker_redis h config) s = (Inr u, s')"
  shows "rcn_client (worker_redis h config) s' = None"
  using assms by (auto simp: RedisConnection_close_def thenM_run redis_cell split: option.splits prod.splits sum.splits)

lemma bot_closed:
  assumes "AiogramBot_shutdown (worker_bot h config) s = (Inr u, s')"
  shows "\<not> ab_is_started (worker_bot h config) s'"
  using assms by (auto simp: AiogramBot_shutdown_def thenM_run bot_cell split: prod.splits sum.splits if_splits)

lemma closing_total:
  "total (MongoConnection_close (worker_mongo h config))" "total (RedisConnection_close (worker_redis h config))"
  "total (aioredis_closing h config)" "total (AiogramBot_shutdown (worker_bot h config))"
  "total (dbs_close ses)" "total (dispose_engine engine)"
  by (rule closing_answers, simp add: closings_def late_closings_def)+

lemma mongo_apart:
  "frames (mcn_client (worker_mongo h config)) (RedisConnection_close (worker_redis h config))"
  "frames (mcn_client (worker_mongo h config)) (aioredis_closing h config)"
  "frames (mcn_client (worker_mongo h config)) (AiogramBot_shutdown (worker_bot h config))"
  "frames (mcn_client (worker_mongo h config)) (dbs_close ses)"
  "frames (mcn_client (worker_mongo h config)) (dispose_engine engine)"
  "frames (mcn_client (worker_mongo h config)) (reset_shutdown h)"
  by (rule after_mongo, simp add: closings_def late_closings_def)+

lemma redis_apart:
  "frames (rcn_client (worker_redis h config)) (aioredis_closing h config)"
  "frames (rcn_client (worker_redis h config)) (AiogramBot_shutdown (worker_bot h config))"
  "frames (rcn_client (worker_redis h config)) (dbs_close ses)"
  "frames (rcn_client (worker_redis h config)) (dispose_engine engine)"
  "frames (rcn_client (worker_redis h config)) (reset_shutdown h)"
  by (rule after_redis, simp add: closings_def late_closings_def)+

lemma bot_apart:
  "frames (ab_is_started (worker_bot h config)) (dbs_close ses)"
  "frames (ab_is_started (worker_bot h config)) (dispose_engine engine)"
  "frames (ab_is_started (worker_bot h config)) (reset_shutdown h)"
  by (rule after_bot, simp add: late_closings_def)+

lemma close_run:
  "\<exists>s'. worker_close h config s = (Inr (), s') \<and> mcn_client (worker_mongo h config) s' = None \<and>
     rcn_client (worker_redis h config) s' = None \<and> \<not> ab_is_started (worker_bot h config) s'"
proof -
  obtain s1 where 1: "MongoConnection_close (worker_mongo h config) s = (Inr (), s1)" using total_unit [OF closing_total(1)] by blast
  obtain s2 where 2: "RedisConnection_close (worker_redis h config) s1 = (Inr (), s2)" using total_unit [OF closing_total(2)] by blast
  obtain s3 where 3: "aioredis_closing h config s2 = (Inr (), s3)" using total_unit [OF closing_total(3)] by blast
  obtain s4 where 4: "AiogramBot_shutdown (worker_bot h config) s3 = (Inr (), s4)" using total_unit [OF closing_total(4)] by blast
  have "mcn_client (worker_mongo h config) s4 = None"
    using mongo_closed [OF 1] framesD [OF mongo_apart(1) 2] framesD [OF mongo_apart(2) 3] framesD [OF mongo_apart(3) 4] by simp
  moreover have "rcn_client (worker_redis h config) s4 = None"
    using redis_closed [OF 2] framesD [OF redis_apart(1) 3] framesD [OF redis_apart(2) 4] by simp
  moreover have "worker_close h config s = (Inr (), s4)"
    unfolding worker_close_def aioredis_closing_def [symmetric] by (simp only: thenM_run 1 2 3 4 prod.case sum.case)
  ultimately show ?thesis using bot_closed [OF 4] by blast
qed

lemma late_run:
  assumes "mcn_client (worker_mongo h config) s = None" "rcn_client (worker_redis h config) s = None"
    "\<not> ab_is_started (worker_bot h config) s"
  obtains s1 s2 where "dbs_close ses s = (Inr (), s1)" "dispose_engine engine s1 = (Inr (), s2)"
    "worker_clean h config (wk_set_shutdown h False s2)"
proof -
  obtain s1 where 1: "dbs_close ses s = (Inr (), s1)" using total_unit [OF closing_total(5)] by blast
  obtain s2 where 2: "dispose_engine engine s1 = (Inr (), s2)" using total_unit [OF closing_total(6)] by blast
  have 3: "reset_shutdown h s2 = (Inr (), wk_set_shutdown h False s2)" by (simp add: reset_shutdown_def)
  have "worker_clean h config (wk_set_shutdown h False s2)"
    using assms flag_cell framesD [OF mongo_apart(4) 1] framesD [OF mongo_apart(5) 2] framesD [OF mongo_apart(6) 3]
      framesD [OF redis_apart(3) 1] framesD [OF redis_apart(4) 2] framesD [OF redis_apart(5) 3]
      framesD [OF bot_apart(1) 1] framesD [OF bot_apart(2) 2] framesD [OF bot_apart(3) 3]
    by (simp add: worker_clean_def)
  with 1 2 show thesis by (rule that)
qed

end

section \<open>Starting\<close>

definition worker_started ::
  "'s worker_host \<Rightarrow> AppConfig \<Rightarrow> 's db_engine \<Rightarrow> 's db_session \<Rightarrow> 's \<Rightarrow> 's \<Rightarrow> bool" where
  "worker_started h config engine ses s s' \<longleftrightarrow>
     (\<exists>s1 s2 s3 s4 s5 s6. wk_install_handlers h s = (Inr (), s1) \<and> wk_config h s1 = (Inr config, s2) \<and>
        create_engine (wk_create_async_engine h) config s2 = (Inr engine, s3) \<and> de_open_session engine s3 = (Inr ses, s4) \<and>
        MongoConnection_connect (worker_mongo h config) s4 = (Inr (), s5) \<and>
        RedisConnection_connect (worker_redis h config) s5 = (Inr (), s6) \<and> AiogramBot_start (worker_bot h config) s6 = (Inr (), s'))"

text \<open>After the start the body runs, and then all is closed.\<close>

lemma worker_run:
  assumes "worker_process h config engine ses" "worker_started h config engine ses s s1"
    and body: "worker_body h config ses job_id payload s1 = (x, s2)"
  shows "\<exists>s3 s4 s5. worker_close h config s2 = (Inr (), s3) \<and> dbs_close ses s3 = (Inr (), s4) \<and>
     dispose_engine engine s4 = (Inr (), s5) \<and> worker_clean h config (wk_set_shutdown h False s5) \<and>
     backup_worker_fn h job_id payload s = (x, wk_set_shutdown h False s5)"
proof -
  obtain s3 where 3: "worker_close h config s2 = (Inr (), s3)" "mcn_client (worker_mongo h config) s3 = None"
     "rcn_client (worker_redis h config) s3 = None" "\<not> ab_is_started (worker_bot h config) s3"
    using worker_process.close_run [OF assms(1)] by blast
  obtain s4 s5 where 4: "dbs_close ses s3 = (Inr (), s4)" "dispose_engine engine s4 = (Inr (), s5)"
    "worker_clean h config (wk_set_shutdown h False s5)"
    using worker_process.late_run [OF assms(1) 3(2-)] by blast
  have "backup_worker_fn h job_id payload s = (x, wk_set_shutdown h False s5)"
    using assms(2) body 3(1) 4(1,2)
    by (auto simp: worker_started_def backup_worker_fn_def worker_execute_def with_session_def run_simps)
  with 3(1) 4 show ?thesis by blast
qed

lemma report_failure_returns: "\<exists>t. report_failure no config dto s = (Inr (), t)"
  by (auto simp: report_failure_def run_simps split: option.split prod.split sum.split)

lemma execute_dto_id: "execute_dto lax job_id payload = Inr dto \<Longrightarrow> ebd_job_id dto = job_id"
  by (auto simp: execute_dto_def Let_def bind_sum_def validated_def split: sum.splits if_splits)

lemma body_run:
  assumes dto: "execute_dto (wk_lax_int h) job_id payload = Inr dto"
    and run: "ExecuteBackupUseCase_execute (worker_use_case h config ses) (Some (cancel_check h)) job_id (wk_set_last_ui h 0 s1) = (x, s2)"
  shows "case x of Inl e \<Rightarrow> \<exists>t. worker_body h config ses job_id payload s1 = (Inl e, t)
    | Inr r \<Rightarrow> worker_body h config ses job_id payload s1 = dbs_commit ses s2"
proof -
  obtain t where "report_failure (worker_notifier h config) config dto s2 = (Inr (), t)"
    using report_failure_returns [of "worker_notifier h config" config dto s2] by (elim exE)
  then show ?thesis
    using dto run by (auto simp: worker_body_def execute_dto_id [OF dto] run_simps split: prod.split sum.split)
qed

lemma body_returns:
  assumes "worker_body h config ses job_id payload s1 = (Inr u, s2)"
  obtains r t where
    "ExecuteBackupUseCase_execute (worker_use_case h config ses) (Some (cancel_check h)) job_id (wk_set_last_ui h 0 s1) = (Inr r, t)"
    "dbs_commit ses t = (Inr u, s2)"
proof -
  obtain dto where dto: "execute_dto (wk_lax_int h) job_id payload = Inr dto"
    using assms by (cases "execute_dto (wk_lax_int h) job_id payload") (auto simp: worker_body_def run_simps)
  obtain x t where run: "ExecuteBackupUseCase_execute (worker_use_case h config ses) (Some (cancel_check h)) job_id
      (wk_set_last_ui h 0 s1) = (x, t)" by force
  show thesis using body_run [OF dto run] assms run that by (cases x) auto
qed

lemma close_frames:
  assumes "\<forall>m \<in> set (closings h config engine ses). frames view m"
  shows "frames view (worker_close h config)" "frames view (dbs_close ses)" "frames view (dispose_engine engine)"
proof -
  show "frames view (worker_close h config)"
    unfolding worker_close_def using assms by (intro frame_intros) (simp_all add: closings_def aioredis_closing_def)
  show "frames view (dbs_close ses)" "frames view (dispose_engine engine)"
    using assms by (simp_all add: closings_def late_closings_def)
qed

section \<open>A requested shutdown\<close>

text \<open>What runs between the request and the first collection keeps the request.\<close>

definition keeps_request :: "('s \<Rightarrow> bool) \<Rightarrow> 's ExecuteBackupUseCase \<Rightarrow> bool" where
  "keeps_request flag uc \<longleftrightarrow>
     execute_keeps flag uc \<and> repo_keeps flag (eb_job_repository uc) \<and>
     (\<forall>lm r ttl. eb_lock_manager uc = Some lm \<longrightarrow> keeps flag (lm_acquire lm r ttl))"

lemma cancelled_loop:
  assumes "c s = (Inr True, s)"
  shows "backup_loop uc (Some c) out n ts st s = (Inr (if ts = [] then st else st\<lparr>xs_cancelled := True\<rparr>), s)"
  using assms by (cases ts) (simp_all add: run_simps)

definition stopped_result :: "ExecuteBackupResult \<Rightarrow> bool" where
  "stopped_result r \<longleftrightarrow>
     ebr_completed_collections r = 0 \<and> ebr_failed_collections r = 0 \<and> ebr_bytes_processed r = 0 \<and>
     (ebr_status r = CANCELLED \<or> ebr_total_collections r = 0)"

lemma stopped_conclude:
  assumes "run_conclude uc n t st s = (Inr r, s')" "xs_completed st = 0" "xs_failed st = 0" "xs_bytes st = 0"
    "xs_cancelled st \<or> n = 0"
  shows "stopped_result r"
  using assms unfolding run_conclude_def finalize_job_def
  by (auto simp: stopped_result_def bindM_eq_Inr thenM_eq_Inr split: if_splits)

lemma bindM_Inr_intro: "m s = (Inr x, s1) \<Longrightarrow> f x s1 = y \<Longrightarrow> bindM m f s = y"
  by (simp add: bindM_Inr)

lemma stopped_run:
  assumes keep: "keeps_request flag uc" and check: "\<And>s. c s = (Inr (flag s), s)"
    and "flag s" "run_job uc (Some c) job s = (Inr r, s')"
  shows "stopped_result r"
proof -
  have e: "execute_keeps flag uc" "outcome_keeps flag uc" "repo_keeps flag (eb_job_repository uc)"
    using keep by (simp_all add: keeps_request_def execute_keeps_def)
  have p: "keeps flag (run_prepare uc job)"
    unfolding run_prepare_def Let_def using e
    by (intro keeps_intros) (simp_all add: execute_keeps_def outcome_keeps_def repo_keeps_def)
  have n: "keeps flag (rt_now (eb_runtime uc))" using e by (simp add: outcome_keeps_def)
  from assms(4) obtain j out s1 ts s2 t s3 u s4 where
      1: "run_prepare uc job s = (Inr (j, out), s1)" and 2: "resolve_targets uc j s1 = (Inr ts, s2)" and
      3: "rt_now (eb_runtime uc) s2 = (Inr t, s3)" and
      4: "AuditService_log_job_event (eb_runtime uc) (eb_audit_repository uc) (bj_id j) ''BACKUP_STARTED''
            (bj_requester_telegram_id j) (Some [(''total_collections'', PInt (int (length ts)))]) ''SUCCESS'' s3 = (Inr u, s4)" and
      5: "bindM (backup_loop uc (Some c) out (int (length ts)) ts
            \<lparr>xs_job = j, xs_completed = 0, xs_failed = 0, xs_bytes = 0, xs_results = [], xs_cancelled = False\<rparr>)
            (run_conclude uc (int (length ts)) t) s4 = (Inr r, s')"
    unfolding run_job_def by (elim bindM_InrE thenM_InrE) (simp only: split_paired_all prod.case, elim bindM_InrE thenM_InrE, blast intro: bindM_Inr_intro)
  have "flag s4"
    using keepsD [OF p assms(3) 1] keepsD [OF resolve_targets_keeps [OF e(1)] _ 2] keepsD [OF n _ 3]
      keepsD [OF log_job_event_keeps [OF e(2)] _ 4] by blast
  then have c: "c s4 = (Inr True, s4)" by (simp add: check)
  show ?thesis
    using 5 unfolding bindM_run cancelled_loop [where c = c and s = s4, OF c] prod.case sum.case
    by (rule stopped_conclude) (cases ts; simp)+
qed

lemma stopped_execute:
  assumes keep: "keeps_request flag uc" and check: "\<And>s. c s = (Inr (flag s), s)"
    and "flag s" "ExecuteBackupUseCase_execute uc (Some c) i s = (Inr r, s')"
  shows "stopped_result r"
proof -
  have e: "execute_keeps flag uc" "repo_keeps flag (eb_job_repository uc)"
    "\<And>lm r ttl. eb_lock_manager uc = Some lm \<Longrightarrow> keeps flag (lm_acquire lm r ttl)"
    using keep by (simp_all add: keeps_request_def)
  note run = stopped_run [OF keep check]
  obtain found s1 where 1: "lookup_job uc i MAX_LOOKUP_RETRIES s = (Inr found, s1)"
    using assms(4) unfolding ExecuteBackupUseCase_execute_def by (rule bindM_InrE)
  have s1: "flag s1" using keepsD [OF lookup_job_keeps [OF e(1,2)] assms(3) 1] .
  obtain job where job: "found = Some job"
    using assms(4) 1 by (cases found) (auto simp: ExecuteBackupUseCase_execute_def bindM_run raise_domain_def)
  show ?thesis
  proof (cases "eb_lock_manager uc")
    case None
    with assms(4) 1 job have "run_job uc (Some c) job s1 = (Inr r, s')" by (simp add: ExecuteBackupUseCase_execute_def bindM_run)
    then show ?thesis by (rule run [OF s1])
  next
    case (Some lm)
    with assms(4) 1 job obtain tok s2 where 2: "lm_acquire lm (cluster_lock job) LOCK_TTL s1 = (Inr (Some tok), s2)"
        and 3: "finallyM (run_job uc (Some c) job) (release_oserror lm (cluster_lock job) tok) s2 = (Inr r, s')"
      by (auto simp: ExecuteBackupUseCase_execute_def bindM_run raise_domain_def split: option.splits prod.splits sum.splits)
    have "flag s2" using keepsD [OF e(3) [OF Some] s1 2] .
    then show ?thesis using 3 run by (auto simp: finallyM_run split: prod.splits sum.splits)
  qed
qed

section \<open>A worker in the closed world\<close>

text \<open>
  The adapters of \<open>World\<close> behind the worker's host: \<open>w_open\<close> lists the connections, the flag is
  \<open>w_sigterm_after\<close>, and there is no \<^verbatim>\<open>mongodump\<close> on the machine.
\<close>

definition set_open :: "string \<Rightarrow> 'c option \<Rightarrow> world \<Rightarrow> world" where
  "set_open n c w = w\<lparr>w_open := (if c = None then removeAll n (w_open w) else n # removeAll n (w_open w))\<rparr>"

definition world_client :: "world mongo_client" where
  "world_client =
     \<lparr>mc_list_database_names = (\<lambda>w. mc_list_database_names (catalog_client (w_cluster w)) w),
      mc_list_collection_names = (\<lambda>d w. mc_list_collection_names (catalog_client (w_cluster w)) d w),
      mc_list_collection_names_within = (\<lambda>t d w. mc_list_collection_names_within (catalog_client (w_cluster w)) t d w),
      mc_db_stats = (\<lambda>t d w. mc_db_stats (catalog_client (w_cluster w)) t d w),
      mc_coll_stats = (\<lambda>t d c w. mc_coll_stats (catalog_client (w_cluster w)) t d c w)\<rparr>"

definition world_libraries :: "world libraries" where
  "world_libraries =
     \<lparr>lb_mongo = (\<lambda>opts. \<lparr>mcn_options = opts, mcn_client = (\<lambda>w. if ''mongo'' \<in> set (w_open w) then Some world_client else None),
        mcn_set_client = set_open ''mongo'', mcn_new_client = (\<lambda>_. returnM world_client),
        mcn_close_client = (\<lambda>_. returnM ()), mcn_ping_client = (\<lambda>_. returnM ())\<rparr>),
      lb_redis = (\<lambda>opts. \<lparr>rcn_options = opts, rcn_client = (\<lambda>w. if ''redis'' \<in> set (w_open w) then Some world_rq else None),
        rcn_set_client = set_open ''redis'', rcn_new_client = (\<lambda>_ _. returnM world_rq),
        rcn_close_client = (\<lambda>_. returnM ()), rcn_ping_client = (\<lambda>_. returnM True)\<rparr>),
      lb_rq = (\<lambda>_. world_rq), lb_aioredis = (\<lambda>_. world_redis), lb_fs = (\<lambda>_. world_fs), lb_gzip_size = (\<lambda>n. n),
      lb_runtime = world_runtime, lb_sha256 = (\<lambda>_. sample_hash)\<rparr>"

abbreviation put_telegram :: "telegram_state \<Rightarrow> world \<Rightarrow> world" where
  "put_telegram t \<equiv> w_telegram_update (\<lambda>_. t)"

definition world_bot :: "world AiogramBot" where
  "world_bot =
     \<lparr>ab_api = \<lparr>tg_send_message = (\<lambda>c t z. zoom w_telegram put_telegram (tl_call c t)),
        tg_edit_message_text = (\<lambda>c m t. zoom w_telegram put_telegram (tl_call c t)),
        tg_send_document = (\<lambda>c p t z. zoom w_telegram put_telegram (tl_call c (path_str p))), tg_close_session = returnM ()\<rparr>,
      ab_is_started = (\<lambda>w. tl_started (w_telegram w)),
      ab_set_started = (\<lambda>b w. w\<lparr>w_telegram := (w_telegram w)\<lparr>tl_started := b\<rparr>\<rparr>)\<rparr>"

definition bare_host :: "world dump_host" where
  "bare_host =
     \<lparr>mh_which = (\<lambda>_. returnM None), mh_is_file = (\<lambda>_. returnM False), mh_resolve = returnM,
      mh_create_temp = returnM ''t'', mh_write_temp = (\<lambda>_ _. returnM ()), mh_close_temp = (\<lambda>_. returnM ()),
      mh_unlink = (\<lambda>_. returnM ()), mh_spawn = (\<lambda>_. raiseM (FileNotFoundError ''mongodump'')),
      mh_drain = (\<lambda>_ _. returnM ([], [])), mh_communicate = (\<lambda>_. returnM ([], [])), mh_kill = (\<lambda>_. returnM ()),
      mh_wait = (\<lambda>_. returnM ()), mh_returncode = (\<lambda>_. returnM 0), mh_exists = (\<lambda>_. returnM False),
      mh_size = (\<lambda>_. returnM 0), mh_mongo_connect = (\<lambda>_. returnM ()), mh_mongo_ping = returnM (),
      mh_mongo_close = returnM ()\<rparr>"

definition world_tables :: "world db_session" where
  "world_tables = \<lparr>dbs_jobs = job_session, dbs_users = user_session, dbs_audit_logs = audit_session, dbs_rates = rate_session,
     dbs_commit = returnM (), dbs_rollback = returnM (), dbs_close = returnM ()\<rparr>"

definition world_database :: "world db_engine" where
  "world_database = \<lparr>de_open_session = returnM world_tables, de_create_tables = returnM (), de_dispose = returnM ()\<rparr>"

definition world_worker :: "world worker_host" where
  "world_worker =
     \<lparr>wk_config = returnM sample_config, wk_create_async_engine = (\<lambda>_ _ _. returnM world_database),
      wk_libraries = world_libraries, wk_close_aioredis = (\<lambda>_. returnM ()), wk_zrange_first = (\<lambda>_ _. returnM []),
      wk_bot = (\<lambda>_. world_bot),
      wk_loop = \<lparr>lp_time = zoom w_telegram put_telegram (lp_time tl_loop), lp_sleep = (\<lambda>d. zoom w_telegram put_telegram (lp_sleep tl_loop d)),
        lp_wall_ms = zoom w_telegram put_telegram (lp_wall_ms tl_loop), lp_uuid8 = zoom w_telegram put_telegram (lp_uuid8 tl_loop)\<rparr>,
      wk_resolve = returnM, wk_render = tn_render (tl_notifier 29 1000000), wk_dump_host = bare_host, wk_set_order = (\<lambda>ps. ps),
      wk_last_ui = w_last_ui, wk_set_last_ui = (\<lambda>n. w_last_ui_update (\<lambda>_. n)),
      wk_shutdown_requested = (\<lambda>w. w_sigterm_after w \<noteq> None),
      wk_set_shutdown = (\<lambda>b. w_sigterm_after_update (\<lambda>_. if b then Some 0 else None)),
      wk_install_handlers = returnM (), wk_lax_int = (\<lambda>_. None)\<rparr>"

interpretation wworker: worker_process world_worker sample_config world_database world_tables
proof
  note defs = closings_def late_closings_def aioredis_closing_def reset_shutdown_def dispose_engine_def worker_mongo_def
    worker_redis_def worker_bot_def worker_aioredis_def world_worker_def world_libraries_def world_database_def world_tables_def
    world_bot_def MongoConnection_close_def RedisConnection_close_def AiogramBot_shutdown_def set_open_def
  show "total m" if "m \<in> set (closings world_worker sample_config world_database world_tables)" for m
    using that by (auto simp: defs total_def returns_def thenM_run)
  have mongo: "list_all (frames (mcn_client (worker_mongo world_worker sample_config)))
      (drop 1 (closings world_worker sample_config world_database world_tables))"
    by (auto simp: defs frames_def thenM_run)
  have redis: "list_all (frames (rcn_client (worker_redis world_worker sample_config)))
      (drop 2 (closings world_worker sample_config world_database world_tables))"
    by (auto simp: defs frames_def thenM_run)
  have bot: "list_all (frames (ab_is_started (worker_bot world_worker sample_config))) (late_closings world_worker world_database world_tables)"
    by (auto simp: defs frames_def)
  show "frames (mcn_client (worker_mongo world_worker sample_config)) m"
    if "m \<in> set (drop 1 (closings world_worker sample_config world_database world_tables))" for m
    using mongo that unfolding list_all_iff by blast
  show "frames (rcn_client (worker_redis world_worker sample_config)) m"
    if "m \<in> set (drop 2 (closings world_worker sample_config world_database world_tables))" for m
    using redis that unfolding list_all_iff by blast
  show "frames (ab_is_started (worker_bot world_worker sample_config)) m"
    if "m \<in> set (late_closings world_worker world_database world_tables)" for m
    using bot that unfolding list_all_iff by blast
qed (simp_all add: worker_mongo_def worker_redis_def worker_bot_def world_worker_def world_libraries_def world_bot_def set_open_def)

definition opened :: "world \<Rightarrow> world" where
  "opened w = w\<lparr>w_open := [''redis'', ''mongo''], w_telegram := (w_telegram w)\<lparr>tl_started := True\<rparr>\<rparr>"

lemma world_started:
  assumes "w_open w = []"
  shows "worker_started world_worker sample_config world_database world_tables w (opened w)"
proof -
  have url: "urlparse (ac_redis_url sample_config) =
      Inr \<lparr>pu_scheme = ''redis'', pu_netloc = ''localhost:6379''\<rparr>" by code_simp
  show ?thesis
    using assms url
    by (simp add: worker_started_def world_worker_def worker_mongo_def worker_redis_def worker_bot_def world_libraries_def
      world_database_def create_engine_def Let_def MongoConnection_connect_def RedisConnection_connect_def
      RedisConnection_from_config_def AiogramBot_start_def world_bot_def thenM_run bindM_run set_open_def opened_def)
qed

definition stopping_world :: world where
  "stopping_world = (queued_world [''orders''])\<lparr>w_sigterm_after := Some 0\<rparr>"

abbreviation world_use_case :: "world ExecuteBackupUseCase" where
  "world_use_case \<equiv> worker_use_case world_worker sample_config world_tables"

lemma worker_ports:
  "eb_job_repository world_use_case = world_jobs" "eb_runtime world_use_case = world_runtime" "eb_lock_manager world_use_case = Some world_locks"
  "eb_audit_repository world_use_case = world_audit" "eb_fs_utils world_use_case = world_fs" "eb_backup_base_path world_use_case = [''/'', ''backups'']"
  "eb_notifier world_use_case = worker_notifier world_worker sample_config" "eb_last_ui world_use_case = w_last_ui"
  "eb_set_last_ui world_use_case = (\<lambda>n. w_last_ui_update (\<lambda>_. n))"
  "eb_mongo_metadata world_use_case = metadata_over world_runtime (worker_mongo world_worker sample_config)"
  "eb_backup_engine world_use_case = MongodumpBackupEngine bare_host
     \<lparr>me_uri = ''mongodb://db'', me_dump_timeout = 300, me_mongodump_path = None\<rparr>"
  "eb_retention_manager world_use_case = RetentionManager
     (mk_RetentionManager world_fs [''/'', ''backups''] 4 2 50 (Some world_jobs) world_runtime (\<lambda>ps. ps))"
  by (simp_all add: worker_use_case_def Let_def world_worker_def world_libraries_def world_tables_def world_jobs_def world_audit_def
    world_locks_def worker_aioredis_def sample_config_def)

lemma cancel_check_world: "cancel_check world_worker w = (Inr (w_sigterm_after w \<noteq> None), w)"
  by (simp add: cancel_check_def world_worker_def)

lemma world_last_ui: "wk_set_last_ui world_worker = (\<lambda>n. w_last_ui_update (\<lambda>_. n))"
  by (simp add: world_worker_def)

lemma str_five: "str_int 5 = ''5''" by code_simp

lemma missing_run: "fst (ExecuteBackupUseCase_execute world_use_case (Some (cancel_check world_worker)) ''j'' (wk_set_last_ui world_worker 0 (opened start_world))) =
  Inl (DomainExn JobNotFoundError ''Job j not found after 5 retries'' [(''job_id'', PStr ''j'')])"
  by (simp add: worker_ports cancel_check_world world_last_ui opened_def run_defs str_five cong: exec_cong)

text \<open>The last message and the release of the lock always answer; what they leave stays folded.\<close>

definition final_told :: "world ExecuteBackupUseCase \<Rightarrow> BackupJob \<Rightarrow> JobStatus \<Rightarrow> int \<Rightarrow> int \<Rightarrow> int \<Rightarrow> int \<Rightarrow> world \<Rightarrow> world" where
  "final_told uc j st c f n b w = snd (notify_final uc j st c f n b w)"

definition unlocked :: "string \<Rightarrow> string \<Rightarrow> world \<Rightarrow> world" where
  "unlocked r tok w = snd (release_oserror world_locks r tok w)"

lemma folded_ends:
  "notify_final uc j st c f n b w = (Inr (), final_told uc j st c f n b w)"
  "release_oserror world_locks r tok w = (Inr (), unlocked r tok w)"
proof -
  have "fst (notify_final uc j st c f n b w) = Inr ()"
    by (simp add: notify_final_def Let_def tryM_def split: prod.split sum.split)
  then show "notify_final uc j st c f n b w = (Inr (), final_told uc j st c f n b w)"
    by (simp add: final_told_def prod_eq_iff)
  have "fst (release_oserror world_locks r tok w) = Inr ()"
    by (auto simp: release_oserror_def world_locks_def RedisLockManager_def RedisLockManager_release_def RELEASE_SCRIPT_def
        exec_world run_simps split: prod.splits sum.splits if_splits)
  then show "release_oserror world_locks r tok w = (Inr (), unlocked r tok w)"
    by (simp add: unlocked_def prod_eq_iff)
qed

lemma world_lock_calls:
  "lm_acquire world_locks = RedisLockManager_acquire world_runtime world_redis"
  "lm_release world_locks = RedisLockManager_release world_redis"
  by (simp_all add: world_locks_def RedisLockManager_def)

lemmas worker_run_defs = worker_ports cancel_check_world world_last_ui opened_def folded_ends world_lock_calls run_defs

lemma stopping_run: "\<exists>r. fst (ExecuteBackupUseCase_execute world_use_case (Some (cancel_check world_worker)) ''j'' (wk_set_last_ui world_worker 0 (opened stopping_world))) = Inr r"
  by (simp add: stopping_world_def worker_run_defs del: notify_final_def release_oserror_def world_locks_def cong: exec_cong)

lemma frames_bind_known:
  assumes "frames view m" "\<And>x s s'. m s = (Inr x, s') \<Longrightarrow> frames view (f x)"
  shows "frames view (bindM m f)"
proof (unfold frames_def, intro allI)
  fix s
  obtain x s1 where m: "m s = (x, s1)" by force
  note s1 = framesD [OF assms(1) m]
  show "view (snd (bindM m f s)) = view s"
  proof (cases x)
    case (Inl e) then show ?thesis using m s1 by (simp add: bindM_run)
  next
    case (Inr y)
    obtain z s2 where z: "f y s1 = (z, s2)" by force
    show ?thesis using m s1 Inr z framesD [OF assms(2) z] by (simp add: bindM_run)
  qed
qed

lemma retry_loop_frames:
  assumes "frames view acquire" "frames view fn" "\<And>d. frames view (lp_sleep lp d)"
  shows "frames view (retry_loop lp acquire fn k n)"
  by (induction n arbitrary: k) (simp_all, (intro frame_intros assms)+)

lemma notifier_frames:
  assumes "\<And>t w. view (w_telegram_update (\<lambda>_. t) w) = view w" "\<And>t w. view (w_redis_update (\<lambda>_. t) w) = view w"
  shows "frames view (no_edit_message (worker_notifier world_worker sample_config) c m t)"
    "frames view (no_send_message (worker_notifier world_worker sample_config) c t z)"
proof -
  have z: "frames view (zoom w_telegram put_telegram m)" for m :: "(telegram_state, 'x) M"
    by (rule zoom_frames_other) (rule assms)
  have r: "frames view (zoom w_redis (\<lambda>t. w_redis_update (\<lambda>_. t)) m)" for m :: "(ref_store, 'x) M"
    by (rule zoom_frames_other) (rule assms)
  let ?lp = "wk_loop world_worker" and ?rl = "worker_limiter world_worker sample_config"
  have p: "frames view (lp_sleep ?lp d)" "frames view (lp_wall_ms ?lp)" "frames view (lp_uuid8 ?lp)"
    "frames view (rd_zremrangebyscore (rg_redis ?rl) k a b)" "frames view (rd_zcard (rg_redis ?rl) k)"
    "frames view (rd_zadd (rg_redis ?rl) k a v)" "frames view (rd_expire (rg_redis ?rl) k a)"
    "frames view (rg_zrange_first ?rl k)" for d k a b v
    by (simp_all add: worker_limiter_def world_worker_def world_libraries_def worker_aioredis_def world_redis_def zoom_redis_def
        z r frames_basic)
  have case_list: "frames view (case xs of [] \<Rightarrow> m | x # _ \<Rightarrow> g x)"
    if "frames view m" "\<And>x. frames view (g x)" for xs :: "int list" and m :: "(world, int) M" and g
    using that by (cases xs) simp_all
  have acquire: "frames view (RedisGlobalRateLimiter_acquire ?lp ?rl)"
    unfolding RedisGlobalRateLimiter_acquire_def Let_def by (intro frame_intros p case_list)
  have bot: "frames view (AiogramBot_bot (worker_bot world_worker sample_config))"
    by (simp add: AiogramBot_bot_def frames_def)
  have api: "frames view (tg_send_message x c t z)" "frames view (tg_edit_message_text x c m t)"
    if "AiogramBot_bot (worker_bot world_worker sample_config) w = (Inr x, w')" for x w w' t
    using that by (auto simp: AiogramBot_bot_def worker_bot_def world_worker_def world_bot_def z split: if_splits)
  have fn: "frames view (bindM (AiogramBot_bot (worker_bot world_worker sample_config)) (\<lambda>bot. tg_edit_message_text bot c m t))"
    "frames view (bindM (AiogramBot_bot (worker_bot world_worker sample_config)) (\<lambda>bot. tg_send_message bot c t z))" for t
    by (rule frames_bind_known [OF bot], erule api)+
  show "frames view (no_edit_message (worker_notifier world_worker sample_config) c m t)"
    "frames view (no_send_message (worker_notifier world_worker sample_config) c t z)"
    unfolding worker_notifier_def TelegramNotifier_def INotifier.simps TelegramNotifier_send_message_def
      TelegramNotifier_edit_message_def Let_def execute_with_retry_def TelegramNotifier.simps
    by (intro frame_intros retry_loop_frames acquire p fn)+
qed

lemma bare_engine:
  "be_backup_collection (MongodumpBackupEngine bare_host
     \<lparr>me_uri = u, me_dump_timeout = n, me_mongodump_path = None\<rparr>) d c p w =
   (Inl (DomainExn BackupEngineError ''mongodump binary not found'' [(''configured_path'', PNone)]), w)"
  by (simp add: MongodumpBackupEngine_def MongodumpBackupEngine_backup_collection_def resolve_binary_def bare_host_def
      bindM_run raise_domain_def opt_str_def)

lemma world_metadata_frames:
  "frames view (mm_list_databases (eb_mongo_metadata world_use_case) h)"
  "frames view (mm_list_collections (eb_mongo_metadata world_use_case) h d)"
  unfolding worker_ports
  by (simp_all add: metadata_over_def MongoMetadataAdapter_def MongoMetadataAdapter_list_databases_def
      MongoMetadataAdapter_list_collections_def MongoConnection_client_def worker_mongo_def world_worker_def world_libraries_def
      world_client_def catalog_client_def frames_def bindM_run split: option.split sum.split)

definition apart :: "(world \<Rightarrow> 'v) \<Rightarrow> bool" where
  "apart view \<longleftrightarrow> outside view \<and> (\<forall>t w. view (w_redis_update (\<lambda>_. t) w) = view w) \<and>
     (\<forall>st a b. frames view (jr_list_by_status world_jobs st a b))"

lemma use_case_keeps:
  assumes "apart view"
  shows "outcome_keeps (\<lambda>s. P (view s)) world_use_case" "execute_keeps (\<lambda>s. P (view s)) world_use_case"
proof -
  have out: "outside view" and tg: "\<And>t w. view (w_telegram_update (\<lambda>_. t) w) = view w"
    and rd: "\<And>t w. view (w_redis_update (\<lambda>_. t) w) = view w" and ls: "\<And>st a b. frames view (jr_list_by_status world_jobs st a b)"
    using assms by (simp_all add: apart_def outside_def)
  note f = frames_keeps [where view = view and P = P]
  have fs: "\<And>t w. view (w_dump_update (ds_fs_update (\<lambda>_. t)) w) = view w"
    using out by (simp add: outside_def dump_fs_update)
  have rt: "frames view (rt_now world_runtime)" "frames view (rt_monotonic world_runtime)" "frames view (rt_sleep_ms world_runtime k)" for k
    using out by (simp_all add: world_runtime_def frames_def outside_def)
  have "retention_frames view (mk_RetentionManager world_fs base a b c (Some world_jobs) world_runtime (\<lambda>ps. ps))" for base a b c
    using ls rt(1) fs_frames [OF fs] by (simp add: retention_frames_def mk_RetentionManager_def)
  then have rm: "frames view (rm_apply_policy (eb_retention_manager world_use_case))"
    by (simp add: worker_ports RetentionManager_def apply_policy_frames)
  have au: "frames view (ar_log world_audit e)" for e
    using audit_frames_world [of view] out by (simp add: outside_def audit_frames_def)
  have be: "frames view (be_backup_collection (eb_backup_engine world_use_case) d c p)" for d c p
    by (simp add: worker_ports frames_def bare_engine)
  have u: "view (w_last_ui_update (\<lambda>_. k) w) = view w" for k w using out by (simp add: outside_def)
  show o: "outcome_keeps (\<lambda>s. P (view s)) world_use_case"
    unfolding outcome_keeps_def worker_ports(2,4,7)
    by (intro conjI allI f rt au rm notifier_frames tg rd)
  show "execute_keeps (\<lambda>s. P (view s)) world_use_case"
    unfolding execute_keeps_def worker_ports(2,5)
    using u by (intro conjI allI o f rt be world_metadata_frames fs_frames fs) (simp add: worker_ports(9))
qed

lemma apart_views: "apart stored_jobs" "apart w_sigterm_after"
  using list_frames_world stored_outside world_jobs_frames [of w_sigterm_after]
  by (auto simp: apart_def outside_def repo_frames_def)

lemma world_use_case_contract:
  "backup_execution world_use_case stored_jobs (\<lambda>w. persisted (job_rows w)) (\<lambda>w. clean_rows (job_rows w))"
proof -
  have lm: "keeps (\<lambda>s. P (stored_jobs s)) (lm_acquire world_locks r ttl)"
    "keeps (\<lambda>s. P (stored_jobs s)) (lm_release world_locks r tok)" for P r ttl tok
    by (rule frames_keeps [OF redis_frames_world(1)], simp) (rule frames_keeps [OF redis_frames_world(2)], simp)
  show ?thesis
  proof (intro backup_execution.intro backup_execution_axioms.intro)
    show "job_repository (eb_job_repository world_use_case) stored_jobs (\<lambda>w. persisted (job_rows w)) wf_job (\<lambda>w. clean_rows (job_rows w))"
      using wmanager.job_repository_axioms by (simp add: worker_ports world_manager_def)
    show "execute_keeps (\<lambda>s. stored_jobs s i \<noteq> None) world_use_case" for i
      by (rule use_case_keeps(2) [OF apart_views(1), of "\<lambda>J. J i \<noteq> None"])
    show "outcome_keeps (\<lambda>s. stored_jobs s = J) world_use_case" for J
      by (rule use_case_keeps(1) [OF apart_views(1), of "\<lambda>J'. J' = J"])
    show "keeps (\<lambda>s. stored_jobs s i \<noteq> None) (lm_acquire lm r ttl)" if "eb_lock_manager world_use_case = Some lm" for lm i r ttl
      using that lm(1) [of "\<lambda>J. J i \<noteq> None"] by (simp add: worker_ports)
    show "keeps (\<lambda>s. stored_jobs s = J) (lm_release lm r tok)" if "eb_lock_manager world_use_case = Some lm" for lm J r tok
      using that lm(2) [of "\<lambda>J'. J' = J"] by (simp add: worker_ports)
    show "valid_CollectionTarget t" "target_name t = (d, c)"
      if "be_backup_collection (eb_backup_engine world_use_case) d c p s = (Inr t, s')" for d c p s t s'
      using that by (simp_all add: worker_ports bare_engine)
  qed (simp_all add: worker_ports wf_path_def good_part_def slash_def)
qed

lemma world_keeps_request: "keeps_request (wk_shutdown_requested world_worker) world_use_case"
proof -
  have k: "execute_keeps (\<lambda>w. w_sigterm_after w \<noteq> None) world_use_case"
    using use_case_keeps(2) [OF apart_views(2), of "\<lambda>x. x \<noteq> None"] .
  have "repo_frames w_sigterm_after world_jobs" by (rule world_jobs_frames) simp
  then have "repo_keeps (\<lambda>w. w_sigterm_after w \<noteq> None) world_jobs"
    unfolding repo_keeps_def repo_frames_def
    by (intro conjI allI frames_keeps [where view = w_sigterm_after and P = "\<lambda>x. x \<noteq> None"]) simp_all
  moreover have "wk_shutdown_requested world_worker = (\<lambda>w. w_sigterm_after w \<noteq> None)" by (simp add: world_worker_def)
  moreover have "keeps (\<lambda>w. w_sigterm_after w \<noteq> None) (lm_acquire world_locks r ttl)" for r ttl
    by (rule frames_keeps [OF redis_frames_world(1)]) simp
  ultimately show ?thesis using k unfolding keeps_request_def by (auto simp: worker_ports(1,3))
qed

section \<open>Properties\<close>



text \<open>A worker that returned: its run returned too, and nothing after it touched the jobs.\<close>

lemma worker_returned:
  assumes contract: "worker_process h config engine ses" and start: "worker_started h config engine ses s s1"
    and quiet: "\<forall>m \<in> set (dbs_commit ses # reset_shutdown h # closings h config engine ses). frames jobs m"
    and run: "backup_worker_fn h job_id payload s = (Inr u, s')"
  obtains r t where "ExecuteBackupUseCase_execute (worker_use_case h config ses) (Some (cancel_check h)) job_id
      (wk_set_last_ui h 0 s1) = (Inr r, t)" "jobs s' = jobs t"
proof -
  obtain y s2 where body: "worker_body h config ses job_id payload s1 = (y, s2)" by force
  from worker_run [OF contract start body] run obtain s3 s4 s5 where
      closed: "worker_close h config s2 = (Inr (), s3)" "dbs_close ses s3 = (Inr (), s4)" "dispose_engine engine s4 = (Inr (), s5)"
      and y: "y = Inr ()" "s' = wk_set_shutdown h False s5" by auto
  from body_returns [OF body [unfolded y(1)]] obtain r t where
      r: "ExecuteBackupUseCase_execute (worker_use_case h config ses) (Some (cancel_check h)) job_id (wk_set_last_ui h 0 s1) = (Inr r, t)"
      and commit: "dbs_commit ses t = (Inr (), s2)" .
  have reset: "reset_shutdown h s5 = (Inr (), s')" by (simp add: reset_shutdown_def y(2))
  have cl: "\<forall>m \<in> set (closings h config engine ses). frames jobs m" and cm: "frames jobs (dbs_commit ses)"
    and rs: "frames jobs (reset_shutdown h)" using quiet by simp_all
  have same: "jobs s' = jobs t"
    using framesD [OF cm commit] framesD [OF close_frames(1) [OF cl] closed(1)] framesD [OF close_frames(2) [OF cl] closed(2)]
      framesD [OF close_frames(3) [OF cl] closed(3)] framesD [OF rs reset] by simp
  with r show thesis by (rule that)
qed

lemma world_quiet_end:
  "\<forall>m \<in> set (dbs_commit world_tables # reset_shutdown world_worker #
     closings world_worker sample_config world_database world_tables). frames stored_jobs m"
  by (simp only: list_all_iff [symmetric])
    (auto simp: frames_def closings_def late_closings_def aioredis_closing_def reset_shutdown_def dispose_engine_def
      worker_mongo_def worker_redis_def worker_bot_def worker_aioredis_def world_worker_def world_libraries_def
      world_database_def world_tables_def world_bot_def MongoConnection_close_def RedisConnection_close_def
      AiogramBot_shutdown_def set_open_def thenM_run)

lemma world_worker_returns:
  assumes dto: "execute_dto (wk_lax_int world_worker) i payload = Inr dto"
    and start: "worker_started world_worker sample_config world_database world_tables w (opened w)"
    and run: "\<exists>r. fst (ExecuteBackupUseCase_execute world_use_case (Some (cancel_check world_worker)) i
      (wk_set_last_ui world_worker 0 (opened w))) = Inr r"
  shows "\<exists>w'. backup_worker_fn world_worker i payload w = (Inr (), w')"
proof -
  obtain r where "fst (ExecuteBackupUseCase_execute world_use_case (Some (cancel_check world_worker)) i
      (wk_set_last_ui world_worker 0 (opened w))) = Inr r" using run by blast
  note r = fst_run [of "ExecuteBackupUseCase_execute world_use_case (Some (cancel_check world_worker)) i", OF this]
  have "worker_body world_worker sample_config world_tables i payload (opened w) =
      (Inr (), snd (ExecuteBackupUseCase_execute world_use_case (Some (cancel_check world_worker)) i
        (wk_set_last_ui world_worker 0 (opened w))))"
    using body_run [OF dto r] by (simp add: world_tables_def)
  from worker_run [OF wworker.worker_process_axioms start this] show ?thesis by blast
qed




end
