(* ===== verification/Delivery.thy ===== *)
theory Delivery
  imports WorkerRuns
begin

text \<open>
  A backup from its request in the bot to its end in the worker: the payload that travels through the queue
  (\<open>enqueue_payload\<close> of \<^verbatim>\<open>job_manager.py\<close>, read back by \<open>execute_dto\<close> of \<^verbatim>\<open>backup_worker.py\<close>) and the
  composition of \<open>RequestBackupUseCase_execute\<close> with \<open>backup_worker_fn\<close> over the shared job table.
\<close>

section \<open>The payload\<close>

lemma payload_int_opt: "map_of payload k = Some (opt_int x) \<Longrightarrow> payload_int lax payload k = Inr x"
  by (cases x) (simp_all add: payload_int_def opt_int_def)

text \<open>C7. The worker reads from the payload of a job what the bot put in: the chat, the topic and the status message of
  the job, whatever pydantic would make of other values; there is no correlation id, and the other entries are
  ignored.\<close>

theorem payload_round_trip:
  "execute_dto lax i (Some (enqueue_payload job)) =
     (if i = [] then Inl (ValidationError ''ExecuteBackupDto'')
      else Inr \<lparr>ebd_job_id = i, ebd_chat_id = bj_chat_id job, ebd_topic_id = bj_topic_id job,
                ebd_status_message_id = bj_status_message_id job, ebd_correlation_id = None\<rparr>)"
proof -
  have "payload_int lax (enqueue_payload job) ''chat_id'' = Inr (bj_chat_id job)"
    "payload_int lax (enqueue_payload job) ''topic_id'' = Inr (bj_topic_id job)"
    "payload_int lax (enqueue_payload job) ''status_message_id'' = Inr (bj_status_message_id job)"
    by (rule payload_int_opt, simp add: enqueue_payload_def)+
  moreover have "payload_str (enqueue_payload job) ''correlation_id'' = Inr None"
    by (simp add: payload_str_def enqueue_payload_def)
  ultimately show ?thesis
    by (simp add: execute_dto_def bind_sum_def validated_def)
qed

section \<open>From the request to the end of the run\<close>


text \<open>The sample request, and a worker that starts when a shutdown has already been asked for.\<close>

definition delivery_world :: world where
  "delivery_world = requested_world\<lparr>w_sigterm_after := Some 0\<rparr>"

lemma delivery_run: "\<exists>r. fst (ExecuteBackupUseCase_execute world_use_case (Some (cancel_check world_worker)) ''j''
    (wk_set_last_ui world_worker 0 (opened delivery_world))) = Inr r"
  by (simp add: delivery_world_def requested_world_def sample_defs worker_run_defs
      del: notify_final_def release_oserror_def world_locks_def cong: exec_cong)


end
