(* ===== verification/Tooling.thy ===== *)
theory Tooling
  imports Logging
begin

text \<open>
  \<^verbatim>\<open>scripts/run_mypy.py\<close>, the hook that looks for an interpreter which has mypy and runs it. The file system, the
  processes and the environment are a parameter; a path and its spelling are the platform's (\<open>th_path\<close>, \<open>th_str\<close>), and
  \<open>/\<close> is only applied to plain names.
\<close>

definition system_exit :: "int \<Rightarrow> ('s, 'a) M" where
  "system_exit code = raiseM (OtherException ''SystemExit'' (str_int code))"

section \<open>The host\<close>

record 's tool_host =
  th_platform :: string
  th_root :: path \<comment> \<open>the root of the repository\<close>
  th_environ :: "string \<Rightarrow> string option"
  th_home :: "('s, path) M"
  th_path :: "string \<Rightarrow> path"
  th_str :: "path \<Rightarrow> string"
  th_exists :: "path \<Rightarrow> ('s, bool) M"
  th_is_dir :: "path \<Rightarrow> ('s, bool) M"
  th_iterdir :: "path \<Rightarrow> ('s, path list) M"
  th_run :: "string list \<Rightarrow> ('s, int \<times> string) M" \<comment> \<open>\<open>subprocess.run\<close>: return code and standard output\<close>
  th_load_toml :: "path \<Rightarrow> ('s, pyval) M"

text \<open>\<open>check=True\<close>\<close>

definition is_CalledProcessError :: "exn \<Rightarrow> bool" where
  "is_CalledProcessError e = (case e of OtherException c _ \<Rightarrow> c = ''CalledProcessError'' | _ \<Rightarrow> False)"

definition is_FileNotFoundError :: "exn \<Rightarrow> bool" where
  "is_FileNotFoundError e = (case e of FileNotFoundError _ \<Rightarrow> True | _ \<Rightarrow> False)"

definition checked_run :: "'s tool_host \<Rightarrow> string list \<Rightarrow> ('s, string) M" where
  "checked_run th cmd =
     bindM (th_run th cmd) (\<lambda>(code, out).
     if code = 0 then returnM out else raiseM (OtherException ''CalledProcessError'' (str_int code)))"

definition has_mypy :: "'s tool_host \<Rightarrow> path \<Rightarrow> ('s, bool) M" where
  "has_mypy th python =
     tryM (thenM (checked_run th [th_str th python, ''-c'', ''import mypy'']) (returnM True))
       (\<lambda>e. if is_CalledProcessError e then returnM False else raiseM e)"

section \<open>The searches\<close>

definition python_exe :: "path \<Rightarrow> path" where
  "python_exe venv = path_div (path_div venv ''Scripts'') ''python.exe''"

fun venv_candidates :: "'s tool_host \<Rightarrow> string list \<Rightarrow> ('s, path list) M" where
  "venv_candidates th [] = returnM []"
| "venv_candidates th (n # ns) =
     bindM (th_exists th (path_div (path_div (th_root th) n) ''Scripts'')) (\<lambda>b.
     bindM (venv_candidates th ns) (\<lambda>cs.
     returnM (if b then python_exe (path_div (th_root th) n) # cs else cs)))"

fun first_with_mypy :: "'s tool_host \<Rightarrow> path list \<Rightarrow> ('s, path option) M" where
  "first_with_mypy th [] = returnM None"
| "first_with_mypy th (cand # cands) =
     bindM (th_exists th cand) (\<lambda>b.
     bindM (if b then has_mypy th cand else returnM False) (\<lambda>ok.
     if ok then returnM (Some cand) else first_with_mypy th cands))"

definition find_venv_python :: "'s tool_host \<Rightarrow> ('s, path option) M" where
  "find_venv_python th =
     bindM (venv_candidates th [''virtual_env'', ''.venv'', ''venv'', ''.env'']) (first_with_mypy th)"

fun first_existing :: "'s tool_host \<Rightarrow> path list \<Rightarrow> ('s, path option) M" where
  "first_existing th [] = returnM None"
| "first_existing th (cand # cands) =
     bindM (th_exists th cand) (\<lambda>b. if b then returnM (Some cand) else first_existing th cands)"

text \<open>A variable that is set and not empty.\<close>

definition env_path :: "'s tool_host \<Rightarrow> string \<Rightarrow> path option" where
  "env_path th k = (case th_environ th k of None \<Rightarrow> None | Some v \<Rightarrow> if v = [] then None else Some (th_path th v))"

definition below :: "path \<Rightarrow> string list \<Rightarrow> path" where
  "below p names = foldl path_div p names"

definition find_poetry_exe :: "'s tool_host \<Rightarrow> ('s, path option) M" where
  "find_poetry_exe th =
     bindM (th_home th) (\<lambda>home.
     first_existing th
       ((case env_path th ''APPDATA'' of None \<Rightarrow> [] | Some p \<Rightarrow> [below p [''Python'', ''Scripts'', ''poetry.exe'']]) @
        (case env_path th ''LOCALAPPDATA'' of None \<Rightarrow> []
         | Some p \<Rightarrow> [below p [''Programs'', ''Python'', ''Python310'', ''Scripts'', ''poetry.exe'']]) @
        [below home [''.poetry'', ''bin'', ''poetry'']]))"

text \<open>\<open>startswith\<close> of a name that is not a string raises \<open>TypeError\<close>.\<close>

definition starts_with :: "string \<Rightarrow> pyval \<Rightarrow> ('s, bool) M" where
  "starts_with s v = (case v of PStr p \<Rightarrow> returnM (prefix p s)
     | _ \<Rightarrow> raiseM (OtherException ''TypeError'' ''startswith first arg must be str or a tuple of str''))"

fun scan_cache :: "'s tool_host \<Rightarrow> pyval \<Rightarrow> path list \<Rightarrow> ('s, path option) M" where
  "scan_cache th name [] = returnM None"
| "scan_cache th name (e # es) =
     bindM (th_is_dir th e) (\<lambda>d.
     bindM (if d then starts_with (path_name e) name else returnM False) (\<lambda>ours.
     bindM (if ours then th_exists th (python_exe e) else returnM False) (\<lambda>b.
     bindM (if b then has_mypy th (python_exe e) else returnM False) (\<lambda>ok.
     if ok then returnM (Some (python_exe e)) else scan_cache th name es))))"

definition find_poetry_venv_from_cache :: "'s tool_host \<Rightarrow> pyval \<Rightarrow> ('s, path option) M" where
  "find_poetry_venv_from_cache th name = (case env_path th ''LOCALAPPDATA'' of
     None \<Rightarrow> returnM None
   | Some p \<Rightarrow>
       let cache_dir = below p [''pypoetry'', ''Cache'', ''virtualenvs''] in
       bindM (th_exists th cache_dir) (\<lambda>b.
       if \<not> b then returnM None else bindM (th_iterdir th cache_dir) (scan_cache th name)))"

text \<open>\<open>data.get(k, default)\<close>, which only a dictionary has.\<close>

definition py_get :: "pyval \<Rightarrow> string \<Rightarrow> pyval \<Rightarrow> exn + pyval" where
  "py_get v k d = (case v of PDict kvs \<Rightarrow> Inr (case map_of kvs k of None \<Rightarrow> d | Some x \<Rightarrow> x)
     | _ \<Rightarrow> Inl (AttributeError ''get''))"

definition poetry_name :: "pyval \<Rightarrow> exn + pyval" where
  "poetry_name data =
     bind_sum (py_get data ''tool'' (PDict [])) (\<lambda>tool.
     bind_sum (py_get tool ''poetry'' (PDict [])) (\<lambda>poetry. py_get poetry ''name'' PNone))"

definition read_project_name :: "'s tool_host \<Rightarrow> ('s, pyval) M" where
  "read_project_name th =
     (let pyproject = path_div (th_root th) ''pyproject.toml'' in
      bindM (th_exists th pyproject) (\<lambda>b.
      if \<not> b then returnM PNone
      else tryM (bindM (th_load_toml th pyproject) (\<lambda>data. liftE (poetry_name data))) (\<lambda>e. returnM PNone)))"

text \<open>The interpreter of the environment that poetry names; \<open>None\<close> goes on to the cache.\<close>

definition ask_poetry :: "'s tool_host \<Rightarrow> path \<Rightarrow> ('s, path option) M" where
  "ask_poetry th poetry =
     tryM
       (bindM (checked_run th [th_str th poetry, ''env'', ''info'', ''--path'']) (\<lambda>out.
        let python = python_exe (th_path th (py_strip out)) in
        bindM (th_exists th python) (\<lambda>b.
        bindM (if b then has_mypy th python else returnM False) (\<lambda>ok.
        returnM (if ok then Some python else None)))))
       (\<lambda>e. if is_CalledProcessError e \<or> is_FileNotFoundError e then returnM None else raiseM e)"

definition find_poetry_python :: "'s tool_host \<Rightarrow> ('s, path option) M" where
  "find_poetry_python th =
     bindM (find_poetry_exe th) (\<lambda>poetry.
     bindM (case poetry of None \<Rightarrow> returnM None | Some p \<Rightarrow> ask_poetry th p) (\<lambda>found.
     case found of
       Some python \<Rightarrow> returnM (Some python)
     | None \<Rightarrow> bindM (read_project_name th) (\<lambda>name.
                if truth name then find_poetry_venv_from_cache th name else returnM None)))"

definition select_python :: "'s tool_host \<Rightarrow> ('s, path option) M" where
  "select_python th =
     bindM (if th_platform th = ''win32'' then find_venv_python th else returnM None) (\<lambda>python.
     if python = None then find_poetry_python th else returnM python)"

definition mypy_command :: "'s tool_host \<Rightarrow> path \<Rightarrow> string list" where
  "mypy_command th p = [th_str th p, ''-m'', ''mypy'', ''app/'', ''tests/'', ''alembic/'']"

definition run_mypy :: "'s tool_host \<Rightarrow> ('s, unit) M" where
  "run_mypy th =
     bindM (select_python th) (\<lambda>python.
     case python of
       None \<Rightarrow> system_exit 1
     | Some p \<Rightarrow> bindM (th_run th (mypy_command th p)) (\<lambda>(code, _). system_exit code))"

section \<open>What is found\<close>

text \<open>An interpreter that was seen to exist and to import mypy, under the name a Windows environment gives it.\<close>

definition vetted :: "'s tool_host \<Rightarrow> path \<Rightarrow> bool" where
  "vetted th p \<longleftrightarrow>
     (\<exists>venv. p = python_exe venv) \<and> (\<exists>s s'. th_exists th p s = (Inr True, s')) \<and>
     (\<exists>s out s'. th_run th [th_str th p, ''-c'', ''import mypy''] s = (Inr (0, out), s'))"

lemma has_mypy_True:
  "has_mypy th p s = (Inr True, s') \<Longrightarrow> \<exists>out s1. th_run th [th_str th p, ''-c'', ''import mypy''] s = (Inr (0, out), s1)"
  by (auto simp: has_mypy_def checked_run_def run_simps returnM_def raiseM_def split: prod.splits sum.splits if_splits)

lemma vettedI:
  "p = python_exe venv \<Longrightarrow> th_exists th p s = (Inr True, s1) \<Longrightarrow> has_mypy th p s2 = (Inr True, s3) \<Longrightarrow> vetted th p"
  unfolding vetted_def by (intro conjI) (blast, blast, drule has_mypy_True, blast)

lemma venv_candidates_exe:
  "venv_candidates th ns s = (Inr cs, s') \<Longrightarrow> c \<in> set cs \<Longrightarrow> \<exists>venv. c = python_exe venv"
  by (induction ns arbitrary: cs s) (fastforce simp: bindM_eq_Inr returnM_def split: if_splits)+

lemma first_with_mypy_vetted:
  "first_with_mypy th cs s = (Inr (Some p), s') \<Longrightarrow> (\<And>c. c \<in> set cs \<Longrightarrow> \<exists>venv. c = python_exe venv) \<Longrightarrow> vetted th p"
proof (induction cs arbitrary: s)
  case (Cons c cs)
  then obtain b s1 ok s2 where "th_exists th c s = (Inr b, s1)" "(if b then has_mypy th c else returnM False) s1 = (Inr ok, s2)"
    "(if ok then returnM (Some c) else first_with_mypy th cs) s2 = (Inr (Some p), s')"
    by (auto simp: bindM_eq_Inr)
  with Cons show ?case by (auto simp: returnM_def split: if_splits intro: vettedI)
qed (simp add: returnM_def)

lemma scan_cache_vetted: "scan_cache th name es s = (Inr (Some p), s') \<Longrightarrow> vetted th p"
proof (induction es arbitrary: s)
  case (Cons e es)
  then obtain s1 ours s2 b s3 ok s4 where "(if ours then th_exists th (python_exe e) else returnM False) s1 = (Inr b, s2)"
    "(if b then has_mypy th (python_exe e) else returnM False) s3 = (Inr ok, s4)"
    "(if ok then returnM (Some (python_exe e)) else scan_cache th name es) s4 = (Inr (Some p), s')"
    by (auto simp: bindM_eq_Inr)
  with Cons.IH show ?case by (auto simp: returnM_def split: if_splits intro: vettedI)
qed (simp add: returnM_def)

lemma tryM_None:
  "tryM m (\<lambda>e. if P e then returnM None else raiseM e) s = (Inr (Some p), s') \<Longrightarrow> m s = (Inr (Some p), s')"
  by (auto simp: tryM_def returnM_def raiseM_def split: prod.splits sum.splits if_splits)

lemma ask_poetry_vetted: "ask_poetry th poetry s = (Inr (Some p), s') \<Longrightarrow> vetted th p"
  unfolding ask_poetry_def Let_def
  by (drule tryM_None) (auto simp: bindM_eq_Inr returnM_def split: if_splits intro: vettedI)

lemma find_venv_vetted: "find_venv_python th s = (Inr (Some p), s') \<Longrightarrow> vetted th p"
  unfolding find_venv_python_def by (erule bindM_InrE) (blast intro: first_with_mypy_vetted venv_candidates_exe)

lemma find_cache_vetted: "find_poetry_venv_from_cache th name s = (Inr (Some p), s') \<Longrightarrow> vetted th p"
  by (auto simp: find_poetry_venv_from_cache_def Let_def bindM_eq_Inr returnM_def
      split: option.splits if_splits intro: scan_cache_vetted)

lemma find_poetry_vetted: "find_poetry_python th s = (Inr (Some p), s') \<Longrightarrow> vetted th p"
  unfolding find_poetry_python_def
  by (auto simp: bindM_eq_Inr returnM_def split: option.splits if_splits intro: ask_poetry_vetted find_cache_vetted)

text \<open>
  Once the search has returned, the script exits with 1 when it found nothing, and otherwise with the code of mypy run by a vetted
  interpreter, whose path ends in \<^verbatim>\<open>Scripts/python.exe\<close> on every platform.
\<close>

lemma run_mypy_outcome:
  assumes "select_python th s = (Inr found, s1)"
  shows "case found of
      None \<Rightarrow> run_mypy th s = (Inl (OtherException ''SystemExit'' (str_int 1)), s1)
    | Some p \<Rightarrow> vetted th p \<and> (\<forall>code out s2. th_run th (mypy_command th p) s1 = (Inr (code, out), s2) \<longrightarrow>
        run_mypy th s = (Inl (OtherException ''SystemExit'' (str_int code)), s2))"
proof (cases found)
  case None
  then show ?thesis using assms by (simp add: run_mypy_def system_exit_def run_simps)
next
  case (Some p)
  have "vetted th p"
    using assms Some
    by (auto simp: select_python_def bindM_eq_Inr returnM_def split: if_splits intro: find_venv_vetted find_poetry_vetted)
  then show ?thesis using assms Some by (simp add: run_mypy_def system_exit_def run_simps)
qed

text \<open>Where no file is called \<^verbatim>\<open>python.exe\<close>, as in the environments of other platforms, nothing is ever found.\<close>

lemma run_mypy_elsewhere:
  assumes "\<And>venv s s'. th_exists th (python_exe venv) s \<noteq> (Inr True, s')" "select_python th s = (Inr found, s1)"
  shows "run_mypy th s = (Inl (OtherException ''SystemExit'' (str_int 1)), s1)"
proof -
  have "\<not> vetted th p" for p using assms(1) by (auto simp: vetted_def)
  then show ?thesis using run_mypy_outcome [OF assms(2)] by (cases found) auto
qed

end
