(* ===== verification/Lifecycle.thy ===== *)
theory Lifecycle
  imports Routers Worker Tooling
begin

text \<open>
  The processes around the bot: \<open>start\<close> and \<open>stop\<close> of the inactivity monitor, \<open>BotBuilder\<close> of
  \<^verbatim>\<open>app/telegram/bot.py\<close>, \<^verbatim>\<open>app/__main__.py\<close>, and the scripts \<^verbatim>\<open>scripts/init_db.py\<close> and \<^verbatim>\<open>scripts/add_user.py\<close>.
  The settings, the database and the clients come from the same host as the worker's; polling is a
  parameter that gets the dispatcher. Printed lines are left out.
\<close>

section \<open>The task of the monitor\<close>

datatype task = Running | Done

record 's monitor_task =
  mt_monitor :: "'s FSMTimeoutMonitor"
  mt_task :: "'s \<Rightarrow> task option"
  mt_set_task :: "task option \<Rightarrow> 's \<Rightarrow> 's"
  mt_cancel :: "('s, unit) M" \<comment> \<open>cancel the task and wait for it\<close>
  mt_close_redis :: "('s, unit) M"

definition FSMTimeoutMonitor_start :: "'s monitor_task \<Rightarrow> ('s, unit) M" where
  "FSMTimeoutMonitor_start mt = (\<lambda>s.
     if mt_task mt s = Some Running then (Inr (), s) else (Inr (), mt_set_task mt (Some Running) s))"

definition FSMTimeoutMonitor_stop :: "'s monitor_task \<Rightarrow> ('s, unit) M" where
  "FSMTimeoutMonitor_stop mt =
     thenM (\<lambda>s. if mt_task mt s \<noteq> None
                then thenM (mt_cancel mt) (\<lambda>s. (Inr (), mt_set_task mt None s)) s
                else (Inr (), s))
           (mt_close_redis mt)"

section \<open>The bot\<close>

record 's app_host =
  ap_host :: "'s worker_host"
  ap_chat :: "'s chat" \<comment> \<open>the aiogram bot with its packing of payloads\<close>
  ap_bot_id :: int
  ap_storage :: "'s FSMStorage" \<comment> \<open>\<open>RedisStorage\<close>\<close>
  ap_command :: "Message \<Rightarrow> string option"
  ap_first_error :: "exn + UserPrincipalDto \<Rightarrow> int \<Rightarrow> string \<Rightarrow> string"
  ap_surroundings :: "'s surroundings"
  ap_monitor :: "AppConfig \<Rightarrow> 's monitor_task" \<comment> \<open>\<open>FSMTimeoutMonitor(bot, storage, config)\<close>\<close>
  ap_poll :: "('s, unit) handler \<Rightarrow> ('s, unit) M" \<comment> \<open>\<open>start_polling\<close>\<close>

definition bot_parts :: "'s app_host \<Rightarrow> 's TelegramDependencies \<Rightarrow> 's bot" where
  "bot_parts ap td =
     \<lparr>bt_chat = ap_chat ap, bt_deps = td, bt_storage = ap_storage ap, bt_id = ap_bot_id ap, bt_command = ap_command ap,
      bt_first_error = ap_first_error ap\<rparr>"

text \<open>
  With the dependencies of the middlewares, which \<open>main\<close> always gives; the middlewares get the live bot before
  they are built.
\<close>

definition BotBuilder_start ::
  "'s app_host \<Rightarrow> AppConfig \<Rightarrow> 's db_session \<Rightarrow> 's MiddlewareDependencies \<Rightarrow>
   ('s, ('s, unit) handler \<times> 's TelegramDependencies) M" where
  "BotBuilder_start ap config ses deps =
     thenM (AiogramBot_start (worker_bot (ap_host ap) config))
    (bindM (AiogramBot_bot (worker_bot (ap_host ap) config)) (\<lambda>_.
     let live = deps\<lparr>mdp_bot := Some (ch_bot (ap_chat ap))\<rparr> in
     bindM (build_telegram_dependencies (wk_libraries (ap_host ap)) config (dbs_jobs ses) (dbs_users ses)
              (dbs_audit_logs ses) (dbs_rates ses)) (\<lambda>td.
     thenM (FSMTimeoutMonitor_start (ap_monitor ap config))
           (returnM (create_dispatcher (ap_surroundings ap) (Some live) (bot_parts ap td), td)))))"

definition BotBuilder_shutdown :: "'s app_host \<Rightarrow> AppConfig \<Rightarrow> 's TelegramDependencies \<Rightarrow> ('s, unit) M" where
  "BotBuilder_shutdown ap config td =
     thenM (FSMTimeoutMonitor_stop (ap_monitor ap config))
    (thenM (MongoConnection_close (td_mongo_connection td))
    (thenM (RedisConnection_close (td_redis_connection td))
    (thenM (wk_close_aioredis (ap_host ap) (td_aioredis_client td))
           (AiogramBot_shutdown (worker_bot (ap_host ap) config)))))"

text \<open>
  \<open>main\<close>; the tables are what the session factory gives. An exception before polling starts closes nothing.
\<close>

definition main_dependencies :: "'s worker_host \<Rightarrow> AppConfig \<Rightarrow> 's db_session \<Rightarrow> 's MiddlewareDependencies" where
  "main_dependencies h config ses =
     \<lparr>mdp_config = config, mdp_users = dbs_users ses, mdp_audit_logs = dbs_audit_logs ses, mdp_rates = dbs_rates ses,
      mdp_permission_service = Some default_service, mdp_audit_service = None,
      mdp_redis_async_client = Some (worker_aioredis h config), mdp_bot = None\<rparr>"

definition main :: "'s app_host \<Rightarrow> ('s db_engine \<Rightarrow> 's db_session) \<Rightarrow> ('s, unit) M" where
  "main ap tables =
     bindM (wk_config (ap_host ap)) (\<lambda>config.
     bindM (create_engine (wk_create_async_engine (ap_host ap)) config) (\<lambda>engine.
     thenM (init_database engine)
    (bindM (BotBuilder_start ap config (tables engine) (main_dependencies (ap_host ap) config (tables engine))) (\<lambda>(dp, td).
     finallyM (ap_poll ap dp)
       (thenM (BotBuilder_shutdown ap config td)
       (thenM (dispose_engine engine) (wk_close_aioredis (ap_host ap) (worker_aioredis (ap_host ap) config))))))))"

section \<open>Scripts\<close>

definition init_db :: "'s worker_host \<Rightarrow> ('s, unit) M" where
  "init_db h =
     bindM (wk_config h) (\<lambda>config.
     bindM (create_engine (wk_create_async_engine h) config) (\<lambda>engine.
     finallyM (init_database engine) (dispose_engine engine)))"

definition add_user_script :: "'s worker_host \<Rightarrow> int \<Rightarrow> string \<Rightarrow> UserRole \<Rightarrow> ('s, unit) M" where
  "add_user_script h telegram_id username role =
     bindM (wk_config h) (\<lambda>config.
     bindM (create_engine (wk_create_async_engine h) config) (\<lambda>engine.
     thenM (init_database engine)
    (thenM (with_session engine (\<lambda>ses.
       let repo = SQLUserRepository (dbs_users ses) in
       bindM (ur_get_by_telegram_id repo telegram_id) (\<lambda>existing.
       if existing \<noteq> None then thenM (de_dispose engine) (system_exit 1)
       else bindM (rt_now (lb_runtime (wk_libraries h))) (\<lambda>now.
            bindM (liftE (mk_User telegram_id (Some username) role True now)) (\<lambda>user.
            thenM (ur_save repo user) (dbs_commit ses))))))
       (de_dispose engine))))"

text \<open>\<open>role\<close> is one of the choices of the parser, so \<open>UserRole(args.role)\<close> does not fail.\<close>

definition add_user_main :: "'s worker_host \<Rightarrow> int \<Rightarrow> string \<Rightarrow> string \<Rightarrow> ('s, unit) M" where
  "add_user_main h telegram_id username role =
     (if telegram_id \<le> 0 then system_exit 1
      else bindM (liftE (parse_role role)) (add_user_script h telegram_id username))"

section \<open>What they end with\<close>

text \<open>Whatever ended the polling is what \<open>main\<close> ends with, when the closings answer.\<close>

lemma main_result:
  assumes "wk_config (ap_host ap) s = (Inr config, s1)"
    and "create_engine (wk_create_async_engine (ap_host ap)) config s1 = (Inr engine, s2)" "init_database engine s2 = (Inr (), s3)"
    and "BotBuilder_start ap config (tables engine) (main_dependencies (ap_host ap) config (tables engine)) s3 = (Inr (dp, td), s4)"
    and poll: "ap_poll ap dp s4 = (x, s5)"
    and closing: "total (BotBuilder_shutdown ap config td)" "total (dispose_engine engine)"
      "total (wk_close_aioredis (ap_host ap) (worker_aioredis (ap_host ap) config))"
  shows "fst (main ap tables s) = x"
proof -
  have "total (thenM (BotBuilder_shutdown ap config td)
      (thenM (dispose_engine engine) (wk_close_aioredis (ap_host ap) (worker_aioredis (ap_host ap) config))))"
    using closing by (simp add: thenM_def total_bind)
  then obtain y t where "thenM (BotBuilder_shutdown ap config td)
      (thenM (dispose_engine engine) (wk_close_aioredis (ap_host ap) (worker_aioredis (ap_host ap) config))) s5 = (Inr y, t)"
    by (rule totalE)
  then show ?thesis using assms(1-3) poll assms(4) by (simp add: main_def bindM_run thenM_run finallyM_run)
qed

text \<open>A user that is not there is added as an active one; one that is there stops the script before anything is written.\<close>

lemma add_user_script_existing:
  assumes "wk_config h s = (Inr config, s1)" "create_engine (wk_create_async_engine h) config s1 = (Inr engine, s2)"
    and "init_database engine s2 = (Inr (), s3)" "de_open_session engine s3 = (Inr ses, s4)"
    and found: "ur_get_by_telegram_id (SQLUserRepository (dbs_users ses)) tid s4 = (Inr (Some u), s5)"
    and closing: "total (de_dispose engine)" "total (dbs_close ses)"
  shows "fst (add_user_script h tid name role s) = Inl (OtherException ''SystemExit'' (str_int 1))"
proof -
  obtain s6 where "de_dispose engine s5 = (Inr (), s6)" using closing(1) by (auto simp: total_def returns_def)
  moreover obtain s7 where "dbs_close ses s6 = (Inr (), s7)" using closing(2) by (auto simp: total_def returns_def)
  ultimately show ?thesis
    using assms(1-5) by (simp add: add_user_script_def with_session_def system_exit_def Let_def run_simps)
qed

end
