(* ===== verification/Events.thy ===== *)
theory Events
  imports Ports
begin

text \<open>
  \<^verbatim>\<open>app/domain/events/domain_events.py\<close>: the payloads of the domain events and their envelope. A time that is not
  given is the clock's. The envelope takes any payload: the static type of each factory's argument is not
  checked when the program runs.
\<close>

datatype EventPayload =
    BackupRequestedPayload string int BackupType string \<comment> \<open>job, requester, type, hash of the cluster\<close>
  | BackupStartedPayload string datetime
  | CollectionBackupCompletedPayload string CollectionTarget
  | BackupCompletedPayload string JobStatus datetime
  | BackupFailedPayload string "string option" datetime
  | JobCancelledPayload string int datetime
  | SizeQueriedPayload string int

fun valid_EventPayload :: "EventPayload \<Rightarrow> bool" where
  "valid_EventPayload (BackupRequestedPayload job requester type cluster) \<longleftrightarrow> job \<noteq> [] \<and> 0 < requester \<and> is_sha256_hex cluster"
| "valid_EventPayload (BackupStartedPayload job t) \<longleftrightarrow> job \<noteq> []"
| "valid_EventPayload (CollectionBackupCompletedPayload job result) \<longleftrightarrow> job \<noteq> []"
| "valid_EventPayload (BackupCompletedPayload job status t) \<longleftrightarrow> job \<noteq> []"
| "valid_EventPayload (BackupFailedPayload job error_log t) \<longleftrightarrow> job \<noteq> []"
| "valid_EventPayload (JobCancelledPayload job by_id t) \<longleftrightarrow> job \<noteq> [] \<and> 0 < by_id"
| "valid_EventPayload (SizeQueriedPayload cluster requester) \<longleftrightarrow> is_sha256_hex cluster \<and> 0 < requester"

definition payload :: "EventPayload \<Rightarrow> exn + EventPayload" where
  "payload p = validated valid_EventPayload ''EventPayload'' p"

text \<open>A field with \<open>default_factory=lambda: datetime.now(timezone.utc)\<close>.\<close>

definition stamped :: "'s Runtime \<Rightarrow> datetime option \<Rightarrow> (datetime \<Rightarrow> EventPayload) \<Rightarrow> ('s, EventPayload) M" where
  "stamped rt t f = bindM (case t of None \<Rightarrow> rt_now rt | Some t' \<Rightarrow> returnM t') (\<lambda>t'. liftE (payload (f t')))"

definition mk_BackupStartedPayload :: "'s Runtime \<Rightarrow> string \<Rightarrow> datetime option \<Rightarrow> ('s, EventPayload) M" where
  "mk_BackupStartedPayload rt job t = stamped rt t (BackupStartedPayload job)"

definition mk_BackupCompletedPayload :: "'s Runtime \<Rightarrow> string \<Rightarrow> JobStatus \<Rightarrow> datetime option \<Rightarrow> ('s, EventPayload) M" where
  "mk_BackupCompletedPayload rt job status t = stamped rt t (BackupCompletedPayload job status)"

definition mk_BackupFailedPayload :: "'s Runtime \<Rightarrow> string \<Rightarrow> string option \<Rightarrow> datetime option \<Rightarrow> ('s, EventPayload) M" where
  "mk_BackupFailedPayload rt job error_log t = stamped rt t (BackupFailedPayload job error_log)"

definition mk_JobCancelledPayload :: "'s Runtime \<Rightarrow> string \<Rightarrow> int \<Rightarrow> datetime option \<Rightarrow> ('s, EventPayload) M" where
  "mk_JobCancelledPayload rt job by_id t = stamped rt t (JobCancelledPayload job by_id)"

record DomainEvent =
  ev_event_type :: string
  ev_occurred_on :: datetime
  ev_correlation_id :: "string option"
  ev_payload :: EventPayload

definition mk_DomainEvent :: "'s Runtime \<Rightarrow> string \<Rightarrow> string option \<Rightarrow> EventPayload \<Rightarrow> ('s, DomainEvent) M" where
  "mk_DomainEvent rt event_type correlation_id p =
     bindM (rt_now rt) (\<lambda>t. liftE (validated (\<lambda>e. ev_event_type e \<noteq> []) ''DomainEvent''
       \<lparr>ev_event_type = event_type, ev_occurred_on = t, ev_correlation_id = correlation_id, ev_payload = p\<rparr>))"

definition backup_requested :: "'s Runtime \<Rightarrow> EventPayload \<Rightarrow> string option \<Rightarrow> ('s, DomainEvent) M" where
  "backup_requested rt p cid = mk_DomainEvent rt ''BACKUP_REQUESTED'' cid p"

definition backup_started :: "'s Runtime \<Rightarrow> EventPayload \<Rightarrow> string option \<Rightarrow> ('s, DomainEvent) M" where
  "backup_started rt p cid = mk_DomainEvent rt ''BACKUP_STARTED'' cid p"

definition collection_backup_completed :: "'s Runtime \<Rightarrow> EventPayload \<Rightarrow> string option \<Rightarrow> ('s, DomainEvent) M" where
  "collection_backup_completed rt p cid = mk_DomainEvent rt ''COLLECTION_BACKUP_COMPLETED'' cid p"

definition backup_completed :: "'s Runtime \<Rightarrow> EventPayload \<Rightarrow> string option \<Rightarrow> ('s, DomainEvent) M" where
  "backup_completed rt p cid = mk_DomainEvent rt ''BACKUP_COMPLETED'' cid p"

definition backup_failed :: "'s Runtime \<Rightarrow> EventPayload \<Rightarrow> string option \<Rightarrow> ('s, DomainEvent) M" where
  "backup_failed rt p cid = mk_DomainEvent rt ''BACKUP_FAILED'' cid p"

definition job_cancelled :: "'s Runtime \<Rightarrow> EventPayload \<Rightarrow> string option \<Rightarrow> ('s, DomainEvent) M" where
  "job_cancelled rt p cid = mk_DomainEvent rt ''JOB_CANCELLED'' cid p"

definition size_queried :: "'s Runtime \<Rightarrow> EventPayload \<Rightarrow> string option \<Rightarrow> ('s, DomainEvent) M" where
  "size_queried rt p cid = mk_DomainEvent rt ''SIZE_QUERIED'' cid p"

lemmas event_factories = backup_requested_def backup_started_def collection_backup_completed_def backup_completed_def
  backup_failed_def job_cancelled_def size_queried_def

text \<open>An event carries its payload as it was given, and fails only when the clock does.\<close>

lemma event_made:
  assumes "rt_now rt s = (Inr t, s')" "event_type \<noteq> []"
  shows "mk_DomainEvent rt event_type cid p s =
    (Inr \<lparr>ev_event_type = event_type, ev_occurred_on = t, ev_correlation_id = cid, ev_payload = p\<rparr>, s')"
  using assms by (simp add: mk_DomainEvent_def bindM_run validated_def)

end
