(* ===== verification/Spec2Isabelle.thy ===== *)
theory Spec2Isabelle
  imports Conversation SizePages UserButtons Delivery Lifecycle Events
begin

text \<open>
  A model of \<^verbatim>\<open>local-backup-mongo-collections\<close>, a service that dumps MongoDB collections with
  \<^verbatim>\<open>mongodump\<close> on request of Telegram users. The bot checks a request and puts a job in a queue; a
  worker takes the job and dumps its collections one after the other; a retention manager deletes old
  archives. This theory imports all others and holds no definitions of its own.

  \<^bold>\<open>How the code is modelled.\<close> Every method is one definition with the method's name. A method that
  touches the outside is a computation \<open>('s, 'a) M = 's \<Rightarrow> (exn + 'a) \<times> 's\<close> over a state \<open>'s\<close>
  left open: \<open>Inl\<close> is an exception, and the state changes made before it stay. A class is the
  record of what its constructor stores; a \<open>Protocol\<close> of \<^verbatim>\<open>application/ports\<close> or
  \<^verbatim>\<open>domain/repositories\<close> is a record of computations (theory \<open>Ports\<close>). Code that is not in the
  repository (Redis, SQLAlchemy, RQ, the file system, \<^verbatim>\<open>mongodump\<close>, aiogram, Motor, \<open>tarfile\<close>) is
  a record of its calls, a parameter; what the code relies on is a locale over it, and each such
  locale is interpreted by the program's own adapter over a reference server. Concurrency is
  modelled at the calls of the ports: a port may change what others change (\<open>keeps\<close>, \<open>frames\<close> say
  what it leaves alone), and a lock is what \<open>lock_manager\<close> promises about any sequence of calls.

  \<^bold>\<open>Conventions.\<close> Times are microseconds since the epoch, percentages hundredths rounded half to
  even as Python rounds, paths lists of components as \<open>pathlib\<close> normalises them; integers are
  unbounded as in Python. Message texts are kept as the list of their lines (\<open>text_line\<close>); log lines
  and correlation ids are left out.

  \<^bold>\<open>The theories\<close>, in order of dependence.

    \<^item> \<open>Prelude\<close>, \<open>Errors\<close>: the state monad, its frame and Hoare rules, the exception hierarchy of
      \<^verbatim>\<open>domain/exceptions\<close>.
    \<^item> \<open>Enums\<close>, \<open>ValueObjects\<close>, \<open>Users\<close>, \<open>Jobs\<close>: \<^verbatim>\<open>domain/value_objects\<close> and \<^verbatim>\<open>domain/entities\<close>; in
      \<open>Jobs\<close> the state machine of a job with its lifecycle invariant over any sequence of operations.
    \<^item> \<open>Ports\<close>, \<open>Permissions\<close>: the ports, \<open>PermissionService\<close> and \<open>AuditService\<close>.
    \<^item> \<open>Redis\<close>, \<open>LockManager\<close>, \<open>RateLimit\<close>: the lock manager and the rate limiters over a model of
      the Redis commands they use, with the sliding window and the exclusiveness of the lock.
    \<^item> \<open>Database\<close>, \<open>JobStore\<close>, \<open>UserStore\<close>: the SQL repositories over a session, the mapping of
      entities to rows and back.
    \<^item> \<open>JobService\<close>, \<open>RequestBackup\<close>, \<open>ExecuteBackup\<close>, \<open>Completion\<close>: \<open>JobManager\<close> and the use cases
      that request, cancel and run a backup, over the contracts \<open>job_manager\<close>, \<open>backup_request\<close>,
      \<open>backup_execution\<close>. \<open>Completion\<close> shows when a run cannot raise.
    \<^item> \<open>Files\<close>, \<open>Retention\<close>, \<open>Engine\<close>: the file-system adapter over a file system with symbolic
      links, the retention policy, the \<^verbatim>\<open>mongodump\<close> engine and the archive checks.
    \<^item> \<open>Notifier\<close>, \<open>MongoMeta\<close>: the Telegram notifier with its rate limiters and retries, the Mongo
      metadata adapter.
    \<^item> \<open>World\<close>, \<open>Requests\<close>, \<open>Execution\<close>: one closed state with a database, a Redis server, a queue, a
      disk, a MongoDB cluster and a Telegram server; every contract above is interpreted on the
      program's adapters over it. The properties of requesting and running a backup are stated
      and witnessed here; \<open>exec_defs\<close> and \<open>run_defs\<close> evaluate whole runs.

    \<^item> \<open>Queries\<close>, \<open>Config\<close>: the use cases that add users and answer queries; the validated settings
      and the two connections.
    \<^item> \<open>Telegram\<close>, \<open>Middleware\<close>, \<open>Keyboards\<close>, \<open>Dependencies\<close>: updates, the middleware stack as a fold
      of functions over the handler, the inline keyboards over the packing of payloads (locale
      \<open>callback_data\<close>), and the factories that wire the use cases to one session.
    \<^item> \<open>Chat\<close>, \<open>Wizard\<close>, \<open>SizeRouter\<close>: the conversation state aiogram keeps (locale \<open>fsm_storage\<close>), the
      monitor of inactivity, printed sizes, the routers \<^verbatim>\<open>routers/backup.py\<close> and \<^verbatim>\<open>routers/size.py\<close>.
    \<^item> \<open>Frames\<close>, \<open>WizardSpec\<close>, \<open>Timeouts\<close>: what the use cases of the bot leave alone; the documented
      diagram of the conversation as a step relation \<open>wizard_step\<close>, with the locales \<open>answering\<close>,
      \<open>conversing\<close> and \<open>monitored\<close> in which the handlers are shown to follow it.
    \<^item> \<open>BotWorld\<close>, \<open>Conversation\<close>, \<open>SizePages\<close>: the closed world with conversations, on which those locales
      are interpreted; the properties of conversations, as runs of buttons, commands and timeouts, and of
      the pages of sizes.
    \<^item> \<open>AdminRouter\<close>, \<open>Routers\<close>, \<open>UserSafety\<close>, \<open>UserButtons\<close>: \<^verbatim>\<open>routers/admin.py\<close>, the dispatcher of
      \<^verbatim>\<open>bot.py\<close> over all routers and middlewares, who can change the users through it and how.
    \<^item> \<open>Worker\<close>, \<open>WorkerRuns\<close>, \<open>Delivery\<close>: the process RQ starts for a job, \<^verbatim>\<open>workers/backup_worker.py\<close>, with
      the database engine; the locale \<open>worker_process\<close> says what closing its connections promises. \<open>Delivery\<close> joins
      the two ends: the payload in the queue, and a request followed by the worker's run over one job table.
    \<^item> \<open>Logging\<close>, \<open>Events\<close>, \<open>Lifecycle\<close>: the redaction of secrets and the processors of log entries, the
      domain events, and the processes around the bot: \<open>BotBuilder\<close>, \<^verbatim>\<open>__main__.py\<close>, the scripts.
      \<open>IpAddress\<close>, \<open>Tooling\<close>: the syntax of addresses the audit log accepts, and \<^verbatim>\<open>scripts/run_mypy.py\<close>.

  \<^bold>\<open>What the properties show.\<close> A job's life cycle is the documented one and ends once (\<open>Jobs\<close>); a
  request, a cancellation and a run leave in the job table exactly what they report, on success and
  on each failure, and give back their locks however they end; a run that has started ends in a
  terminal state if the ports it needs answer, and stays \<open>RUNNING\<close> if its targets cannot be listed; a run whose
  cluster is locked is refused and leaves its job queued; retention never removes
  the last archive of a type and picks the oldest first; limiters admit what they promise; stored rows
  read back as what was stored; no file operation leaves its base directory but the one case shown;
  what a \<open>SUCCESS\<close> descriptor of a dump certifies, and that its configuration file is removed. The stored
  dialogue of a backup conversation refines its diagram, stays well typed over any run, and requests
  exactly what was chosen; over the whole dispatcher only administrators change the users. An accepted request that a
  worker later runs ends as the job that was requested, with one result per requested collection in order. A worker ends with what its run ended
  with and closes what it opened; no text it sends about an exception carries a connection string or token.

  \<^bold>\<open>Bounds.\<close> The retries are the code's: five lookups of a job and three attempts of a Telegram call,
  counted down structurally. Resolving symbolic links takes at most 40 steps, as the kernel does,
  and then raises. No other fuel is used.

  \<^bold>\<open>Not modelled.\<close> The Alembic migrations, which configure a tool; the rendering and rotation behind the log
  handlers, which are the logging library's; the \<^verbatim>\<open>__main__\<close> block of the worker, which starts RQ, and the
  argument parser of \<^verbatim>\<open>scripts/add_user.py\<close>; \<^verbatim>\<open>AioFsUtils.move\<close>, which nothing calls.
\<close>

end
